(* ===== verification/Prelude.thy ===== *)
theory Prelude
  imports Main "HOL-Library.Word" "HOL-Library.Monad_Syntax"
begin

text \<open>
  What every component of the development shares: the widths of the C integer types, reads of
  NUL-terminated strings, the decimal output of \<open>snprintf\<close>, the \<open>option\<close> monad used for
  operations that may \<open>abort()\<close> or run out of fuel, and the facts about little-endian bytes
  that the encoders of the back ends rest on.
\<close>

unbundle bit_operations_syntax

section \<open>Collections of facts\<close>

named_theorems emits_intros \<open>rules that compute the bytes an emitter appends\<close>
named_theorems enc_defs \<open>definitions of the instruction emitters\<close>
named_theorems bit_fields \<open>reading a bit field back out of an assembled word\<close>

section \<open>Machine types\<close>

type_synonym u8 = "8 word"
type_synonym u16 = "16 word"
type_synonym u32 = "32 word"
type_synonym u64 = "64 word"

definition SIZE_MAX :: nat where
  "SIZE_MAX = 18446744073709551615"

definition UINT_MAX :: nat where
  "UINT_MAX = 4294967295"

text \<open>A conversion to \<open>uint32_t\<close> of a value kept as \<open>nat\<close>.\<close>

definition to_u32 :: "nat \<Rightarrow> nat" where
  "to_u32 n = n mod 4294967296"

lemma to_u32_id [simp]: "n < 4294967296 \<Longrightarrow> to_u32 n = n"
  by (simp add: to_u32_def)

lemma to_u32_code [code]: "to_u32 n = nat (int n mod 4294967296)"
  by (simp add: to_u32_def nat_mod_distrib)

lemma unat_lt64: "unat (x :: u64) < 18446744073709551616"
  using unsigned_less [where ?'a = nat, of x] by simp

lemma unat_lt32: "unat (x :: u32) < 4294967296"
  using unsigned_less [where ?'a = nat, of x] by simp

text \<open>A word below \<open>2 ^ n\<close> has no bit from \<open>n\<close> on.\<close>

lemma take_bit_word_small: "unat x < 2 ^ n \<Longrightarrow> take_bit n x = x" for x :: "'a::len word"
  by (rule word_unat_eq_iff [THEN iffD2]) (simp add: unsigned_take_bit_eq take_bit_nat_eq_self)

lemma bit_word_small: "unat x < 2 ^ n \<Longrightarrow> n \<le> k \<Longrightarrow> \<not> bit x k" for x :: "'a::len word"
  using take_bit_word_small [of x n] by (metis bit_take_bit_iff linorder_not_less)

section \<open>C strings\<close>

text \<open>
  A C string is its characters before the terminator. Reading at the index of the terminator
  gives NUL, which is where every scanning loop of the code stops.
\<close>

definition NUL :: char where
  "NUL = CHR 0x00"

definition cat :: "string \<Rightarrow> nat \<Rightarrow> char" where
  "cat s i = (if i < length s then s ! i else NUL)"

definition c_string :: "string \<Rightarrow> bool" where
  "c_string s \<longleftrightarrow> NUL \<notin> set s"

lemma cat_nth [simp]: "i < length s \<Longrightarrow> cat s i = s ! i"
  by (simp add: cat_def)

lemma cat_end [simp]: "length s \<le> i \<Longrightarrow> cat s i = NUL"
  by (simp add: cat_def)

lemma cat_not_NUL: "cat s i \<noteq> NUL \<Longrightarrow> i < length s"
  by (rule ccontr) simp

lemma cat_append_right [simp]: "cat (xs @ ys) (length xs) = cat ys 0"
  by (simp add: cat_def nth_append)

lemma cat_append_shift: "cat (xs @ ys) (length xs + i) = cat ys i"
  by (simp add: cat_def nth_append)

lemma cat_Cons_0 [simp]: "cat (c # cs) 0 = c"
  by (simp add: cat_def)

lemma cat_Nil [simp]: "cat [] i = NUL"
  by (simp add: cat_def)

lemma cat_Cons_Suc [simp]: "cat (c # cs) (Suc i) = cat cs i"
  by (simp add: cat_def)

definition str_or :: "string option \<Rightarrow> string \<Rightarrow> string" where
  "str_or p d = (case p of None \<Rightarrow> d | Some s \<Rightarrow> s)"

lemma str_or_simps [simp]: "str_or None d = d" "str_or (Some s) d = s"
  by (simp_all add: str_or_def)

text \<open>\<open>snprintf\<close> into a buffer of \<open>n\<close> bytes keeps the first \<open>n - 1\<close> characters.\<close>

definition snprintf :: "nat \<Rightarrow> string \<Rightarrow> string" where
  "snprintf n s = take (n - 1) s"

lemma length_snprintf: "0 < n \<Longrightarrow> length (snprintf n s) < n"
  by (simp add: snprintf_def)

subsection \<open>Decimal numbers\<close>

definition digit_char :: "nat \<Rightarrow> char" where
  "digit_char d = char_of (48 + d)"

fun dec :: "nat \<Rightarrow> string" where
  "dec n = (if n < 10 then [digit_char n] else dec (n div 10) @ [digit_char (n mod 10)])"

declare dec.simps [simp del]

lemma dec_nonempty: "dec n \<noteq> []"
  by (subst dec.simps) simp

section \<open>Little-endian bytes\<close>

lemma ucast_low_byte: "(ucast (v AND 0xff :: u32) :: u8) = ucast v"
proof -
  have m: "(0xff :: u32) = mask 8" by (simp add: mask_eq_exp_minus_1)
  show ?thesis unfolding m by (rule bit_word_eqI) (simp add: bit_simps)
qed

definition le16 :: "u16 \<Rightarrow> u8 list" where
  "le16 v = [ucast v, ucast (drop_bit 8 v)]"

definition le32 :: "u32 \<Rightarrow> u8 list" where
  "le32 v = [ucast v, ucast (drop_bit 8 v), ucast (drop_bit 16 v), ucast (drop_bit 24 v)]"

definition le64 :: "u64 \<Rightarrow> u8 list" where
  "le64 v = le32 (ucast v) @ le32 (ucast (drop_bit 32 v))"

lemma length_le [simp]:
  "length (le16 a) = 2" "length (le32 b) = 4" "length (le64 c) = 8"
  by (simp_all add: le16_def le32_def le64_def)

text \<open>The readers: what a loader or a processor makes of the bytes.\<close>

definition read16 :: "u8 list \<Rightarrow> nat \<Rightarrow> u16" where
  "read16 bs i = ucast (bs ! i) OR push_bit 8 (ucast (bs ! (i + 1)))"

definition read32 :: "u8 list \<Rightarrow> nat \<Rightarrow> u32" where
  "read32 bs i = ucast (bs ! i) OR push_bit 8 (ucast (bs ! (i + 1)))
     OR push_bit 16 (ucast (bs ! (i + 2))) OR push_bit 24 (ucast (bs ! (i + 3)))"

definition read64 :: "u8 list \<Rightarrow> nat \<Rightarrow> u64" where
  "read64 bs i = ucast (read32 bs i) OR push_bit 32 (ucast (read32 bs (i + 4)))"

lemma read16_le16: "read16 (le16 v) 0 = v"
  unfolding read16_def le16_def
  by (rule bit_word_eqI) (auto simp add: bit_simps)

lemma byte_split: "(n::nat) < 8 \<or> (8 \<le> n \<and> n < 16) \<or> (16 \<le> n \<and> n < 24) \<or> 24 \<le> n"
  by arith

lemma read32_le32: "read32 (le32 v) 0 = v"
proof (rule bit_word_eqI)
  fix n assume "n < LENGTH(32)"
  then show "bit (read32 (le32 v) 0) n = bit v n"
    using byte_split [of n] by (auto simp: read32_def le32_def bit_simps)
qed

lemma read32_append_left: "i + 4 \<le> length xs \<Longrightarrow> read32 (xs @ ys) i = read32 xs i"
  by (simp add: read32_def nth_append)

lemma read32_append_right: "read32 (xs @ ys) (length xs + i) = read32 ys i"
  by (simp add: read32_def nth_append)

lemma read64_append_right: "read64 (xs @ ys) (length xs + i) = read64 ys i"
  using read32_append_right [of xs ys "i + 4"]
  by (simp add: read64_def read32_append_right add.assoc)

lemma read32_le32_append [simp]: "read32 (le32 v @ ys) 0 = v"
  by (simp add: read32_append_left read32_le32)

lemma read64_le64: "read64 (le64 v) 0 = v"
proof -
  have r: "read32 (le64 v) 4 = ucast (drop_bit 32 v)"
    using read32_append_right [of "le32 (ucast v)" "le32 (ucast (drop_bit 32 v))" 0]
    by (simp add: le64_def read32_le32)
  have l: "read32 (le64 v) 0 = ucast v"
    by (simp add: le64_def)
  show ?thesis
  proof (rule bit_word_eqI)
    fix n assume "n < LENGTH(64)"
    then show "bit (read64 (le64 v) 0) n = bit v n"
      by (cases "n < 32") (auto simp: read64_def l r bit_simps)
  qed
qed

lemma read16_append_right: "read16 (xs @ ys) (length xs + i) = read16 ys i"
  by (simp add: read16_def nth_append)

end
