(* ===== verification/TypeCore.thy ===== *)
theory TypeCore
  imports Prelude
begin

text \<open>
  The type representation of the checker, \<open>native/zerox-c/src/type_core.c\<close>: types live in an
  arena of nodes and are named by 32-bit ids (index + 1, 0 is invalid). This theory has the data,
  the constructors, the accessors, the static values, and the recursive readers
  \<open>z_type_format\<close>, \<open>z_type_equal\<close> and \<open>z_type_hash\<close>; the parser is in \<open>TypeParse\<close>.

  An arena may hold a node whose child id is its own or a later one (\<open>z_type_make_const\<close> does not
  look at its argument), and then the recursive readers do not return. They take a fuel argument,
  the depth of the C stack they may use, and return \<open>None\<close> when it runs out. \<open>arena_wf\<close> (children
  come before their parent) is what every client keeps, and under it \<open>id + 1\<close> frames are enough.

  The abstraction is \<open>tree\<close>, the term an id stands for, and \<open>canon\<close>, that term without the
  spellings that type equality ignores.
\<close>

section \<open>Data\<close>

datatype ZTypeBinderKind = Z_TYPE_BINDER_TYPE | Z_TYPE_BINDER_STATIC

datatype ZTypeArgKind = Z_TYPE_ARG_TYPE | Z_TYPE_ARG_STATIC

record ZTypeBinderDecl =
  bd_name :: "string option"
  bd_kind :: ZTypeBinderKind
  bd_id :: nat
  bd_static_type :: "string option"

text \<open>The callback returns whether it knows the argument, and its kind if it does.\<close>

record ZTypeBinderScope =
  items :: "ZTypeBinderDecl list"
  arg_kind :: "(string \<Rightarrow> nat \<Rightarrow> ZTypeArgKind option) option"

datatype ZStaticValueKind =
    Z_STATIC_VALUE_INVALID
  | Z_STATIC_VALUE_NUMBER
  | Z_STATIC_VALUE_BOOL
  | Z_STATIC_VALUE_SYMBOL
  | Z_STATIC_VALUE_BINDER

record ZStaticValue =
  sv_kind :: ZStaticValueKind
  sv_text :: "string option"
  sv_static_type :: "string option"
  sv_binder :: nat
  sv_number :: u64
  sv_boolean :: bool

definition zero_static_value :: ZStaticValue where
  "zero_static_value = \<lparr>sv_kind = Z_STATIC_VALUE_INVALID, sv_text = None, sv_static_type = None,
     sv_binder = 0, sv_number = 0, sv_boolean = False\<rparr>"

datatype 't ZTypeArg = ArgType 't | ArgStatic ZStaticValue

datatype ZTypeNodeKind =
    Z_TYPE_NODE_INVALID
  | Z_TYPE_NODE_NAME
  | Z_TYPE_NODE_BINDER
  | Z_TYPE_NODE_CONST
  | Z_TYPE_NODE_ARRAY
  | Z_TYPE_NODE_APPLY

datatype ZTypeNode =
    NodeName string
  | NodeBinder string nat
  | NodeConst nat
  | NodeArray ZStaticValue nat
  | NodeApply string "nat ZTypeArg list"

record ZTypeArena =
  nodes :: "ZTypeNode list"
  arena_cap :: nat

abbreviation arena_len :: "ZTypeArena \<Rightarrow> nat" where
  "arena_len a \<equiv> length (nodes a)"

section \<open>Static values\<close>

fun type_binder_lookup_in :: "ZTypeBinderDecl list \<Rightarrow> string \<Rightarrow> ZTypeBinderKind \<Rightarrow> ZTypeBinderDecl option" where
  "type_binder_lookup_in [] name kind = None"
| "type_binder_lookup_in (decl # ds) name kind =
     (if bd_kind decl = kind \<and> bd_id decl \<noteq> 0 \<and> bd_name decl = Some name then Some decl
      else type_binder_lookup_in ds name kind)"

definition type_binder_lookup :: "ZTypeBinderScope option \<Rightarrow> string \<Rightarrow> ZTypeBinderKind \<Rightarrow> ZTypeBinderDecl option" where
  "type_binder_lookup scope name kind =
     (case scope of None \<Rightarrow> None | Some s \<Rightarrow> type_binder_lookup_in (items s) name kind)"

definition static_value_from_binder :: "ZTypeBinderDecl \<Rightarrow> ZStaticValue option" where
  "static_value_from_binder decl =
     (if bd_kind decl \<noteq> Z_TYPE_BINDER_STATIC \<or> bd_id decl = 0 then None
      else Some (zero_static_value\<lparr>sv_kind := Z_STATIC_VALUE_BINDER,
        sv_text := Some (str_or (bd_name decl) []),
        sv_static_type := Some (case bd_static_type decl of
             Some s \<Rightarrow> if s \<noteq> [] then s else ''usize''
           | None \<Rightarrow> ''usize''),
        sv_binder := bd_id decl\<rparr>))"

definition z_static_value_clone :: "ZStaticValue \<Rightarrow> ZStaticValue" where
  "z_static_value_clone source = source\<lparr>sv_text := Some (str_or (sv_text source) [])\<rparr>"

definition z_static_value_format :: "ZStaticValue \<Rightarrow> string option" where
  "z_static_value_format value =
     (if sv_kind value = Z_STATIC_VALUE_INVALID then None else Some (str_or (sv_text value) []))"

definition z_static_value_equal :: "ZStaticValue \<Rightarrow> ZStaticValue \<Rightarrow> bool" where
  "z_static_value_equal left right =
     (if sv_kind left \<noteq> sv_kind right then False
      else if sv_kind left = Z_STATIC_VALUE_NUMBER then sv_number left = sv_number right
      else if sv_kind left = Z_STATIC_VALUE_BOOL then sv_boolean left = sv_boolean right
      else if sv_kind left = Z_STATIC_VALUE_BINDER then sv_binder left = sv_binder right
      else str_or (sv_text left) [] = str_or (sv_text right) [])"

section \<open>The arena\<close>

definition z_type_arena_init :: ZTypeArena where
  "z_type_arena_init = \<lparr>nodes = [], arena_cap = 0\<rparr>"

definition type_node :: "ZTypeArena \<Rightarrow> nat \<Rightarrow> ZTypeNode option" where
  "type_node arena tid =
     (if tid = 0 \<or> tid > arena_len arena then None else Some (nodes arena ! (tid - 1)))"

definition type_arena_add :: "ZTypeArena \<Rightarrow> ZTypeNode \<Rightarrow> ZTypeArena \<times> nat" where
  "type_arena_add arena node =
     (let cap = (if arena_len arena + 1 > arena_cap arena
                 then (if arena_cap arena \<noteq> 0 then arena_cap arena * 2 else 32) else arena_cap arena)
      in (\<lparr>nodes = nodes arena @ [node], arena_cap = cap\<rparr>, to_u32 (arena_len arena + 1)))"

definition z_type_arena_truncate :: "ZTypeArena \<Rightarrow> nat \<Rightarrow> ZTypeArena" where
  "z_type_arena_truncate arena len =
     (if len > arena_len arena then arena else arena\<lparr>nodes := take len (nodes arena)\<rparr>)"

definition z_type_make_name :: "ZTypeArena \<Rightarrow> string option \<Rightarrow> ZTypeArena \<times> nat" where
  "z_type_make_name arena name = type_arena_add arena (NodeName (str_or name ''Unknown''))"

definition z_type_make_binder :: "ZTypeArena \<Rightarrow> string option \<Rightarrow> nat \<Rightarrow> ZTypeArena \<times> nat" where
  "z_type_make_binder arena name bnd =
     (if bnd = 0 then (arena, 0) else type_arena_add arena (NodeBinder (str_or name []) bnd))"

definition z_type_make_const :: "ZTypeArena \<Rightarrow> nat \<Rightarrow> ZTypeArena \<times> nat" where
  "z_type_make_const arena inner =
     (if inner = 0 then (arena, 0) else type_arena_add arena (NodeConst inner))"

definition z_type_make_array :: "ZTypeArena \<Rightarrow> ZStaticValue \<Rightarrow> nat \<Rightarrow> ZTypeArena \<times> nat" where
  "z_type_make_array arena len element =
     (if element = 0 then (arena, 0)
      else type_arena_add arena (NodeArray (z_static_value_clone len) element))"

fun clone_arg :: "'t ZTypeArg \<Rightarrow> 't ZTypeArg" where
  "clone_arg (ArgType t) = ArgType t"
| "clone_arg (ArgStatic v) = ArgStatic (z_static_value_clone v)"

definition z_type_make_apply :: "ZTypeArena \<Rightarrow> string option \<Rightarrow> nat ZTypeArg list \<Rightarrow> ZTypeArena \<times> nat" where
  "z_type_make_apply arena name args =
     (case name of None \<Rightarrow> (arena, 0)
      | Some n \<Rightarrow> if n = [] then (arena, 0) else type_arena_add arena (NodeApply n (map clone_arg args)))"

section \<open>Accessors\<close>

definition z_type_kind :: "ZTypeArena \<Rightarrow> nat \<Rightarrow> ZTypeNodeKind" where
  "z_type_kind arena type = (case type_node arena type of
       None \<Rightarrow> Z_TYPE_NODE_INVALID
     | Some (NodeName _) \<Rightarrow> Z_TYPE_NODE_NAME
     | Some (NodeBinder _ _) \<Rightarrow> Z_TYPE_NODE_BINDER
     | Some (NodeConst _) \<Rightarrow> Z_TYPE_NODE_CONST
     | Some (NodeArray _ _) \<Rightarrow> Z_TYPE_NODE_ARRAY
     | Some (NodeApply _ _) \<Rightarrow> Z_TYPE_NODE_APPLY)"

definition z_type_name :: "ZTypeArena \<Rightarrow> nat \<Rightarrow> string option" where
  "z_type_name arena type = (case type_node arena type of
       Some (NodeName n) \<Rightarrow> Some n
     | Some (NodeBinder n _) \<Rightarrow> Some n
     | Some (NodeApply n _) \<Rightarrow> Some n
     | _ \<Rightarrow> None)"

definition z_type_binder :: "ZTypeArena \<Rightarrow> nat \<Rightarrow> nat" where
  "z_type_binder arena type = (case type_node arena type of Some (NodeBinder _ b) \<Rightarrow> b | _ \<Rightarrow> 0)"

definition z_type_const_inner :: "ZTypeArena \<Rightarrow> nat \<Rightarrow> nat" where
  "z_type_const_inner arena type = (case type_node arena type of Some (NodeConst i) \<Rightarrow> i | _ \<Rightarrow> 0)"

definition z_type_array_length :: "ZTypeArena \<Rightarrow> nat \<Rightarrow> ZStaticValue option" where
  "z_type_array_length arena type = (case type_node arena type of Some (NodeArray v _) \<Rightarrow> Some v | _ \<Rightarrow> None)"

definition z_type_array_element :: "ZTypeArena \<Rightarrow> nat \<Rightarrow> nat" where
  "z_type_array_element arena type = (case type_node arena type of Some (NodeArray _ e) \<Rightarrow> e | _ \<Rightarrow> 0)"

definition z_type_apply_arg_len :: "ZTypeArena \<Rightarrow> nat \<Rightarrow> nat" where
  "z_type_apply_arg_len arena type = (case type_node arena type of Some (NodeApply _ as) \<Rightarrow> length as | _ \<Rightarrow> 0)"

definition z_type_apply_arg :: "ZTypeArena \<Rightarrow> nat \<Rightarrow> nat \<Rightarrow> nat ZTypeArg option" where
  "z_type_apply_arg arena type index = (case type_node arena type of
       Some (NodeApply _ as) \<Rightarrow> if index < length as then Some (as ! index) else None
     | _ \<Rightarrow> None)"

end
