(* ===== verification/TypeTree.thy ===== *)
theory TypeTree
  imports TypeCore
begin

text \<open>
  The recursive readers of \<open>type_core.c\<close> (\<open>z_type_equal\<close>, \<open>z_type_format\<close>, \<open>z_type_hash\<close>) and
  what they compute: each is a function of the term \<open>tree\<close> an id stands for. Equality is equality
  of the canonical terms, so it is an equivalence, and the hash is a function of the canonical
  term, so equal types hash alike.
\<close>

section \<open>Terms\<close>

datatype ty =
    TBad
  | TName string
  | TBinder string nat
  | TConst ty
  | TArray ZStaticValue ty
  | TApply string "ty ZTypeArg list"

function tree :: "ZTypeNode list \<Rightarrow> nat \<Rightarrow> ty" where
  "tree ns i = (if i = 0 \<or> i > length ns then TBad else
     case ns ! (i - 1) of
       NodeName n \<Rightarrow> TName n
     | NodeBinder n b \<Rightarrow> TBinder n b
     | NodeConst c \<Rightarrow> TConst (if c < i then tree ns c else TBad)
     | NodeArray v c \<Rightarrow> TArray v (if c < i then tree ns c else TBad)
     | NodeApply n as \<Rightarrow> TApply n (map (map_ZTypeArg (\<lambda>c. if c < i then tree ns c else TBad)) as))"
  by pat_completeness auto
termination
  by (relation "measure snd") auto

declare tree.simps [simp del]

fun node_children :: "ZTypeNode \<Rightarrow> nat set" where
  "node_children (NodeConst c) = {c}"
| "node_children (NodeArray v c) = {c}"
| "node_children (NodeApply n as) = (\<Union>x\<in>set as. set_ZTypeArg x)"
| "node_children _ = {}"

definition nodes_wf :: "ZTypeNode list \<Rightarrow> bool" where
  "nodes_wf ns \<longleftrightarrow> (\<forall>i<length ns. \<forall>c\<in>node_children (ns ! i). 0 < c \<and> c \<le> i)"

definition arena_wf :: "ZTypeArena \<Rightarrow> bool" where
  "arena_wf a \<longleftrightarrow> nodes_wf (nodes a)"

definition valid_id :: "ZTypeArena \<Rightarrow> nat \<Rightarrow> bool" where
  "valid_id a i \<longleftrightarrow> 0 < i \<and> i \<le> arena_len a"

abbreviation tree_of :: "ZTypeArena \<Rightarrow> nat \<Rightarrow> ty" where
  "tree_of a i \<equiv> tree (nodes a) i"

lemma nodes_wf_child:
  "nodes_wf ns \<Longrightarrow> 0 < i \<Longrightarrow> i \<le> length ns \<Longrightarrow> c \<in> node_children (ns ! (i - 1)) \<Longrightarrow> 0 < c \<and> c < i \<and> c \<le> length ns"
proof -
  assume wf: "nodes_wf ns" and i: "0 < i" "i \<le> length ns" and c: "c \<in> node_children (ns ! (i - 1))"
  from i have "i - 1 < length ns" by arith
  with wf c have "0 < c \<and> c \<le> i - 1" unfolding nodes_wf_def by blast
  with i show ?thesis by arith
qed

lemma type_node_valid: "valid_id a i \<Longrightarrow> type_node a i = Some (nodes a ! (i - 1))"
  by (simp add: type_node_def valid_id_def)

lemma type_node_Some: "type_node a i = Some n \<longleftrightarrow> valid_id a i \<and> n = nodes a ! (i - 1)"
  by (auto simp: type_node_def valid_id_def)

lemma arena_wf_child:
  "arena_wf a \<Longrightarrow> type_node a i = Some n \<Longrightarrow> c \<in> node_children n \<Longrightarrow> valid_id a c \<and> c < i"
  unfolding arena_wf_def type_node_Some valid_id_def by (auto dest: nodes_wf_child)

text \<open>Under \<open>arena_wf\<close> the guards of \<open>tree\<close> disappear.\<close>

lemma tree_node:
  assumes "arena_wf a"
  shows "type_node a i = None \<Longrightarrow> tree_of a i = TBad"
    "type_node a i = Some (NodeName n) \<Longrightarrow> tree_of a i = TName n"
    "type_node a i = Some (NodeBinder n b) \<Longrightarrow> tree_of a i = TBinder n b"
    "type_node a i = Some (NodeConst c) \<Longrightarrow> tree_of a i = TConst (tree_of a c)"
    "type_node a i = Some (NodeArray v c) \<Longrightarrow> tree_of a i = TArray v (tree_of a c)"
    "type_node a i = Some (NodeApply n as) \<Longrightarrow> tree_of a i = TApply n (map (map_ZTypeArg (tree_of a)) as)"
proof -
  have child: "c < i" if "type_node a i = Some n" "c \<in> node_children n" for n c
    using arena_wf_child [OF assms that] by simp
  show "type_node a i = None \<Longrightarrow> tree_of a i = TBad"
    "type_node a i = Some (NodeName n) \<Longrightarrow> tree_of a i = TName n"
    "type_node a i = Some (NodeBinder n b) \<Longrightarrow> tree_of a i = TBinder n b"
    by (subst tree.simps; auto simp: type_node_def split: if_splits)+
  show "tree_of a i = TConst (tree_of a c)" if n: "type_node a i = Some (NodeConst c)"
    using n child [OF n] by (subst tree.simps) (auto simp: type_node_def split: if_splits)
  show "tree_of a i = TArray v (tree_of a c)" if n: "type_node a i = Some (NodeArray v c)"
    using n child [OF n] by (subst tree.simps) (auto simp: type_node_def split: if_splits)
  assume n: "type_node a i = Some (NodeApply n as)"
  have "map (map_ZTypeArg (\<lambda>c. if c < i then tree_of a c else TBad)) as = map (map_ZTypeArg (tree_of a)) as"
    by (intro map_cong ZTypeArg.map_cong0 refl) (use child [OF n] in auto)
  with n show "tree_of a i = TApply n (map (map_ZTypeArg (tree_of a)) as)"
    by (subst tree.simps) (auto simp: type_node_def split: if_splits)
qed

text \<open>Ids keep their meaning while the arena grows.\<close>

lemma tree_append: "i \<le> length ns \<Longrightarrow> tree (ns @ ms) i = tree ns i"
proof (induction i rule: less_induct)
  case (less i)
  show ?case
  proof (cases "i = 0")
    case True
    then show ?thesis by (simp add: tree.simps)
  next
    case False
    have IH: "c < i \<Longrightarrow> tree (ns @ ms) c = tree ns c" for c
      using less by simp
    have nth: "(ns @ ms) ! (i - Suc 0) = ns ! (i - Suc 0)"
      using False less.prems by (auto simp: nth_append)
    have f: "(\<lambda>c. if c < i then tree (ns @ ms) c else TBad) = (\<lambda>c. if c < i then tree ns c else TBad)"
      using IH by auto
    show ?thesis
      unfolding tree.simps [of "ns @ ms" i] tree.simps [of ns i] One_nat_def nth f
      using False less.prems IH by (cases "ns ! (i - Suc 0)") auto
  qed
qed

section \<open>Canonical terms\<close>

datatype cstatic = CNumber u64 | CBool bool | CSBinder nat | CText ZStaticValueKind string

datatype 't carg = CType 't | CStatic cstatic

datatype cty =
    CBad
  | CName string
  | CBinder nat
  | CConst cty
  | CArray cstatic cty
  | CApply string "cty carg list"

definition scanon :: "ZStaticValue \<Rightarrow> cstatic" where
  "scanon v = (case sv_kind v of
       Z_STATIC_VALUE_NUMBER \<Rightarrow> CNumber (sv_number v)
     | Z_STATIC_VALUE_BOOL \<Rightarrow> CBool (sv_boolean v)
     | Z_STATIC_VALUE_BINDER \<Rightarrow> CSBinder (sv_binder v)
     | k \<Rightarrow> CText k (str_or (sv_text v) []))"

text \<open>
  A term under a valuation of its binders; \<open>canon\<close> is the valuation that leaves them alone.
\<close>

definition seval :: "(nat \<Rightarrow> cstatic) \<Rightarrow> ZStaticValue \<Rightarrow> cstatic" where
  "seval \<tau> v = (case scanon v of CSBinder b \<Rightarrow> \<tau> b | c \<Rightarrow> c)"

fun arg_eval :: "(nat \<Rightarrow> cstatic) \<Rightarrow> ('a \<Rightarrow> 'b) \<Rightarrow> 'a ZTypeArg \<Rightarrow> 'b carg" where
  "arg_eval \<tau> f (ArgType t) = CType (f t)"
| "arg_eval \<tau> f (ArgStatic v) = CStatic (seval \<tau> v)"

lemma arg_eval_cong [fundef_cong]:
  "x = y \<Longrightarrow> \<tau> = \<tau>' \<Longrightarrow> (\<And>t. y = ArgType t \<Longrightarrow> f t = g t) \<Longrightarrow> arg_eval \<tau> f x = arg_eval \<tau>' g y"
  by (cases y) auto

lemma size_ArgType_mem [termination_simp]:
  "ArgType t \<in> set as \<Longrightarrow> size t < Suc (size_list (size_ZTypeArg size) as)"
  by (induction as) auto

fun teval :: "(nat \<Rightarrow> cty) \<Rightarrow> (nat \<Rightarrow> cstatic) \<Rightarrow> ty \<Rightarrow> cty" where
  "teval \<sigma> \<tau> TBad = CBad"
| "teval \<sigma> \<tau> (TName n) = CName n"
| "teval \<sigma> \<tau> (TBinder n b) = \<sigma> b"
| "teval \<sigma> \<tau> (TConst t) = CConst (teval \<sigma> \<tau> t)"
| "teval \<sigma> \<tau> (TArray v t) = CArray (seval \<tau> v) (teval \<sigma> \<tau> t)"
| "teval \<sigma> \<tau> (TApply n as) = CApply n (map (arg_eval \<tau> (teval \<sigma> \<tau>)) as)"

definition canon :: "ty \<Rightarrow> cty" where
  "canon = teval CBinder CSBinder"

lemma seval_CSBinder [simp]: "seval CSBinder v = scanon v"
  by (simp add: seval_def split: cstatic.split)

lemma static_equal_scanon: "z_static_value_equal l r \<longleftrightarrow> scanon l = scanon r"
  by (auto simp: z_static_value_equal_def scanon_def split: ZStaticValueKind.splits)

lemma seval_scanon: "scanon v = scanon w \<Longrightarrow> seval \<tau> v = seval \<tau> w"
  by (simp add: seval_def)

text \<open>The valuation of a term only depends on its canonical form.\<close>

fun csubst :: "(nat \<Rightarrow> cty) \<Rightarrow> (nat \<Rightarrow> cstatic) \<Rightarrow> cty \<Rightarrow> cty"
  and cssubst :: "(nat \<Rightarrow> cstatic) \<Rightarrow> cstatic \<Rightarrow> cstatic" where
  "csubst \<sigma> \<tau> CBad = CBad"
| "csubst \<sigma> \<tau> (CName n) = CName n"
| "csubst \<sigma> \<tau> (CBinder b) = \<sigma> b"
| "csubst \<sigma> \<tau> (CConst t) = CConst (csubst \<sigma> \<tau> t)"
| "csubst \<sigma> \<tau> (CArray v t) = CArray (cssubst \<tau> v) (csubst \<sigma> \<tau> t)"
| "csubst \<sigma> \<tau> (CApply n as) =
     CApply n (map (\<lambda>x. case x of CType t \<Rightarrow> CType (csubst \<sigma> \<tau> t) | CStatic v \<Rightarrow> CStatic (cssubst \<tau> v)) as)"
| "cssubst \<tau> (CSBinder b) = \<tau> b"
| "cssubst \<tau> (CNumber n) = CNumber n"
| "cssubst \<tau> (CBool x) = CBool x"
| "cssubst \<tau> (CText k s) = CText k s"

lemma cssubst_scanon: "cssubst \<tau> (scanon v) = seval \<tau> v"
  by (simp add: seval_def split: cstatic.split)

lemma csubst_canon: "csubst \<sigma> \<tau> (canon t) = teval \<sigma> \<tau> t"
  unfolding canon_def
proof (induction \<sigma> \<tau> t rule: teval.induct)
  case (6 \<sigma> \<tau> n as)
  have "(case arg_eval CSBinder (teval CBinder CSBinder) x of
          CType t \<Rightarrow> CType (csubst \<sigma> \<tau> t) | CStatic v \<Rightarrow> CStatic (cssubst \<tau> v))
        = arg_eval \<tau> (teval \<sigma> \<tau>) x" if "x \<in> set as" for x
    using 6 that by (cases x) (auto simp: cssubst_scanon)
  then show ?case by simp
qed (auto simp: cssubst_scanon)

lemma canon_teval: "canon t = canon u \<Longrightarrow> teval \<sigma> \<tau> t = teval \<sigma> \<tau> u"
  by (metis csubst_canon)

section \<open>Equality\<close>

text \<open>\<open>type_arg_equal\<close>, over the equality the recursive call gives.\<close>

fun type_arg_equal :: "(nat \<Rightarrow> nat \<Rightarrow> bool option) \<Rightarrow> nat ZTypeArg \<Rightarrow> nat ZTypeArg \<Rightarrow> bool option" where
  "type_arg_equal eq (ArgType l) (ArgType r) = eq l r"
| "type_arg_equal eq (ArgStatic l) (ArgStatic r) = Some (z_static_value_equal l r)"
| "type_arg_equal eq _ _ = Some False"

text \<open>The loop over the arguments of two generic types of equal length.\<close>

fun type_args_equal :: "(nat \<Rightarrow> nat \<Rightarrow> bool option) \<Rightarrow> nat ZTypeArg list \<Rightarrow> nat ZTypeArg list \<Rightarrow> bool option" where
  "type_args_equal eq (l # ls) (r # rs) =
     do { ok \<leftarrow> type_arg_equal eq l r; if \<not> ok then Some False else type_args_equal eq ls rs }"
| "type_args_equal eq _ _ = Some True"

fun z_type_equal :: "nat \<Rightarrow> ZTypeArena \<Rightarrow> nat \<Rightarrow> nat \<Rightarrow> bool option" where
  "z_type_equal 0 arena left right = None"
| "z_type_equal (Suc fuel) arena left right =
     (if left = right then Some True
      else case (type_node arena left, type_node arena right) of
        (Some (NodeName l), Some (NodeName r)) \<Rightarrow> Some (l = r)
      | (Some (NodeBinder _ l), Some (NodeBinder _ r)) \<Rightarrow> Some (l = r)
      | (Some (NodeConst l), Some (NodeConst r)) \<Rightarrow> z_type_equal fuel arena l r
      | (Some (NodeArray lv l), Some (NodeArray rv r)) \<Rightarrow>
          if \<not> z_static_value_equal lv rv then Some False else z_type_equal fuel arena l r
      | (Some (NodeApply l ls), Some (NodeApply r rs)) \<Rightarrow>
          if l \<noteq> r \<or> length ls \<noteq> length rs then Some False
          else type_args_equal (z_type_equal fuel arena) ls rs
      | _ \<Rightarrow> Some False)"

lemma type_args_equal_canon:
  assumes "\<And>l r. l \<in> (\<Union>x\<in>set ls. set_ZTypeArg x) \<Longrightarrow> r \<in> (\<Union>x\<in>set rs. set_ZTypeArg x) \<Longrightarrow>
      eq l r = Some (canon (t l) = canon (t r))"
    and "length ls = length rs"
  shows "type_args_equal eq ls rs = Some (map (arg_eval CSBinder (\<lambda>i. canon (t i))) ls = map (arg_eval CSBinder (\<lambda>i. canon (t i))) rs)"
  using assms(2,1)
proof (induction ls rs rule: list_induct2)
  case Nil
  then show ?case by simp
next
  case (Cons l ls r rs)
  have "type_args_equal eq ls rs = Some (map (arg_eval CSBinder (\<lambda>i. canon (t i))) ls = map (arg_eval CSBinder (\<lambda>i. canon (t i))) rs)"
    by (rule Cons.IH) (use Cons.prems in simp)
  then show ?case
    using Cons.prems by (cases l; cases r) (auto simp: static_equal_scanon)
qed

lemma map_arg_eval_map: "arg_eval \<tau> f (map_ZTypeArg g x) = arg_eval \<tau> (\<lambda>i. f (g i)) x"
  by (cases x) auto

lemma z_type_equal_canon:
  assumes "arena_wf a"
  shows "valid_id a l \<Longrightarrow> valid_id a r \<Longrightarrow> l < fuel \<Longrightarrow>
    z_type_equal fuel a l r = Some (canon (tree_of a l) = canon (tree_of a r))"
proof (induction fuel arbitrary: l r)
  case 0
  then show ?case by simp
next
  case (Suc fuel)
  obtain ln rn where n: "type_node a l = Some ln" "type_node a r = Some rn"
    using Suc.prems by (simp add: type_node_valid)
  note nodes = tree_node [OF assms]
  have IH: "z_type_equal fuel a x y = Some (canon (tree_of a x) = canon (tree_of a y))"
    if "x \<in> node_children ln" "y \<in> node_children rn" for x y
    using arena_wf_child [OF assms n(1) that(1)] arena_wf_child [OF assms n(2) that(2)] Suc
    by (intro Suc.IH) auto
  show ?case
  proof (cases "\<exists>f fs g gs. ln = NodeApply f fs \<and> rn = NodeApply g gs")
    case True
    then obtain f fs g gs where app: "ln = NodeApply f fs" "rn = NodeApply g gs" by blast
    have "length fs = length gs \<Longrightarrow> type_args_equal (z_type_equal fuel a) fs gs =
        Some (map (arg_eval CSBinder (\<lambda>i. canon (tree_of a i))) fs = map (arg_eval CSBinder (\<lambda>i. canon (tree_of a i))) gs)"
      by (rule type_args_equal_canon) (use IH app in auto)
    moreover have "map h fs = map h gs \<Longrightarrow> length fs = length gs" for h :: "nat ZTypeArg \<Rightarrow> cty carg"
      by (rule map_eq_imp_length_eq)
    ultimately show ?thesis
      using n nodes(6) [OF n(1) [unfolded app]] nodes(6) [OF n(2) [unfolded app]]
      by (auto simp: app canon_def map_arg_eval_map o_def)
  next
    case False
    with n show ?thesis
      by (cases ln; cases rn) (auto simp: nodes canon_def static_equal_scanon IH [unfolded canon_def])
  qed
qed

section \<open>Format\<close>

record TypeBuf =
  tb_data :: string
  tb_cap :: nat

function type_buf_grow :: "nat \<Rightarrow> nat \<Rightarrow> nat" where
  "type_buf_grow needed next = (if needed > next \<and> 0 < next then type_buf_grow needed (next * 2) else next)"
  by pat_completeness auto
termination
  by (relation "measure (\<lambda>(needed, next). needed - next)") auto

declare type_buf_grow.simps [simp del]

definition type_buf_append_len :: "TypeBuf \<Rightarrow> string \<Rightarrow> TypeBuf" where
  "type_buf_append_len buf cs =
     (let needed = length (tb_data buf) + length cs + 1;
          cap = (if needed > tb_cap buf
                 then type_buf_grow needed (if tb_cap buf \<noteq> 0 then tb_cap buf else 32) else tb_cap buf)
      in \<lparr>tb_data = tb_data buf @ cs, tb_cap = cap\<rparr>)"

lemma type_buf_append_data [simp]: "tb_data (type_buf_append_len buf cs) = tb_data buf @ cs"
  by (simp add: type_buf_append_len_def Let_def)

lemma type_buf_grow_enough: "0 < next \<Longrightarrow> needed \<le> type_buf_grow needed next"
proof (induction needed "next" rule: type_buf_grow.induct)
  case (1 needed "next")
  then show ?case by (subst type_buf_grow.simps) auto
qed

lemma type_buf_append_room: "length (tb_data (type_buf_append_len buf cs)) < tb_cap (type_buf_append_len buf cs)"
  using type_buf_grow_enough [of "if tb_cap buf \<noteq> 0 then tb_cap buf else 32" "length (tb_data buf) + length cs + 1"]
  by (auto simp: type_buf_append_len_def Let_def split: if_splits)

definition static_value_format_into :: "ZStaticValue \<Rightarrow> TypeBuf \<Rightarrow> TypeBuf" where
  "static_value_format_into value buf =
     (case sv_text value of None \<Rightarrow> buf | Some t \<Rightarrow> type_buf_append_len buf t)"

fun type_args_format :: "(nat \<Rightarrow> TypeBuf \<Rightarrow> TypeBuf option) \<Rightarrow> bool \<Rightarrow> nat ZTypeArg list \<Rightarrow> TypeBuf \<Rightarrow> TypeBuf option" where
  "type_args_format fmt first [] buf = Some buf"
| "type_args_format fmt first (arg # args) buf =
     do { let buf = (if first then buf else type_buf_append_len buf '','');
          buf \<leftarrow> (case arg of ArgType t \<Rightarrow> fmt t buf | ArgStatic v \<Rightarrow> Some (static_value_format_into v buf));
          type_args_format fmt False args buf }"

fun type_format_into :: "nat \<Rightarrow> ZTypeArena \<Rightarrow> nat \<Rightarrow> TypeBuf \<Rightarrow> TypeBuf option" where
  "type_format_into 0 arena type buf = None"
| "type_format_into (Suc fuel) arena type buf =
     (case type_node arena type of
        None \<Rightarrow> Some (type_buf_append_len buf ''Unknown'')
      | Some (NodeName n) \<Rightarrow> Some (type_buf_append_len buf n)
      | Some (NodeBinder n _) \<Rightarrow> Some (type_buf_append_len buf n)
      | Some (NodeConst c) \<Rightarrow> type_format_into fuel arena c (type_buf_append_len buf ''const '')
      | Some (NodeArray v c) \<Rightarrow>
          type_format_into fuel arena c
            (type_buf_append_len (static_value_format_into v (type_buf_append_len buf ''['')) '']'')
      | Some (NodeApply n args) \<Rightarrow>
          do { buf \<leftarrow> type_args_format (\<lambda>t b. type_format_into fuel arena t b) True args
                 (type_buf_append_len (type_buf_append_len buf n) ''<'');
               Some (type_buf_append_len buf ''>'') })"

definition z_type_format :: "nat \<Rightarrow> ZTypeArena \<Rightarrow> nat \<Rightarrow> string option" where
  "z_type_format fuel arena type =
     map_option tb_data (type_format_into fuel arena type \<lparr>tb_data = [], tb_cap = 0\<rparr>)"

text \<open>What it prints, as a function of the term.\<close>

fun commas :: "string list \<Rightarrow> string" where
  "commas [] = []"
| "commas [x] = x"
| "commas (x # y # ys) = x @ '','' @ commas (y # ys)"

definition sformat :: "ZStaticValue \<Rightarrow> string" where
  "sformat v = str_or (sv_text v) []"

fun arg_format :: "('t \<Rightarrow> string) \<Rightarrow> 't ZTypeArg \<Rightarrow> string" where
  "arg_format f (ArgType t) = f t"
| "arg_format f (ArgStatic v) = sformat v"

lemma arg_format_cong [fundef_cong]:
  "x = y \<Longrightarrow> (\<And>t. y = ArgType t \<Longrightarrow> f t = g t) \<Longrightarrow> arg_format f x = arg_format g y"
  by (cases y) auto

fun tformat :: "ty \<Rightarrow> string" where
  "tformat TBad = ''Unknown''"
| "tformat (TName n) = n"
| "tformat (TBinder n b) = n"
| "tformat (TConst t) = ''const '' @ tformat t"
| "tformat (TArray v t) = ''['' @ sformat v @ '']'' @ tformat t"
| "tformat (TApply n as) = n @ ''<'' @ commas (map (arg_format tformat) as) @ ''>''"

lemma static_value_format_data [simp]: "tb_data (static_value_format_into v buf) = tb_data buf @ sformat v"
  by (simp add: static_value_format_into_def sformat_def split: option.split)

lemma arg_format_map: "arg_format f (map_ZTypeArg g x) = arg_format (\<lambda>i. f (g i)) x"
  by (cases x) auto

lemma type_args_format_data:
  assumes "\<And>t b. t \<in> (\<Union>x\<in>set as. set_ZTypeArg x) \<Longrightarrow> \<exists>b'. fmt t b = Some b' \<and> tb_data b' = tb_data b @ g t"
  shows "\<exists>b'. type_args_format fmt first as buf = Some b' \<and>
    tb_data b' = tb_data buf @ (if first \<or> as = [] then [] else '','') @ commas (map (arg_format g) as)"
  using assms
proof (induction as arbitrary: first buf)
  case Nil
  then show ?case by simp
next
  case (Cons x xs)
  let ?buf = "if first then buf else type_buf_append_len buf '',''"
  obtain b1 where b1: "(case x of ArgType t \<Rightarrow> fmt t ?buf | ArgStatic v \<Rightarrow> Some (static_value_format_into v ?buf)) = Some b1"
    "tb_data b1 = tb_data ?buf @ arg_format g x"
    using Cons.prems by (cases x) fastforce+
  obtain b2 where b2: "type_args_format fmt False xs b1 = Some b2"
    "tb_data b2 = tb_data b1 @ (if xs = [] then [] else '','') @ commas (map (arg_format g) xs)"
    using Cons.IH [of False b1] Cons.prems by auto
  show ?case
    using b1 b2 by (cases xs) (auto simp: Let_def)
qed

lemma type_format_into_tree:
  assumes "arena_wf a"
  shows "i < fuel \<Longrightarrow> \<exists>b'. type_format_into fuel a i buf = Some b' \<and> tb_data b' = tb_data buf @ tformat (tree_of a i)"
proof (induction fuel arbitrary: i buf)
  case 0
  then show ?case by simp
next
  case (Suc fuel)
  note nodes = tree_node [OF assms]
  show ?case
  proof (cases "type_node a i")
    case None
    then show ?thesis by (simp add: nodes)
  next
    case (Some n)
    have IH: "\<exists>b'. type_format_into fuel a c b = Some b' \<and> tb_data b' = tb_data b @ tformat (tree_of a c)"
      if "c \<in> node_children n" for c b
      using arena_wf_child [OF assms Some that] Suc.prems by (intro Suc.IH) auto
    show ?thesis
    proof (cases n)
      case (NodeApply f args)
      obtain b' where "type_args_format (\<lambda>t b. type_format_into fuel a t b) True args (type_buf_append_len (type_buf_append_len buf f) ''<'') = Some b'"
        "tb_data b' = tb_data buf @ f @ ''<'' @ commas (map (arg_format (\<lambda>c. tformat (tree_of a c))) args)"
        using type_args_format_data [of args "\<lambda>t b. type_format_into fuel a t b" "\<lambda>c. tformat (tree_of a c)" True
            "type_buf_append_len (type_buf_append_len buf f) ''<''"] IH NodeApply by auto
      then show ?thesis
        using Some NodeApply nodes(6) [OF Some [unfolded NodeApply]] by (simp add: arg_format_map o_def)
    qed (use Some IH nodes in \<open>fastforce+\<close>)
  qed
qed

section \<open>Hash\<close>

definition FNV_OFFSET :: u64 where "FNV_OFFSET = 1469598103934665603"
definition FNV_PRIME :: u64 where "FNV_PRIME = 1099511628211"

definition hash_bytes :: "u64 \<Rightarrow> string \<Rightarrow> u64" where
  "hash_bytes hash cs = foldl (\<lambda>h c. (h XOR of_char c) * FNV_PRIME) hash cs"

definition hash_u64 :: "u64 \<Rightarrow> u64 \<Rightarrow> u64" where
  "hash_u64 hash value = foldl (\<lambda>h i. (h XOR (drop_bit (i * 8) value AND 0xff)) * FNV_PRIME) hash [0..<8]"

definition static_kind_code :: "ZStaticValueKind \<Rightarrow> u64" where
  "static_kind_code k = (case k of Z_STATIC_VALUE_INVALID \<Rightarrow> 0 | Z_STATIC_VALUE_NUMBER \<Rightarrow> 1
     | Z_STATIC_VALUE_BOOL \<Rightarrow> 2 | Z_STATIC_VALUE_SYMBOL \<Rightarrow> 3 | Z_STATIC_VALUE_BINDER \<Rightarrow> 4)"

definition static_value_hash :: "ZStaticValue \<Rightarrow> u64" where
  "static_value_hash value =
     (let hash = hash_u64 FNV_OFFSET (static_kind_code (sv_kind value))
      in if sv_kind value = Z_STATIC_VALUE_NUMBER then hash_u64 hash (sv_number value)
         else if sv_kind value = Z_STATIC_VALUE_BOOL then hash_u64 hash (if sv_boolean value then 1 else 0)
         else if sv_kind value = Z_STATIC_VALUE_BINDER then hash_u64 hash (word_of_nat (sv_binder value))
         else hash_bytes hash (str_or (sv_text value) []))"

fun type_arg_hash :: "(nat \<Rightarrow> u64 option) \<Rightarrow> nat ZTypeArg \<Rightarrow> u64 option" where
  "type_arg_hash hsh (ArgType t) = do { h \<leftarrow> hsh t; Some (hash_u64 (hash_u64 FNV_OFFSET 0) h) }"
| "type_arg_hash hsh (ArgStatic v) = Some (hash_u64 (hash_u64 FNV_OFFSET 1) (static_value_hash v))"

fun type_args_hash :: "(nat \<Rightarrow> u64 option) \<Rightarrow> u64 \<Rightarrow> nat ZTypeArg list \<Rightarrow> u64 option" where
  "type_args_hash hsh hash [] = Some hash"
| "type_args_hash hsh hash (x # xs) =
     do { h \<leftarrow> type_arg_hash hsh x; type_args_hash hsh (hash_u64 hash h) xs }"

fun z_type_hash :: "nat \<Rightarrow> ZTypeArena \<Rightarrow> nat \<Rightarrow> u64 option" where
  "z_type_hash 0 arena type = None"
| "z_type_hash (Suc fuel) arena type =
     (case type_node arena type of
        None \<Rightarrow> Some FNV_OFFSET
      | Some (NodeName n) \<Rightarrow> Some (hash_bytes (hash_u64 FNV_OFFSET 1) n)
      | Some (NodeBinder _ b) \<Rightarrow> Some (hash_u64 (hash_u64 FNV_OFFSET 2) (word_of_nat b))
      | Some (NodeConst c) \<Rightarrow>
          do { h \<leftarrow> z_type_hash fuel arena c; Some (hash_u64 (hash_u64 FNV_OFFSET 3) h) }
      | Some (NodeArray v c) \<Rightarrow>
          do { h \<leftarrow> z_type_hash fuel arena c;
               Some (hash_u64 (hash_u64 (hash_u64 FNV_OFFSET 4) (static_value_hash v)) h) }
      | Some (NodeApply n args) \<Rightarrow>
          type_args_hash (z_type_hash fuel arena)
            (hash_u64 (hash_bytes (hash_u64 FNV_OFFSET 5) n) (word_of_nat (length args))) args)"

text \<open>The hash as a function of the canonical term.\<close>

definition cstatic_hash :: "cstatic \<Rightarrow> u64" where
  "cstatic_hash c = (case c of
       CNumber n \<Rightarrow> hash_u64 (hash_u64 FNV_OFFSET 1) n
     | CBool b \<Rightarrow> hash_u64 (hash_u64 FNV_OFFSET 2) (if b then 1 else 0)
     | CSBinder b \<Rightarrow> hash_u64 (hash_u64 FNV_OFFSET 4) (word_of_nat b)
     | CText k s \<Rightarrow> hash_bytes (hash_u64 FNV_OFFSET (static_kind_code k)) s)"

lemma static_value_hash_scanon: "static_value_hash v = cstatic_hash (scanon v)"
  by (cases "sv_kind v") (simp_all add: static_value_hash_def cstatic_hash_def scanon_def static_kind_code_def)

fun chash :: "cty \<Rightarrow> u64" where
  "chash CBad = FNV_OFFSET"
| "chash (CName n) = hash_bytes (hash_u64 FNV_OFFSET 1) n"
| "chash (CBinder b) = hash_u64 (hash_u64 FNV_OFFSET 2) (word_of_nat b)"
| "chash (CConst t) = hash_u64 (hash_u64 FNV_OFFSET 3) (chash t)"
| "chash (CArray v t) = hash_u64 (hash_u64 (hash_u64 FNV_OFFSET 4) (cstatic_hash v)) (chash t)"
| "chash (CApply n as) = foldl (\<lambda>h x. hash_u64 h x)
     (hash_u64 (hash_bytes (hash_u64 FNV_OFFSET 5) n) (word_of_nat (length as)))
     (map (\<lambda>x. case x of CType t \<Rightarrow> hash_u64 (hash_u64 FNV_OFFSET 0) (chash t)
        | CStatic v \<Rightarrow> hash_u64 (hash_u64 FNV_OFFSET 1) (cstatic_hash v)) as)"

lemma type_args_hash_canon:
  assumes "\<And>t. t \<in> (\<Union>x\<in>set as. set_ZTypeArg x) \<Longrightarrow> hsh t = Some (chash (canon (g t)))"
  shows "type_args_hash hsh hash as = Some (foldl (\<lambda>h x. hash_u64 h x) hash
     (map (\<lambda>x. case x of CType t \<Rightarrow> hash_u64 (hash_u64 FNV_OFFSET 0) (chash t)
        | CStatic v \<Rightarrow> hash_u64 (hash_u64 FNV_OFFSET 1) (cstatic_hash v)) (map (arg_eval CSBinder (\<lambda>i. canon (g i))) as)))"
  using assms
proof (induction as arbitrary: hash)
  case Nil
  then show ?case by simp
next
  case (Cons x xs)
  then show ?case by (cases x) (auto simp: static_value_hash_scanon)
qed

lemma z_type_hash_canon:
  assumes "arena_wf a"
  shows "i < fuel \<Longrightarrow> z_type_hash fuel a i = Some (chash (canon (tree_of a i)))"
proof (induction fuel arbitrary: i)
  case 0
  then show ?case by simp
next
  case (Suc fuel)
  note nodes = tree_node [OF assms]
  show ?case
  proof (cases "type_node a i")
    case None
    then show ?thesis by (simp add: nodes canon_def)
  next
    case (Some n)
    have IH: "z_type_hash fuel a c = Some (chash (canon (tree_of a c)))" if "c \<in> node_children n" for c
      using arena_wf_child [OF assms Some that] Suc.prems by (intro Suc.IH) auto
    show ?thesis
    proof (cases n)
      case (NodeApply f args)
      have "type_args_hash (z_type_hash fuel a) h args = Some (foldl (\<lambda>h x. hash_u64 h x) h
         (map (\<lambda>x. case x of CType t \<Rightarrow> hash_u64 (hash_u64 FNV_OFFSET 0) (chash t)
            | CStatic v \<Rightarrow> hash_u64 (hash_u64 FNV_OFFSET 1) (cstatic_hash v)) (map (arg_eval CSBinder (\<lambda>i. canon (tree_of a i))) args)))" for h
        by (rule type_args_hash_canon) (use IH NodeApply in auto)
      then show ?thesis
        using Some NodeApply nodes(6) [OF Some [unfolded NodeApply]]
        by (simp add: canon_def map_arg_eval_map o_def)
    qed (use Some IH nodes in \<open>fastforce simp: canon_def static_value_hash_scanon\<close>)+
  qed
qed

end
