(* ===== verification/TypeStore.thy ===== *)
theory TypeStore
  imports TypeTree
begin

text \<open>
  The interface the parser and the unifier have to the arena: nodes are only ever added, an added
  node is found under the id that was returned, and the ids handed out before keep their nodes.
  The locale states these laws over any store; its lemmas (stores only grow, a well-formed store
  stays well-formed) are what the clients use, and the arena of \<open>type_core.c\<close> is its
  interpretation.
\<close>

definition store_ext :: "('s \<Rightarrow> nat \<Rightarrow> ZTypeNode option) \<Rightarrow> 's \<Rightarrow> 's \<Rightarrow> bool" where
  "store_ext get s s' \<longleftrightarrow> (\<forall>j n. get s j = Some n \<longrightarrow> get s' j = Some n)"

definition store_wf :: "('s \<Rightarrow> nat \<Rightarrow> ZTypeNode option) \<Rightarrow> 's \<Rightarrow> bool" where
  "store_wf get s \<longleftrightarrow> (\<forall>i n. get s i = Some n \<longrightarrow> (\<forall>c\<in>node_children n. c < i \<and> get s c \<noteq> None))"

locale type_store =
  fixes add :: "'s \<Rightarrow> ZTypeNode \<Rightarrow> 's \<times> nat"
    and get :: "'s \<Rightarrow> nat \<Rightarrow> ZTypeNode option"
    and len :: "'s \<Rightarrow> nat"
  assumes get_valid: "get s i \<noteq> None \<longleftrightarrow> 0 < i \<and> i \<le> len s"
    and add_new: "len s < UINT_MAX \<Longrightarrow> add s n = (s', i) \<Longrightarrow> i = len s + 1 \<and> get s' i = Some n"
    and add_len: "add s n = (s', i) \<Longrightarrow> len s' = len s + 1"
    and add_old: "add s n = (s', i) \<Longrightarrow> j \<le> len s \<Longrightarrow> get s' j = get s j"
begin

lemma ext_refl: "store_ext get s s"
  by (simp add: store_ext_def)

lemma ext_trans: "store_ext get s t \<Longrightarrow> store_ext get t u \<Longrightarrow> store_ext get s u"
  by (simp add: store_ext_def)

lemma add_ext: "add s n = (s', i) \<Longrightarrow> store_ext get s s'"
  unfolding store_ext_def by (metis add_old get_valid option.distinct(1))

lemma ext_valid: "store_ext get s s' \<Longrightarrow> get s i \<noteq> None \<Longrightarrow> get s' i \<noteq> None"
  unfolding store_ext_def by blast

lemma add_wf:
  assumes wf: "store_wf get s" and children: "\<And>c. c \<in> node_children n \<Longrightarrow> get s c \<noteq> None"
    and add: "add s n = (s', i)" and room: "len s < UINT_MAX"
  shows "store_wf get s'"
  unfolding store_wf_def
proof (intro allI impI ballI)
  fix j m c assume j: "get s' j = Some m" and c: "c \<in> node_children m"
  have old: "get s' k \<noteq> None" if "get s k \<noteq> None" for k
    using ext_valid [OF add_ext [OF add] that] .
  have "j \<le> len s'" using j get_valid [of s' j] by auto
  then consider "j \<le> len s" | "j = len s + 1" using add_len [OF add] by arith
  then show "c < j \<and> get s' c \<noteq> None"
  proof cases
    case 1
    then have "get s j = Some m" using add_old [OF add] j by simp
    then have "c < j" "get s c \<noteq> None" using wf c unfolding store_wf_def by blast+
    then show ?thesis using old by blast
  next
    case 2
    have "i = len s + 1" "get s' i = Some n" using add_new [OF room add] by blast+
    with 2 j have "m = n" by simp
    then have "get s c \<noteq> None" using children c by blast
    then show ?thesis using old 2 get_valid [of s c] by auto
  qed
qed

end

interpretation arena: type_store type_arena_add type_node arena_len
proof
  fix s :: ZTypeArena and i :: nat
  show "(type_node s i \<noteq> None) = (0 < i \<and> i \<le> arena_len s)"
    by (auto simp: type_node_def)
next
  fix s s' :: ZTypeArena and n i
  assume add: "type_arena_add s n = (s', i)"
  show "arena_len s' = arena_len s + 1"
    using add by (auto simp: type_arena_add_def Let_def)
  assume room: "arena_len s < UINT_MAX"
  with add show "i = arena_len s + 1 \<and> type_node s' i = Some n"
    by (auto simp: type_arena_add_def Let_def UINT_MAX_def type_node_def)
next
  fix s s' :: ZTypeArena and n and i j :: nat
  assume "type_arena_add s n = (s', i)" and "j \<le> arena_len s"
  then show "type_node s' j = type_node s j"
    by (auto simp: type_arena_add_def Let_def type_node_def nth_append)
qed

lemma arena_wf_store: "arena_wf a \<longleftrightarrow> store_wf type_node a"
proof
  assume "arena_wf a"
  then show "store_wf type_node a"
    unfolding store_wf_def by (metis arena_wf_child option.distinct(1) type_node_valid)
next
  assume wf: "store_wf type_node a"
  show "arena_wf a"
    unfolding arena_wf_def nodes_wf_def
  proof (intro allI impI ballI)
    fix i c assume i: "i < arena_len a" and c: "c \<in> node_children (nodes a ! i)"
    have tn: "type_node a (Suc i) = Some (nodes a ! i)" using i by (simp add: type_node_def)
    from wf [unfolded store_wf_def, rule_format, OF tn c]
    have h: "c < Suc i \<and> type_node a c \<noteq> None" .
    have "type_node a 0 = None" by (simp add: type_node_def)
    with h have "c \<noteq> 0" by metis
    with h show "0 < c \<and> c \<le> i" by simp
  qed
qed

definition arena_ext :: "ZTypeArena \<Rightarrow> ZTypeArena \<Rightarrow> bool" where
  "arena_ext a a' \<longleftrightarrow> (\<exists>ns. nodes a' = nodes a @ ns)"

lemma arena_ext_refl [simp, intro]: "arena_ext a a"
  by (simp add: arena_ext_def)

lemma arena_ext_trans: "arena_ext a b \<Longrightarrow> arena_ext b c \<Longrightarrow> arena_ext a c"
  by (auto simp: arena_ext_def)

lemma arena_ext_len: "arena_ext a a' \<Longrightarrow> arena_len a \<le> arena_len a'"
  by (auto simp: arena_ext_def)

lemma arena_ext_valid: "arena_ext a a' \<Longrightarrow> valid_id a i \<Longrightarrow> valid_id a' i"
  by (auto simp: arena_ext_def valid_id_def)

lemma arena_ext_node: "arena_ext a a' \<Longrightarrow> valid_id a i \<Longrightarrow> type_node a' i = type_node a i"
  by (auto simp: arena_ext_def valid_id_def type_node_def nth_append)

lemma arena_ext_tree: "arena_ext a a' \<Longrightarrow> i \<le> arena_len a \<Longrightarrow> tree_of a' i = tree_of a i"
  by (auto simp: arena_ext_def tree_append)

lemma type_arena_add_ext: "type_arena_add a n = (a', i) \<Longrightarrow> arena_ext a a'"
  by (auto simp: arena_ext_def type_arena_add_def Let_def)

lemma type_arena_add_valid:
  "type_arena_add a n = (a', i) \<Longrightarrow> arena_len a' \<le> UINT_MAX \<Longrightarrow> i = arena_len a + 1 \<and> valid_id a' i \<and> type_node a' i = Some n"
  using arena.add_len [of a n a' i] arena.add_new [of a n a' i] arena.get_valid [of a' i]
  by (auto simp: valid_id_def)

lemma type_arena_add_wf:
  assumes "arena_wf a" "\<And>c. c \<in> node_children n \<Longrightarrow> valid_id a c"
    and "type_arena_add a n = (a', i)" "arena_len a' \<le> UINT_MAX"
  shows "arena_wf a'"
  using arena.add_wf [of a n a' i] assms arena.add_len [OF assms(3)]
  by (simp add: arena_wf_store type_node_valid)

lemma truncate_ext: "arena_ext a a' \<Longrightarrow> nodes (z_type_arena_truncate a' (arena_len a)) = nodes a"
  by (auto simp: arena_ext_def z_type_arena_truncate_def)

end
