(* ===== verification/TypeProps.thy ===== *)
theory TypeProps
  imports TypeStore
begin

text \<open>
  The properties of the recursive readers of \<open>type_core.c\<close>: equality decides equality of canonical
  terms, the hash respects it, and the printer prints the term. On a well-formed arena a stack of as
  many frames as the id is large is enough for each of them.
\<close>

definition example_arena :: ZTypeArena where
  "example_arena = \<lparr>nodes =
     [NodeName ''u8'',
      NodeArray (zero_static_value\<lparr>sv_kind := Z_STATIC_VALUE_NUMBER, sv_text := Some ''4'', sv_number := 4\<rparr>) 1,
      NodeName ''u8'',
      NodeArray (zero_static_value\<lparr>sv_kind := Z_STATIC_VALUE_NUMBER, sv_text := Some ''0x4'', sv_number := 4\<rparr>) 3,
      NodeApply ''Maybe'' [ArgType 2],
      NodeApply ''Maybe'' [ArgType 4]], arena_cap = 32\<rparr>"

lemma example_arena_wf: "arena_wf example_arena"
  by (simp add: arena_wf_def nodes_wf_def example_arena_def nth_Cons split: nat.split)

lemma example_valid: "0 < i \<Longrightarrow> i \<le> 6 \<Longrightarrow> valid_id example_arena i"
  by (simp add: valid_id_def example_arena_def)

text \<open>
  C22. \<open>z_type_equal\<close> decides whether two ids stand for the same type: it returns, and it says yes
  exactly when the two terms have the same canonical form (spellings of a static value and names of
  binders do not count, values and binder ids do).
\<close>

theorem z_type_equal_decides:
  assumes "arena_wf a" "valid_id a l" "valid_id a r" "l < fuel"
  shows "z_type_equal fuel a l r = Some (canon (tree_of a l) = canon (tree_of a r))"
  using assms by (rule z_type_equal_canon)

theorem z_type_equal_decides_witness:
  "z_type_equal 7 example_arena 5 6 = Some True \<and> canon (tree_of example_arena 5) = canon (tree_of example_arena 6)"
proof -
  have "z_type_equal 7 example_arena 5 6 = Some True" by code_simp
  then show ?thesis
    using z_type_equal_decides [OF example_arena_wf example_valid example_valid, of 5 6 7] by simp
qed

text \<open>
  C24. Equal types have equal hashes: whenever \<open>z_type_equal\<close> says yes, \<open>z_type_hash\<close> returns the same
  64-bit value for both, so a table keyed by the hash never separates equal types.
\<close>

theorem z_type_hash_respects_equal:
  assumes wf: "arena_wf a" and v: "valid_id a l" "valid_id a r" and f: "l < fuel" "r < fuel"
    and eq: "z_type_equal fuel a l r = Some True"
  shows "\<exists>h. z_type_hash fuel a l = Some h \<and> z_type_hash fuel a r = Some h"
  using z_type_equal_canon [OF wf v f(1)] z_type_hash_canon [OF wf f(1)] z_type_hash_canon [OF wf f(2)] eq
  by simp

theorem z_type_hash_respects_equal_witness:
  "\<exists>h. z_type_hash 7 example_arena 5 = Some h \<and> z_type_hash 7 example_arena 6 = Some h"
proof -
  have "z_type_equal 7 example_arena 5 6 = Some True" by code_simp
  then show ?thesis
    by (intro z_type_hash_respects_equal [OF example_arena_wf example_valid example_valid]) simp_all
qed

text \<open>
  C23. \<open>z_type_format\<close> prints the term: on a well-formed arena it returns, and its text is the
  source notation of the type (\<open>const T\<close>, \<open>[len]T\<close>, \<open>Name<args>\<close> with commas), whatever the capacity
  its buffer had to grow through.
\<close>

theorem z_type_format_prints:
  assumes "arena_wf a" "i < fuel"
  shows "z_type_format fuel a i = Some (tformat (tree_of a i))"
  using type_format_into_tree [OF assms] unfolding z_type_format_def
  by (metis TypeBuf.select_convs(1) append_Nil option.simps(9))

theorem z_type_format_prints_witness:
  "z_type_format 7 example_arena 6 = Some ''Maybe<[0x4]u8>'' \<and> tformat (tree_of example_arena 6) = ''Maybe<[0x4]u8>''"
proof -
  have "z_type_format 7 example_arena 6 = Some ''Maybe<[0x4]u8>''" by code_simp
  then show ?thesis
    using z_type_format_prints [OF example_arena_wf, of 6 7] by simp
qed

end
