(* ===== verification/TypeParse.thy ===== *)
theory TypeParse
  imports TypeStore
begin

text \<open>
  The parsers of \<open>type_core.c\<close>: static values (\<open>static_value_parse_inner\<close>, with the number
  syntax of \<open>parse_number_text\<close>) and types (\<open>parse_type\<close>, \<open>parse_type_arg\<close>). A parser state is the
  text, the cursor, the scope of declared names and the error slot; a failing parser returns \<open>None\<close> as its
  value and leaves the state the code leaves. The recursion of \<open>parse_type\<close> takes fuel (the stack
  it may use); \<open>parse_type_returns\<close> shows one frame per remaining character is enough.
\<close>

section \<open>State and characters\<close>

record ZTypeParseError =
  offset :: nat
  message :: string

definition zero_error :: ZTypeParseError where
  "zero_error = \<lparr>offset = 0, message = []\<rparr>"

record TypeParser =
  ptext :: string
  cursor :: nat
  scope :: "ZTypeBinderScope option"
  perror :: "ZTypeParseError option"

definition isspace :: "char \<Rightarrow> bool" where
  "isspace c \<longleftrightarrow> (let n = of_char c :: nat in n = 32 \<or> (9 \<le> n \<and> n \<le> 13))"

definition isdigit :: "char \<Rightarrow> bool" where
  "isdigit c \<longleftrightarrow> (let n = of_char c :: nat in 48 \<le> n \<and> n \<le> 57)"

definition isalpha :: "char \<Rightarrow> bool" where
  "isalpha c \<longleftrightarrow> (let n = of_char c :: nat in (65 \<le> n \<and> n \<le> 90) \<or> (97 \<le> n \<and> n \<le> 122))"

definition ident_start :: "char \<Rightarrow> bool" where
  "ident_start ch \<longleftrightarrow> isalpha ch \<or> ch = CHR ''_''"

definition ident_continue :: "char \<Rightarrow> bool" where
  "ident_continue ch \<longleftrightarrow> isalpha ch \<or> isdigit ch \<or> ch = CHR ''_''"

definition parser_error :: "TypeParser \<Rightarrow> string \<Rightarrow> TypeParser" where
  "parser_error p msg = (case perror p of
       None \<Rightarrow> p
     | Some e \<Rightarrow> if message e \<noteq> [] then p
                else p\<lparr>perror := Some \<lparr>offset = cursor p, message = snprintf 128 msg\<rparr>\<rparr>)"

text \<open>The loops \<open>while (P(text[i])) i++\<close>, for a \<open>P\<close> that fails on the terminator.\<close>

function skip_while :: "(char \<Rightarrow> bool) \<Rightarrow> string \<Rightarrow> nat \<Rightarrow> nat" where
  "skip_while P s i = (if i < length s \<and> P (s ! i) then skip_while P s (Suc i) else i)"
  by pat_completeness auto
termination
  by (relation "measure (\<lambda>(P, s, i). length s - i)") auto

declare skip_while.simps [simp del]

lemma skip_while_ge: "i \<le> skip_while P s i"
proof (induction P s i rule: skip_while.induct)
  case (1 P s i)
  then show ?case by (subst skip_while.simps) auto
qed

lemma skip_while_le: "i \<le> length s \<Longrightarrow> skip_while P s i \<le> length s"
proof (induction P s i rule: skip_while.induct)
  case (1 P s i)
  then show ?case by (subst skip_while.simps) auto
qed

definition parser_skip_ws :: "TypeParser \<Rightarrow> TypeParser" where
  "parser_skip_ws p = p\<lparr>cursor := skip_while isspace (ptext p) (cursor p)\<rparr>"

abbreviation peek :: "TypeParser \<Rightarrow> char" where
  "peek p \<equiv> cat (ptext p) (cursor p)"

definition parser_keyword :: "TypeParser \<Rightarrow> string \<Rightarrow> bool" where
  "parser_keyword p keyword \<longleftrightarrow>
     take (length keyword) (drop (cursor p) (ptext p)) = keyword \<and>
     \<not> ident_continue (cat (ptext p) (cursor p + length keyword))"

definition substring :: "string \<Rightarrow> nat \<Rightarrow> nat \<Rightarrow> string" where
  "substring s i j = take (j - i) (drop i s)"

definition parser_ident :: "TypeParser \<Rightarrow> string option \<times> TypeParser" where
  "parser_ident p0 =
     (let p = parser_skip_ws p0; start = cursor p
      in if \<not> ident_start (peek p) then (None, parser_error p ''expected type name'')
         else let e = skip_while ident_continue (ptext p) (start + 1)
              in (Some (substring (ptext p) start e), p\<lparr>cursor := e\<rparr>))"

record TypeParserMark =
  m_cursor :: nat
  m_arena_len :: nat
  m_error :: ZTypeParseError

definition parser_mark :: "TypeParser \<Rightarrow> ZTypeArena \<Rightarrow> TypeParserMark" where
  "parser_mark p arena = \<lparr>m_cursor = cursor p, m_arena_len = arena_len arena,
     m_error = (case perror p of None \<Rightarrow> zero_error | Some e \<Rightarrow> e)\<rparr>"

definition parser_restore :: "TypeParser \<Rightarrow> ZTypeArena \<Rightarrow> TypeParserMark \<Rightarrow> TypeParser \<times> ZTypeArena" where
  "parser_restore p arena mark =
     (p\<lparr>cursor := m_cursor mark, perror := map_option (\<lambda>_. m_error mark) (perror p)\<rparr>,
      z_type_arena_truncate arena (m_arena_len mark))"

section \<open>Static values\<close>

fun static_symbol_loop :: "string \<Rightarrow> bool \<Rightarrow> bool" where
  "static_symbol_loop [] saw_segment_char = saw_segment_char"
| "static_symbol_loop (c # cs) saw_segment_char =
     (if ident_continue c then static_symbol_loop cs True
      else if c = CHR ''.'' \<and> saw_segment_char \<and> ident_start (cat cs 0) then static_symbol_loop cs False
      else False)"

definition static_symbol_text :: "string \<Rightarrow> bool" where
  "static_symbol_text s \<longleftrightarrow> ident_start (cat s 0) \<and> static_symbol_loop s False"

definition trimmed_copy :: "string \<Rightarrow> string" where
  "trimmed_copy s = rev (dropWhile isspace (rev (dropWhile isspace s)))"

definition integer_suffix_text :: "string \<Rightarrow> bool" where
  "integer_suffix_text s \<longleftrightarrow>
     s \<in> set [''i8'', ''i16'', ''i32'', ''i64'', ''isize'', ''u8'', ''u16'', ''u32'', ''u64'', ''usize'']"

definition strrchr :: "string \<Rightarrow> char \<Rightarrow> nat option" where
  "strrchr s c = (if c \<in> set s then Some (length s - 1 - length (takeWhile (\<lambda>x. x \<noteq> c) (rev s))) else None)"

definition char_digit :: "char \<Rightarrow> u64 option" where
  "char_digit ch = (let n = of_char ch :: nat in
     if 48 \<le> n \<and> n \<le> 57 then Some (word_of_nat (n - 48))
     else if 97 \<le> n \<and> n \<le> 102 then Some (word_of_nat (10 + n - 97))
     else if 65 \<le> n \<and> n \<le> 70 then Some (word_of_nat (10 + n - 65))
     else None)"

definition ULLONG_MAX :: u64 where "ULLONG_MAX = 0xffffffffffffffff"

fun number_loop :: "u64 \<Rightarrow> string \<Rightarrow> u64 \<Rightarrow> bool \<Rightarrow> bool \<Rightarrow> u64 option" where
  "number_loop base [] value saw_digit previous_underscore =
     (if \<not> saw_digit \<or> previous_underscore then None else Some value)"
| "number_loop base (ch # cs) value saw_digit previous_underscore =
     (if ch = CHR ''_'' then
        (if \<not> saw_digit \<or> previous_underscore then None else number_loop base cs value saw_digit True)
      else case char_digit ch of
        None \<Rightarrow> None
      | Some digit \<Rightarrow>
          if digit \<ge> base then None
          else if value > (ULLONG_MAX - digit) div base then None
          else number_loop base cs (value * base + digit) True False)"

definition number_base :: "string \<Rightarrow> u64 \<times> nat" where
  "number_base body =
     (if length body > 2 \<and> body ! 0 = CHR ''0'' \<and> (body ! 1 = CHR ''x'' \<or> body ! 1 = CHR ''X'') then (16, 2)
      else if length body > 2 \<and> body ! 0 = CHR ''0'' \<and> (body ! 1 = CHR ''b'' \<or> body ! 1 = CHR ''B'') then (2, 2)
      else if length body > 2 \<and> body ! 0 = CHR ''0'' \<and> (body ! 1 = CHR ''o'' \<or> body ! 1 = CHR ''O'') then (8, 2)
      else (10, 0))"

definition number_body_len :: "string \<Rightarrow> nat option" where
  "number_body_len s = (case strrchr s CHR ''_'' of
       None \<Rightarrow> Some (length s)
     | Some u \<Rightarrow> let candidate = drop (u + 1) s in
         if candidate = [] then None
         else if integer_suffix_text candidate then Some u
         else if candidate ! 0 = CHR ''i'' \<or> candidate ! 0 = CHR ''u'' then None
         else Some (length s))"

definition parse_number_text :: "string \<Rightarrow> u64 option" where
  "parse_number_text s =
     (if s = [] then None
      else case number_body_len s of
        None \<Rightarrow> None
      | Some body_len \<Rightarrow>
          if body_len = 0 then None
          else let body = take body_len s; (base, index) = number_base body
               in number_loop base (drop index body) 0 False False)"

definition static_value_parse_inner :: "string \<Rightarrow> ZTypeBinderScope option \<Rightarrow> ZTypeParseError + ZStaticValue" where
  "static_value_parse_inner s scp =
     (let trimmed = trimmed_copy s in
      if trimmed = [] then Inl \<lparr>offset = 0, message = snprintf 128 ''expected static value''\<rparr>
      else case parse_number_text trimmed of
        Some number \<Rightarrow>
          Inr (zero_static_value\<lparr>sv_kind := Z_STATIC_VALUE_NUMBER,
            sv_text := Some (snprintf 32 (dec (unat number))), sv_number := number\<rparr>)
      | None \<Rightarrow>
          if trimmed = ''true'' \<or> trimmed = ''false'' then
            Inr (zero_static_value\<lparr>sv_kind := Z_STATIC_VALUE_BOOL, sv_text := Some trimmed,
              sv_boolean := (trimmed = ''true'')\<rparr>)
          else if static_symbol_text trimmed then
            (case type_binder_lookup scp trimmed Z_TYPE_BINDER_STATIC of
               Some bnd \<Rightarrow>
                 Inr (case static_value_from_binder bnd of Some v \<Rightarrow> v | None \<Rightarrow> zero_static_value)
             | None \<Rightarrow> Inr (zero_static_value\<lparr>sv_kind := Z_STATIC_VALUE_SYMBOL, sv_text := Some trimmed\<rparr>))
          else Inl \<lparr>offset = 0, message = snprintf 128 ''invalid static value''\<rparr>)"

definition z_static_value_parse :: "string \<Rightarrow> ZTypeParseError + ZStaticValue" where
  "z_static_value_parse s = static_value_parse_inner s None"

definition z_static_value_parse_with_binders :: "string \<Rightarrow> ZTypeBinderScope option \<Rightarrow> ZTypeParseError + ZStaticValue" where
  "z_static_value_parse_with_binders s scp = static_value_parse_inner s scp"

definition parser_parse_static_value :: "TypeParser \<Rightarrow> string \<Rightarrow> nat \<Rightarrow> ZStaticValue option \<times> TypeParser" where
  "parser_parse_static_value p s start =
     (case z_static_value_parse_with_binders s (scope p) of
        Inr v \<Rightarrow> (Some v, p)
      | Inl e \<Rightarrow> (None, p\<lparr>perror := map_option (\<lambda>_. e\<lparr>offset := start + offset e\<rparr>) (perror p)\<rparr>))"

definition parser_expected_arg_kind :: "TypeParser \<Rightarrow> string \<Rightarrow> nat \<Rightarrow> ZTypeArgKind option" where
  "parser_expected_arg_kind p type_name arg_index =
     (case scope p of None \<Rightarrow> None
      | Some s \<Rightarrow> (case arg_kind s of None \<Rightarrow> None | Some f \<Rightarrow> f type_name arg_index))"

definition parser_parse_static_arg :: "TypeParser \<Rightarrow> nat \<Rightarrow> ZStaticValue option \<times> TypeParser" where
  "parser_parse_static_arg p start =
     (let e = skip_while (\<lambda>c. c \<noteq> CHR '','' \<and> c \<noteq> CHR ''>'') (ptext p) (cursor p)
      in parser_parse_static_value (p\<lparr>cursor := e\<rparr>) (trimmed_copy (substring (ptext p) start e)) start)"

function static_until_loop :: "string \<Rightarrow> char \<Rightarrow> nat \<Rightarrow> nat \<Rightarrow> nat" where
  "static_until_loop s delimiter i depth =
     (if i < length s then
        let ch = s ! i;
            depth = (if ch = CHR ''<'' \<or> ch = CHR ''['' \<or> ch = CHR ''('' then depth + 1
                     else if (ch = CHR ''>'' \<or> ch = CHR '']'' \<or> ch = CHR '')'') \<and> depth > 0 then depth - 1
                     else depth)
        in if depth = 0 \<and> ch = delimiter then i else static_until_loop s delimiter (Suc i) depth
      else i)"
  by pat_completeness auto
termination
  by (relation "measure (\<lambda>(s, d, i, depth). length s - i)") auto

declare static_until_loop.simps [simp del]

definition parser_static_until :: "TypeParser \<Rightarrow> char \<Rightarrow> ZStaticValue option \<times> TypeParser" where
  "parser_static_until p0 delimiter =
     (let p = parser_skip_ws p0; start = cursor p;
          e = static_until_loop (ptext p) delimiter start 0; p = p\<lparr>cursor := e\<rparr>
      in if peek p \<noteq> delimiter then (None, parser_error p ''unterminated static value'')
         else parser_parse_static_value p (trimmed_copy (substring (ptext p) start e)) start)"

section \<open>Types\<close>

text \<open>
  The result of a recursive parser: \<open>None\<close> when the fuel ran out, otherwise the value (or failure),
  the parser and the arena.
\<close>

type_synonym 'a pres = "('a option \<times> TypeParser \<times> ZTypeArena) option"

definition finish_node :: "TypeParser \<Rightarrow> ZTypeArena \<Rightarrow> ZTypeNode \<Rightarrow> nat pres" where
  "finish_node p arena node =
     (let (arena', i) = type_arena_add arena node
      in Some (if i = 0 then None else Some i, p, arena'))"

definition static_arg :: "ZStaticValue option \<times> TypeParser \<Rightarrow> ZTypeArena \<Rightarrow> nat ZTypeArg pres" where
  "static_arg r arena = Some (map_option ArgStatic (fst r), snd r, arena)"

text \<open>The lookahead of \<open>parse_type_arg\<close> for an argument that names a static parameter.\<close>

definition static_binder_arg :: "TypeParser \<Rightarrow> (ZTypeBinderDecl \<times> nat) option" where
  "static_binder_arg p =
     (if \<not> ident_start (peek p) then None
      else let ident_end = skip_while ident_continue (ptext p) (cursor p + 1);
               name = substring (ptext p) (cursor p) ident_end;
               after_name = skip_while isspace (ptext p) ident_end
           in case type_binder_lookup (scope p) name Z_TYPE_BINDER_STATIC of
                None \<Rightarrow> None
              | Some decl \<Rightarrow>
                  if cat (ptext p) after_name = CHR '','' \<or> cat (ptext p) after_name = CHR ''>''
                  then Some (decl, after_name) else None)"

definition parse_type_arg ::
  "(TypeParser \<Rightarrow> ZTypeArena \<Rightarrow> nat pres) \<Rightarrow> TypeParser \<Rightarrow> ZTypeArena \<Rightarrow> string \<Rightarrow> nat \<Rightarrow> nat ZTypeArg pres" where
  "parse_type_arg pt p0 arena type_name arg_index =
     (let p = parser_skip_ws p0; start = cursor p;
          expected = parser_expected_arg_kind p type_name arg_index
      in if expected = Some Z_TYPE_ARG_STATIC then static_arg (parser_parse_static_arg p start) arena
         else case (if expected = None then static_binder_arg p else None) of
           Some (decl, after_name) \<Rightarrow>
             Some (map_option ArgStatic (static_value_from_binder decl), p\<lparr>cursor := after_name\<rparr>, arena)
         | None \<Rightarrow>
             if expected = None \<and> (isdigit (peek p) \<or> parser_keyword p ''true'' \<or> parser_keyword p ''false'')
             then static_arg (parser_parse_static_arg p start) arena
             else
               let type_mark = parser_mark p arena in
               do { (type, p', arena') \<leftarrow> pt p arena;
                    let p'' = (if type = None then p' else parser_skip_ws p');
                    if type \<noteq> None \<and> (peek p'' = CHR '','' \<or> peek p'' = CHR ''>'')
                    then Some (map_option ArgType type, p'', arena')
                    else let (q, arena'') = parser_restore p'' arena' type_mark in
                      if expected = Some Z_TYPE_ARG_TYPE
                      then Some (None, parser_error q ''expected type argument'', arena'')
                      else static_arg (parser_parse_static_arg q start) arena'' })"

fun parse_type_args ::
  "nat \<Rightarrow> (TypeParser \<Rightarrow> ZTypeArena \<Rightarrow> nat pres) \<Rightarrow> string \<Rightarrow> nat ZTypeArg list \<Rightarrow> TypeParser \<Rightarrow> ZTypeArena \<Rightarrow> nat pres" where
  "parse_type_args 0 pt name args p arena = None"
| "parse_type_args (Suc fuel) pt name args p arena =
     (if peek p = NUL then Some (None, parser_error p ''unterminated generic type'', arena)
      else do {
        (arg, p, arena) \<leftarrow> parse_type_arg pt p arena name (length args);
        (case arg of
           None \<Rightarrow> Some (None, p, arena)
         | Some x \<Rightarrow>
             let p = parser_skip_ws p in
             if peek p = CHR ''>'' then finish_node (p\<lparr>cursor := cursor p + 1\<rparr>) arena (NodeApply name (args @ [x]))
             else if peek p \<noteq> CHR '','' then
               Some (None, parser_error p (''expected '' @ [CHR 0x27] @ '','' @ [CHR 0x27] @ '' or '' @ [CHR 0x27] @ ''>'' @ [CHR 0x27] @ '' in generic type''), arena)
             else parse_type_args fuel pt name (args @ [x]) (parser_skip_ws (p\<lparr>cursor := cursor p + 1\<rparr>)) arena) })"

fun parse_type :: "nat \<Rightarrow> TypeParser \<Rightarrow> ZTypeArena \<Rightarrow> nat pres" where
  "parse_type 0 p arena = None"
| "parse_type (Suc fuel) p0 arena =
     (let p = parser_skip_ws p0 in
      if parser_keyword p ''const'' then
        do { (inner, p, arena) \<leftarrow> parse_type fuel (p\<lparr>cursor := cursor p + 5\<rparr>) arena;
             (case inner of
                None \<Rightarrow> Some (None, p, arena)
              | Some i \<Rightarrow> let (arena, t) = z_type_make_const arena i
                           in Some (if t = 0 then None else Some t, p, arena)) }
      else if peek p = CHR ''['' then
        (let (len, p) = parser_static_until (p\<lparr>cursor := cursor p + 1\<rparr>) CHR '']'' in
         case len of
           None \<Rightarrow> Some (None, p, arena)
         | Some len \<Rightarrow>
             do { (element, p, arena) \<leftarrow> parse_type fuel (p\<lparr>cursor := cursor p + 1\<rparr>) arena;
                  (case element of
                     None \<Rightarrow> Some (None, p, arena)
                   | Some e \<Rightarrow> finish_node p arena (NodeArray len e)) })
      else
        (let (name, p) = parser_ident p in
         case name of
           None \<Rightarrow> Some (None, p, arena)
         | Some name \<Rightarrow>
             let p = parser_skip_ws p in
             if peek p \<noteq> CHR ''<'' then
               finish_node p arena (case type_binder_lookup (scope p) name Z_TYPE_BINDER_TYPE of
                  Some bnd \<Rightarrow> NodeBinder name (bd_id bnd)
                | None \<Rightarrow> NodeName name)
             else
               let p = parser_skip_ws (p\<lparr>cursor := cursor p + 1\<rparr>) in
               if peek p = CHR ''>'' then
                 Some (None, parser_error p ''generic type requires at least one argument'', arena)
               else parse_type_args fuel (\<lambda>p a. parse_type fuel p a) name [] p arena))"

text \<open>
  \<open>type_parse_inner\<close>: the id, the error slot (\<open>want_error\<close> says whether the caller gave one) and
  the arena, which a failing parse leaves as long as it was.
\<close>

definition type_parse_inner ::
  "nat \<Rightarrow> ZTypeArena \<Rightarrow> string \<Rightarrow> ZTypeBinderScope option \<Rightarrow> bool \<Rightarrow>
   (nat option \<times> ZTypeParseError option \<times> ZTypeArena) option" where
  "type_parse_inner fuel arena s scp want_error =
     (let p0 = \<lparr>ptext = s, cursor = 0, scope = scp, perror = (if want_error then Some zero_error else None)\<rparr>;
          start_len = arena_len arena
      in do { (type, p, arena') \<leftarrow> parse_type fuel p0 arena;
              (case type of
                 None \<Rightarrow> Some (None, perror p, z_type_arena_truncate arena' start_len)
               | Some t \<Rightarrow>
                   let p = parser_skip_ws p in
                   if peek p \<noteq> NUL then
                     Some (None, perror (parser_error p ''unexpected trailing type syntax''),
                       z_type_arena_truncate arena' start_len)
                   else Some (Some t, perror p, arena')) })"

definition z_type_parse :: "nat \<Rightarrow> ZTypeArena \<Rightarrow> string \<Rightarrow> bool \<Rightarrow> (nat option \<times> ZTypeParseError option \<times> ZTypeArena) option" where
  "z_type_parse fuel arena s want_error = type_parse_inner fuel arena s None want_error"

definition z_type_parse_with_binders ::
  "nat \<Rightarrow> ZTypeArena \<Rightarrow> string \<Rightarrow> ZTypeBinderScope option \<Rightarrow> bool \<Rightarrow> (nat option \<times> ZTypeParseError option \<times> ZTypeArena) option" where
  "z_type_parse_with_binders fuel arena s scp want_error = type_parse_inner fuel arena s scp want_error"

end
