(* ===== verification/TypeParseProps.thy ===== *)
theory TypeParseProps
  imports TypeParse
begin

text \<open>
  What the type parser keeps: the text and the scope, a cursor that only moves forward, an arena
  that only grows and stays well-formed, and results that are valid ids of it. From these, that
  the parser returns (one stack frame per remaining character is enough) and that a failing parse
  gives the arena back as it was.
\<close>

section \<open>The invariant of a parser step\<close>

definition prel :: "TypeParser \<Rightarrow> ZTypeArena \<Rightarrow> TypeParser \<Rightarrow> ZTypeArena \<Rightarrow> bool" where
  "prel p a p' a' \<longleftrightarrow> cursor p \<le> cursor p' \<and> ptext p' = ptext p \<and> scope p' = scope p \<and> arena_ext a a' \<and>
     (arena_wf a \<and> arena_len a' \<le> UINT_MAX \<longrightarrow> arena_wf a')"

definition pvals :: "ZTypeArena \<Rightarrow> ZTypeArena \<Rightarrow> nat set \<Rightarrow> bool" where
  "pvals a a' ids \<longleftrightarrow> (arena_wf a \<and> arena_len a' \<le> UINT_MAX \<longrightarrow> (\<forall>i\<in>ids. valid_id a' i))"

definition ptype_ok :: "(TypeParser \<Rightarrow> ZTypeArena \<Rightarrow> nat pres) \<Rightarrow> bool" where
  "ptype_ok pt \<longleftrightarrow> (\<forall>p a r p' a'. pt p a = Some (r, p', a') \<longrightarrow> prel p a p' a' \<and> pvals a a' (set_option r))"

lemma ptype_okD: "ptype_ok pt \<Longrightarrow> pt p a = Some (r, p', a') \<Longrightarrow> prel p a p' a' \<and> pvals a a' (set_option r)"
  by (simp add: ptype_ok_def)

lemma prel_refl [simp, intro]: "prel p a p a"
  by (simp add: prel_def)

lemma prel_trans:
  assumes "prel p a q b" "prel q b r c" shows "prel p a r c"
proof -
  have "arena_len b \<le> arena_len c" using assms(2) by (auto simp: prel_def dest: arena_ext_len)
  with assms show ?thesis by (auto simp: prel_def intro: arena_ext_trans)
qed

lemma pvals_trans:
  assumes "prel p a q b" "prel q b r c" "pvals b c ids" shows "pvals a c ids"
proof -
  have "arena_len b \<le> arena_len c" using assms(2) by (auto simp: prel_def dest: arena_ext_len)
  with assms show ?thesis by (auto simp: prel_def pvals_def)
qed

lemma pvals_ext: "prel q b r c \<Longrightarrow> pvals a b ids \<Longrightarrow> pvals a c ids"
  using arena_ext_len [of b c] by (auto simp: prel_def pvals_def intro: arena_ext_valid)

lemma pvals_empty [simp]: "pvals a a' {}"
  by (simp add: pvals_def)

text \<open>Steps that leave the arena alone.\<close>

definition pmove :: "TypeParser \<Rightarrow> TypeParser \<Rightarrow> bool" where
  "pmove p p' \<longleftrightarrow> cursor p \<le> cursor p' \<and> ptext p' = ptext p \<and> scope p' = scope p"

lemma pmove_prel: "pmove p p' \<Longrightarrow> prel p a p' a"
  by (simp add: pmove_def prel_def)

lemma pmove_refl [simp, intro]: "pmove p p"
  by (simp add: pmove_def)

lemma pmove_trans: "pmove p q \<Longrightarrow> pmove q r \<Longrightarrow> pmove p r"
  by (simp add: pmove_def)

lemma pmove_error [simp]: "pmove p (parser_error q m) = pmove p q"
  by (simp add: pmove_def parser_error_def split: option.split)

lemma parser_error_same [simp]:
  "cursor (parser_error q m) = cursor q" "ptext (parser_error q m) = ptext q" "scope (parser_error q m) = scope q"
  by (simp_all add: parser_error_def split: option.split)

lemma pmove_ws [simp, intro]: "pmove p (parser_skip_ws p)"
  by (simp add: pmove_def parser_skip_ws_def skip_while_ge)

lemma pmove_cursor [simp]: "cursor p \<le> n \<Longrightarrow> pmove p (p\<lparr>cursor := n\<rparr>)"
  by (simp add: pmove_def)

lemma pmove_static_value [simp]: "pmove p (snd (parser_parse_static_value q s start)) = pmove p q"
  by (simp add: pmove_def parser_parse_static_value_def split: sum.split)

lemma pmove_static_arg: "pmove p (snd (parser_parse_static_arg p start))"
  by (simp add: parser_parse_static_arg_def Let_def skip_while_ge)

lemma static_until_ge: "i \<le> static_until_loop s d i depth"
proof (induction s d i depth rule: static_until_loop.induct)
  case (1 s d i depth)
  then show ?case by (subst static_until_loop.simps) (fastforce simp: Let_def)
qed

lemma pmove_static_until:
  assumes "parser_static_until p d = (r, p')" shows "pmove p p'"
proof -
  define q where "q = parser_skip_ws p"
  define e where "e = static_until_loop (ptext q) d (cursor q) 0"
  have m: "pmove p (q\<lparr>cursor := e\<rparr>)"
    unfolding q_def e_def by (rule pmove_trans [OF pmove_ws]) (simp add: static_until_ge)
  have eq: "parser_static_until p d = (if peek (q\<lparr>cursor := e\<rparr>) \<noteq> d
      then (None, parser_error (q\<lparr>cursor := e\<rparr>) ''unterminated static value'')
      else parser_parse_static_value (q\<lparr>cursor := e\<rparr>) (trimmed_copy (substring (ptext q) (cursor q) e)) (cursor q))"
    by (simp add: parser_static_until_def Let_def q_def e_def)
  have sv: "pmove p p'" if "parser_parse_static_value (q\<lparr>cursor := e\<rparr>) t k = (r, p')" for t k
    using pmove_static_value [of p "q\<lparr>cursor := e\<rparr>" t k] m that by simp
  show ?thesis
    using assms m sv unfolding eq by (cases "peek (q\<lparr>cursor := e\<rparr>) \<noteq> d") auto
qed

lemma static_until_found:
  "parser_static_until p d = (Some v, p') \<Longrightarrow> d \<noteq> NUL \<Longrightarrow> cursor p' < length (ptext p')"
  unfolding parser_static_until_def Let_def
  by (rule cat_not_NUL) (auto simp: parser_parse_static_value_def split: if_splits sum.splits)

lemma pmove_ident: "parser_ident p = (r, p') \<Longrightarrow> pmove p p'"
proof -
  assume r: "parser_ident p = (r, p')"
  have "cursor (parser_skip_ws p) \<le> skip_while ident_continue s (cursor (parser_skip_ws p) + 1)" for s
    using skip_while_ge [of "cursor (parser_skip_ws p) + 1" ident_continue s] by linarith
  then show ?thesis
    using r pmove_ws [of p] unfolding parser_ident_def Let_def
    by (auto split: if_splits intro: pmove_trans)
qed

lemma finish_node_ok:
  assumes fin: "finish_node p a n = Some (r, p', a')" and ch: "pvals a0 a (node_children n)" and p0: "prel p0 a0 p a"
  shows "prel p0 a0 p' a' \<and> pvals a0 a' (set_option r)"
proof -
  obtain i where add: "type_arena_add a n = (a', i)" and r: "r = (if i = 0 then None else Some i)" and "p' = p"
    using fin by (auto simp: finish_node_def split: prod.splits)
  have ext: "arena_ext a a'" by (rule type_arena_add_ext [OF add])
  then have len: "arena_len a \<le> arena_len a'" by (rule arena_ext_len)
  have "arena_wf a'" if "arena_wf a0" "arena_len a' \<le> UINT_MAX"
    using that len p0 ch by (intro type_arena_add_wf [OF _ _ add]) (auto simp: prel_def pvals_def)
  moreover have "valid_id a' i" if "arena_len a' \<le> UINT_MAX"
    using type_arena_add_valid [OF add that] by blast
  ultimately show ?thesis
    using p0 ext r \<open>p' = p\<close> by (auto simp: prel_def pvals_def intro: arena_ext_trans)
qed

section \<open>Arguments\<close>

lemma static_binder_arg_ge:
  assumes "static_binder_arg p = Some (d, n)" shows "cursor p \<le> n"
proof -
  let ?e = "skip_while ident_continue (ptext p) (cursor p + 1)"
  have "n = skip_while isspace (ptext p) ?e"
    using assms by (auto simp: static_binder_arg_def Let_def split: if_splits option.splits)
  then show ?thesis
    using skip_while_ge [of "cursor p + 1" ident_continue "ptext p"] skip_while_ge [of ?e isspace "ptext p"] by simp
qed

lemma restore_prel:
  assumes "arena_ext a a'" "cursor p \<le> cursor p'" "ptext p' = ptext p" "scope p' = scope p"
    and "parser_restore p' a' (parser_mark p a) = (q, b)"
  shows "prel p a q b \<and> nodes b = nodes a"
  using assms truncate_ext [OF assms(1)]
  by (auto simp: parser_restore_def parser_mark_def prel_def arena_ext_def arena_wf_def)

lemma static_values [simp]: "(\<Union>x\<in>set_option (map_option ArgStatic v). set_ZTypeArg x) = ({} :: nat set)"
  by (cases v) auto

lemma static_arg_ok:
  assumes "static_arg (parser_parse_static_arg q start) b = Some (r, p', a')" and "prel p a q b"
  shows "prel p a p' a' \<and> pvals a a' (\<Union>x\<in>set_option r. set_ZTypeArg x)"
  using assms pmove_prel [OF pmove_static_arg [of q start], of b]
  by (auto simp: static_arg_def simp del: UN_simps intro: prel_trans)

lemma parse_type_arg_ok:
  assumes pt: "ptype_ok pt" and arg: "parse_type_arg pt p0 a name k = Some (r, p', a')"
  shows "prel p0 a p' a' \<and> pvals a a' (\<Union>x\<in>set_option r. set_ZTypeArg x)"
proof -
  let ?p = "parser_skip_ws p0"
  let ?ex = "parser_expected_arg_kind ?p name k"
  have ws: "prel p0 a ?p a" by (rule pmove_prel [OF pmove_ws])
  note static = static_arg_ok [OF _ ws]
  consider (static) "static_arg (parser_parse_static_arg ?p (cursor ?p)) a = Some (r, p', a')"
    | (sbind) d n where "static_binder_arg ?p = Some (d, n)"
        "r = map_option ArgStatic (static_value_from_binder d)" "p' = ?p\<lparr>cursor := n\<rparr>" "a' = a"
    | (ty) t q b where "pt ?p a = Some (t, q, b)"
        "(let p'' = (if t = None then q else parser_skip_ws q) in
           if t \<noteq> None \<and> (peek p'' = CHR '','' \<or> peek p'' = CHR ''>'')
           then Some (map_option ArgType t, p'', b)
           else let (q, b) = parser_restore p'' b (parser_mark ?p a) in
             if ?ex = Some Z_TYPE_ARG_TYPE then Some (None, parser_error q ''expected type argument'', b)
             else static_arg (parser_parse_static_arg q (cursor ?p)) b) = Some (r, p', a')"
    using arg unfolding parse_type_arg_def Let_def
    by (auto split: if_splits option.splits bind_splits)
  then show ?thesis
  proof cases
    case static
    then show ?thesis by (rule static_arg_ok) (rule ws)
  next
    case sbind
    then have "prel ?p a p' a'" using static_binder_arg_ge [OF sbind(1)] by (auto intro: pmove_prel)
    with sbind ws show ?thesis by (auto simp del: UN_simps intro: prel_trans)
  next
    case ty
    let ?q = "if t = None then q else parser_skip_ws q"
    have t: "prel ?p a q b" "pvals a b (set_option t)" using ptype_okD [OF pt ty(1)] by auto
    have "prel q b ?q b" by (auto intro: pmove_prel)
    with t have q: "prel ?p a ?q b" by (blast intro: prel_trans)
    obtain q1 b1 where res: "parser_restore ?q b (parser_mark ?p a) = (q1, b1)" by fastforce
    have r1: "prel ?p a q1 b1"
      using restore_prel [OF _ _ _ _ res] q unfolding prel_def by blast
    with ws have r0: "prel p0 a q1 b1" by (rule prel_trans)
    then have r0e: "prel p0 a (parser_error q1 m) b1" for m by (simp add: prel_def)
    define C where "C \<longleftrightarrow> t \<noteq> None \<and> (peek ?q = CHR '','' \<or> peek ?q = CHR ''>'')"
    have res2: "(if C then Some (map_option ArgType t, ?q, b)
        else if ?ex = Some Z_TYPE_ARG_TYPE then Some (None, parser_error q1 ''expected type argument'', b1)
        else static_arg (parser_parse_static_arg q1 (cursor ?p)) b1) = Some (r, p', a')"
      using ty(2) by (simp only: Let_def res prod.case C_def)
    show ?thesis
    proof (cases C)
      case True
      with res2 have r: "map_option ArgType t = r" "?q = p'" "b = a'" by simp_all
      have "(\<Union>x\<in>set_option (map_option ArgType t). set_ZTypeArg x) = set_option t" by (cases t) auto
      moreover have "prel p0 a ?q b" by (rule prel_trans [OF ws q])
      ultimately show ?thesis using r t(2) by metis
    next
      case False
      show ?thesis
      proof (cases "?ex = Some Z_TYPE_ARG_TYPE")
        case True
        with False res2 have "None = r" "parser_error q1 ''expected type argument'' = p'" "b1 = a'" by simp_all
        then show ?thesis using r0e by (metis UN_empty option.set(1) pvals_empty)
      next
        case no: False
        with False res2 have "static_arg (parser_parse_static_arg q1 (cursor ?p)) b1 = Some (r, p', a')" by simp
        then show ?thesis by (rule static_arg_ok) (rule r0)
      qed
    qed
  qed
qed

section \<open>The recursive parsers\<close>

lemma pmove_skip [simp, intro]: "pmove p q \<Longrightarrow> pmove p (parser_skip_ws q)"
  by (rule pmove_trans [OF _ pmove_ws])

lemma pmove_step [simp]: "pmove p q \<Longrightarrow> cursor q \<le> n \<Longrightarrow> pmove p (q\<lparr>cursor := n\<rparr>)"
  by (simp add: pmove_def)

lemma prel_move: "prel p a q b \<Longrightarrow> pmove q r \<Longrightarrow> prel p a r b"
  by (blast intro: prel_trans pmove_prel)

lemma parse_type_args_ok:
  assumes pt: "ptype_ok pt"
  shows "parse_type_args k pt name args p a = Some (r, p', a') \<Longrightarrow> prel p0 a0 p a \<Longrightarrow>
    pvals a0 a (\<Union>x\<in>set args. set_ZTypeArg x) \<Longrightarrow> prel p0 a0 p' a' \<and> pvals a0 a' (set_option r)"
proof (induction k arbitrary: args p a)
  case 0
  then show ?case by simp
next
  case (Suc k)
  show ?case
  proof (cases "peek p = NUL")
    case True
    with Suc.prems show ?thesis by (auto intro: prel_move)
  next
    case False
    from Suc.prems(1) False obtain x q b where arg: "parse_type_arg pt p a name (length args) = Some (x, q, b)"
      by (auto split: bind_splits)
    note step = parse_type_arg_ok [OF pt arg]
    have q: "prel p0 a0 q b" using Suc.prems(2) step by (blast intro: prel_trans)
    have vals: "pvals a0 b (\<Union>x\<in>set args. set_ZTypeArg x)" using pvals_ext step Suc.prems(3) by blast
    have valx: "pvals a0 b (\<Union>x\<in>set_option x. set_ZTypeArg x)" using pvals_trans Suc.prems(2) step by blast
    show ?thesis
    proof (cases x)
      case None
      with Suc.prems(1) False arg have "r = None" "p' = q" "a' = b" by auto
      then show ?thesis using q by simp
    next
      case (Some y)
      let ?q = "parser_skip_ws q"
      have q1: "prel p0 a0 ?q b" using q by (auto intro: prel_move)
      have vy: "pvals a0 b (\<Union>x\<in>set (args @ [y]). set_ZTypeArg x)"
        using vals valx Some by (auto simp: pvals_def)
      consider "finish_node (?q\<lparr>cursor := cursor ?q + 1\<rparr>) b (NodeApply name (args @ [y])) = Some (r, p', a')"
        | m where "r = None" "p' = parser_error ?q m" "a' = b"
        | "parse_type_args k pt name (args @ [y]) (parser_skip_ws (?q\<lparr>cursor := cursor ?q + 1\<rparr>)) b = Some (r, p', a')"
        using Suc.prems(1) False arg Some by (auto simp: Let_def split: if_splits)
      then show ?thesis
      proof cases
        case 1
        then show ?thesis by (rule finish_node_ok) (use vy q1 in \<open>auto intro: prel_move\<close>)
      next
        case 2
        then show ?thesis using q1 by (auto intro: prel_move)
      next
        case 3
        then show ?thesis by (rule Suc.IH) (use vy q1 in \<open>auto intro!: prel_move [OF q1]\<close>)
      qed
    qed
  qed
qed

lemma make_const_finish:
  "i \<noteq> 0 \<Longrightarrow> (let (arena, t) = z_type_make_const arena i in Some (if t = 0 then None else Some t, p, arena))
    = finish_node p arena (NodeConst i)"
  by (simp add: z_type_make_const_def finish_node_def)

lemma finish_node_nonzero [simp]: "finish_node p a n \<noteq> Some (Some 0, p', a')"
  by (auto simp: finish_node_def split: prod.splits if_splits)

lemma parse_type_args_nonzero: "parse_type_args k pt name args p a = Some (r, p', a') \<Longrightarrow> r \<noteq> Some 0"
proof (induction k arbitrary: args p a)
  case 0
  then show ?case by simp
next
  case (Suc k)
  then show ?case
    by (auto simp: Let_def split: if_splits bind_splits option.splits)
qed

lemma parse_type_nonzero: "parse_type fuel p a = Some (r, p', a') \<Longrightarrow> r \<noteq> Some 0"
  by (cases fuel)
    (auto simp: Let_def dest: parse_type_args_nonzero split: if_splits bind_splits option.splits prod.splits)

lemma parse_type_ok: "ptype_ok (\<lambda>p a. parse_type fuel p a)"
proof (induction fuel)
  case 0
  then show ?case by (simp add: ptype_ok_def)
next
  case (Suc fuel)
  show ?case
    unfolding ptype_ok_def
  proof (intro allI impI)
    fix p0 a r p' a'
    assume parse: "parse_type (Suc fuel) p0 a = Some (r, p', a')"
    let ?p = "parser_skip_ws p0"
    note IH = ptype_okD [OF Suc.IH]
    show "prel p0 a p' a' \<and> pvals a a' (set_option r)"
    proof (cases "parser_keyword ?p ''const''")
      case True
      with parse obtain i q b where inner: "parse_type fuel (?p\<lparr>cursor := cursor ?p + 5\<rparr>) a = Some (i, q, b)"
        by (auto simp: Let_def split: bind_splits)
      have "prel p0 a (?p\<lparr>cursor := cursor ?p + 5\<rparr>) a" by (rule pmove_prel) simp
      then have q: "prel p0 a q b" by (rule prel_trans) (use IH [OF inner] in blast)
      have i: "pvals a b (set_option i)" using IH [OF inner] by simp
      show ?thesis
      proof (cases i)
        case None
        with parse True inner have "r = None" "p' = q" "a' = b" by (auto simp: Let_def)
        then show ?thesis using q by simp
      next
        case (Some j)
        then have "j \<noteq> 0" using parse_type_nonzero [OF inner] by auto
        with parse True inner Some have "finish_node q b (NodeConst j) = Some (r, p', a')"
          by (simp add: make_const_finish Let_def [of ?p])
        then show ?thesis by (rule finish_node_ok) (use i q Some in auto)
      qed
    next
      case no_const: False
      show ?thesis
      proof (cases "peek ?p = CHR ''[''")
        case True
        obtain v q where len: "parser_static_until (?p\<lparr>cursor := cursor ?p + 1\<rparr>) CHR '']'' = (v, q)" by fastforce
        have "pmove p0 (?p\<lparr>cursor := cursor ?p + 1\<rparr>)" by simp
        then have mq: "pmove p0 q" using pmove_static_until [OF len] by (rule pmove_trans)
        show ?thesis
        proof (cases v)
          case None
          with parse no_const True len have "r = None" "p' = q" "a' = a" by (auto simp: Let_def)
          then show ?thesis using pmove_prel [OF mq] by simp
        next
          case (Some w)
          with parse no_const True len obtain e q1 b where el: "parse_type fuel (q\<lparr>cursor := cursor q + 1\<rparr>) a = Some (e, q1, b)"
            by (auto simp: Let_def split: bind_splits)
          have "prel p0 a (q\<lparr>cursor := cursor q + 1\<rparr>) a" using mq by (intro pmove_prel) simp
          then have q1: "prel p0 a q1 b" by (rule prel_trans) (use IH [OF el] in blast)
          have e: "pvals a b (set_option e)" using IH [OF el] by simp
          show ?thesis
          proof (cases e)
            case None
            with parse no_const True len Some el have "r = None" "p' = q1" "a' = b" by (auto simp: Let_def)
            then show ?thesis using q1 by simp
          next
            case (Some j)
            with parse no_const True len \<open>v = Some w\<close> el have "finish_node q1 b (NodeArray w j) = Some (r, p', a')"
              by (simp add: Let_def)
            then show ?thesis by (rule finish_node_ok) (use e q1 Some in auto)
          qed
        qed
      next
        case no_array: False
        obtain nm q where id: "parser_ident ?p = (nm, q)" by fastforce
        have mq: "pmove p0 q" using pmove_ident [OF id] pmove_ws pmove_trans by blast
        show ?thesis
        proof (cases nm)
          case None
          with parse no_const no_array id have "r = None" "p' = q" "a' = a" by (auto simp: Let_def)
          then show ?thesis using pmove_prel [OF mq] by simp
        next
          case (Some name)
          let ?q = "parser_skip_ws q"
          let ?q2 = "parser_skip_ws (?q\<lparr>cursor := cursor ?q + 1\<rparr>)"
          have m2: "pmove p0 ?q2" using mq by simp
          consider n where "finish_node ?q a n = Some (r, p', a')" "node_children n = {}"
            | m where "r = None" "p' = parser_error ?q2 m" "a' = a"
            | "parse_type_args fuel (\<lambda>p a. parse_type fuel p a) name [] ?q2 a = Some (r, p', a')"
            using parse no_const no_array id Some by (fastforce simp: Let_def split: if_splits option.splits)
          then show ?thesis
          proof cases
            case 1
            from 1(1) show ?thesis by (rule finish_node_ok) (use 1 mq in \<open>auto intro: pmove_prel\<close>)
          next
            case 2
            then show ?thesis using m2 by (auto intro: pmove_prel)
          next
            case 3
            then show ?thesis by (rule parse_type_args_ok [OF Suc.IH]) (use m2 in \<open>auto intro: pmove_prel\<close>)
          qed
        qed
      qed
    qed
  qed
qed

section \<open>The parser returns\<close>

definition rem :: "TypeParser \<Rightarrow> nat" where
  "rem p = length (ptext p) - cursor p"

definition ptotal :: "nat \<Rightarrow> (TypeParser \<Rightarrow> ZTypeArena \<Rightarrow> nat pres) \<Rightarrow> bool" where
  "ptotal m pt \<longleftrightarrow> (\<forall>p a. rem p \<le> m \<longrightarrow> pt p a \<noteq> None)"

lemma rem_move: "pmove p q \<Longrightarrow> rem q \<le> rem p"
  by (auto simp: pmove_def rem_def)

lemma rem_prel: "prel p a q b \<Longrightarrow> rem q \<le> rem p"
  by (auto simp: prel_def rem_def)

lemma rem_ws [simp]: "rem (parser_skip_ws p) \<le> rem p"
  by (rule rem_move) simp

lemma rem_peek: "peek q \<noteq> NUL \<Longrightarrow> 0 < n \<Longrightarrow> rem (q\<lparr>cursor := cursor q + n\<rparr>) < rem q"
  using cat_not_NUL [of "ptext q" "cursor q"] by (auto simp: rem_def)

lemma static_arg_total [simp]: "static_arg r a \<noteq> None"
  by (simp add: static_arg_def)

lemma finish_node_total [simp]: "finish_node p a n \<noteq> None"
  by (simp add: finish_node_def split: prod.split)

lemma finish_node_ex [simp]: "\<exists>r q b. finish_node p a n = Some (r, q, b)"
  by (simp add: finish_node_def split: prod.split)

lemma parse_type_arg_total:
  assumes "ptotal m pt" "rem p \<le> m" shows "parse_type_arg pt p a name k \<noteq> None"
proof -
  have "rem (parser_skip_ws p) \<le> m" using assms(2) rem_ws [of p] by linarith
  then obtain t q b where pt: "pt (parser_skip_ws p) a = Some (t, q, b)"
    using assms(1) unfolding ptotal_def by (metis not_None_eq prod_cases3)
  show ?thesis
    unfolding parse_type_arg_def Let_def pt
    by (simp del: not_None_eq split: option.split prod.split)
qed

lemma NUL_punct [simp]: "CHR '','' \<noteq> NUL" "CHR ''>'' \<noteq> NUL" "CHR ''<'' \<noteq> NUL" "CHR ''['' \<noteq> NUL" "CHR '']'' \<noteq> NUL"
  by (simp_all add: NUL_def)

lemma parse_type_args_total:
  assumes pt: "ptype_ok pt" and tot: "ptotal m pt"
  shows "rem p \<le> m \<Longrightarrow> rem p < k \<Longrightarrow> parse_type_args k pt name args p a \<noteq> None"
proof (induction k arbitrary: args p a)
  case 0
  then show ?case by simp
next
  case (Suc k)
  obtain x q b where arg: "parse_type_arg pt p a name (length args) = Some (x, q, b)"
    using parse_type_arg_total [OF tot Suc.prems(1)] by (metis not_None_eq prod_cases3)
  have rq: "rem (parser_skip_ws q) \<le> rem p"
    using rem_prel parse_type_arg_ok [OF pt arg] rem_ws [of q] by (meson le_trans)
  show ?case
  proof (cases "peek (parser_skip_ws q) = CHR '',''")
    case True
    then have "rem (parser_skip_ws q\<lparr>cursor := cursor (parser_skip_ws q) + 1\<rparr>) < rem (parser_skip_ws q)"
      by (intro rem_peek) simp_all
    with rq rem_ws have "rem (parser_skip_ws (parser_skip_ws q\<lparr>cursor := cursor (parser_skip_ws q) + 1\<rparr>)) < rem p"
      by (meson le_less_trans less_le_trans)
    then have "parse_type_args k pt name args' (parser_skip_ws (parser_skip_ws q\<lparr>cursor := cursor (parser_skip_ws q) + 1\<rparr>)) b \<noteq> None" for args'
      using Suc.prems by (intro Suc.IH) simp_all
    then show ?thesis using arg True by (simp add: Let_def del: not_None_eq split: option.split)
  next
    case False
    then show ?thesis using arg by (simp add: Let_def del: not_None_eq split: option.split)
  qed
qed

lemma keyword_rem: "parser_keyword p kw \<Longrightarrow> kw \<noteq> [] \<Longrightarrow> rem (p\<lparr>cursor := cursor p + length kw\<rparr>) < rem p"
  unfolding parser_keyword_def rem_def
  by (metis (no_types, lifting) TypeParser.select_convs(1,2) TypeParser.surjective TypeParser.update_convs(2) append_take_drop_id
      diff_is_0_eq diff_less_mono2 drop_all le_add1 length_0_conv length_append linorder_not_less nat_less_le take_Nil add_cancel_right_right)

lemma parse_type_total: "rem p < fuel \<Longrightarrow> parse_type fuel p a \<noteq> None"
proof (induction fuel arbitrary: p a)
  case 0
  then show ?case by simp
next
  case (Suc fuel)
  let ?p = "parser_skip_ws p"
  have rp: "rem ?p \<le> fuel" using Suc.prems rem_ws [of p] by linarith
  have IH: "rem q < rem ?p \<Longrightarrow> \<exists>r q' b. parse_type fuel q a = Some (r, q', b)" for q a
    using Suc.IH [of q a] rp by (metis less_le_trans not_None_eq prod_cases3)
  have tot: "ptotal (rem ?p - 1) (\<lambda>p a. parse_type fuel p a)" if "0 < rem ?p"
    unfolding ptotal_def using Suc.IH rp that by (metis One_nat_def Suc_pred le_imp_less_Suc less_le_trans)
  show ?case
  proof (cases "parser_keyword ?p ''const''")
    case True
    then have "rem (?p\<lparr>cursor := cursor ?p + 5\<rparr>) < rem ?p" using keyword_rem [OF True] by (simp add: eval_nat_numeral)
    from IH [OF this, of a] True show ?thesis
      by (auto simp: Let_def split: option.split prod.split)
  next
    case no_const: False
    show ?thesis
    proof (cases "peek ?p = CHR ''[''")
      case True
      obtain v q where len: "parser_static_until (?p\<lparr>cursor := cursor ?p + 1\<rparr>) CHR '']'' = (v, q)" by fastforce
      have "rem (?p\<lparr>cursor := cursor ?p + 1\<rparr>) < rem ?p" using True by (intro rem_peek) simp_all
      moreover have "rem (q\<lparr>cursor := cursor q + 1\<rparr>) \<le> rem (?p\<lparr>cursor := cursor ?p + 1\<rparr>)"
        using rem_move [OF pmove_static_until [OF len]] by (simp add: rem_def)
      ultimately have "rem (q\<lparr>cursor := cursor q + 1\<rparr>) < rem ?p" by linarith
      from IH [OF this, of a] no_const True len show ?thesis
        by (auto simp: Let_def split: option.split)
    next
      case no_array: False
      obtain nm q where id: "parser_ident ?p = (nm, q)" by fastforce
      let ?q = "parser_skip_ws q"
      let ?q2 = "parser_skip_ws (?q\<lparr>cursor := cursor ?q + 1\<rparr>)"
      have "parse_type_args fuel (\<lambda>p a. parse_type fuel p a) name [] ?q2 a \<noteq> None" if lt: "peek ?q = CHR ''<''" for name
      proof -
        have "rem (?q\<lparr>cursor := cursor ?q + 1\<rparr>) < rem ?q" using lt by (intro rem_peek) simp_all
        then have lt: "rem ?q2 < rem ?p"
          using rem_ws [of q] rem_ws [of "?q\<lparr>cursor := cursor ?q + 1\<rparr>"] rem_move [OF pmove_ident [OF id]] by linarith
        show ?thesis
          by (rule parse_type_args_total [OF parse_type_ok tot]) (use lt rp in linarith)+
      qed
      then show ?thesis using no_const no_array id
        by (simp add: Let_def del: not_None_eq split: option.split)
    qed
  qed
qed

text \<open>
  C20. The type parser returns on every text: with one stack frame more than the text has
  characters, \<open>z_type_parse_with_binders\<close> gives an answer, whatever the scope and the arena.
\<close>

theorem z_type_parse_returns:
  assumes "length s < fuel"
  shows "z_type_parse_with_binders fuel arena s scp want_error \<noteq> None"
proof -
  obtain r p a where "parse_type fuel \<lparr>ptext = s, cursor = 0, scope = scp, perror = (if want_error then Some zero_error else None)\<rparr> arena = Some (r, p, a)"
    using parse_type_total [of "\<lparr>ptext = s, cursor = 0, scope = scp, perror = (if want_error then Some zero_error else None)\<rparr>" fuel arena] assms
    by (auto simp: rem_def)
  then show ?thesis
    by (simp add: z_type_parse_with_binders_def type_parse_inner_def Let_def split: option.split)
qed

theorem z_type_parse_returns_witness:
  "z_type_parse_with_binders 12 z_type_arena_init ''Maybe<[4]u8'' None True \<noteq> None"
  by (rule z_type_parse_returns) simp

text \<open>
  C19. Parsing never disturbs the arena: after \<open>z_type_parse_with_binders\<close> every id handed out before
  still stands for the same term and the arena is still well-formed; a successful parse returns a
  valid id, a failing one leaves exactly the nodes there were.
\<close>

theorem z_type_parse_arena:
  assumes wf: "arena_wf a" and len: "arena_len a' \<le> UINT_MAX"
    and parse: "z_type_parse_with_binders fuel a s scp want_error = Some (r, e, a')"
  shows "arena_wf a' \<and> (\<forall>i. valid_id a i \<longrightarrow> tree_of a' i = tree_of a i) \<and>
    (case r of Some t \<Rightarrow> valid_id a' t | None \<Rightarrow> nodes a' = nodes a)"
proof -
  let ?p = "\<lparr>ptext = s, cursor = 0, scope = scp, perror = (if want_error then Some zero_error else None)\<rparr>"
  obtain t q b where pt: "parse_type fuel ?p a = Some (t, q, b)"
    using parse by (auto simp: z_type_parse_with_binders_def type_parse_inner_def Let_def split: bind_splits)
  have step: "prel ?p a q b" "pvals a b (set_option t)" using ptype_okD [OF parse_type_ok pt] by auto
  have ext: "arena_ext a b" using step by (simp add: prel_def)
  have tr: "nodes (z_type_arena_truncate b (arena_len a)) = nodes a" by (rule truncate_ext [OF ext])
  have "(r = t \<and> a' = b \<and> t \<noteq> None) \<or> (r = None \<and> a' = z_type_arena_truncate b (arena_len a))"
    using parse pt by (auto simp: z_type_parse_with_binders_def type_parse_inner_def Let_def split: option.splits if_splits)
  then show ?thesis
  proof
    assume "r = t \<and> a' = b \<and> t \<noteq> None"
    then show ?thesis using step wf len arena_ext_tree [OF ext] by (auto simp: prel_def pvals_def valid_id_def)
  next
    assume "r = None \<and> a' = z_type_arena_truncate b (arena_len a)"
    then show ?thesis using tr wf by (auto simp: arena_wf_def)
  qed
qed

theorem z_type_parse_arena_witness:
  "z_type_parse_with_binders 3 z_type_arena_init ''u8'' None False
      = Some (Some 1, None, \<lparr>nodes = [NodeName ''u8''], arena_cap = 32\<rparr>) \<and>
   valid_id \<lparr>nodes = [NodeName ''u8''], arena_cap = 32\<rparr> 1"
proof -
  have r: "z_type_parse_with_binders 3 z_type_arena_init ''u8'' None False
      = Some (Some 1, None, \<lparr>nodes = [NodeName ''u8''], arena_cap = 32\<rparr>)"
    by code_simp
  have "arena_wf z_type_arena_init" by (simp add: arena_wf_def nodes_wf_def z_type_arena_init_def)
  from z_type_parse_arena [OF this _ r] r show ?thesis
    by (simp add: UINT_MAX_def)
qed

end
