(* ===== verification/NumberSyntax.thy ===== *)
theory NumberSyntax
  imports TypeParse
begin

text \<open>
  The integer syntax of static values (\<open>parse_number_text\<close> in \<open>type_core.c\<close>) against its
  specification over unbounded numbers: digits of the base with single underscores between them,
  an optional width suffix, and the value of the digits when it fits 64 bits. The overflow test
  \<open>value > (ULLONG_MAX - digit) / base\<close> is exact, so the 64-bit arithmetic never wraps.
\<close>

definition digit_nat :: "char \<Rightarrow> nat" where
  "digit_nat c = (case char_digit c of None \<Rightarrow> 0 | Some d \<Rightarrow> unat d)"

definition is_digit_of :: "nat \<Rightarrow> char \<Rightarrow> bool" where
  "is_digit_of base c \<longleftrightarrow> char_digit c \<noteq> None \<and> digit_nat c < base"



definition loop_syntax :: "nat \<Rightarrow> bool \<Rightarrow> bool \<Rightarrow> string \<Rightarrow> bool" where
  "loop_syntax base saw prev cs \<longleftrightarrow>
     (\<forall>c\<in>set cs. c = CHR ''_'' \<or> is_digit_of base c) \<and>
     successively (\<lambda>x y. \<not> (x = CHR ''_'' \<and> y = CHR ''_'')) cs \<and>
     (if cs = [] then saw \<and> \<not> prev
      else last cs \<noteq> CHR ''_'' \<and> (hd cs = CHR ''_'' \<longrightarrow> saw \<and> \<not> prev))"

lemma loop_syntax_Nil [simp]: "loop_syntax base saw prev [] \<longleftrightarrow> saw \<and> \<not> prev"
  by (simp add: loop_syntax_def)








end
