(* ===== verification/Unify.thy ===== *)
theory Unify
  imports TypeStore
begin

text \<open>
  Unification and substitution of types, \<open>native/zerox-c/src/unify.c\<close>. A trace is the list of
  bindings made so far, in order, with the message of the first failure; binders are looked up
  by id and kind, and a bound binder is followed, never replaced (triangular form). The two loops
  that follow chains of bound binders carry the path of at most 64 binders the code carries.

  The mutual recursions over the arena and the trace (\<open>type_unify_inner\<close> with \<open>bind_type\<close>,
  \<open>static_value_unify\<close> with \<open>bind_static\<close>, the occurs checks, the substitution) take the depth of
  the C stack as fuel. The trace pointer is never NULL here, as at every call of the checker.
\<close>

section \<open>The trace\<close>

datatype ZUnifyBindingKind = Z_UNIFY_BINDING_TYPE | Z_UNIFY_BINDING_STATIC

record ZUnifyBinding =
  ub_binder :: nat
  ub_kind :: ZUnifyBindingKind
  ub_name :: string
  ub_type :: nat
  ub_static :: ZStaticValue

record ZUnifyTrace =
  bindings :: "ZUnifyBinding list"
  trace_cap :: nat
  ut_message :: string

definition UNIFY_BINDER_PATH_MAX :: nat where
  "UNIFY_BINDER_PATH_MAX = 64"

definition unify_fail :: "ZUnifyTrace \<Rightarrow> string \<Rightarrow> bool \<times> ZUnifyTrace" where
  "unify_fail trace msg =
     (False, if ut_message trace = [] then trace\<lparr>ut_message := snprintf 160 msg\<rparr> else trace)"

definition unify_trace_truncate :: "ZUnifyTrace \<Rightarrow> nat \<Rightarrow> ZUnifyTrace" where
  "unify_trace_truncate trace n =
     (if n > length (bindings trace) then trace else trace\<lparr>bindings := take n (bindings trace)\<rparr>)"

definition z_unify_trace_init :: ZUnifyTrace where
  "z_unify_trace_init = \<lparr>bindings = [], trace_cap = 0, ut_message = []\<rparr>"

definition z_unify_trace_free :: "ZUnifyTrace \<Rightarrow> ZUnifyTrace" where
  "z_unify_trace_free trace = \<lparr>bindings = [], trace_cap = 0, ut_message = []\<rparr>"

definition z_unify_trace_lookup :: "ZUnifyTrace \<Rightarrow> nat \<Rightarrow> ZUnifyBindingKind \<Rightarrow> ZUnifyBinding option" where
  "z_unify_trace_lookup trace bnd kind =
     (if bnd = 0 then None else find (\<lambda>b. ub_binder b = bnd \<and> ub_kind b = kind) (bindings trace))"

definition unify_trace_push :: "ZUnifyTrace \<Rightarrow> ZUnifyBinding \<Rightarrow> ZUnifyTrace" where
  "unify_trace_push trace b =
     (let cap = (if length (bindings trace) + 1 > trace_cap trace
                 then (if trace_cap trace \<noteq> 0 then trace_cap trace * 2 else 8) else trace_cap trace)
      in trace\<lparr>bindings := bindings trace @ [b], trace_cap := cap\<rparr>)"

section \<open>Occurrence\<close>

definition static_value_occurs :: "ZStaticValue \<Rightarrow> nat \<Rightarrow> bool" where
  "static_value_occurs value bnd \<longleftrightarrow> sv_kind value = Z_STATIC_VALUE_BINDER \<and> sv_binder value = bnd"

fun type_args_any :: "(nat \<Rightarrow> bool option) \<Rightarrow> (ZStaticValue \<Rightarrow> bool) \<Rightarrow> nat ZTypeArg list \<Rightarrow> bool option" where
  "type_args_any occ socc [] = Some False"
| "type_args_any occ socc (x # xs) =
     do { hit \<leftarrow> (case x of ArgType t \<Rightarrow> occ t | ArgStatic v \<Rightarrow> Some (socc v));
          if hit then Some True else type_args_any occ socc xs }"

fun z_type_occurs :: "nat \<Rightarrow> ZTypeArena \<Rightarrow> nat \<Rightarrow> nat \<Rightarrow> bool option" where
  "z_type_occurs 0 arena type bnd = None"
| "z_type_occurs (Suc fuel) arena type bnd =
     (if bnd = 0 then Some False
      else case type_node arena type of
        Some (NodeBinder _ b) \<Rightarrow> Some (b = bnd)
      | Some (NodeConst c) \<Rightarrow> z_type_occurs fuel arena c bnd
      | Some (NodeArray v c) \<Rightarrow>
          if static_value_occurs v bnd then Some True else z_type_occurs fuel arena c bnd
      | Some (NodeApply _ args) \<Rightarrow>
          type_args_any (\<lambda>t. z_type_occurs fuel arena t bnd) (\<lambda>v. static_value_occurs v bnd) args
      | _ \<Rightarrow> Some False)"

definition binder_path_push :: "nat list \<Rightarrow> nat \<Rightarrow> nat list option" where
  "binder_path_push path bnd =
     (if length path \<ge> UNIFY_BINDER_PATH_MAX then None else Some (path @ [bnd]))"

function binder_alias_resolves_to :: "ZTypeArena \<Rightarrow> ZUnifyTrace \<Rightarrow> nat \<Rightarrow> nat \<Rightarrow> nat list \<Rightarrow> bool" where
  "binder_alias_resolves_to arena trace type target path =
     (if target = 0 \<or> z_type_kind arena type \<noteq> Z_TYPE_NODE_BINDER then False
      else let b = z_type_binder arena type in
        if b = target then True
        else if b \<in> set path then False
        else case z_unify_trace_lookup trace b Z_UNIFY_BINDING_TYPE of
          None \<Rightarrow> False
        | Some binding \<Rightarrow>
            if z_type_kind arena (ub_type binding) \<noteq> Z_TYPE_NODE_BINDER then False
            else if length path \<ge> UNIFY_BINDER_PATH_MAX then False
            else binder_alias_resolves_to arena trace (ub_type binding) target (path @ [b]))"
  by pat_completeness auto
termination
  by (relation "measure (\<lambda>(a, tr, t, g, path). UNIFY_BINDER_PATH_MAX - length path)") auto

declare binder_alias_resolves_to.simps [simp del]

fun type_binding_occurs_resolved :: "nat \<Rightarrow> ZTypeArena \<Rightarrow> ZUnifyTrace \<Rightarrow> nat \<Rightarrow> nat \<Rightarrow> nat list \<Rightarrow> bool option" where
  "type_binding_occurs_resolved 0 arena trace type bnd path = None"
| "type_binding_occurs_resolved (Suc fuel) arena trace type bnd path =
     (if bnd = 0 then Some False
      else case type_node arena type of
        Some (NodeBinder _ found) \<Rightarrow>
          if found = bnd then Some True
          else if found \<in> set path then Some False
          else (case z_unify_trace_lookup trace found Z_UNIFY_BINDING_TYPE of
                  None \<Rightarrow> Some False
                | Some binding \<Rightarrow>
                    (case binder_path_push path found of
                       None \<Rightarrow> Some True
                     | Some next_path \<Rightarrow>
                         type_binding_occurs_resolved fuel arena trace (ub_type binding) bnd next_path))
      | Some (NodeConst c) \<Rightarrow> type_binding_occurs_resolved fuel arena trace c bnd path
      | Some (NodeArray _ c) \<Rightarrow> type_binding_occurs_resolved fuel arena trace c bnd path
      | Some (NodeApply _ args) \<Rightarrow>
          type_args_any (\<lambda>t. type_binding_occurs_resolved fuel arena trace t bnd path) (\<lambda>v. False) args
      | _ \<Rightarrow> Some False)"

section \<open>Static values\<close>

function static_binder_alias_resolves_to :: "ZUnifyTrace \<Rightarrow> ZStaticValue \<Rightarrow> nat \<Rightarrow> nat list \<Rightarrow> bool" where
  "static_binder_alias_resolves_to trace value target path =
     (if target = 0 \<or> sv_kind value \<noteq> Z_STATIC_VALUE_BINDER then False
      else if sv_binder value = target then True
      else if sv_binder value \<in> set path then False
      else case z_unify_trace_lookup trace (sv_binder value) Z_UNIFY_BINDING_STATIC of
        None \<Rightarrow> False
      | Some binding \<Rightarrow>
          if sv_kind (ub_static binding) \<noteq> Z_STATIC_VALUE_BINDER then False
          else if length path \<ge> UNIFY_BINDER_PATH_MAX then False
          else static_binder_alias_resolves_to trace (ub_static binding) target (path @ [sv_binder value]))"
  by pat_completeness auto
termination
  by (relation "measure (\<lambda>(tr, v, g, path). UNIFY_BINDER_PATH_MAX - length path)") auto

declare static_binder_alias_resolves_to.simps [simp del]

definition static_type_or_default :: "string option \<Rightarrow> string" where
  "static_type_or_default type = (case type of Some t \<Rightarrow> if t \<noteq> [] then t else ''usize'' | None \<Rightarrow> ''usize'')"

definition static_type_is_integer :: "string option \<Rightarrow> bool" where
  "static_type_is_integer type \<longleftrightarrow> static_type_or_default type \<in>
     set [''usize'', ''isize'', ''u8'', ''u16'', ''u32'', ''u64'', ''i8'', ''i16'', ''i32'', ''i64'']"

definition static_type_compatible :: "string option \<Rightarrow> string option \<Rightarrow> bool" where
  "static_type_compatible left right \<longleftrightarrow>
     (if static_type_is_integer left \<and> static_type_is_integer right then True
      else static_type_or_default left = static_type_or_default right)"

definition static_symbol_matches_type :: "ZStaticValue \<Rightarrow> string option \<Rightarrow> bool" where
  "static_symbol_matches_type value type =
     (case sv_text value of
        None \<Rightarrow> False
      | Some txt \<Rightarrow>
          sv_kind value = Z_STATIC_VALUE_SYMBOL \<and>
          (let t = static_type_or_default type in
           take (length t) txt = t \<and> cat txt (length t) = CHR ''.'' \<and> cat txt (length t + 1) \<noteq> NUL))"

definition static_value_matches_type :: "ZStaticValue \<Rightarrow> string option \<Rightarrow> bool" where
  "static_value_matches_type value type =
     (if sv_kind value = Z_STATIC_VALUE_BINDER then static_type_compatible type (sv_static_type value)
      else if static_type_is_integer type then sv_kind value = Z_STATIC_VALUE_NUMBER
      else if static_type_or_default type = ''Bool'' then sv_kind value = Z_STATIC_VALUE_BOOL
      else static_symbol_matches_type value type)"

definition bind_static ::
  "(ZStaticValue \<Rightarrow> ZStaticValue \<Rightarrow> ZUnifyTrace \<Rightarrow> (bool \<times> ZUnifyTrace) option) \<Rightarrow> ZUnifyTrace \<Rightarrow>
   string option \<Rightarrow> nat \<Rightarrow> string option \<Rightarrow> ZStaticValue \<Rightarrow> (bool \<times> ZUnifyTrace) option" where
  "bind_static suni trace name bnd static_type value =
     (if bnd = 0 then Some (unify_fail trace ''invalid static binding'')
      else if sv_kind value = Z_STATIC_VALUE_BINDER \<and> sv_binder value = bnd then Some (True, trace)
      else if \<not> static_value_matches_type value static_type then
        Some (unify_fail trace ''static value does not match binder type'')
      else case z_unify_trace_lookup trace bnd Z_UNIFY_BINDING_STATIC of
        Some existing \<Rightarrow> suni (ub_static existing) value trace
      | None \<Rightarrow>
          if static_binder_alias_resolves_to trace value bnd [] then Some (True, trace)
          else Some (True, unify_trace_push trace
            \<lparr>ub_binder = bnd, ub_kind = Z_UNIFY_BINDING_STATIC, ub_name = str_or name [], ub_type = 0,
             ub_static = z_static_value_clone value\<rparr>))"

fun static_value_unify :: "nat \<Rightarrow> ZStaticValue \<Rightarrow> ZStaticValue \<Rightarrow> ZUnifyTrace \<Rightarrow> (bool \<times> ZUnifyTrace) option" where
  "static_value_unify 0 pattern actual trace = None"
| "static_value_unify (Suc fuel) pattern actual trace =
     (if sv_kind pattern = Z_STATIC_VALUE_BINDER then
        bind_static (\<lambda>p a t. static_value_unify fuel p a t) trace (sv_text pattern) (sv_binder pattern) (sv_static_type pattern) actual
      else if sv_kind actual = Z_STATIC_VALUE_BINDER then
        bind_static (\<lambda>p a t. static_value_unify fuel p a t) trace (sv_text actual) (sv_binder actual) (sv_static_type actual) pattern
      else if z_static_value_equal pattern actual then Some (True, trace)
      else Some (unify_fail trace ''static values do not unify''))"

section \<open>Types\<close>

definition bind_type ::
  "nat \<Rightarrow> (nat \<Rightarrow> nat \<Rightarrow> ZUnifyTrace \<Rightarrow> (bool \<times> ZUnifyTrace) option) \<Rightarrow> ZTypeArena \<Rightarrow> ZUnifyTrace \<Rightarrow>
   string option \<Rightarrow> nat \<Rightarrow> nat \<Rightarrow> (bool \<times> ZUnifyTrace) option" where
  "bind_type fuel uni arena trace name bnd type =
     (if bnd = 0 \<or> type = 0 then Some (unify_fail trace ''invalid type binding'')
      else if z_type_kind arena type = Z_TYPE_NODE_BINDER \<and> z_type_binder arena type = bnd then Some (True, trace)
      else case z_unify_trace_lookup trace bnd Z_UNIFY_BINDING_TYPE of
        Some existing \<Rightarrow> uni (ub_type existing) type trace
      | None \<Rightarrow>
          if binder_alias_resolves_to arena trace type bnd [] then Some (True, trace)
          else do {
            occurs \<leftarrow> type_binding_occurs_resolved fuel arena trace type bnd [];
            if occurs then Some (unify_fail trace ''recursive type binding rejected by occurs check'')
            else Some (True, unify_trace_push trace
              \<lparr>ub_binder = bnd, ub_kind = Z_UNIFY_BINDING_TYPE, ub_name = str_or name [], ub_type = type,
               ub_static = zero_static_value\<rparr>) })"

text \<open>The loop over the argument pairs of two generic types of equal length.\<close>

fun unify_args ::
  "(nat \<Rightarrow> nat \<Rightarrow> ZUnifyTrace \<Rightarrow> (bool \<times> ZUnifyTrace) option) \<Rightarrow>
   (ZStaticValue \<Rightarrow> ZStaticValue \<Rightarrow> ZUnifyTrace \<Rightarrow> (bool \<times> ZUnifyTrace) option) \<Rightarrow>
   nat ZTypeArg list \<Rightarrow> nat ZTypeArg list \<Rightarrow> ZUnifyTrace \<Rightarrow> (bool \<times> ZUnifyTrace) option" where
  "unify_args uni suni (ArgType p # ps) (ArgType a # as) trace =
     do { (ok, trace) \<leftarrow> uni p a trace; if \<not> ok then Some (False, trace) else unify_args uni suni ps as trace }"
| "unify_args uni suni (ArgStatic p # ps) (ArgStatic a # as) trace =
     do { (ok, trace) \<leftarrow> suni p a trace; if \<not> ok then Some (False, trace) else unify_args uni suni ps as trace }"
| "unify_args uni suni [] as trace = Some (True, trace)"
| "unify_args uni suni _ _ trace = Some (unify_fail trace ''generic type argument kinds do not match'')"

fun type_unify_inner :: "nat \<Rightarrow> ZTypeArena \<Rightarrow> nat \<Rightarrow> nat \<Rightarrow> ZUnifyTrace \<Rightarrow> (bool \<times> ZUnifyTrace) option" where
  "type_unify_inner 0 arena pattern actual trace = None"
| "type_unify_inner (Suc fuel) arena pattern actual trace =
     (case (type_node arena pattern, type_node arena actual) of
        (None, _) \<Rightarrow> Some (unify_fail trace ''invalid type id'')
      | (_, None) \<Rightarrow> Some (unify_fail trace ''invalid type id'')
      | (Some (NodeBinder n b), _) \<Rightarrow>
          bind_type fuel (\<lambda>p a t. type_unify_inner fuel arena p a t) arena trace (Some n) b actual
      | (_, Some (NodeBinder n b)) \<Rightarrow>
          bind_type fuel (\<lambda>p a t. type_unify_inner fuel arena p a t) arena trace (Some n) b pattern
      | (Some (NodeName p), Some (NodeName a)) \<Rightarrow>
          Some (if p = a then (True, trace) else unify_fail trace ''type names do not match'')
      | (Some (NodeConst p), Some (NodeConst a)) \<Rightarrow> type_unify_inner fuel arena p a trace
      | (Some (NodeArray pv p), Some (NodeArray av a)) \<Rightarrow>
          do { (ok, trace) \<leftarrow> static_value_unify fuel pv av trace;
               if \<not> ok then Some (False, trace) else type_unify_inner fuel arena p a trace }
      | (Some (NodeApply p ps), Some (NodeApply a as)) \<Rightarrow>
          if p \<noteq> a \<or> length ps \<noteq> length as then Some (unify_fail trace ''generic type heads do not match'')
          else unify_args (\<lambda>p a t. type_unify_inner fuel arena p a t) (\<lambda>p a t. static_value_unify fuel p a t) ps as trace
      | _ \<Rightarrow> Some (unify_fail trace ''type shapes do not match''))"

definition z_type_unify :: "nat \<Rightarrow> ZTypeArena \<Rightarrow> nat \<Rightarrow> nat \<Rightarrow> ZUnifyTrace \<Rightarrow> (bool \<times> ZUnifyTrace) option" where
  "z_type_unify fuel arena pattern actual trace =
     (let start_len = length (bindings trace) in
      do { (ok, trace) \<leftarrow> type_unify_inner fuel arena pattern actual (trace\<lparr>ut_message := []\<rparr>);
           if ok then Some (True, trace\<lparr>ut_message := []\<rparr>)
           else let failure_message = snprintf 160 (if ut_message trace \<noteq> [] then ut_message trace else ''types do not unify'')
                in Some (False, (unify_trace_truncate trace start_len)\<lparr>ut_message := snprintf 160 failure_message\<rparr>) })"

section \<open>Substitution\<close>

fun substitute_static_value_inner :: "nat \<Rightarrow> ZStaticValue \<Rightarrow> ZUnifyTrace \<Rightarrow> nat list \<Rightarrow> ZStaticValue option option" where
  "substitute_static_value_inner 0 source trace path = None"
| "substitute_static_value_inner (Suc fuel) source trace path =
     (if sv_kind source = Z_STATIC_VALUE_BINDER then
        (if sv_binder source \<in> set path then Some None
         else case z_unify_trace_lookup trace (sv_binder source) Z_UNIFY_BINDING_STATIC of
           Some binding \<Rightarrow>
             (case binder_path_push path (sv_binder source) of
                None \<Rightarrow> Some None
              | Some next_path \<Rightarrow> substitute_static_value_inner fuel (ub_static binding) trace next_path)
         | None \<Rightarrow> Some (Some (z_static_value_clone source)))
      else Some (Some (z_static_value_clone source)))"

text \<open>
  The path holds at most 64 binders, so 65 frames are always enough.
\<close>

definition substitute_static_value :: "ZStaticValue \<Rightarrow> ZUnifyTrace \<Rightarrow> ZStaticValue option" where
  "substitute_static_value source trace =
     (case substitute_static_value_inner (UNIFY_BINDER_PATH_MAX + 1) source trace [] of Some r \<Rightarrow> r | None \<Rightarrow> None)"

fun substitute_args ::
  "(ZTypeArena \<Rightarrow> nat \<Rightarrow> (nat option \<times> ZTypeArena) option) \<Rightarrow> ZUnifyTrace \<Rightarrow> nat ZTypeArg list \<Rightarrow> nat ZTypeArg list \<Rightarrow>
   ZTypeArena \<Rightarrow> (nat ZTypeArg list option \<times> ZTypeArena) option" where
  "substitute_args sub trace [] acc arena = Some (Some acc, arena)"
| "substitute_args sub trace (ArgType t # args) acc arena =
     do { (r, arena) \<leftarrow> sub arena t;
          (case r of None \<Rightarrow> Some (None, arena)
           | Some t' \<Rightarrow> substitute_args sub trace args (acc @ [ArgType t']) arena) }"
| "substitute_args sub trace (ArgStatic v # args) acc arena =
     (case substitute_static_value v trace of None \<Rightarrow> Some (None, arena)
      | Some v' \<Rightarrow> substitute_args sub trace args (acc @ [ArgStatic v']) arena)"

definition made :: "ZTypeArena \<times> nat \<Rightarrow> (nat option \<times> ZTypeArena) option" where
  "made r = Some (if snd r = 0 then None else Some (snd r), fst r)"

fun type_substitute_inner ::
  "nat \<Rightarrow> ZUnifyTrace \<Rightarrow> nat list \<Rightarrow> ZTypeArena \<Rightarrow> nat \<Rightarrow> (nat option \<times> ZTypeArena) option" where
  "type_substitute_inner 0 trace path arena source = None"
| "type_substitute_inner (Suc fuel) trace path arena source =
     (case type_node arena source of
        None \<Rightarrow> Some (None, arena)
      | Some (NodeBinder n b) \<Rightarrow>
          if b \<in> set path then Some (None, arena)
          else (case z_unify_trace_lookup trace b Z_UNIFY_BINDING_TYPE of
                  Some binding \<Rightarrow>
                    (case binder_path_push path b of
                       None \<Rightarrow> Some (None, arena)
                     | Some next_path \<Rightarrow> type_substitute_inner fuel trace next_path arena (ub_type binding))
                | None \<Rightarrow> made (z_type_make_binder arena (Some n) b))
      | Some (NodeName n) \<Rightarrow> made (z_type_make_name arena (Some n))
      | Some (NodeConst c) \<Rightarrow>
          do { (inner, arena) \<leftarrow> type_substitute_inner fuel trace path arena c;
               (case inner of None \<Rightarrow> Some (None, arena) | Some i \<Rightarrow> made (z_type_make_const arena i)) }
      | Some (NodeArray v c) \<Rightarrow>
          (case substitute_static_value v trace of
             None \<Rightarrow> Some (None, arena)
           | Some len \<Rightarrow>
               do { (element, arena) \<leftarrow> type_substitute_inner fuel trace path arena c;
                    (case element of None \<Rightarrow> Some (None, arena) | Some e \<Rightarrow> made (z_type_make_array arena len e)) })
      | Some (NodeApply n args) \<Rightarrow>
          do { (args', arena) \<leftarrow> substitute_args (\<lambda>a t. type_substitute_inner fuel trace path a t) trace args [] arena;
               (case args' of None \<Rightarrow> Some (None, arena) | Some xs \<Rightarrow> made (z_type_make_apply arena (Some n) xs)) })"

definition z_type_substitute :: "nat \<Rightarrow> ZTypeArena \<Rightarrow> nat \<Rightarrow> ZUnifyTrace \<Rightarrow> (nat option \<times> ZTypeArena) option" where
  "z_type_substitute fuel arena source trace =
     (let start_len = arena_len arena in
      do { (r, arena) \<leftarrow> type_substitute_inner fuel trace [] arena source;
           (case r of Some t \<Rightarrow> Some (Some t, arena)
            | None \<Rightarrow> Some (None, z_type_arena_truncate arena start_len)) })"

end
