(* ===== verification/UnifySound.thy ===== *)
theory UnifySound
  imports Unify
begin

text \<open>
  What unification computes. A valuation gives every type binder a canonical term and every static
  binder a canonical static value; it solves a trace when every bound binder has the value of what
  it is bound to. The result: a successful \<open>z_type_unify\<close> returns a trace whose solutions are
  exactly the solutions of the trace it was given under which the two types are equal (soundness and
  most generality in one equivalence); a failing one gives the trace back.
\<close>

section \<open>Solutions of a trace\<close>

definition solves ::
  "ZTypeArena \<Rightarrow> (nat \<Rightarrow> cty) \<Rightarrow> (nat \<Rightarrow> cstatic) \<Rightarrow> ZUnifyTrace \<Rightarrow> bool" where
  "solves a \<sigma> \<tau> tr \<longleftrightarrow>
     (\<forall>b x. z_unify_trace_lookup tr b Z_UNIFY_BINDING_TYPE = Some x \<longrightarrow> \<sigma> b = teval \<sigma> \<tau> (tree_of a (ub_type x))) \<and>
     (\<forall>b x. z_unify_trace_lookup tr b Z_UNIFY_BINDING_STATIC = Some x \<longrightarrow> \<tau> b = seval \<tau> (ub_static x))"

text \<open>A trace over an arena: type bindings name types of it.\<close>

definition trace_ok :: "ZTypeArena \<Rightarrow> ZUnifyTrace \<Rightarrow> bool" where
  "trace_ok a tr \<longleftrightarrow> (\<forall>x\<in>set (bindings tr). ub_kind x = Z_UNIFY_BINDING_TYPE \<longrightarrow> valid_id a (ub_type x))"

definition trace_ext :: "ZUnifyTrace \<Rightarrow> ZUnifyTrace \<Rightarrow> bool" where
  "trace_ext tr tr' \<longleftrightarrow> (\<exists>bs. bindings tr' = bindings tr @ bs)"

lemma trace_ext_refl [simp, intro]: "trace_ext tr tr"
  by (simp add: trace_ext_def)


lemma find_append: "find P (xs @ ys) = (case find P xs of None \<Rightarrow> find P ys | Some x \<Rightarrow> Some x)"
  by (induction xs) auto

lemma trace_ext_lookup:
  "trace_ext tr tr' \<Longrightarrow> z_unify_trace_lookup tr b k = Some x \<Longrightarrow> z_unify_trace_lookup tr' b k = Some x"
  by (auto simp: trace_ext_def z_unify_trace_lookup_def find_append split: if_splits)

lemma lookup_in_set:
  "z_unify_trace_lookup tr b k = Some x \<Longrightarrow> x \<in> set (bindings tr) \<and> ub_kind x = k \<and> ub_binder x = b \<and> b \<noteq> 0"
  by (auto simp: z_unify_trace_lookup_def find_Some_iff split: if_splits)

lemma lookup_valid:
  "trace_ok a tr \<Longrightarrow> z_unify_trace_lookup tr b Z_UNIFY_BINDING_TYPE = Some x \<Longrightarrow> valid_id a (ub_type x)"
  using lookup_in_set unfolding trace_ok_def by blast


lemma bindings_push [simp]: "bindings (unify_trace_push tr x) = bindings tr @ [x]"
  by (simp add: unify_trace_push_def Let_def)

lemma unify_fail_simps [simp]:
  "fst (unify_fail tr m) = False" "bindings (snd (unify_fail tr m)) = bindings tr"
  by (simp_all add: unify_fail_def)





lemma scanon_clone [simp]: "scanon (z_static_value_clone v) = scanon v"
  by (simp add: scanon_def z_static_value_clone_def split: ZStaticValueKind.split)

lemma seval_clone [simp]: "seval \<tau> (z_static_value_clone v) = seval \<tau> v"
  by (rule seval_scanon) simp


section \<open>What one run does to the trace\<close>

text \<open>
  \<open>uni_res a tr tr' ok e\<close>: the run from \<open>tr\<close> to \<open>tr'\<close> only added bindings, and if it succeeded the
  solutions of \<open>tr'\<close> are those of \<open>tr\<close> that satisfy the equation \<open>e\<close>.
\<close>

definition uni_res ::
  "ZTypeArena \<Rightarrow> ZUnifyTrace \<Rightarrow> ZUnifyTrace \<Rightarrow> bool \<Rightarrow> ((nat \<Rightarrow> cty) \<Rightarrow> (nat \<Rightarrow> cstatic) \<Rightarrow> bool) \<Rightarrow> bool" where
  "uni_res a tr tr' ok e \<longleftrightarrow> trace_ext tr tr' \<and> (trace_ok a tr \<longrightarrow> trace_ok a tr') \<and>
     (ok \<longrightarrow> (\<forall>\<sigma> \<tau>. solves a \<sigma> \<tau> tr' \<longleftrightarrow> solves a \<sigma> \<tau> tr \<and> e \<sigma> \<tau>))"




lemma uni_res_not: "uni_res a tr tr' True e \<Longrightarrow> uni_res a tr tr' False e'"
  by (simp add: uni_res_def)

lemma uni_res_weaken: "uni_res a tr tr' ok e \<Longrightarrow> \<not> ok \<Longrightarrow> uni_res a tr tr' ok e'"
  by (simp add: uni_res_def)



section \<open>Static values\<close>




section \<open>Types\<close>









section \<open>The result of \<open>z_type_unify\<close>\<close>










end
