(* ===== verification/ZBuf.thy ===== *)
theory ZBuf
  imports Prelude
begin

text \<open>
  The growable byte buffer of \<open>native/zerox-c/src/fs.c\<close> (\<open>ZBuf\<close>, \<open>z_grow_capacity\<close>,
  \<open>zbuf_init\<close>, \<open>zbuf_append_char\<close>, \<open>zbuf_append\<close>), which every emitter of the compiler
  writes into. A buffer is the bytes written so far (\<open>data[0 .. len - 1]\<close>) and its capacity;
  \<open>len\<close> is the length of the list. \<open>None\<close> is the exit of \<open>z_allocation_fatal\<close>; that the
  allocator itself returns memory is assumed, as everywhere in the code after its check.

  \<open>emits f bs\<close> says exactly what an emitter does to any well-formed buffer: it appends \<open>bs\<close> or,
  where the buffer cannot grow, exits. The locale \<open>byte_sink\<close> is the interface every back end
  has to the buffer: each of them has an \<open>append_u8\<close> of its own, and its little-endian
  \<open>append_u32\<close> and \<open>append_u64\<close> are right because of that one law.
\<close>

section \<open>Capacity\<close>

function grow_loop :: "nat \<Rightarrow> nat \<Rightarrow> nat" where
  "grow_loop next required =
     (if next < required \<and> 0 < next then
        (if next > SIZE_MAX div 2 then required else grow_loop (next * 2) required)
      else next)"
  by pat_completeness auto
termination
  by (relation "measure (\<lambda>(next, required). required - next)") auto

declare grow_loop.simps [simp del]

definition z_grow_capacity :: "nat \<Rightarrow> nat \<Rightarrow> nat \<Rightarrow> nat" where
  "z_grow_capacity current required initial =
     grow_loop (if current = 0 then (if initial = 0 then 1 else initial) else current) required"

lemma grow_loop_enough: "0 < next \<Longrightarrow> required \<le> grow_loop next required"
proof (induction "next" required rule: grow_loop.induct)
  case (1 "next" required)
  then show ?case by (subst grow_loop.simps) auto
qed

lemma grow_loop_bound:
  "next \<le> SIZE_MAX \<Longrightarrow> required \<le> SIZE_MAX \<Longrightarrow> grow_loop next required \<le> SIZE_MAX"
proof (induction "next" required rule: grow_loop.induct)
  case (1 "next" required)
  show ?case
  proof (cases "next < required \<and> 0 < next \<and> \<not> next > SIZE_MAX div 2")
    case True
    then have "next * 2 \<le> SIZE_MAX" by auto
    with True 1 show ?thesis by (subst grow_loop.simps) simp
  next
    case False
    with 1 show ?thesis by (subst grow_loop.simps) auto
  qed
qed

lemma grow_loop_ge: "next \<le> grow_loop next required"
proof (induction "next" required rule: grow_loop.induct)
  case (1 "next" required)
  then show ?case by (subst grow_loop.simps) auto
qed

section \<open>The buffer\<close>

record ZBuf =
  zdata :: "u8 list"
  zcap :: nat

definition zbuf_init :: ZBuf where
  "zbuf_init = \<lparr>zdata = [], zcap = 0\<rparr>"

definition zbuf_append_char :: "ZBuf \<Rightarrow> u8 \<Rightarrow> ZBuf option" where
  "zbuf_append_char buf ch =
     (if length (zdata buf) > SIZE_MAX - 2 then None
      else let required = length (zdata buf) + 2;
               cap = (if required > zcap buf then z_grow_capacity (zcap buf) required 64 else zcap buf)
           in Some (buf\<lparr>zdata := zdata buf @ [ch], zcap := cap\<rparr>))"

fun zbuf_append :: "ZBuf \<Rightarrow> string \<Rightarrow> ZBuf option" where
  "zbuf_append buf [] = Some buf"
| "zbuf_append buf (c # text) = do { buf \<leftarrow> zbuf_append_char buf (of_char c); zbuf_append buf text }"

text \<open>
  Well-formed: either no memory yet, or room for the terminator that is written after the last
  byte. This is what makes the store \<open>data[len] = 0\<close> of \<open>zbuf_append_char\<close> stay inside.
\<close>

definition zbuf_ok :: "ZBuf \<Rightarrow> bool" where
  "zbuf_ok buf \<longleftrightarrow> zcap buf \<le> SIZE_MAX \<and> (if zcap buf = 0 then zdata buf = [] else length (zdata buf) < zcap buf)"

lemma zbuf_ok_init [simp]: "zbuf_ok zbuf_init"
  by (simp add: zbuf_ok_def zbuf_init_def)

lemma zdata_init [simp]: "zdata zbuf_init = []"
  by (simp add: zbuf_init_def)

lemma zbuf_append_char_ok:
  assumes ok: "zbuf_ok buf" and app: "zbuf_append_char buf ch = Some buf'"
  shows "zbuf_ok buf' \<and> zdata buf' = zdata buf @ [ch]"
proof -
  let ?req = "length (zdata buf) + 2"
  have le: "?req \<le> SIZE_MAX" using app by (auto simp: zbuf_append_char_def SIZE_MAX_def split: if_splits)
  have c64: "(64::nat) \<le> SIZE_MAX" by (simp add: SIZE_MAX_def)
  have capb: "zcap buf \<le> SIZE_MAX" using ok by (simp add: zbuf_ok_def)
  have ge: "?req \<le> z_grow_capacity (zcap buf) ?req 64"
    unfolding z_grow_capacity_def by (rule grow_loop_enough) auto
  have bd: "z_grow_capacity (zcap buf) ?req 64 \<le> SIZE_MAX"
    unfolding z_grow_capacity_def by (rule grow_loop_bound) (use capb c64 le in auto)
  have "buf' = buf\<lparr>zdata := zdata buf @ [ch],
      zcap := if ?req > zcap buf then z_grow_capacity (zcap buf) ?req 64 else zcap buf\<rparr>"
    using app by (auto simp: zbuf_append_char_def Let_def split: if_splits)
  with ge bd capb show ?thesis by (auto simp: zbuf_ok_def)
qed

section \<open>What an emitter appends\<close>

definition emits :: "(ZBuf \<Rightarrow> ZBuf option) \<Rightarrow> u8 list \<Rightarrow> bool" where
  "emits f bs \<longleftrightarrow> (\<forall>b. zbuf_ok b \<longrightarrow>
     (if bs = [] \<or> length (zdata b) + length bs \<le> SIZE_MAX - 1
      then \<exists>b'. f b = Some b' \<and> zbuf_ok b' \<and> zdata b' = zdata b @ bs
      else f b = None))"

lemma emitsD:
  assumes "emits f bs" "zbuf_ok b" "f b = Some b'"
  shows "zdata b' = zdata b @ bs" "zbuf_ok b'"
  using assms unfolding emits_def by (metis option.distinct(1) option.inject)+

lemma emits_room:
  assumes "emits f bs" "zbuf_ok b" "length (zdata b) + length bs < SIZE_MAX"
  obtains b' where "f b = Some b'" "zbuf_ok b'" "zdata b' = zdata b @ bs"
  using assms unfolding emits_def by (metis Nat.le_diff_conv2 Suc_eq_plus1 Suc_leI add_leD2 gr_implies_not0 le_add1 linorder_not_less plus_1_eq_Suc less_one)

lemma emits_eq: "emits f xs \<Longrightarrow> xs = ys \<Longrightarrow> emits f ys"
  by simp

lemma emits_append_char [emits_intros]: "emits (\<lambda>b. zbuf_append_char b v) [v]"
  unfolding emits_def
proof (intro allI impI)
  fix b assume ok: "zbuf_ok b"
  show "if [v] = [] \<or> length (zdata b) + length [v] \<le> SIZE_MAX - 1
        then \<exists>b'. zbuf_append_char b v = Some b' \<and> zbuf_ok b' \<and> zdata b' = zdata b @ [v]
        else zbuf_append_char b v = None"
  proof (cases "zbuf_append_char b v")
    case None
    then show ?thesis by (auto simp: zbuf_append_char_def Let_def SIZE_MAX_def split: if_splits)
  next
    case (Some b')
    then have "length (zdata b) + length [v] \<le> SIZE_MAX - 1"
      by (auto simp: zbuf_append_char_def Let_def SIZE_MAX_def split: if_splits)
    with Some zbuf_append_char_ok [OF ok Some] show ?thesis by auto
  qed
qed

lemma emits_Some: "emits Some []"
  by (simp add: emits_def)

lemma emits_return [emits_intros]: "emits (\<lambda>b. Some b) []"
  using emits_Some by simp

lemma emits_bind [emits_intros]:
  assumes f: "emits f xs" and g: "emits g ys"
  shows "emits (\<lambda>b. Option.bind (f b) g) (xs @ ys)"
  unfolding emits_def
proof (intro allI impI)
  fix b assume ok: "zbuf_ok b"
  show "if xs @ ys = [] \<or> length (zdata b) + length (xs @ ys) \<le> SIZE_MAX - 1
        then \<exists>b'. Option.bind (f b) g = Some b' \<and> zbuf_ok b' \<and> zdata b' = zdata b @ xs @ ys
        else Option.bind (f b) g = None"
  proof (cases "f b")
    case None
    with f ok have "\<not> (xs = [] \<or> length (zdata b) + length xs \<le> SIZE_MAX - 1)"
      unfolding emits_def by (metis option.distinct(1))
    with None show ?thesis by auto
  next
    case (Some b1)
    have b1: "zbuf_ok b1" "zdata b1 = zdata b @ xs"
      using emitsD [OF f ok Some] by auto
    have "xs = [] \<or> length (zdata b) + length xs \<le> SIZE_MAX - 1"
      using f ok Some unfolding emits_def by (metis option.distinct(1))
    then show ?thesis
    proof -
      have "if ys = [] \<or> length (zdata b1) + length ys \<le> SIZE_MAX - 1
            then \<exists>b'. g b1 = Some b' \<and> zbuf_ok b' \<and> zdata b' = zdata b1 @ ys else g b1 = None"
        using g b1(1) unfolding emits_def by blast
      with b1 Some \<open>xs = [] \<or> _\<close> show ?thesis by (auto simp: add.assoc split: if_splits)
    qed
  qed
qed

lemma emits_if [emits_intros]:
  "(c \<Longrightarrow> emits f xs) \<Longrightarrow> (\<not> c \<Longrightarrow> emits g ys) \<Longrightarrow>
   emits (\<lambda>b. if c then f b else g b) (if c then xs else ys)"
  by simp

lemma emits_append [emits_intros]: "emits (\<lambda>b. zbuf_append b cs) (map of_char cs)"
proof (induction cs)
  case Nil
  then show ?case by (simp add: emits_Some)
next
  case (Cons c cs)
  have "emits (\<lambda>b. Option.bind (zbuf_append_char b (of_char c)) (\<lambda>b. zbuf_append b cs))
     ([of_char c] @ map of_char cs)"
    by (rule emits_bind [OF emits_append_char Cons.IH])
  then show ?case by simp
qed

fun fold_emit :: "(ZBuf \<Rightarrow> 'a \<Rightarrow> ZBuf option) \<Rightarrow> 'a list \<Rightarrow> ZBuf \<Rightarrow> ZBuf option" where
  "fold_emit f [] b = Some b"
| "fold_emit f (x # xs) b = do { b \<leftarrow> f b x; fold_emit f xs b }"

lemma emits_fold:
  assumes "\<And>x. emits (\<lambda>b. f b x) (h x)"
  shows "emits (fold_emit f xs) (concat (map h xs))"
proof (induction xs)
  case Nil
  have "fold_emit f [] = Some" by (rule ext) simp
  then show ?case by (simp add: emits_Some)
next
  case (Cons x xs)
  have "emits (\<lambda>b. Option.bind (f b x) (\<lambda>b. fold_emit f xs b)) (h x @ concat (map h xs))"
    by (rule emits_bind [OF assms]) (simp add: Cons.IH)
  moreover have "fold_emit f (x # xs) = (\<lambda>b. Option.bind (f b x) (\<lambda>b. fold_emit f xs b))"
    by (rule ext) simp
  ultimately show ?case by simp
qed

section \<open>The interface of the back ends\<close>

locale byte_sink =
  fixes put8 :: "ZBuf \<Rightarrow> u32 \<Rightarrow> ZBuf option"
  assumes put8_emits: "emits (\<lambda>b. put8 b v) [ucast v]"
begin

lemma put16_emits:
  "emits (\<lambda>b. Option.bind (put8 b (ucast (v :: u16))) (\<lambda>b. put8 b (ucast (drop_bit 8 v)))) (le16 v)"
proof -
  have "emits (\<lambda>b. Option.bind (put8 b (ucast v)) (\<lambda>b. put8 b (ucast (drop_bit 8 v))))
     ([ucast (ucast v :: u32)] @ [ucast (ucast (drop_bit 8 v) :: u32)])"
    by (rule emits_bind [OF put8_emits put8_emits])
  moreover have "ucast (ucast v :: u32) = (ucast v :: u8)" "ucast (ucast (drop_bit 8 v) :: u32) = (ucast (drop_bit 8 v) :: u8)"
    by (rule bit_word_eqI, simp add: bit_simps)+
  ultimately show ?thesis by (simp add: le16_def)
qed

lemma put32_emits:
  "emits (\<lambda>b. Option.bind (put8 b v) (\<lambda>b. Option.bind (put8 b (drop_bit 8 v))
     (\<lambda>b. Option.bind (put8 b (drop_bit 16 v)) (\<lambda>b. put8 b (drop_bit 24 v))))) (le32 v)"
  by (rule emits_eq, (rule emits_bind put8_emits)+) (simp add: le32_def)

lemma put_zeros_emits: "emits (fold_emit (\<lambda>b (_::nat). put8 b 0) [0..<n]) (replicate n 0)"
proof -
  have "emits (fold_emit (\<lambda>b (_::nat). put8 b 0) [0..<n]) (concat (map (\<lambda>_. [ucast (0::u32)]) [0..<n]))"
    by (rule emits_fold) (rule put8_emits)
  moreover have "concat (map (\<lambda>_. [ucast (0::u32)]) [0..<n]) = replicate n (0::u8)"
    by (induction n) (simp_all add: replicate_append_same)
  ultimately show ?thesis by simp
qed

lemma put_bytes_emits: "emits (fold_emit (\<lambda>b x. put8 b (ucast (x :: u8))) xs) xs"
proof -
  have "emits (fold_emit (\<lambda>b x. put8 b (ucast (x :: u8))) xs) (concat (map (\<lambda>x. [ucast (ucast x :: u32)]) xs))"
    by (rule emits_fold) (rule put8_emits)
  moreover have "concat (map (\<lambda>x. [ucast (ucast x :: u32)]) xs) = xs" for xs :: "u8 list"
    by (induction xs) (auto intro!: bit_word_eqI simp: bit_simps)
  ultimately show ?thesis by simp
qed

end

section \<open>Patching written bytes\<close>

text \<open>
  The \<open>patch\<close> functions store through \<open>data[offset + k]\<close> without a check. \<open>None\<close> is a store
  past the written bytes, which C leaves undefined.
\<close>

definition zbuf_patch4 :: "ZBuf \<Rightarrow> nat \<Rightarrow> u8 \<Rightarrow> u8 \<Rightarrow> u8 \<Rightarrow> u8 \<Rightarrow> ZBuf option" where
  "zbuf_patch4 buf off b0 b1 b2 b3 =
     (if off + 4 \<le> length (zdata buf)
      then Some (buf\<lparr>zdata := (zdata buf)[off := b0, off + 1 := b1, off + 2 := b2, off + 3 := b3]\<rparr>)
      else None)"

lemma zbuf_patch4_Some:
  assumes "zbuf_patch4 buf off (ucast v) (ucast (drop_bit 8 v)) (ucast (drop_bit 16 v)) (ucast (drop_bit 24 v)) = Some buf'"
  shows "read32 (zdata buf') off = v"
    and "length (zdata buf') = length (zdata buf)"
    and "j < off \<or> off + 4 \<le> j \<Longrightarrow> zdata buf' ! j = zdata buf ! j"
    and "off + 4 \<le> length (zdata buf)"
proof -
  have b: "off + 4 \<le> length (zdata buf)"
    and d: "zdata buf' = (zdata buf)[off := ucast v, off + 1 := ucast (drop_bit 8 v), off + 2 := ucast (drop_bit 16 v), off + 3 := ucast (drop_bit 24 v)]"
    using assms by (auto simp: zbuf_patch4_def split: if_splits)
  have "read32 (zdata buf') off = read32 (le32 v) 0"
    using b by (simp add: d read32_def le32_def nth_list_update)
  then show "read32 (zdata buf') off = v" by (simp add: read32_le32)
  show "length (zdata buf') = length (zdata buf)" by (simp add: d)
  show "off + 4 \<le> length (zdata buf)" by (rule b)
  show "j < off \<or> off + 4 \<le> j \<Longrightarrow> zdata buf' ! j = zdata buf ! j"
    by (auto simp: d nth_list_update)
qed

end
