(* ===== verification/Aarch64.thy ===== *)
theory Aarch64
  imports ZBuf
begin

text \<open>
  The AArch64 encoder, \<open>native/zerox-c/src/aarch64_emit.c\<close>, function by function: the byte
  writers, one emitter per instruction form, the placeholders that return the offset to patch, and
  the three patch functions. Registers and immediates are the \<open>unsigned\<close> values of the code
  (\<open>u32\<close>); an emitter returns the buffer, \<open>None\<close> where the buffer cannot grow.
\<close>

section \<open>Writing words\<close>

definition z_aarch64_align :: "nat \<Rightarrow> nat \<Rightarrow> nat" where
  "z_aarch64_align value alignment =
     (let remainder = (if alignment \<noteq> 0 then value mod alignment else 0)
      in if remainder = 0 then value else value + (alignment - remainder))"

definition z_aarch64_append_u8 :: "ZBuf \<Rightarrow> u32 \<Rightarrow> ZBuf option" where
  "z_aarch64_append_u8 buf value = zbuf_append_char buf (ucast (value AND 0xff))"

definition z_aarch64_append_u32 :: "ZBuf \<Rightarrow> u32 \<Rightarrow> ZBuf option" where
  "z_aarch64_append_u32 buf value =
     do { buf \<leftarrow> z_aarch64_append_u8 buf value;
          buf \<leftarrow> z_aarch64_append_u8 buf (drop_bit 8 value);
          buf \<leftarrow> z_aarch64_append_u8 buf (drop_bit 16 value);
          z_aarch64_append_u8 buf (drop_bit 24 value) }"

definition z_aarch64_append_u64 :: "ZBuf \<Rightarrow> u64 \<Rightarrow> ZBuf option" where
  "z_aarch64_append_u64 buf value =
     do { buf \<leftarrow> z_aarch64_append_u32 buf (ucast value);
          z_aarch64_append_u32 buf (ucast (drop_bit 32 value)) }"

definition z_aarch64_append_zeros :: "ZBuf \<Rightarrow> nat \<Rightarrow> ZBuf option" where
  "z_aarch64_append_zeros buf len = fold_emit (\<lambda>buf i. z_aarch64_append_u8 buf 0) [0..<len] buf"

text \<open>The loop appends one byte a round, so it runs for the offsets from the length up.\<close>

definition z_aarch64_pad_to :: "ZBuf \<Rightarrow> nat \<Rightarrow> ZBuf option" where
  "z_aarch64_pad_to buf offset =
     fold_emit (\<lambda>buf i. z_aarch64_append_u8 buf 0) [length (zdata buf)..<offset] buf"

definition z_aarch64_patch_u32 :: "ZBuf \<Rightarrow> nat \<Rightarrow> u32 \<Rightarrow> ZBuf option" where
  "z_aarch64_patch_u32 buf offset value =
     zbuf_patch4 buf offset (ucast (value AND 0xff)) (ucast (drop_bit 8 value AND 0xff))
       (ucast (drop_bit 16 value AND 0xff)) (ucast (drop_bit 24 value AND 0xff))"

definition z_aarch64_patch_u64 :: "ZBuf \<Rightarrow> nat \<Rightarrow> u64 \<Rightarrow> ZBuf option" where
  "z_aarch64_patch_u64 buf offset value =
     do { buf \<leftarrow> z_aarch64_patch_u32 buf offset (ucast value);
          z_aarch64_patch_u32 buf (offset + 4) (ucast (drop_bit 32 value)) }"

section \<open>Literals\<close>

definition z_aarch64_emit_movz_w :: "ZBuf \<Rightarrow> u32 \<Rightarrow> u32 \<Rightarrow> ZBuf option" where
  "z_aarch64_emit_movz_w buf reg literal =
     do { buf \<leftarrow> z_aarch64_append_u32 buf (0x52800000 OR push_bit 5 (literal AND 0xffff) OR (reg AND 31));
          if literal > 0xffff
          then z_aarch64_append_u32 buf (0x72a00000 OR push_bit 5 (drop_bit 16 literal AND 0xffff) OR (reg AND 31))
          else Some buf }"

definition z_aarch64_emit_movz_x :: "ZBuf \<Rightarrow> u32 \<Rightarrow> u64 \<Rightarrow> ZBuf option" where
  "z_aarch64_emit_movz_x buf reg literal =
     do { buf \<leftarrow> z_aarch64_append_u32 buf (0xd2800000 OR push_bit 5 (ucast (literal AND 0xffff)) OR (reg AND 31));
          buf \<leftarrow> (if literal > 0xffff
             then z_aarch64_append_u32 buf (0xf2a00000 OR push_bit 5 (ucast (drop_bit 16 literal AND 0xffff)) OR (reg AND 31))
             else Some buf);
          buf \<leftarrow> (if literal > 0xffffffff
             then z_aarch64_append_u32 buf (0xf2c00000 OR push_bit 5 (ucast (drop_bit 32 literal AND 0xffff)) OR (reg AND 31))
             else Some buf);
          if literal > 0xffffffffffff
          then z_aarch64_append_u32 buf (0xf2e00000 OR push_bit 5 (ucast (drop_bit 48 literal AND 0xffff)) OR (reg AND 31))
          else Some buf }"

section \<open>Instructions of one word\<close>

definition z_aarch64_emit_ret :: "ZBuf \<Rightarrow> ZBuf option" where
  "z_aarch64_emit_ret buf = z_aarch64_append_u32 buf 0xd65f03c0"

definition z_aarch64_emit_nop :: "ZBuf \<Rightarrow> ZBuf option" where
  "z_aarch64_emit_nop buf = z_aarch64_append_u32 buf 0xd503201f"

definition z_aarch64_emit_brk :: "ZBuf \<Rightarrow> ZBuf option" where
  "z_aarch64_emit_brk buf = z_aarch64_append_u32 buf 0xd4200000"

definition z_aarch64_emit_svc :: "ZBuf \<Rightarrow> u32 \<Rightarrow> ZBuf option" where
  "z_aarch64_emit_svc buf imm16 = z_aarch64_append_u32 buf (0xd4000001 OR push_bit 5 (imm16 AND 0xffff))"

definition z_aarch64_emit_mov_w :: "ZBuf \<Rightarrow> u32 \<Rightarrow> u32 \<Rightarrow> ZBuf option" where
  "z_aarch64_emit_mov_w buf dst src = z_aarch64_append_u32 buf (0x2a0003e0 OR push_bit 16 (src AND 31) OR (dst AND 31))"

definition z_aarch64_emit_mov_x :: "ZBuf \<Rightarrow> u32 \<Rightarrow> u32 \<Rightarrow> ZBuf option" where
  "z_aarch64_emit_mov_x buf dst src = z_aarch64_append_u32 buf (0xaa0003e0 OR push_bit 16 (src AND 31) OR (dst AND 31))"

definition z_aarch64_emit_uxtb_w :: "ZBuf \<Rightarrow> u32 \<Rightarrow> u32 \<Rightarrow> ZBuf option" where
  "z_aarch64_emit_uxtb_w buf dst src = z_aarch64_append_u32 buf (0x53000000 OR push_bit 10 7 OR push_bit 5 (src AND 31) OR (dst AND 31))"

definition z_aarch64_emit_uxth_w :: "ZBuf \<Rightarrow> u32 \<Rightarrow> u32 \<Rightarrow> ZBuf option" where
  "z_aarch64_emit_uxth_w buf dst src = z_aarch64_append_u32 buf (0x53000000 OR push_bit 10 15 OR push_bit 5 (src AND 31) OR (dst AND 31))"

definition z_aarch64_emit_sxtw_x :: "ZBuf \<Rightarrow> u32 \<Rightarrow> u32 \<Rightarrow> ZBuf option" where
  "z_aarch64_emit_sxtw_x buf dst src = z_aarch64_append_u32 buf (0x93400000 OR push_bit 10 31 OR push_bit 5 (src AND 31) OR (dst AND 31))"

definition z_aarch64_emit_mov_x29_sp :: "ZBuf \<Rightarrow> ZBuf option" where
  "z_aarch64_emit_mov_x29_sp buf = z_aarch64_append_u32 buf 0x910003fd"

definition z_aarch64_emit_stp_x20_x21_sp_pre16 :: "ZBuf \<Rightarrow> ZBuf option" where
  "z_aarch64_emit_stp_x20_x21_sp_pre16 buf = z_aarch64_append_u32 buf 0xa9bf57f4"

definition z_aarch64_emit_stp_x29_x30_sp_pre16 :: "ZBuf \<Rightarrow> ZBuf option" where
  "z_aarch64_emit_stp_x29_x30_sp_pre16 buf = z_aarch64_append_u32 buf 0xa9bf7bfd"

definition z_aarch64_emit_ldp_x20_x21_sp_post16 :: "ZBuf \<Rightarrow> ZBuf option" where
  "z_aarch64_emit_ldp_x20_x21_sp_post16 buf = z_aarch64_append_u32 buf 0xa8c157f4"

definition z_aarch64_emit_ldp_x29_x30_sp_post16 :: "ZBuf \<Rightarrow> ZBuf option" where
  "z_aarch64_emit_ldp_x29_x30_sp_post16 buf = z_aarch64_append_u32 buf 0xa8c17bfd"

definition z_aarch64_emit_add_sp_imm :: "ZBuf \<Rightarrow> u32 \<Rightarrow> ZBuf option" where
  "z_aarch64_emit_add_sp_imm buf imm = z_aarch64_append_u32 buf (0x910003ff OR push_bit 10 (imm AND 0xfff))"

definition z_aarch64_emit_sub_sp_imm :: "ZBuf \<Rightarrow> u32 \<Rightarrow> ZBuf option" where
  "z_aarch64_emit_sub_sp_imm buf imm = z_aarch64_append_u32 buf (0xd10003ff OR push_bit 10 (imm AND 0xfff))"

definition z_aarch64_emit_add_x_sp_imm :: "ZBuf \<Rightarrow> u32 \<Rightarrow> u32 \<Rightarrow> ZBuf option" where
  "z_aarch64_emit_add_x_sp_imm buf dst imm = z_aarch64_append_u32 buf (0x910003e0 OR push_bit 10 (imm AND 0xfff) OR (dst AND 31))"

definition z_aarch64_emit_add_x_imm :: "ZBuf \<Rightarrow> u32 \<Rightarrow> u32 \<Rightarrow> u32 \<Rightarrow> ZBuf option" where
  "z_aarch64_emit_add_x_imm buf dst src imm = z_aarch64_append_u32 buf (0x91000000 OR push_bit 10 (imm AND 0xfff) OR push_bit 5 (src AND 31) OR (dst AND 31))"

definition z_aarch64_emit_add_w_imm :: "ZBuf \<Rightarrow> u32 \<Rightarrow> u32 \<Rightarrow> u32 \<Rightarrow> ZBuf option" where
  "z_aarch64_emit_add_w_imm buf dst src imm = z_aarch64_append_u32 buf (0x11000000 OR push_bit 10 (imm AND 0xfff) OR push_bit 5 (src AND 31) OR (dst AND 31))"

definition z_aarch64_emit_sub_w_imm :: "ZBuf \<Rightarrow> u32 \<Rightarrow> u32 \<Rightarrow> u32 \<Rightarrow> ZBuf option" where
  "z_aarch64_emit_sub_w_imm buf dst src imm = z_aarch64_append_u32 buf (0x51000000 OR push_bit 10 (imm AND 0xfff) OR push_bit 5 (src AND 31) OR (dst AND 31))"

definition z_aarch64_emit_load_w_sp :: "ZBuf \<Rightarrow> u32 \<Rightarrow> u32 \<Rightarrow> ZBuf option" where
  "z_aarch64_emit_load_w_sp buf reg offset = z_aarch64_append_u32 buf (0xb9400000 OR push_bit 10 (offset div 4) OR push_bit 5 31 OR (reg AND 31))"

definition z_aarch64_emit_load_x_sp :: "ZBuf \<Rightarrow> u32 \<Rightarrow> u32 \<Rightarrow> ZBuf option" where
  "z_aarch64_emit_load_x_sp buf reg offset = z_aarch64_append_u32 buf (0xf9400000 OR push_bit 10 (offset div 8) OR push_bit 5 31 OR (reg AND 31))"

definition z_aarch64_emit_load_b_sp :: "ZBuf \<Rightarrow> u32 \<Rightarrow> u32 \<Rightarrow> ZBuf option" where
  "z_aarch64_emit_load_b_sp buf reg offset = z_aarch64_append_u32 buf (0x39400000 OR push_bit 10 (offset AND 0xfff) OR push_bit 5 31 OR (reg AND 31))"

definition z_aarch64_emit_store_w_sp :: "ZBuf \<Rightarrow> u32 \<Rightarrow> u32 \<Rightarrow> ZBuf option" where
  "z_aarch64_emit_store_w_sp buf reg offset = z_aarch64_append_u32 buf (0xb9000000 OR push_bit 10 (offset div 4) OR push_bit 5 31 OR (reg AND 31))"

definition z_aarch64_emit_store_x_sp :: "ZBuf \<Rightarrow> u32 \<Rightarrow> u32 \<Rightarrow> ZBuf option" where
  "z_aarch64_emit_store_x_sp buf reg offset = z_aarch64_append_u32 buf (0xf9000000 OR push_bit 10 (offset div 8) OR push_bit 5 31 OR (reg AND 31))"

definition z_aarch64_emit_store_b_sp :: "ZBuf \<Rightarrow> u32 \<Rightarrow> u32 \<Rightarrow> ZBuf option" where
  "z_aarch64_emit_store_b_sp buf reg offset = z_aarch64_append_u32 buf (0x39000000 OR push_bit 10 (offset AND 0xfff) OR push_bit 5 31 OR (reg AND 31))"

definition z_aarch64_emit_load_w_imm :: "ZBuf \<Rightarrow> u32 \<Rightarrow> u32 \<Rightarrow> u32 \<Rightarrow> ZBuf option" where
  "z_aarch64_emit_load_w_imm buf dst base byte_offset = z_aarch64_append_u32 buf (0xb9400000 OR push_bit 10 ((byte_offset div 4) AND 0xfff) OR push_bit 5 (base AND 31) OR (dst AND 31))"

definition z_aarch64_emit_load_x_imm :: "ZBuf \<Rightarrow> u32 \<Rightarrow> u32 \<Rightarrow> u32 \<Rightarrow> ZBuf option" where
  "z_aarch64_emit_load_x_imm buf dst base byte_offset = z_aarch64_append_u32 buf (0xf9400000 OR push_bit 10 ((byte_offset div 8) AND 0xfff) OR push_bit 5 (base AND 31) OR (dst AND 31))"

definition z_aarch64_emit_load_b_imm :: "ZBuf \<Rightarrow> u32 \<Rightarrow> u32 \<Rightarrow> u32 \<Rightarrow> ZBuf option" where
  "z_aarch64_emit_load_b_imm buf dst base byte_offset = z_aarch64_append_u32 buf (0x39400000 OR push_bit 10 (byte_offset AND 0xfff) OR push_bit 5 (base AND 31) OR (dst AND 31))"

definition z_aarch64_emit_store_w_imm :: "ZBuf \<Rightarrow> u32 \<Rightarrow> u32 \<Rightarrow> u32 \<Rightarrow> ZBuf option" where
  "z_aarch64_emit_store_w_imm buf src base byte_offset = z_aarch64_append_u32 buf (0xb9000000 OR push_bit 10 ((byte_offset div 4) AND 0xfff) OR push_bit 5 (base AND 31) OR (src AND 31))"

definition z_aarch64_emit_store_b_imm :: "ZBuf \<Rightarrow> u32 \<Rightarrow> u32 \<Rightarrow> u32 \<Rightarrow> ZBuf option" where
  "z_aarch64_emit_store_b_imm buf src base byte_offset = z_aarch64_append_u32 buf (0x39000000 OR push_bit 10 (byte_offset AND 0xfff) OR push_bit 5 (base AND 31) OR (src AND 31))"

definition z_aarch64_emit_add_w_reg :: "ZBuf \<Rightarrow> u32 \<Rightarrow> u32 \<Rightarrow> u32 \<Rightarrow> ZBuf option" where
  "z_aarch64_emit_add_w_reg buf dst lhs rhs = z_aarch64_append_u32 buf (0x0b000000 OR push_bit 16 (rhs AND 31) OR push_bit 5 (lhs AND 31) OR (dst AND 31))"

definition z_aarch64_emit_add_x_reg :: "ZBuf \<Rightarrow> u32 \<Rightarrow> u32 \<Rightarrow> u32 \<Rightarrow> ZBuf option" where
  "z_aarch64_emit_add_x_reg buf dst lhs rhs = z_aarch64_append_u32 buf (0x8b000000 OR push_bit 16 (rhs AND 31) OR push_bit 5 (lhs AND 31) OR (dst AND 31))"

definition z_aarch64_emit_add_x_reg_lsl :: "ZBuf \<Rightarrow> u32 \<Rightarrow> u32 \<Rightarrow> u32 \<Rightarrow> u32 \<Rightarrow> ZBuf option" where
  "z_aarch64_emit_add_x_reg_lsl buf dst lhs rhs shift = z_aarch64_append_u32 buf (0x8b000000 OR push_bit 16 (rhs AND 31) OR push_bit 10 (shift AND 0x3f) OR push_bit 5 (lhs AND 31) OR (dst AND 31))"

definition z_aarch64_emit_sub_w_reg :: "ZBuf \<Rightarrow> u32 \<Rightarrow> u32 \<Rightarrow> u32 \<Rightarrow> ZBuf option" where
  "z_aarch64_emit_sub_w_reg buf dst lhs rhs = z_aarch64_append_u32 buf (0x4b000000 OR push_bit 16 (rhs AND 31) OR push_bit 5 (lhs AND 31) OR (dst AND 31))"

definition z_aarch64_emit_sub_x_reg :: "ZBuf \<Rightarrow> u32 \<Rightarrow> u32 \<Rightarrow> u32 \<Rightarrow> ZBuf option" where
  "z_aarch64_emit_sub_x_reg buf dst lhs rhs = z_aarch64_append_u32 buf (0xcb000000 OR push_bit 16 (rhs AND 31) OR push_bit 5 (lhs AND 31) OR (dst AND 31))"

definition z_aarch64_emit_mul_w_reg :: "ZBuf \<Rightarrow> u32 \<Rightarrow> u32 \<Rightarrow> u32 \<Rightarrow> ZBuf option" where
  "z_aarch64_emit_mul_w_reg buf dst lhs rhs = z_aarch64_append_u32 buf (0x1b000000 OR push_bit 16 (rhs AND 31) OR push_bit 10 31 OR push_bit 5 (lhs AND 31) OR (dst AND 31))"

definition z_aarch64_emit_mul_x_reg :: "ZBuf \<Rightarrow> u32 \<Rightarrow> u32 \<Rightarrow> u32 \<Rightarrow> ZBuf option" where
  "z_aarch64_emit_mul_x_reg buf dst lhs rhs = z_aarch64_append_u32 buf (0x9b000000 OR push_bit 16 (rhs AND 31) OR push_bit 10 31 OR push_bit 5 (lhs AND 31) OR (dst AND 31))"

definition z_aarch64_emit_eor_w_reg :: "ZBuf \<Rightarrow> u32 \<Rightarrow> u32 \<Rightarrow> u32 \<Rightarrow> ZBuf option" where
  "z_aarch64_emit_eor_w_reg buf dst lhs rhs = z_aarch64_append_u32 buf (0x4a000000 OR push_bit 16 (rhs AND 31) OR push_bit 5 (lhs AND 31) OR (dst AND 31))"

definition z_aarch64_emit_eor_x_reg :: "ZBuf \<Rightarrow> u32 \<Rightarrow> u32 \<Rightarrow> u32 \<Rightarrow> ZBuf option" where
  "z_aarch64_emit_eor_x_reg buf dst lhs rhs = z_aarch64_append_u32 buf (0xca000000 OR push_bit 16 (rhs AND 31) OR push_bit 5 (lhs AND 31) OR (dst AND 31))"

definition z_aarch64_emit_lsl_w_reg :: "ZBuf \<Rightarrow> u32 \<Rightarrow> u32 \<Rightarrow> u32 \<Rightarrow> ZBuf option" where
  "z_aarch64_emit_lsl_w_reg buf dst lhs rhs = z_aarch64_append_u32 buf (0x1ac02000 OR push_bit 16 (rhs AND 31) OR push_bit 5 (lhs AND 31) OR (dst AND 31))"

definition z_aarch64_emit_lsl_x_reg :: "ZBuf \<Rightarrow> u32 \<Rightarrow> u32 \<Rightarrow> u32 \<Rightarrow> ZBuf option" where
  "z_aarch64_emit_lsl_x_reg buf dst lhs rhs = z_aarch64_append_u32 buf (0x9ac02000 OR push_bit 16 (rhs AND 31) OR push_bit 5 (lhs AND 31) OR (dst AND 31))"

definition z_aarch64_emit_lsr_w_reg :: "ZBuf \<Rightarrow> u32 \<Rightarrow> u32 \<Rightarrow> u32 \<Rightarrow> ZBuf option" where
  "z_aarch64_emit_lsr_w_reg buf dst lhs rhs = z_aarch64_append_u32 buf (0x1ac02400 OR push_bit 16 (rhs AND 31) OR push_bit 5 (lhs AND 31) OR (dst AND 31))"

definition z_aarch64_emit_lsr_x_reg :: "ZBuf \<Rightarrow> u32 \<Rightarrow> u32 \<Rightarrow> u32 \<Rightarrow> ZBuf option" where
  "z_aarch64_emit_lsr_x_reg buf dst lhs rhs = z_aarch64_append_u32 buf (0x9ac02400 OR push_bit 16 (rhs AND 31) OR push_bit 5 (lhs AND 31) OR (dst AND 31))"

definition z_aarch64_emit_ror_w_reg :: "ZBuf \<Rightarrow> u32 \<Rightarrow> u32 \<Rightarrow> u32 \<Rightarrow> ZBuf option" where
  "z_aarch64_emit_ror_w_reg buf dst lhs rhs = z_aarch64_append_u32 buf (0x1ac02c00 OR push_bit 16 (rhs AND 31) OR push_bit 5 (lhs AND 31) OR (dst AND 31))"

definition z_aarch64_emit_ror_x_reg :: "ZBuf \<Rightarrow> u32 \<Rightarrow> u32 \<Rightarrow> u32 \<Rightarrow> ZBuf option" where
  "z_aarch64_emit_ror_x_reg buf dst lhs rhs = z_aarch64_append_u32 buf (0x9ac02c00 OR push_bit 16 (rhs AND 31) OR push_bit 5 (lhs AND 31) OR (dst AND 31))"

definition z_aarch64_emit_cmp_w :: "ZBuf \<Rightarrow> u32 \<Rightarrow> u32 \<Rightarrow> ZBuf option" where
  "z_aarch64_emit_cmp_w buf lhs rhs = z_aarch64_append_u32 buf (0x6b00001f OR push_bit 16 (rhs AND 31) OR push_bit 5 (lhs AND 31))"

definition z_aarch64_emit_cmp_x :: "ZBuf \<Rightarrow> u32 \<Rightarrow> u32 \<Rightarrow> ZBuf option" where
  "z_aarch64_emit_cmp_x buf lhs rhs = z_aarch64_append_u32 buf (0xeb00001f OR push_bit 16 (rhs AND 31) OR push_bit 5 (lhs AND 31))"

definition z_aarch64_emit_ldr_x_literal8 :: "ZBuf \<Rightarrow> u32 \<Rightarrow> ZBuf option" where
  "z_aarch64_emit_ldr_x_literal8 buf reg = z_aarch64_append_u32 buf (0x58000000 OR push_bit 5 2 OR (reg AND 31))"

definition z_aarch64_emit_b_offset_words :: "ZBuf \<Rightarrow> u32 \<Rightarrow> ZBuf option" where
  "z_aarch64_emit_b_offset_words buf words = z_aarch64_append_u32 buf (0x14000000 OR (words AND 0x03ffffff))"

definition z_aarch64_emit_literal_return :: "ZBuf \<Rightarrow> u32 \<Rightarrow> ZBuf option" where
  "z_aarch64_emit_literal_return buf literal =
     do { buf \<leftarrow> z_aarch64_emit_movz_w buf 0 literal; z_aarch64_emit_ret buf }"

definition z_aarch64_emit_div_reg :: "ZBuf \<Rightarrow> u32 \<Rightarrow> u32 \<Rightarrow> u32 \<Rightarrow> bool \<Rightarrow> bool \<Rightarrow> ZBuf option" where
  "z_aarch64_emit_div_reg buf dst lhs rhs is_unsigned wide =
     (let sf = (if wide then 0x80000000 else 0)
      in z_aarch64_append_u32 buf (sf OR (if is_unsigned then 0x1ac00800 else 0x1ac00c00)
           OR push_bit 16 (rhs AND 31) OR push_bit 5 (lhs AND 31) OR (dst AND 31)))"

definition z_aarch64_emit_msub_reg :: "ZBuf \<Rightarrow> u32 \<Rightarrow> u32 \<Rightarrow> u32 \<Rightarrow> u32 \<Rightarrow> bool \<Rightarrow> ZBuf option" where
  "z_aarch64_emit_msub_reg buf dst lhs rhs acc wide =
     (let sf = (if wide then 0x80000000 else 0)
      in z_aarch64_append_u32 buf (sf OR 0x1b008000 OR push_bit 16 (rhs AND 31) OR push_bit 10 (acc AND 31)
           OR push_bit 5 (lhs AND 31) OR (dst AND 31)))"

section \<open>Placeholders and patches\<close>

definition z_aarch64_emit_adrp_add_placeholder :: "ZBuf \<Rightarrow> u32 \<Rightarrow> ZBuf option" where
  "z_aarch64_emit_adrp_add_placeholder buf reg =
     do { buf \<leftarrow> z_aarch64_append_u32 buf (0x90000000 OR (reg AND 31));
          z_aarch64_append_u32 buf (0x91000000 OR push_bit 5 (reg AND 31) OR (reg AND 31)) }"

text \<open>A placeholder returns the offset of the word it wrote.\<close>

definition z_aarch64_emit_bl_placeholder :: "ZBuf \<Rightarrow> (ZBuf \<times> nat) option" where
  "z_aarch64_emit_bl_placeholder buf =
     (let patch = length (zdata buf)
      in do { buf \<leftarrow> z_aarch64_append_u32 buf 0x94000000; Some (buf, patch) })"

definition z_aarch64_emit_b_placeholder :: "ZBuf \<Rightarrow> (ZBuf \<times> nat) option" where
  "z_aarch64_emit_b_placeholder buf =
     (let patch = length (zdata buf)
      in do { buf \<leftarrow> z_aarch64_append_u32 buf 0x14000000; Some (buf, patch) })"

definition z_aarch64_emit_b_cond_placeholder :: "ZBuf \<Rightarrow> u32 \<Rightarrow> (ZBuf \<times> nat) option" where
  "z_aarch64_emit_b_cond_placeholder buf cond =
     (let patch = length (zdata buf)
      in do { buf \<leftarrow> z_aarch64_append_u32 buf (0x54000000 OR (cond AND 15)); Some (buf, patch) })"

definition z_aarch64_emit_cbz_w_placeholder :: "ZBuf \<Rightarrow> u32 \<Rightarrow> (ZBuf \<times> nat) option" where
  "z_aarch64_emit_cbz_w_placeholder buf reg =
     (let patch = length (zdata buf)
      in do { buf \<leftarrow> z_aarch64_append_u32 buf (0x34000000 OR (reg AND 31)); Some (buf, patch) })"

text \<open>
  The patch functions read the word at the offset first, so like the stores a read past the
  written bytes is \<open>None\<close>. Offsets are below \<open>2 ^ 63\<close>, so \<open>delta\<close> is exact; \<open>words\<close> is C's
  division, which truncates toward zero.
\<close>

definition word_at :: "ZBuf \<Rightarrow> nat \<Rightarrow> u32 option" where
  "word_at buf off = (if off + 4 \<le> length (zdata buf) then Some (read32 (zdata buf) off) else None)"

definition c_div :: "int \<Rightarrow> int \<Rightarrow> int" where
  "c_div a b = (if a < 0 then - ((- a) div b) else a div b)"

definition z_aarch64_patch_branch26 :: "ZBuf \<Rightarrow> nat \<Rightarrow> nat \<Rightarrow> ZBuf option" where
  "z_aarch64_patch_branch26 buf patch_offset target_offset =
     do { old_instr \<leftarrow> word_at buf patch_offset;
          let delta = int target_offset - int patch_offset;
          let words = c_div delta 4;
          z_aarch64_patch_u32 buf patch_offset
            ((old_instr AND 0xfc000000) OR (word_of_int words AND 0x03ffffff)) }"

definition z_aarch64_patch_cond19 :: "ZBuf \<Rightarrow> nat \<Rightarrow> nat \<Rightarrow> ZBuf option" where
  "z_aarch64_patch_cond19 buf patch_offset target_offset =
     do { instr \<leftarrow> word_at buf patch_offset;
          let delta = int target_offset - int patch_offset;
          let words = c_div delta 4;
          z_aarch64_patch_u32 buf patch_offset
            ((instr AND 0xff00001f) OR push_bit 5 (word_of_int words AND 0x7ffff)) }"

definition z_aarch64_patch_adrp_add :: "ZBuf \<Rightarrow> nat \<Rightarrow> u64 \<Rightarrow> u64 \<Rightarrow> ZBuf option" where
  "z_aarch64_patch_adrp_add buf patch_offset instr_addr target_addr =
     do { adrp \<leftarrow> word_at buf patch_offset;
          let reg = adrp AND 31;
          let instr_page = sint (instr_addr AND NOT 0xfff);
          let target_page = sint (target_addr AND NOT 0xfff);
          let pages = c_div (target_page - instr_page) 4096;
          let immlo = word_of_int pages AND 0x3;
          let immhi = drop_bit 2 (word_of_int pages) AND 0x7ffff;
          let patched_adrp = 0x90000000 OR push_bit 29 immlo OR push_bit 5 immhi OR reg;
          let pageoff = (ucast (target_addr AND 0xfff) :: u32);
          let patched_add = 0x91000000 OR push_bit 10 (pageoff AND 0xfff) OR push_bit 5 reg OR reg;
          z_aarch64_patch_u64 buf patch_offset (push_bit 32 (ucast (patched_add :: u32)) OR ucast (patched_adrp :: u32)) }"

section \<open>The encoder writes through the byte sink\<close>

interpretation a64_sink: byte_sink z_aarch64_append_u8
  by unfold_locales (simp add: z_aarch64_append_u8_def ucast_low_byte emits_append_char)

lemma a64_append_u32 [emits_intros]: "emits (\<lambda>b. z_aarch64_append_u32 b v) (le32 v)"
  using a64_sink.put32_emits [of v] by (simp add: z_aarch64_append_u32_def)

lemma a64_append_u64 [emits_intros]: "emits (\<lambda>b. z_aarch64_append_u64 b v) (le64 v)"
  unfolding z_aarch64_append_u64_def le64_def by (intro emits_intros)

end
