(* ===== verification/BitFields.thy ===== *)
theory BitFields
  imports Prelude
begin

text \<open>
  Bit fields of a 32-bit value: \<open>fld lo n w\<close> is the field of \<open>n\<close> bits from bit \<open>lo\<close> up. The rules of
  the collection \<open>bit_fields\<close> read every field of a word put together from constants and masked,
  shifted operands, which is how both encoders build instruction words and ModRM bytes.
\<close>

section \<open>Fields of an instruction word\<close>

definition fld :: "nat \<Rightarrow> nat \<Rightarrow> u32 \<Rightarrow> u32" where
  "fld lo n w = drop_bit lo w AND mask n"

lemma fld_or [bit_fields]: "fld lo n (a OR b) = fld lo n a OR fld lo n b"
  by (simp add: fld_def bit.conj_disj_distrib2)

lemma fld_below [bit_fields]: "lo + n \<le> k \<Longrightarrow> fld lo n (push_bit k y) = 0"
  by (rule bit_word_eqI) (auto simp: fld_def bit_simps)

text \<open>An operand masked to \<open>m\<close> bits, shifted to its place, read where it is and elsewhere.\<close>

lemma fld_operand:
  assumes "M = mask m"
  shows "k + m \<le> 32 \<Longrightarrow> fld k m (push_bit k (x AND M)) = x AND M"
    and "fld 0 m (x AND M) = x AND M"
    and "k + m \<le> lo \<Longrightarrow> fld lo n (push_bit k (x AND M)) = 0"
    and "m \<le> lo \<Longrightarrow> fld lo n (x AND M) = 0"
  unfolding assms by (rule bit_word_eqI; auto simp: fld_def bit_simps)+

lemma masks:
  "(3 :: u32) = mask 2" "(7 :: u32) = mask 3" "(15 :: u32) = mask 4" "(31 :: u32) = mask 5" "(0x3f :: u32) = mask 6"
  "(0xfff :: u32) = mask 12" "(0xffff :: u32) = mask 16" "(0x7ffff :: u32) = mask 19" "(0x03ffffff :: u32) = mask 26"
  by (simp_all add: mask_eq_exp_minus_1)

lemmas fld_operands [bit_fields] =
  masks [THEN fld_operand(1)] masks [THEN fld_operand(2)] masks [THEN fld_operand(3)] masks [THEN fld_operand(4)]

lemma fld_num [bit_fields]: "fld lo n (numeral k) = drop_bit lo (numeral k) AND (2 ^ n - 1)"
  by (simp add: fld_def mask_eq_exp_minus_1)

lemma fld_0 [bit_fields]: "fld lo n 0 = 0"
  by (simp add: fld_def)

lemma fld_1 [bit_fields]: "fld lo n 1 = (if lo = 0 \<and> n \<noteq> 0 then 1 else 0)"
  by (rule bit_word_eqI) (auto simp: fld_def bit_simps)

text \<open>A byte is the low field of the value it was cut from.\<close>

lemma fld_byte [bit_fields]: "lo + n \<le> 8 \<Longrightarrow> fld lo n (ucast (ucast w :: u8)) = fld lo n w"
  by (rule bit_word_eqI) (auto simp: fld_def bit_simps)

end
