(* ===== verification/A64Decode.thy ===== *)
theory A64Decode
  imports Aarch64 BitFields
begin

text \<open>
  The A64 instructions the encoder writes, as the Arm architecture reference manual lays out their
  fields, and a decoder for them. The encoder is right when each emitter appends the four bytes of
  a word that decodes to the instruction its name promises, for every value of its arguments.
\<close>

section \<open>Instructions\<close>

text \<open>The first argument of the register forms says whether the 64-bit registers are used.\<close>

datatype (plugins only: size) a64 =
    RET u32
  | NOP
  | BRK u32
  | SVC u32
  | MOVZ bool u32 u32 u32
  | MOVK bool u32 u32 u32
  | ADDI bool u32 u32 u32
  | SUBI bool u32 u32 u32
  | ADDR bool u32 u32 u32 u32
  | SUBR bool u32 u32 u32 u32
  | SUBSR bool u32 u32 u32 u32
  | ORRR bool u32 u32 u32 u32
  | EORR bool u32 u32 u32 u32
  | UBFM bool u32 u32 u32 u32
  | SBFM bool u32 u32 u32 u32
  | UDIV bool u32 u32 u32
  | SDIV bool u32 u32 u32
  | LSLV bool u32 u32 u32
  | LSRV bool u32 u32 u32
  | RORV bool u32 u32 u32
  | MADD bool u32 u32 u32 u32
  | MSUB bool u32 u32 u32 u32
  | LDRU u32 u32 u32 u32
  | STRU u32 u32 u32 u32
  | LDRL u32 u32
  | STP_pre u32 u32 u32 u32
  | LDP_post u32 u32 u32 u32
  | ADRP u32 u32 u32
  | B u32
  | BL u32
  | BCOND u32 u32
  | CBZ u32 u32

text \<open>The four groups of the encoding table, by bits 25 to 28.\<close>

definition decode_imm :: "u32 \<Rightarrow> a64 option" where
  "decode_imm w =
     (let rd = fld 0 5 w; rn = fld 5 5 w; wide = (fld 31 1 w = 1); op8 = fld 23 8 w
      in if wide \<and> fld 24 2 w = 0 then Some (ADRP rd (fld 5 19 w) (fld 29 2 w))
         else if op8 = 0xa5 then Some (MOVZ wide (fld 21 2 w) (fld 5 16 w) rd)
         else if op8 = 0xe5 then Some (MOVK wide (fld 21 2 w) (fld 5 16 w) rd)
         else if op8 = 0x22 \<and> fld 22 1 w = 0 then Some (ADDI wide rd rn (fld 10 12 w))
         else if op8 = 0xa2 \<and> fld 22 1 w = 0 then Some (SUBI wide rd rn (fld 10 12 w))
         else if op8 = 0xa6 then Some (UBFM wide rd rn (fld 16 6 w) (fld 10 6 w))
         else if op8 = 0x26 then Some (SBFM wide rd rn (fld 16 6 w) (fld 10 6 w))
         else None)"

definition decode_branch :: "u32 \<Rightarrow> a64 option" where
  "decode_branch w =
     (let rd = fld 0 5 w
      in if fld 29 3 w = 0 then Some (B (fld 0 26 w))
         else if fld 29 3 w = 4 then Some (BL (fld 0 26 w))
         else if fld 24 8 w = 0x54 \<and> fld 4 1 w = 0 then Some (BCOND (fld 0 4 w) (fld 5 19 w))
         else if fld 24 8 w = 0x34 then Some (CBZ rd (fld 5 19 w))
         else if fld 24 8 w = 0xd6 \<and> fld 10 14 w = 0x17c0 \<and> rd = 0 then Some (RET (fld 5 5 w))
         else if fld 24 8 w = 0xd5 \<and> fld 0 24 w = 0x03201f then Some NOP
         else if fld 24 8 w = 0xd4 \<and> fld 21 3 w = 0 \<and> rd = 1 then Some (SVC (fld 5 16 w))
         else if fld 24 8 w = 0xd4 \<and> fld 21 3 w = 1 \<and> rd = 0 then Some (BRK (fld 5 16 w))
         else None)"

definition decode_ldst :: "u32 \<Rightarrow> a64 option" where
  "decode_ldst w =
     (let rd = fld 0 5 w; rn = fld 5 5 w; ra = fld 10 5 w
      in if fld 24 8 w = 0x58 then Some (LDRL rd (fld 5 19 w))
         else if fld 24 6 w = 0x39 \<and> fld 22 2 w = 1 then Some (LDRU (fld 30 2 w) rd rn (fld 10 12 w))
         else if fld 24 6 w = 0x39 \<and> fld 22 2 w = 0 then Some (STRU (fld 30 2 w) rd rn (fld 10 12 w))
         else if fld 22 10 w = 0x2a6 then Some (STP_pre rd ra rn (fld 15 7 w))
         else if fld 22 10 w = 0x2a3 then Some (LDP_post rd ra rn (fld 15 7 w))
         else None)"

definition decode_reg :: "u32 \<Rightarrow> a64 option" where
  "decode_reg w =
     (let rd = fld 0 5 w; rn = fld 5 5 w; ra = fld 10 5 w; rm = fld 16 5 w;
          wide = (fld 31 1 w = 1); op7 = fld 24 7 w; dp = fld 21 10 w; sub = fld 10 6 w
      in if op7 = 0x0b \<and> fld 21 3 w = 0 then Some (ADDR wide rd rn rm sub)
         else if op7 = 0x4b \<and> fld 21 3 w = 0 then Some (SUBR wide rd rn rm sub)
         else if op7 = 0x6b \<and> fld 21 3 w = 0 then Some (SUBSR wide rd rn rm sub)
         else if op7 = 0x2a \<and> fld 21 3 w = 0 then Some (ORRR wide rd rn rm sub)
         else if op7 = 0x4a \<and> fld 21 3 w = 0 then Some (EORR wide rd rn rm sub)
         else if dp = 0x0d8 \<and> fld 15 1 w = 0 then Some (MADD wide rd rn rm ra)
         else if dp = 0x0d8 \<and> fld 15 1 w = 1 then Some (MSUB wide rd rn rm ra)
         else if dp = 0x0d6 \<and> sub = 2 then Some (UDIV wide rd rn rm)
         else if dp = 0x0d6 \<and> sub = 3 then Some (SDIV wide rd rn rm)
         else if dp = 0x0d6 \<and> sub = 8 then Some (LSLV wide rd rn rm)
         else if dp = 0x0d6 \<and> sub = 9 then Some (LSRV wide rd rn rm)
         else if dp = 0x0d6 \<and> sub = 11 then Some (RORV wide rd rn rm)
         else None)"

definition decode_a64 :: "u32 \<Rightarrow> a64 option" where
  "decode_a64 w =
     (if fld 26 3 w = 4 then decode_imm w
      else if fld 26 3 w = 5 then decode_branch w
      else if fld 27 1 w = 1 \<and> fld 25 1 w = 0 then decode_ldst w
      else if fld 27 1 w = 1 \<and> fld 25 1 w = 1 then decode_reg w
      else None)"

text \<open>What an emitter that writes one instruction does.\<close>

definition emits_a64 :: "(ZBuf \<Rightarrow> ZBuf option) \<Rightarrow> a64 \<Rightarrow> bool" where
  "emits_a64 f i \<longleftrightarrow> (\<exists>w. emits f (le32 w) \<and> decode_a64 w = Some i)"

lemma emits_a64I: "(\<And>b. f b = z_aarch64_append_u32 b w) \<Longrightarrow> decode_a64 w = Some i \<Longrightarrow> emits_a64 f i"
  unfolding emits_a64_def using a64_append_u32 [of w] by (metis (no_types, lifting) ext)

lemmas decode_simps = decode_a64_def decode_imm_def decode_branch_def decode_ldst_def decode_reg_def Let_def bit_fields

lemma a64_add_w_reg: "emits_a64 (\<lambda>b. z_aarch64_emit_add_w_reg b dst lhs rhs) (ADDR False (dst AND 31) (lhs AND 31) (rhs AND 31) 0)"
  by (rule emits_a64I, rule z_aarch64_emit_add_w_reg_def, simp add: decode_simps del: push_bit_and)

lemma a64_add_x_reg: "emits_a64 (\<lambda>b. z_aarch64_emit_add_x_reg b dst lhs rhs) (ADDR True (dst AND 31) (lhs AND 31) (rhs AND 31) 0)"
  by (rule emits_a64I, rule z_aarch64_emit_add_x_reg_def, simp add: decode_simps del: push_bit_and)

lemma a64_sub_w_reg: "emits_a64 (\<lambda>b. z_aarch64_emit_sub_w_reg b dst lhs rhs) (SUBR False (dst AND 31) (lhs AND 31) (rhs AND 31) 0)"
  by (rule emits_a64I, rule z_aarch64_emit_sub_w_reg_def, simp add: decode_simps del: push_bit_and)

lemma a64_sub_x_reg: "emits_a64 (\<lambda>b. z_aarch64_emit_sub_x_reg b dst lhs rhs) (SUBR True (dst AND 31) (lhs AND 31) (rhs AND 31) 0)"
  by (rule emits_a64I, rule z_aarch64_emit_sub_x_reg_def, simp add: decode_simps del: push_bit_and)

lemma a64_eor_w_reg: "emits_a64 (\<lambda>b. z_aarch64_emit_eor_w_reg b dst lhs rhs) (EORR False (dst AND 31) (lhs AND 31) (rhs AND 31) 0)"
  by (rule emits_a64I, rule z_aarch64_emit_eor_w_reg_def, simp add: decode_simps del: push_bit_and)

lemma a64_eor_x_reg: "emits_a64 (\<lambda>b. z_aarch64_emit_eor_x_reg b dst lhs rhs) (EORR True (dst AND 31) (lhs AND 31) (rhs AND 31) 0)"
  by (rule emits_a64I, rule z_aarch64_emit_eor_x_reg_def, simp add: decode_simps del: push_bit_and)

lemma a64_add_x_reg_lsl: "emits_a64 (\<lambda>b. z_aarch64_emit_add_x_reg_lsl b dst lhs rhs shift) (ADDR True (dst AND 31) (lhs AND 31) (rhs AND 31) (shift AND 0x3f))"
  by (rule emits_a64I, rule z_aarch64_emit_add_x_reg_lsl_def, simp add: decode_simps del: push_bit_and)

lemma a64_lsl_w_reg: "emits_a64 (\<lambda>b. z_aarch64_emit_lsl_w_reg b dst lhs rhs) (LSLV False (dst AND 31) (lhs AND 31) (rhs AND 31))"
  by (rule emits_a64I, rule z_aarch64_emit_lsl_w_reg_def, simp add: decode_simps del: push_bit_and)

lemma a64_lsl_x_reg: "emits_a64 (\<lambda>b. z_aarch64_emit_lsl_x_reg b dst lhs rhs) (LSLV True (dst AND 31) (lhs AND 31) (rhs AND 31))"
  by (rule emits_a64I, rule z_aarch64_emit_lsl_x_reg_def, simp add: decode_simps del: push_bit_and)

lemma a64_lsr_w_reg: "emits_a64 (\<lambda>b. z_aarch64_emit_lsr_w_reg b dst lhs rhs) (LSRV False (dst AND 31) (lhs AND 31) (rhs AND 31))"
  by (rule emits_a64I, rule z_aarch64_emit_lsr_w_reg_def, simp add: decode_simps del: push_bit_and)

lemma a64_lsr_x_reg: "emits_a64 (\<lambda>b. z_aarch64_emit_lsr_x_reg b dst lhs rhs) (LSRV True (dst AND 31) (lhs AND 31) (rhs AND 31))"
  by (rule emits_a64I, rule z_aarch64_emit_lsr_x_reg_def, simp add: decode_simps del: push_bit_and)

lemma a64_ror_w_reg: "emits_a64 (\<lambda>b. z_aarch64_emit_ror_w_reg b dst lhs rhs) (RORV False (dst AND 31) (lhs AND 31) (rhs AND 31))"
  by (rule emits_a64I, rule z_aarch64_emit_ror_w_reg_def, simp add: decode_simps del: push_bit_and)

lemma a64_ror_x_reg: "emits_a64 (\<lambda>b. z_aarch64_emit_ror_x_reg b dst lhs rhs) (RORV True (dst AND 31) (lhs AND 31) (rhs AND 31))"
  by (rule emits_a64I, rule z_aarch64_emit_ror_x_reg_def, simp add: decode_simps del: push_bit_and)

lemma a64_mul_w_reg: "emits_a64 (\<lambda>b. z_aarch64_emit_mul_w_reg b dst lhs rhs) (MADD False (dst AND 31) (lhs AND 31) (rhs AND 31) 31)"
  by (rule emits_a64I, rule z_aarch64_emit_mul_w_reg_def, simp add: decode_simps del: push_bit_and)

lemma a64_mul_x_reg: "emits_a64 (\<lambda>b. z_aarch64_emit_mul_x_reg b dst lhs rhs) (MADD True (dst AND 31) (lhs AND 31) (rhs AND 31) 31)"
  by (rule emits_a64I, rule z_aarch64_emit_mul_x_reg_def, simp add: decode_simps del: push_bit_and)

lemma a64_msub_reg: "emits_a64 (\<lambda>b. z_aarch64_emit_msub_reg b dst lhs rhs acc wide) (MSUB wide (dst AND 31) (lhs AND 31) (rhs AND 31) (acc AND 31))"
  unfolding z_aarch64_emit_msub_reg_def Let_def
  by (cases wide; rule emits_a64I; (rule refl)?; simp add: decode_simps del: push_bit_and)

lemma a64_div_reg: "emits_a64 (\<lambda>b. z_aarch64_emit_div_reg b dst lhs rhs uns wide) ((if uns then UDIV wide (dst AND 31) (lhs AND 31) (rhs AND 31) else SDIV wide (dst AND 31) (lhs AND 31) (rhs AND 31)))"
  unfolding z_aarch64_emit_div_reg_def Let_def
  by (cases wide; cases uns; rule emits_a64I; (rule refl)?; simp add: decode_simps del: push_bit_and)

lemma a64_cmp_w: "emits_a64 (\<lambda>b. z_aarch64_emit_cmp_w b lhs rhs) (SUBSR False 31 (lhs AND 31) (rhs AND 31) 0)"
  by (rule emits_a64I, rule z_aarch64_emit_cmp_w_def, simp add: decode_simps del: push_bit_and)

lemma a64_cmp_x: "emits_a64 (\<lambda>b. z_aarch64_emit_cmp_x b lhs rhs) (SUBSR True 31 (lhs AND 31) (rhs AND 31) 0)"
  by (rule emits_a64I, rule z_aarch64_emit_cmp_x_def, simp add: decode_simps del: push_bit_and)

lemma a64_mov_w: "emits_a64 (\<lambda>b. z_aarch64_emit_mov_w b dst src) (ORRR False (dst AND 31) 31 (src AND 31) 0)"
  by (rule emits_a64I, rule z_aarch64_emit_mov_w_def, simp add: decode_simps del: push_bit_and)

lemma a64_mov_x: "emits_a64 (\<lambda>b. z_aarch64_emit_mov_x b dst src) (ORRR True (dst AND 31) 31 (src AND 31) 0)"
  by (rule emits_a64I, rule z_aarch64_emit_mov_x_def, simp add: decode_simps del: push_bit_and)

lemma a64_add_sp_imm: "emits_a64 (\<lambda>b. z_aarch64_emit_add_sp_imm b imm) (ADDI True 31 31 (imm AND 0xfff))"
  by (rule emits_a64I, rule z_aarch64_emit_add_sp_imm_def, simp add: decode_simps del: push_bit_and)

lemma a64_sub_sp_imm: "emits_a64 (\<lambda>b. z_aarch64_emit_sub_sp_imm b imm) (SUBI True 31 31 (imm AND 0xfff))"
  by (rule emits_a64I, rule z_aarch64_emit_sub_sp_imm_def, simp add: decode_simps del: push_bit_and)

lemma a64_add_x_sp_imm: "emits_a64 (\<lambda>b. z_aarch64_emit_add_x_sp_imm b dst imm) (ADDI True (dst AND 31) 31 (imm AND 0xfff))"
  by (rule emits_a64I, rule z_aarch64_emit_add_x_sp_imm_def, simp add: decode_simps del: push_bit_and)

lemma a64_add_x_imm: "emits_a64 (\<lambda>b. z_aarch64_emit_add_x_imm b dst src imm) (ADDI True (dst AND 31) (src AND 31) (imm AND 0xfff))"
  by (rule emits_a64I, rule z_aarch64_emit_add_x_imm_def, simp add: decode_simps del: push_bit_and)

lemma a64_add_w_imm: "emits_a64 (\<lambda>b. z_aarch64_emit_add_w_imm b dst src imm) (ADDI False (dst AND 31) (src AND 31) (imm AND 0xfff))"
  by (rule emits_a64I, rule z_aarch64_emit_add_w_imm_def, simp add: decode_simps del: push_bit_and)

lemma a64_sub_w_imm: "emits_a64 (\<lambda>b. z_aarch64_emit_sub_w_imm b dst src imm) (SUBI False (dst AND 31) (src AND 31) (imm AND 0xfff))"
  by (rule emits_a64I, rule z_aarch64_emit_sub_w_imm_def, simp add: decode_simps del: push_bit_and)

lemma a64_mov_x29_sp: "emits_a64 (\<lambda>b. z_aarch64_emit_mov_x29_sp b) (ADDI True 29 31 0)"
  by (rule emits_a64I, rule z_aarch64_emit_mov_x29_sp_def, simp add: decode_simps del: push_bit_and)

lemma a64_uxtb_w: "emits_a64 (\<lambda>b. z_aarch64_emit_uxtb_w b dst src) (UBFM False (dst AND 31) (src AND 31) 0 7)"
  by (rule emits_a64I, rule z_aarch64_emit_uxtb_w_def, simp add: decode_simps del: push_bit_and)

lemma a64_uxth_w: "emits_a64 (\<lambda>b. z_aarch64_emit_uxth_w b dst src) (UBFM False (dst AND 31) (src AND 31) 0 15)"
  by (rule emits_a64I, rule z_aarch64_emit_uxth_w_def, simp add: decode_simps del: push_bit_and)

lemma a64_sxtw_x: "emits_a64 (\<lambda>b. z_aarch64_emit_sxtw_x b dst src) (SBFM True (dst AND 31) (src AND 31) 0 31)"
  by (rule emits_a64I, rule z_aarch64_emit_sxtw_x_def, simp add: decode_simps del: push_bit_and)

lemma a64_ret: "emits_a64 (\<lambda>b. z_aarch64_emit_ret b) (RET 30)"
  by (rule emits_a64I, rule z_aarch64_emit_ret_def, simp add: decode_simps del: push_bit_and)

lemma a64_nop: "emits_a64 (\<lambda>b. z_aarch64_emit_nop b) (NOP)"
  by (rule emits_a64I, rule z_aarch64_emit_nop_def, simp add: decode_simps del: push_bit_and)

lemma a64_brk: "emits_a64 (\<lambda>b. z_aarch64_emit_brk b) (BRK 0)"
  by (rule emits_a64I, rule z_aarch64_emit_brk_def, simp add: decode_simps del: push_bit_and)

lemma a64_svc: "emits_a64 (\<lambda>b. z_aarch64_emit_svc b imm) (SVC (imm AND 0xffff))"
  by (rule emits_a64I, rule z_aarch64_emit_svc_def, simp add: decode_simps del: push_bit_and)

lemma a64_load_w_imm: "emits_a64 (\<lambda>b. z_aarch64_emit_load_w_imm b dst base off) (LDRU 2 (dst AND 31) (base AND 31) (off div 4 AND 0xfff))"
  by (rule emits_a64I, rule z_aarch64_emit_load_w_imm_def, simp add: decode_simps del: push_bit_and)

lemma a64_load_x_imm: "emits_a64 (\<lambda>b. z_aarch64_emit_load_x_imm b dst base off) (LDRU 3 (dst AND 31) (base AND 31) (off div 8 AND 0xfff))"
  by (rule emits_a64I, rule z_aarch64_emit_load_x_imm_def, simp add: decode_simps del: push_bit_and)

lemma a64_load_b_imm: "emits_a64 (\<lambda>b. z_aarch64_emit_load_b_imm b dst base off) (LDRU 0 (dst AND 31) (base AND 31) (off AND 0xfff))"
  by (rule emits_a64I, rule z_aarch64_emit_load_b_imm_def, simp add: decode_simps del: push_bit_and)

lemma a64_store_w_imm: "emits_a64 (\<lambda>b. z_aarch64_emit_store_w_imm b src base off) (STRU 2 (src AND 31) (base AND 31) (off div 4 AND 0xfff))"
  by (rule emits_a64I, rule z_aarch64_emit_store_w_imm_def, simp add: decode_simps del: push_bit_and)

lemma a64_store_b_imm: "emits_a64 (\<lambda>b. z_aarch64_emit_store_b_imm b src base off) (STRU 0 (src AND 31) (base AND 31) (off AND 0xfff))"
  by (rule emits_a64I, rule z_aarch64_emit_store_b_imm_def, simp add: decode_simps del: push_bit_and)

lemma a64_load_b_sp: "emits_a64 (\<lambda>b. z_aarch64_emit_load_b_sp b dst off) (LDRU 0 (dst AND 31) 31 (off AND 0xfff))"
  by (rule emits_a64I, rule z_aarch64_emit_load_b_sp_def, simp add: decode_simps del: push_bit_and)

lemma a64_store_b_sp: "emits_a64 (\<lambda>b. z_aarch64_emit_store_b_sp b src off) (STRU 0 (src AND 31) 31 (off AND 0xfff))"
  by (rule emits_a64I, rule z_aarch64_emit_store_b_sp_def, simp add: decode_simps del: push_bit_and)

lemma a64_stp_x20_x21_sp_pre16: "emits_a64 (\<lambda>b. z_aarch64_emit_stp_x20_x21_sp_pre16 b) (STP_pre 20 21 31 126)"
  by (rule emits_a64I, rule z_aarch64_emit_stp_x20_x21_sp_pre16_def, simp add: decode_simps del: push_bit_and)

lemma a64_stp_x29_x30_sp_pre16: "emits_a64 (\<lambda>b. z_aarch64_emit_stp_x29_x30_sp_pre16 b) (STP_pre 29 30 31 126)"
  by (rule emits_a64I, rule z_aarch64_emit_stp_x29_x30_sp_pre16_def, simp add: decode_simps del: push_bit_and)

lemma a64_ldp_x20_x21_sp_post16: "emits_a64 (\<lambda>b. z_aarch64_emit_ldp_x20_x21_sp_post16 b) (LDP_post 20 21 31 2)"
  by (rule emits_a64I, rule z_aarch64_emit_ldp_x20_x21_sp_post16_def, simp add: decode_simps del: push_bit_and)

lemma a64_ldp_x29_x30_sp_post16: "emits_a64 (\<lambda>b. z_aarch64_emit_ldp_x29_x30_sp_post16 b) (LDP_post 29 30 31 2)"
  by (rule emits_a64I, rule z_aarch64_emit_ldp_x29_x30_sp_post16_def, simp add: decode_simps del: push_bit_and)

lemma a64_ldr_x_literal8: "emits_a64 (\<lambda>b. z_aarch64_emit_ldr_x_literal8 b dst) (LDRL (dst AND 31) 2)"
  by (rule emits_a64I, rule z_aarch64_emit_ldr_x_literal8_def, simp add: decode_simps del: push_bit_and)

lemma a64_b_offset_words: "emits_a64 (\<lambda>b. z_aarch64_emit_b_offset_words b words) (B (words AND 0x03ffffff))"
  by (rule emits_a64I, rule z_aarch64_emit_b_offset_words_def, simp add: decode_simps del: push_bit_and)

end
