(* ===== verification/A64Props.thy ===== *)
theory A64Props
  imports A64Decode
begin

text \<open>
  The properties of the AArch64 encoder: every one-word emitter writes the instruction it is named
  after; the literal loads leave the literal in the register; patching a branch or an address pair
  makes it reach its target.
\<close>

section \<open>One-word instructions\<close>






section \<open>Literals\<close>

text \<open>What the moves do to the general registers; register 31 is the zero register there.\<close>

definition set_field :: "nat \<Rightarrow> u64 \<Rightarrow> u32 \<Rightarrow> u64" where
  "set_field s old imm = (old AND NOT (push_bit s (mask 16))) OR push_bit s (ucast imm AND mask 16)"

fun mov_step :: "a64 \<Rightarrow> (u32 \<Rightarrow> u64) \<Rightarrow> (u32 \<Rightarrow> u64) option" where
  "mov_step (MOVZ wide hw imm rd) regs =
     (if rd = 31 then Some regs else if \<not> wide \<and> hw > 1 then None
      else Some (regs(rd := set_field (16 * unat hw) 0 imm)))"
| "mov_step (MOVK wide hw imm rd) regs =
     (if rd = 31 then Some regs else if \<not> wide \<and> hw > 1 then None
      else Some (regs(rd := set_field (16 * unat hw) (if wide then regs rd else take_bit 32 (regs rd)) imm)))"
| "mov_step _ regs = None"

fun run_movs :: "u32 list \<Rightarrow> (u32 \<Rightarrow> u64) \<Rightarrow> (u32 \<Rightarrow> u64) option" where
  "run_movs [] regs = Some regs"
| "run_movs (w # ws) regs = do { i \<leftarrow> decode_a64 w; regs \<leftarrow> mov_step i regs; run_movs ws regs }"

lemma decode_movs:
  "decode_a64 (0x52800000 OR push_bit 5 (x AND 0xffff) OR (reg AND 31)) = Some (MOVZ False 0 (x AND 0xffff) (reg AND 31))"
  "decode_a64 (0x72a00000 OR push_bit 5 (x AND 0xffff) OR (reg AND 31)) = Some (MOVK False 1 (x AND 0xffff) (reg AND 31))"
  "decode_a64 (0xd2800000 OR push_bit 5 (x AND 0xffff) OR (reg AND 31)) = Some (MOVZ True 0 (x AND 0xffff) (reg AND 31))"
  "decode_a64 (0xf2a00000 OR push_bit 5 (x AND 0xffff) OR (reg AND 31)) = Some (MOVK True 1 (x AND 0xffff) (reg AND 31))"
  "decode_a64 (0xf2c00000 OR push_bit 5 (x AND 0xffff) OR (reg AND 31)) = Some (MOVK True 2 (x AND 0xffff) (reg AND 31))"
  "decode_a64 (0xf2e00000 OR push_bit 5 (x AND 0xffff) OR (reg AND 31)) = Some (MOVK True 3 (x AND 0xffff) (reg AND 31))"
  by (simp add: decode_simps del: push_bit_and)+

lemma ucast_low_half: "(ucast (y AND 0xffff :: u64) :: u32) = ucast y AND 0xffff"
proof -
  have m: "(0xffff :: u64) = mask 16" "(0xffff :: u32) = mask 16" by (simp_all add: mask_eq_exp_minus_1)
  show ?thesis unfolding m by (rule bit_word_eqI) (auto simp: bit_simps)
qed

text \<open>The words of the two literal loads.\<close>

definition movz_w_words :: "u32 \<Rightarrow> u32 \<Rightarrow> u32 list" where
  "movz_w_words reg literal = (0x52800000 OR push_bit 5 (literal AND 0xffff) OR (reg AND 31)) #
     (if literal > 0xffff then [0x72a00000 OR push_bit 5 (drop_bit 16 literal AND 0xffff) OR (reg AND 31)] else [])"

definition movz_x_words :: "u32 \<Rightarrow> u64 \<Rightarrow> u32 list" where
  "movz_x_words reg literal = (0xd2800000 OR push_bit 5 (ucast literal AND 0xffff) OR (reg AND 31)) #
     (if literal > 0xffff then [0xf2a00000 OR push_bit 5 (ucast (drop_bit 16 literal) AND 0xffff) OR (reg AND 31)] else []) @
     (if literal > 0xffffffff then [0xf2c00000 OR push_bit 5 (ucast (drop_bit 32 literal) AND 0xffff) OR (reg AND 31)] else []) @
     (if literal > 0xffffffffffff then [0xf2e00000 OR push_bit 5 (ucast (drop_bit 48 literal) AND 0xffff) OR (reg AND 31)] else [])"

lemma emits_movz_w: "emits (\<lambda>b. z_aarch64_emit_movz_w b reg literal) (concat (map le32 (movz_w_words reg literal)))"
  unfolding z_aarch64_emit_movz_w_def movz_w_words_def
  by (rule emits_eq, (rule emits_intros)+) simp

lemma emits_movz_x: "emits (\<lambda>b. z_aarch64_emit_movz_x b reg literal) (concat (map le32 (movz_x_words reg literal)))"
  unfolding z_aarch64_emit_movz_x_def movz_x_words_def ucast_low_half
  by (rule emits_eq, (rule emits_intros)+) simp

text \<open>A literal is the sum of its 16-bit fields; those above its size are zero.\<close>

definition mov_w_value :: "u32 \<Rightarrow> u64" where
  "mov_w_value lit = (let v0 = set_field 0 0 (lit AND 0xffff)
     in if lit > 0xffff then set_field 16 (take_bit 32 v0) (drop_bit 16 lit AND 0xffff) else v0)"

definition mov_x_value :: "u64 \<Rightarrow> u64" where
  "mov_x_value lit =
     (let v0 = set_field 0 0 (ucast lit AND 0xffff);
          v1 = (if lit > 0xffff then set_field 16 v0 (ucast (drop_bit 16 lit) AND 0xffff) else v0);
          v2 = (if lit > 0xffffffff then set_field 32 v1 (ucast (drop_bit 32 lit) AND 0xffff) else v1)
      in if lit > 0xffffffffffff then set_field 48 v2 (ucast (drop_bit 48 lit) AND 0xffff) else v2)"

lemma bit_set_field:
  "bit (set_field s old imm) n \<longleftrightarrow> n < 64 \<and> (if s \<le> n \<and> n < s + 16 then bit imm (n - s) else bit old n)"
  by (auto simp: set_field_def bit_simps)

lemma ffff_mask: "x AND (0xffff :: u32) = x AND mask 16"
  by (simp add: mask_eq_exp_minus_1)

lemma mov_w_value_eq: "mov_w_value lit = ucast lit"
proof (rule bit_word_eqI)
  fix n assume n: "n < LENGTH(64)"
  have "\<not> lit > 0xffff \<Longrightarrow> 16 \<le> k \<Longrightarrow> \<not> bit lit k" for k
    by (rule bit_word_small [where n = 16]) (auto simp: word_less_nat_alt)
  with n show "bit (mov_w_value lit) n = bit (ucast lit :: u64) n"
    by (cases "n < 16"; cases "n < 32") (auto simp: mov_w_value_def Let_def bit_set_field ffff_mask bit_simps dest: bit_imp_le_length)
qed

lemma mov_x_value_eq: "mov_x_value lit = lit"
proof (rule bit_word_eqI)
  fix n assume n: "n < LENGTH(64)"
  have h: "\<not> lit > 0xffff \<Longrightarrow> 16 \<le> k \<Longrightarrow> \<not> bit lit k" for k
    by (rule bit_word_small [where n = 16]) (auto simp: word_less_nat_alt)
  have h2: "\<not> lit > 0xffffffff \<Longrightarrow> 32 \<le> k \<Longrightarrow> \<not> bit lit k" for k
    by (rule bit_word_small [where n = 32]) (auto simp: word_less_nat_alt)
  have h3: "\<not> lit > 0xffffffffffff \<Longrightarrow> 48 \<le> k \<Longrightarrow> \<not> bit lit k" for k
    by (rule bit_word_small [where n = 48]) (auto simp: word_less_nat_alt)
  consider "n < 16" | "16 \<le> n" "n < 32" | "32 \<le> n" "n < 48" | "48 \<le> n" by arith
  then show "bit (mov_x_value lit) n = bit lit n"
    by cases (use n h h2 h3 in \<open>auto simp: mov_x_value_def Let_def bit_set_field ffff_mask bit_simps\<close>)
qed

text \<open>
  C30. Loading a literal: the words \<open>movz_w\<close> and \<open>movz_x\<close> append (one to four, depending on the
  size of the literal) decode to moves after which the register holds the literal, zero-extended, and
  every other register what it held.
\<close>

theorem aarch64_literal_loads:
  assumes "reg AND 31 \<noteq> 31"
  shows "(\<exists>ws. emits (\<lambda>b. z_aarch64_emit_movz_w b reg lit) (concat (map le32 ws)) \<and>
           run_movs ws regs = Some (regs(reg AND 31 := ucast lit))) \<and>
    (\<exists>ws. emits (\<lambda>b. z_aarch64_emit_movz_x b reg wide_lit) (concat (map le32 ws)) \<and>
           run_movs ws regs = Some (regs(reg AND 31 := wide_lit)))"
proof -
  have "run_movs (movz_w_words reg lit) regs = Some (regs(reg AND 31 := mov_w_value lit))"
    using assms by (simp add: movz_w_words_def mov_w_value_def Let_def decode_movs del: push_bit_and)
  moreover have "run_movs (movz_x_words reg wide_lit) regs = Some (regs(reg AND 31 := mov_x_value wide_lit))"
    using assms by (simp add: movz_x_words_def mov_x_value_def Let_def decode_movs del: push_bit_and)
  ultimately show ?thesis
    using emits_movz_w [of reg lit] emits_movz_x [of reg wide_lit] by (auto simp: mov_w_value_eq mov_x_value_eq)
qed

theorem aarch64_literal_loads_witness:
  "(\<exists>ws. emits (\<lambda>b. z_aarch64_emit_movz_x b 9 0x123456789abcdef0) (concat (map le32 ws)) \<and>
     run_movs ws (\<lambda>_. 0) = Some ((\<lambda>_. 0)(9 := 0x123456789abcdef0)))"
  using aarch64_literal_loads [of 9 0 "\<lambda>_. 0" "0x123456789abcdef0"] by simp

section \<open>Patching\<close>

lemma patch_u32_Some:
  assumes "z_aarch64_patch_u32 b off v = Some b'"
  shows "word_at b' off = Some v" "length (zdata b') = length (zdata b)"
    "j < off \<or> off + 4 \<le> j \<Longrightarrow> zdata b' ! j = zdata b ! j"
  using zbuf_patch4_Some [OF assms [unfolded z_aarch64_patch_u32_def ucast_low_byte]] by (auto simp: word_at_def)

lemma patch_u32_ex: "off + 4 \<le> length (zdata b) \<Longrightarrow> \<exists>b'. z_aarch64_patch_u32 b off v = Some b'"
  by (simp add: z_aarch64_patch_u32_def zbuf_patch4_def)

lemma word_at_bound: "word_at b off = Some w \<Longrightarrow> off + 4 \<le> length (zdata b)"
  by (simp add: word_at_def split: if_splits)

text \<open>Where a branch with a field of \<open>n\<close> bits goes: the field is a signed number of words.\<close>

definition branch_target :: "nat \<Rightarrow> nat \<Rightarrow> u32 \<Rightarrow> int" where
  "branch_target n off imm = int off + 4 * signed_take_bit (n - 1) (uint imm)"

lemma signed_field:
  assumes "0 < n" "n \<le> 32" "- (2 ^ (n - 1)) \<le> k" "k < 2 ^ (n - 1)" and m: "M = mask n"
  shows "signed_take_bit (n - 1) (uint (word_of_int k AND M :: u32)) = k"
proof -
  have "uint (word_of_int k AND M :: u32) = take_bit n k"
    using assms(2) by (simp add: m take_bit_eq_mask [symmetric] unsigned_take_bit_eq uint_word_of_int_eq min_def)
  then have "signed_take_bit (n - 1) (uint (word_of_int k AND M :: u32)) = signed_take_bit (n - 1) k"
    using assms(1) by (cases n) (simp_all add: signed_take_bit_take_bit)
  also have "\<dots> = k"
    using assms(3,4) by (intro signed_take_bit_int_eq_self) auto
  finally show ?thesis .
qed

text \<open>Which words are branches, and what the patch makes of one.\<close>

lemma fld_and_keep: "fld lo n M = mask n \<Longrightarrow> fld lo n (x AND M) = fld lo n x"
proof -
  assume "fld lo n M = mask n"
  then have "drop_bit lo M AND mask n = mask n" by (simp add: fld_def)
  then have "(drop_bit lo x AND drop_bit lo M) AND mask n = drop_bit lo x AND mask n" by (simp add: and.assoc)
  then show ?thesis by (simp add: fld_def)
qed

lemma fld_and_drop: "fld lo n M = 0 \<Longrightarrow> fld lo n (x AND M) = 0"
proof -
  assume "fld lo n M = 0"
  then have "drop_bit lo M AND mask n = 0" by (simp add: fld_def)
  then show ?thesis by (simp add: fld_def and.assoc)
qed

fun is_branch :: "a64 \<Rightarrow> bool" where
  "is_branch (B _) = True"
| "is_branch (BL _) = True"
| "is_branch (BCOND _ _) = True"
| "is_branch (CBZ _ _) = True"
| "is_branch _ = False"

lemma not_branch:
  "decode_imm w = Some x \<Longrightarrow> \<not> is_branch x"
  "decode_ldst w = Some x \<Longrightarrow> \<not> is_branch x"
  "decode_reg w = Some x \<Longrightarrow> \<not> is_branch x"
  unfolding decode_imm_def decode_ldst_def decode_reg_def Let_def
  by (auto split: if_split_asm)

lemma decode_is_branch: "is_branch x \<Longrightarrow> decode_a64 w = Some x \<longleftrightarrow> fld 26 3 w = 5 \<and> decode_branch w = Some x"
  by (auto simp: decode_a64_def dest: not_branch split: if_split_asm)

lemma decode_a64_branch:
  "decode_a64 w = Some (B i) \<longleftrightarrow> fld 26 3 w = 5 \<and> fld 29 3 w = 0 \<and> i = fld 0 26 w"
  "decode_a64 w = Some (BL i) \<longleftrightarrow> fld 26 3 w = 5 \<and> fld 29 3 w = 4 \<and> i = fld 0 26 w"
  "decode_a64 w = Some (BCOND c i) \<longleftrightarrow>
     fld 26 3 w = 5 \<and> fld 24 8 w = 0x54 \<and> fld 29 3 w \<noteq> 0 \<and> fld 29 3 w \<noteq> 4 \<and> fld 4 1 w = 0 \<and> c = fld 0 4 w \<and> i = fld 5 19 w"
  "decode_a64 w = Some (CBZ r i) \<longleftrightarrow>
     fld 26 3 w = 5 \<and> fld 24 8 w = 0x34 \<and> fld 29 3 w \<noteq> 0 \<and> fld 29 3 w \<noteq> 4 \<and> r = fld 0 5 w \<and> i = fld 5 19 w"
  by (simp_all add: decode_is_branch, auto simp: decode_branch_def Let_def)

lemma high_mask: "fld 26 3 (0xfc000000) = mask 3" "fld 29 3 (0xfc000000) = mask 3"
  "fld 26 3 0xff00001f = mask 3" "fld 29 3 0xff00001f = mask 3" "fld 24 8 0xff00001f = mask 8" "fld 4 1 0xff00001f = mask 1"
  "fld 0 4 0xff00001f = mask 4" "fld 0 5 0xff00001f = mask 5"
  by (simp_all add: fld_def mask_eq_exp_minus_1)

lemma high_mask0: "fld 0 26 (0xfc000000) = 0" "fld 5 19 0xff00001f = 0"
  by (simp_all add: fld_def mask_eq_exp_minus_1)

lemma fld4_keep: "fld 4 (Suc 0) (x AND 0xff00001f) = fld 4 (Suc 0) x"
  using fld_and_keep [OF high_mask(6), of x] by simp

lemmas patched_fields = high_mask [THEN fld_and_keep] high_mask0 [THEN fld_and_drop] fld4_keep

lemma decode_patched26:
  "decode_a64 w = Some (B i) \<Longrightarrow> decode_a64 ((w AND 0xfc000000) OR (x AND 0x03ffffff)) = Some (B (x AND 0x03ffffff))"
  "decode_a64 w = Some (BL i) \<Longrightarrow> decode_a64 ((w AND 0xfc000000) OR (x AND 0x03ffffff)) = Some (BL (x AND 0x03ffffff))"
  by (simp_all add: decode_a64_branch patched_fields bit_fields)

lemma decode_patched19:
  "decode_a64 w = Some (BCOND c i) \<Longrightarrow>
     decode_a64 ((w AND 0xff00001f) OR push_bit 5 (x AND 0x7ffff)) = Some (BCOND c (x AND 0x7ffff))"
  "decode_a64 w = Some (CBZ r i) \<Longrightarrow>
     decode_a64 ((w AND 0xff00001f) OR push_bit 5 (x AND 0x7ffff)) = Some (CBZ r (x AND 0x7ffff))"
  by (simp_all add: decode_a64_branch patched_fields bit_fields del: push_bit_and)

lemma c_div_dvd: "n dvd d \<Longrightarrow> n * c_div d n = d"
  by (auto simp: c_div_def)

lemma c_div_exact: "d mod 4 = 0 \<Longrightarrow> 4 * c_div d 4 = d"
  by (rule c_div_dvd) presburger

text \<open>The width of a branch's offset field, the patch function for it, and the branch with another offset.\<close>

fun offset_bits :: "a64 \<Rightarrow> nat" where
  "offset_bits (B _) = 26"
| "offset_bits (BL _) = 26"
| "offset_bits _ = 19"

definition patch_for :: "a64 \<Rightarrow> ZBuf \<Rightarrow> nat \<Rightarrow> nat \<Rightarrow> ZBuf option" where
  "patch_for i = (if offset_bits i = 26 then z_aarch64_patch_branch26 else z_aarch64_patch_cond19)"

fun with_offset :: "a64 \<Rightarrow> u32 \<Rightarrow> a64" where
  "with_offset (B _) imm = B imm"
| "with_offset (BL _) imm = BL imm"
| "with_offset (BCOND c _) imm = BCOND c imm"
| "with_offset (CBZ r _) imm = CBZ r imm"
| "with_offset i imm = i"

lemma is_branch_cases:
  assumes "is_branch i"
  obtains (b) x where "i = B x" | (bl) x where "i = BL x" | (bcond) c x where "i = BCOND c x" | (cbz) r x where "i = CBZ r x"
  using assms by (cases i) auto

lemma patched_word:
  assumes w: "word_at b off = Some w" and i: "decode_a64 w = Some i" "is_branch i"
  obtains b' w' M where "patch_for i b off target = Some b'" "word_at b' off = Some w'"
    "decode_a64 w' = Some (with_offset i (word_of_int (c_div (int target - int off) 4) AND M))" "M = mask (offset_bits i)"
    "\<And>j. j < off \<or> off + 4 \<le> j \<Longrightarrow> zdata b' ! j = zdata b ! j"
proof -
  let ?x = "word_of_int (c_div (int target - int off) 4) :: u32"
  let ?w = "if offset_bits i = 26 then (w AND 0xfc000000) OR (?x AND 0x03ffffff)
     else (w AND 0xff00001f) OR push_bit 5 (?x AND 0x7ffff)"
  obtain b' where p: "z_aarch64_patch_u32 b off ?w = Some b'"
    using patch_u32_ex [OF word_at_bound [OF w]] by blast
  show ?thesis
  proof (rule that)
    show "patch_for i b off target = Some b'"
      using p w by (auto simp: patch_for_def z_aarch64_patch_branch26_def z_aarch64_patch_cond19_def Let_def
          simp del: push_bit_and split: if_splits)
    show "word_at b' off = Some ?w" "\<And>j. j < off \<or> off + 4 \<le> j \<Longrightarrow> zdata b' ! j = zdata b ! j"
      using patch_u32_Some [OF p] by blast+
    show "mask (offset_bits i) = mask (offset_bits i)" ..
    show "decode_a64 ?w = Some (with_offset i (?x AND mask (offset_bits i)))"
      using i(2)
    proof (cases rule: is_branch_cases)
      case b
      then show ?thesis using i decode_patched26(1) [of w _ ?x] masks(9) by simp
    next
      case bl
      then show ?thesis using i decode_patched26(2) [of w _ ?x] masks(9) by simp
    next
      case bcond
      then show ?thesis using i decode_patched19(1) [of w _ _ ?x] masks(8) by (simp del: push_bit_and)
    next
      case cbz
      then show ?thesis using i decode_patched19(2) [of w _ _ ?x] masks(8) by (simp del: push_bit_and)
    qed
  qed
qed

lemma patch_branch_lands:
  assumes w: "word_at b off = Some w" and i: "decode_a64 w = Some i" "is_branch i"
    and mult: "(int target - int off) mod 4 = 0"
    and reach: "- (2 ^ (offset_bits i + 1)) \<le> int target - int off" "int target - int off < 2 ^ (offset_bits i + 1)"
  shows "\<exists>b' w' imm. patch_for i b off target = Some b' \<and> word_at b' off = Some w' \<and>
    decode_a64 w' = Some (with_offset i imm) \<and> branch_target (offset_bits i) off imm = int target \<and>
    (\<forall>j. j < off \<or> off + 4 \<le> j \<longrightarrow> zdata b' ! j = zdata b ! j)"
proof -
  let ?k = "c_div (int target - int off) 4"
  have k: "4 * ?k = int target - int off" by (rule c_div_exact [OF mult])
  have n: "0 < offset_bits i" "offset_bits i \<le> 32" by (cases i; simp)+
  then have "2 ^ (offset_bits i + 1) = 4 * (2 ^ (offset_bits i - 1) :: int)"
    by (cases "offset_bits i") auto
  then have r: "- (2 ^ (offset_bits i - 1)) \<le> ?k" "?k < 2 ^ (offset_bits i - 1)" using reach k by auto
  obtain b' w' M where p: "patch_for i b off target = Some b'" "word_at b' off = Some w'"
    "decode_a64 w' = Some (with_offset i (word_of_int ?k AND M))" and M: "M = mask (offset_bits i)"
    and o: "\<And>j. j < off \<or> off + 4 \<le> j \<Longrightarrow> zdata b' ! j = zdata b ! j"
    using patched_word [OF w i] by blast
  have "branch_target (offset_bits i) off (word_of_int ?k AND M) = int target"
    using signed_field [OF n r M] k by (simp add: branch_target_def)
  with p o show ?thesis by blast
qed

text \<open>
  C31. Patching a branch: on a word that decodes to \<open>B\<close> or \<open>BL\<close> (\<open>patch_branch26\<close>), or to a
  conditional branch or \<open>CBZ\<close> (\<open>patch_cond19\<close>), the patch succeeds, keeps the instruction with its
  condition or register and every other byte, and makes the branch land on the target, for every target
  a multiple of four bytes away and in the reach of the field.
\<close>

theorem aarch64_patch_branch_lands:
  assumes w: "word_at b off = Some w" and i: "decode_a64 w = Some i" "is_branch i"
    and mult: "(int target - int off) mod 4 = 0"
    and reach: "- (2 ^ (offset_bits i + 1)) \<le> int target - int off" "int target - int off < 2 ^ (offset_bits i + 1)"
  shows "\<exists>b' w' imm. patch_for i b off target = Some b' \<and> word_at b' off = Some w' \<and>
    decode_a64 w' = Some (with_offset i imm) \<and> branch_target (offset_bits i) off imm = int target \<and>
    (\<forall>j. j < off \<or> off + 4 \<le> j \<longrightarrow> zdata b' ! j = zdata b ! j)"
  by (rule patch_branch_lands [OF assms])

definition branch_example :: ZBuf where
  "branch_example = \<lparr>zdata = le32 0xd503201f @ le32 0x54000001 @ le32 0xd65f03c0, zcap = 64\<rparr>"

theorem aarch64_patch_branch_lands_witness:
  "\<exists>b' imm. z_aarch64_patch_cond19 branch_example 4 0 = Some b' \<and> branch_target 19 4 imm = 0 \<and>
     (\<exists>w'. word_at b' 4 = Some w' \<and> decode_a64 w' = Some (BCOND 1 imm))"
proof -
  have "word_at branch_example 4 = Some 0x54000001" by code_simp
  moreover have "decode_a64 0x54000001 = Some (BCOND 1 0)" by (simp add: decode_simps)
  ultimately show ?thesis
    using aarch64_patch_branch_lands [of branch_example 4 "0x54000001" "BCOND 1 0" 0] by (auto simp: patch_for_def)
qed

section \<open>Address pairs\<close>

text \<open>What the pair computes: \<open>ADRP\<close> adds a signed number of pages to the page of the instruction.\<close>

definition adrp_value :: "u64 \<Rightarrow> u32 \<Rightarrow> u32 \<Rightarrow> u64" where
  "adrp_value pc immhi immlo =
     (pc AND NOT 0xfff) + word_of_int (signed_take_bit 20 (uint (push_bit 2 immhi OR immlo)) * 4096)"

definition page_distance :: "u64 \<Rightarrow> u64 \<Rightarrow> int" where
  "page_distance instr_addr target_addr = c_div (sint (target_addr AND NOT 0xfff) - sint (instr_addr AND NOT 0xfff)) 4096"

lemma page_multiple: "sint (a AND NOT 0xfff :: u64) mod 4096 = 0"
proof -
  have m: "(0xfff :: u64) = mask 12" by (simp add: mask_eq_exp_minus_1)
  have "take_bit 12 (a AND NOT (mask 12)) = (0 :: u64)"
    by (rule bit_word_eqI) (auto simp: bit_simps)
  then have "take_bit 12 (uint (a AND NOT (mask 12))) = 0"
    by (metis unsigned_0 unsigned_take_bit_eq)
  then have "take_bit 12 (sint (a AND NOT (mask 12))) = 0"
    by (simp add: sint_uint take_bit_signed_take_bit del: uint_0_eq)
  then show ?thesis unfolding m by (simp add: take_bit_eq_mod)
qed

lemma page_distance_exact:
  "4096 * page_distance i t = sint (t AND NOT 0xfff) - sint (i AND NOT 0xfff)"
proof -
  have "4096 dvd sint (t AND NOT 0xfff)" "4096 dvd sint (i AND NOT 0xfff)"
    using page_multiple [of t] page_multiple [of i] by presburger+
  then have "4096 dvd sint (t AND NOT 0xfff) - sint (i AND NOT 0xfff)" by (rule dvd_diff)
  then show ?thesis unfolding page_distance_def by (rule c_div_dvd)
qed

lemma split_imm21: "push_bit 2 (drop_bit 2 x AND 0x7ffff) OR (x AND 3) = x AND (mask 21 :: u32)"
proof -
  have m: "(0x7ffff :: u32) = mask 19" "(3 :: u32) = mask 2" by (simp_all add: mask_eq_exp_minus_1)
  have n: "2 \<le> k \<Longrightarrow> Suc (Suc (k - 2)) = k" for k by arith
  show ?thesis unfolding m by (rule bit_word_eqI) (auto simp: bit_simps n)
qed

lemma adrp_add_value:
  assumes "- (2 ^ 20) \<le> page_distance i t" "page_distance i t < 2 ^ 20"
  shows "adrp_value i (drop_bit 2 (word_of_int (page_distance i t)) AND 0x7ffff) (word_of_int (page_distance i t) AND 3)
    + ucast (ucast (t AND 0xfff) :: u32) = t"
proof -
  have "signed_take_bit (21 - 1) (uint (word_of_int (page_distance i t) AND mask 21 :: u32)) = page_distance i t"
    by (rule signed_field) (use assms in auto)
  then have "adrp_value i (drop_bit 2 (word_of_int (page_distance i t)) AND 0x7ffff) (word_of_int (page_distance i t) AND 3)
      = (i AND NOT 0xfff) + word_of_int (4096 * page_distance i t)"
    unfolding adrp_value_def split_imm21 by (simp add: mult.commute)
  also have "\<dots> = (i AND NOT 0xfff) + ((t AND NOT 0xfff) - (i AND NOT 0xfff))"
    unfolding page_distance_exact by simp
  also have "\<dots> = t AND NOT 0xfff" by simp
  finally have v: "adrp_value i (drop_bit 2 (word_of_int (page_distance i t)) AND 0x7ffff) (word_of_int (page_distance i t) AND 3)
      = t AND NOT 0xfff" .
  have m: "(0xfff :: u64) = mask 12" by (simp add: mask_eq_exp_minus_1)
  have low: "(ucast (ucast (t AND 0xfff) :: u32) :: u64) = t AND 0xfff"
    unfolding m by (rule bit_word_eqI) (auto simp: bit_simps)
  have "(t AND NOT (mask 12)) + (t AND mask 12) = (t AND NOT (mask 12)) OR (t AND mask 12)"
    by (rule disjunctive_add_eq_or, rule bit_word_eqI) (auto simp: bit_simps)
  also have "\<dots> = t"
    by (rule bit_word_eqI) (auto simp: bit_simps)
  finally have "(t AND NOT 0xfff) + (t AND 0xfff) = t" unfolding m .
  then show ?thesis unfolding v low .
qed

lemma patch_u64_Some:
  assumes room: "off + 8 \<le> length (zdata b)"
  obtains b' where "z_aarch64_patch_u64 b off (push_bit 32 (ucast (hi :: u32)) OR ucast (lo :: u32)) = Some b'"
    "word_at b' off = Some lo" "word_at b' (off + 4) = Some hi"
    "\<And>j. j < off \<or> off + 8 \<le> j \<Longrightarrow> zdata b' ! j = zdata b ! j"
proof -
  have lo: "(ucast (push_bit 32 (ucast hi) OR ucast lo :: u64) :: u32) = lo"
    by (rule bit_word_eqI) (auto simp: bit_simps)
  have hi: "(ucast (drop_bit 32 (push_bit 32 (ucast hi) OR ucast lo :: u64)) :: u32) = hi"
    by (rule bit_word_eqI) (auto simp: bit_simps dest: bit_imp_le_length)
  obtain b1 where b1: "z_aarch64_patch_u32 b off lo = Some b1" using patch_u32_ex [of off b lo] room by auto
  note p1 = patch_u32_Some [OF b1]
  obtain b2 where b2: "z_aarch64_patch_u32 b1 (off + 4) hi = Some b2" using patch_u32_ex [of "off + 4" b1 hi] room p1(2) by auto
  note p2 = patch_u32_Some [OF b2]
  have "read32 (zdata b2) off = read32 (zdata b1) off"
    unfolding read32_def using p2(3) by simp
  then have "word_at b2 off = Some lo" using p1(1) p2(2) by (simp add: word_at_def split: if_splits)
  moreover have "z_aarch64_patch_u64 b off (push_bit 32 (ucast hi) OR ucast lo) = Some b2"
    unfolding z_aarch64_patch_u64_def lo hi using b1 b2 by simp
  moreover have "zdata b2 ! j = zdata b ! j" if "j < off \<or> off + 8 \<le> j" for j
    using p1(3) [of j] p2(3) [of j] that by auto
  ultimately show ?thesis using that p2(1) by blast
qed

lemma decode_adrp_add:
  "decode_a64 (0x90000000 OR push_bit 29 (lo AND 3) OR push_bit 5 (hi AND 0x7ffff) OR (reg AND 31)) =
     Some (ADRP (reg AND 31) (hi AND 0x7ffff) (lo AND 3))"
  "decode_a64 (0x91000000 OR push_bit 10 (imm AND 0xfff) OR push_bit 5 (reg AND 31) OR (reg AND 31)) =
     Some (ADDI True (reg AND 31) (reg AND 31) (imm AND 0xfff))"
  by (simp add: decode_simps del: push_bit_and)+

text \<open>
  C32. Patching an address: after \<open>patch_adrp_add\<close> on a pair written by the placeholder, the two words
  are an \<open>ADRP\<close> and an \<open>ADD\<close> on the register of the placeholder, and executed at \<open>instr_addr\<close> they
  leave exactly \<open>target_addr\<close> in it, for every target whose page is within \<open>2 ^ 20\<close> pages.
\<close>

theorem aarch64_patch_adrp_add_reaches:
  assumes w: "word_at b off = Some (0x90000000 OR (reg AND 31))" and room: "off + 8 \<le> length (zdata b)"
    and reach: "- (2 ^ 20) \<le> page_distance instr_addr target_addr" "page_distance instr_addr target_addr < 2 ^ 20"
  shows "\<exists>b' w1 w2 immhi immlo imm12. z_aarch64_patch_adrp_add b off instr_addr target_addr = Some b' \<and>
    word_at b' off = Some w1 \<and> decode_a64 w1 = Some (ADRP (reg AND 31) immhi immlo) \<and>
    word_at b' (off + 4) = Some w2 \<and> decode_a64 w2 = Some (ADDI True (reg AND 31) (reg AND 31) imm12) \<and>
    adrp_value instr_addr immhi immlo + ucast imm12 = target_addr"
proof -
  let ?p = "word_of_int (page_distance instr_addr target_addr) :: u32"
  let ?o = "ucast (target_addr AND 0xfff) :: u32"
  let ?lo = "0x90000000 OR push_bit 29 (?p AND 3) OR push_bit 5 (drop_bit 2 ?p AND 0x7ffff) OR (reg AND 31)"
  let ?hi = "0x91000000 OR push_bit 10 (?o AND 0xfff) OR push_bit 5 (reg AND 31) OR (reg AND 31)"
  have r: "(0x90000000 OR (reg AND 31)) AND 31 = reg AND 31"
    by (simp add: bit.conj_disj_distrib2 and.assoc)
  obtain b' where b': "z_aarch64_patch_u64 b off (push_bit 32 (ucast ?hi) OR ucast ?lo) = Some b'"
    "word_at b' off = Some ?lo" "word_at b' (off + 4) = Some ?hi"
    using patch_u64_Some [OF room] by blast
  have "z_aarch64_patch_adrp_add b off instr_addr target_addr = Some b'"
    using b'(1) w unfolding z_aarch64_patch_adrp_add_def Let_def page_distance_def
    by (simp add: r del: push_bit_and)
  moreover have "?o AND 0xfff = ?o"
  proof -
    have m: "(0xfff :: u64) = mask 12" "(0xfff :: u32) = mask 12" by (simp_all add: mask_eq_exp_minus_1)
    show ?thesis unfolding m by (rule bit_word_eqI) (auto simp: bit_simps)
  qed
  ultimately show ?thesis
    using b' decode_adrp_add(1) [of ?p "drop_bit 2 ?p" reg] decode_adrp_add(2) [of ?o reg] adrp_add_value [OF reach]
    by metis
qed

definition adrp_example :: ZBuf where
  "adrp_example = \<lparr>zdata = le32 0x90000005 @ le32 0x910000a5, zcap = 64\<rparr>"

theorem aarch64_patch_adrp_add_reaches_witness:
  "\<exists>b' immhi immlo imm12. z_aarch64_patch_adrp_add adrp_example 0 0x400ffc 0x412345 = Some b' \<and>
     adrp_value 0x400ffc immhi immlo + ucast (imm12 :: u32) = 0x412345"
proof -
  have "word_at adrp_example 0 = Some (0x90000000 OR (5 AND 31))" by code_simp
  moreover have "0 + 8 \<le> length (zdata adrp_example)" by code_simp
  moreover have "page_distance 0x400ffc 0x412345 = 18" by code_simp
  ultimately show ?thesis
    using aarch64_patch_adrp_add_reaches [of adrp_example 0 5 "0x400ffc" "0x412345"] by auto
qed

end
