(* ===== verification/X64.thy ===== *)
theory X64
  imports ZBuf
begin

text \<open>
  The x86-64 encoder, \<open>native/zerox-c/src/x64_emit.c\<close>, function by function. Registers,
  displacements and immediates are the \<open>unsigned\<close> values of the code (\<open>u32\<close>, an \<open>int32_t\<close> being
  its two's complement). An emitter returns the buffer; \<open>None\<close> is the \<open>abort()\<close> of a register,
  scale or immediate guard, or a buffer that cannot grow. A placeholder also returns the offset of the
  field to patch. Where the code names a local \<open>mod\<close>, the model says \<open>md\<close>.
\<close>

section \<open>Bytes, guards and patches\<close>

definition z_x64_append_u8 :: "ZBuf \<Rightarrow> u32 \<Rightarrow> ZBuf option" where
  "z_x64_append_u8 buf value = zbuf_append_char buf (ucast (value AND 0xff))"

definition z_x64_require_reg :: "u32 \<Rightarrow> unit option" where
  "z_x64_require_reg reg = (if reg \<ge> 16 then None else Some ())"

definition z_x64_require_sib_index :: "u32 \<Rightarrow> unit option" where
  "z_x64_require_sib_index reg =
     do { _ \<leftarrow> z_x64_require_reg reg; if reg = 4 then None else Some () }"

definition z_x64_scale_bits :: "u32 \<Rightarrow> u32 option" where
  "z_x64_scale_bits scale =
     (if scale = 1 then Some 0 else if scale = 2 then Some 1 else if scale = 4 then Some 2
      else if scale = 8 then Some 3 else None)"

definition z_x64_patch_u32 :: "ZBuf \<Rightarrow> nat \<Rightarrow> u32 \<Rightarrow> ZBuf option" where
  "z_x64_patch_u32 buf offset value =
     zbuf_patch4 buf offset (ucast (value AND 0xff)) (ucast (drop_bit 8 value AND 0xff))
       (ucast (drop_bit 16 value AND 0xff)) (ucast (drop_bit 24 value AND 0xff))"

definition z_x64_patch_rel32 :: "ZBuf \<Rightarrow> nat \<Rightarrow> nat \<Rightarrow> ZBuf option" where
  "z_x64_patch_rel32 buf patch_offset target_offset =
     (let rel = int target_offset - int (patch_offset + 4)
      in z_x64_patch_u32 buf patch_offset (word_of_int rel))"

section \<open>Emitters\<close>

definition z_x64_append_u32 :: "ZBuf \<Rightarrow> u32 \<Rightarrow> ZBuf option" where
  "z_x64_append_u32 buf value =
     do {
       buf \<leftarrow> z_x64_append_u8 buf value;
       buf \<leftarrow> z_x64_append_u8 buf (drop_bit 8 value);
       buf \<leftarrow> z_x64_append_u8 buf (drop_bit 16 value);
       z_x64_append_u8 buf (drop_bit 24 value) }"

definition z_x64_append_u64 :: "ZBuf \<Rightarrow> u64 \<Rightarrow> ZBuf option" where
  "z_x64_append_u64 buf value =
     do {
       buf \<leftarrow> z_x64_append_u32 buf (ucast value);
       z_x64_append_u32 buf (ucast (drop_bit 32 value)) }"

definition z_x64_emit_wide_prefix :: "ZBuf \<Rightarrow> bool \<Rightarrow> ZBuf option" where
  "z_x64_emit_wide_prefix buf wide = (if wide then z_x64_append_u8 buf 0x48 else Some buf)"

definition z_x64_emit_jmp32_placeholder :: "ZBuf \<Rightarrow> u32 \<Rightarrow> (ZBuf \<times> nat) option" where
  "z_x64_emit_jmp32_placeholder buf opcode =
     do {
       buf \<leftarrow> z_x64_append_u8 buf opcode;
       let patch = length (zdata buf);
       buf \<leftarrow> z_x64_append_u32 buf 0;
       Some (buf, patch) }"

definition z_x64_emit_call32_placeholder :: "ZBuf \<Rightarrow> (ZBuf \<times> nat) option" where
  "z_x64_emit_call32_placeholder buf = z_x64_emit_jmp32_placeholder buf 0xe8"

definition z_x64_emit_call_rip32_placeholder :: "ZBuf \<Rightarrow> (ZBuf \<times> nat) option" where
  "z_x64_emit_call_rip32_placeholder buf =
     do {
       buf \<leftarrow> z_x64_append_u8 buf 0xff;
       buf \<leftarrow> z_x64_append_u8 buf 0x15;
       let patch = length (zdata buf);
       buf \<leftarrow> z_x64_append_u32 buf 0;
       Some (buf, patch) }"

definition z_x64_emit_jcc32_placeholder :: "ZBuf \<Rightarrow> u32 \<Rightarrow> (ZBuf \<times> nat) option" where
  "z_x64_emit_jcc32_placeholder buf condition =
     do {
       buf \<leftarrow> z_x64_append_u8 buf 0x0f;
       buf \<leftarrow> z_x64_append_u8 buf condition;
       let patch = length (zdata buf);
       buf \<leftarrow> z_x64_append_u32 buf 0;
       Some (buf, patch) }"

definition z_x64_emit_rbp_disp_reg ::
  "ZBuf \<Rightarrow> u32 \<Rightarrow> u32 \<Rightarrow> u32 \<Rightarrow> bool \<Rightarrow> ZBuf option" where
  "z_x64_emit_rbp_disp_reg buf opcode reg offset wide =
     do {
       buf \<leftarrow> (if wide \<or> reg \<ge> 8 then do { let rex = (if wide then 0x48 else 0x40);
           let rex = (if reg \<ge> 8 then rex OR 0x04 else rex); z_x64_append_u8 buf rex }
           else Some buf);
       buf \<leftarrow> z_x64_append_u8 buf opcode;
       let reg_low = reg AND 7;
       if offset \<le> 127
           then do { buf \<leftarrow> z_x64_append_u8 buf (0x40 OR push_bit 3 reg_low OR 0x05);
           z_x64_append_u8 buf (- offset) }
           else do { buf \<leftarrow> z_x64_append_u8 buf (0x80 OR push_bit 3 reg_low OR 0x05);
           z_x64_append_u32 buf (- offset) } }"

definition z_x64_emit_load_rbp_positive_reg ::
  "ZBuf \<Rightarrow> u32 \<Rightarrow> u32 \<Rightarrow> bool \<Rightarrow> ZBuf option" where
  "z_x64_emit_load_rbp_positive_reg buf reg offset wide =
     do {
       buf \<leftarrow> (if wide \<or> reg \<ge> 8 then do { let rex = (if wide then 0x48 else 0x40);
           let rex = (if reg \<ge> 8 then rex OR 0x04 else rex); z_x64_append_u8 buf rex }
           else Some buf);
       buf \<leftarrow> z_x64_append_u8 buf 0x8b;
       let reg_low = reg AND 7;
       if offset \<le> 127
           then do { buf \<leftarrow> z_x64_append_u8 buf (0x40 OR push_bit 3 reg_low OR 0x05);
           z_x64_append_u8 buf offset }
           else do { buf \<leftarrow> z_x64_append_u8 buf (0x80 OR push_bit 3 reg_low OR 0x05);
           z_x64_append_u32 buf offset } }"

definition z_x64_emit_rsp_offset_reg ::
  "ZBuf \<Rightarrow> u32 \<Rightarrow> u32 \<Rightarrow> u32 \<Rightarrow> bool \<Rightarrow> ZBuf option" where
  "z_x64_emit_rsp_offset_reg buf opcode reg offset wide =
     do {
       buf \<leftarrow> (if wide \<or> reg \<ge> 8 then do { let rex = (if wide then 0x48 else 0x40);
           let rex = (if reg \<ge> 8 then rex OR 0x04 else rex); z_x64_append_u8 buf rex }
           else Some buf);
       buf \<leftarrow> z_x64_append_u8 buf opcode;
       let reg_low = reg AND 7;
       if offset = 0 then do { buf \<leftarrow> z_x64_append_u8 buf (push_bit 3 reg_low OR 0x04);
           z_x64_append_u8 buf 0x24 } else if offset \<le> 127
           then do { buf \<leftarrow> z_x64_append_u8 buf (0x40 OR push_bit 3 reg_low OR 0x04);
           buf \<leftarrow> z_x64_append_u8 buf 0x24; z_x64_append_u8 buf offset }
           else do { buf \<leftarrow> z_x64_append_u8 buf (0x80 OR push_bit 3 reg_low OR 0x04);
           buf \<leftarrow> z_x64_append_u8 buf 0x24; z_x64_append_u32 buf offset } }"

definition z_x64_emit_load_rsp_offset_reg ::
  "ZBuf \<Rightarrow> u32 \<Rightarrow> u32 \<Rightarrow> bool \<Rightarrow> ZBuf option" where
  "z_x64_emit_load_rsp_offset_reg buf reg offset wide = z_x64_emit_rsp_offset_reg buf 0x8b reg offset wide"

definition z_x64_emit_store_rsp_offset_reg ::
  "ZBuf \<Rightarrow> u32 \<Rightarrow> u32 \<Rightarrow> bool \<Rightarrow> ZBuf option" where
  "z_x64_emit_store_rsp_offset_reg buf reg offset wide = z_x64_emit_rsp_offset_reg buf 0x89 reg offset wide"

definition z_x64_emit_lea_rsp_offset_reg :: "ZBuf \<Rightarrow> u32 \<Rightarrow> u32 \<Rightarrow> ZBuf option" where
  "z_x64_emit_lea_rsp_offset_reg buf reg offset = z_x64_emit_rsp_offset_reg buf 0x8d reg offset True"

definition z_x64_emit_mov_rsp_offset_u32 ::
  "ZBuf \<Rightarrow> u32 \<Rightarrow> u32 \<Rightarrow> bool \<Rightarrow> ZBuf option" where
  "z_x64_emit_mov_rsp_offset_u32 buf offset value wide =
     do {
       buf \<leftarrow> (if wide then z_x64_append_u8 buf 0x48 else Some buf);
       buf \<leftarrow> z_x64_append_u8 buf 0xc7;
       buf \<leftarrow> (if offset = 0 then do { buf \<leftarrow> z_x64_append_u8 buf 0x04;
           z_x64_append_u8 buf 0x24 } else if offset \<le> 127
           then do { buf \<leftarrow> z_x64_append_u8 buf 0x44;
           buf \<leftarrow> z_x64_append_u8 buf 0x24; z_x64_append_u8 buf offset }
           else do { buf \<leftarrow> z_x64_append_u8 buf 0x84;
           buf \<leftarrow> z_x64_append_u8 buf 0x24; z_x64_append_u32 buf offset });
       z_x64_append_u32 buf value }"

definition z_x64_emit_inc_rsp_offset64 :: "ZBuf \<Rightarrow> u32 \<Rightarrow> ZBuf option" where
  "z_x64_emit_inc_rsp_offset64 buf offset = z_x64_emit_rsp_offset_reg buf 0xff 0 offset True"

definition z_x64_emit_add_rax_rsp_offset :: "ZBuf \<Rightarrow> u32 \<Rightarrow> ZBuf option" where
  "z_x64_emit_add_rax_rsp_offset buf offset = z_x64_emit_rsp_offset_reg buf 0x03 0 offset True"

definition z_x64_emit_cmp_rax_rsp_offset :: "ZBuf \<Rightarrow> u32 \<Rightarrow> ZBuf option" where
  "z_x64_emit_cmp_rax_rsp_offset buf offset = z_x64_emit_rsp_offset_reg buf 0x3b 0 offset True"

definition z_x64_emit_cmp_reg_reg ::
  "ZBuf \<Rightarrow> u32 \<Rightarrow> u32 \<Rightarrow> bool \<Rightarrow> ZBuf option" where
  "z_x64_emit_cmp_reg_reg buf lhs rhs wide =
     do {
       _ \<leftarrow> z_x64_require_reg lhs;
       _ \<leftarrow> z_x64_require_reg rhs;
       let rex = (if wide then 0x48 else 0x40);
       let rex = (if rhs \<ge> 8 then rex OR 0x04 else rex);
       let rex = (if lhs \<ge> 8 then rex OR 0x01 else rex);
       buf \<leftarrow> (if rex \<noteq> 0x40 then z_x64_append_u8 buf rex else Some buf);
       buf \<leftarrow> z_x64_append_u8 buf 0x39;
       z_x64_append_u8 buf (0xc0 OR push_bit 3 (rhs AND 7) OR (lhs AND 7)) }"

definition z_x64_emit_mov_reg_from_rax :: "ZBuf \<Rightarrow> u32 \<Rightarrow> bool \<Rightarrow> ZBuf option" where
  "z_x64_emit_mov_reg_from_rax buf reg wide =
     do {
       _ \<leftarrow> z_x64_require_reg reg;
       let rex = (if wide then 0x48 else 0x40);
       let rex = (if reg \<ge> 8 then rex OR 0x01 else rex);
       buf \<leftarrow> (if rex \<noteq> 0x40 then z_x64_append_u8 buf rex else Some buf);
       buf \<leftarrow> z_x64_append_u8 buf 0x89;
       z_x64_append_u8 buf (0xc0 OR (reg AND 7)) }"

definition z_x64_emit_mov_reg_from_reg ::
  "ZBuf \<Rightarrow> u32 \<Rightarrow> u32 \<Rightarrow> bool \<Rightarrow> ZBuf option" where
  "z_x64_emit_mov_reg_from_reg buf dst_reg src_reg wide =
     do {
       _ \<leftarrow> z_x64_require_reg dst_reg;
       _ \<leftarrow> z_x64_require_reg src_reg;
       let rex = (if wide then 0x48 else 0x40);
       let rex = (if src_reg \<ge> 8 then rex OR 0x04 else rex);
       let rex = (if dst_reg \<ge> 8 then rex OR 0x01 else rex);
       buf \<leftarrow> (if rex \<noteq> 0x40 then z_x64_append_u8 buf rex else Some buf);
       buf \<leftarrow> z_x64_append_u8 buf 0x89;
       z_x64_append_u8 buf (0xc0 OR push_bit 3 (src_reg AND 7) OR (dst_reg AND 7)) }"

definition z_x64_emit_cdqe :: "ZBuf \<Rightarrow> ZBuf option" where
  "z_x64_emit_cdqe buf =
     do {
       buf \<leftarrow> z_x64_append_u8 buf 0x48;
       z_x64_append_u8 buf 0x98 }"

definition z_x64_emit_mov_reg_u32 :: "ZBuf \<Rightarrow> u32 \<Rightarrow> u32 \<Rightarrow> ZBuf option" where
  "z_x64_emit_mov_reg_u32 buf reg value =
     do {
       _ \<leftarrow> z_x64_require_reg reg;
       buf \<leftarrow> (if reg \<ge> 8 then z_x64_append_u8 buf 0x41 else Some buf);
       buf \<leftarrow> z_x64_append_u8 buf (0xb8 + (reg AND 7));
       z_x64_append_u32 buf value }"

definition z_x64_emit_mov_reg_i32 :: "ZBuf \<Rightarrow> u32 \<Rightarrow> u32 \<Rightarrow> ZBuf option" where
  "z_x64_emit_mov_reg_i32 buf reg value =
     do {
       _ \<leftarrow> z_x64_require_reg reg;
       let rex = 0x48;
       let rex = (if reg \<ge> 8 then rex OR 0x01 else rex);
       buf \<leftarrow> z_x64_append_u8 buf rex;
       buf \<leftarrow> z_x64_append_u8 buf 0xc7;
       buf \<leftarrow> z_x64_append_u8 buf (0xc0 OR (reg AND 7));
       z_x64_append_u32 buf value }"

definition z_x64_emit_mov_reg_u64 :: "ZBuf \<Rightarrow> u32 \<Rightarrow> u64 \<Rightarrow> ZBuf option" where
  "z_x64_emit_mov_reg_u64 buf reg value =
     do {
       _ \<leftarrow> z_x64_require_reg reg;
       let rex = 0x48;
       let rex = (if reg \<ge> 8 then rex OR 0x01 else rex);
       buf \<leftarrow> z_x64_append_u8 buf rex;
       buf \<leftarrow> z_x64_append_u8 buf (0xb8 + (reg AND 7));
       z_x64_append_u64 buf value }"

definition z_x64_emit_xor_reg_reg :: "ZBuf \<Rightarrow> u32 \<Rightarrow> bool \<Rightarrow> ZBuf option" where
  "z_x64_emit_xor_reg_reg buf reg wide =
     do {
       _ \<leftarrow> z_x64_require_reg reg;
       let rex = (if wide then 0x48 else 0x40);
       let rex = (if reg \<ge> 8 then rex OR 0x05 else rex);
       buf \<leftarrow> (if rex \<noteq> 0x40 then z_x64_append_u8 buf rex else Some buf);
       buf \<leftarrow> z_x64_append_u8 buf 0x31;
       z_x64_append_u8 buf (0xc0 OR push_bit 3 (reg AND 7) OR (reg AND 7)) }"

definition z_x64_emit_reg_reg_op ::
  "ZBuf \<Rightarrow> u32 \<Rightarrow> u32 \<Rightarrow> u32 \<Rightarrow> bool \<Rightarrow> ZBuf option" where
  "z_x64_emit_reg_reg_op buf opcode dst_reg src_reg wide =
     do {
       _ \<leftarrow> z_x64_require_reg dst_reg;
       _ \<leftarrow> z_x64_require_reg src_reg;
       let rex = (if wide then 0x48 else 0x40);
       let rex = (if src_reg \<ge> 8 then rex OR 0x04 else rex);
       let rex = (if dst_reg \<ge> 8 then rex OR 0x01 else rex);
       buf \<leftarrow> (if rex \<noteq> 0x40 then z_x64_append_u8 buf rex else Some buf);
       buf \<leftarrow> z_x64_append_u8 buf opcode;
       z_x64_append_u8 buf (0xc0 OR push_bit 3 (src_reg AND 7) OR (dst_reg AND 7)) }"

definition z_x64_emit_add_reg_reg ::
  "ZBuf \<Rightarrow> u32 \<Rightarrow> u32 \<Rightarrow> bool \<Rightarrow> ZBuf option" where
  "z_x64_emit_add_reg_reg buf dst_reg src_reg wide = z_x64_emit_reg_reg_op buf 0x01 dst_reg src_reg wide"

definition z_x64_emit_sub_reg_reg ::
  "ZBuf \<Rightarrow> u32 \<Rightarrow> u32 \<Rightarrow> bool \<Rightarrow> ZBuf option" where
  "z_x64_emit_sub_reg_reg buf dst_reg src_reg wide = z_x64_emit_reg_reg_op buf 0x29 dst_reg src_reg wide"

definition z_x64_emit_xor_reg_from_reg ::
  "ZBuf \<Rightarrow> u32 \<Rightarrow> u32 \<Rightarrow> bool \<Rightarrow> ZBuf option" where
  "z_x64_emit_xor_reg_from_reg buf dst_reg src_reg wide = z_x64_emit_reg_reg_op buf 0x31 dst_reg src_reg wide"

definition z_x64_emit_reg_i8_op ::
  "ZBuf \<Rightarrow> u32 \<Rightarrow> u32 \<Rightarrow> u8 \<Rightarrow> bool \<Rightarrow> ZBuf option" where
  "z_x64_emit_reg_i8_op buf modrm_op reg value wide =
     do {
       _ \<leftarrow> (if modrm_op > 7 then None else Some ());
       _ \<leftarrow> z_x64_require_reg reg;
       let rex = (if wide then 0x48 else 0x40);
       let rex = (if reg \<ge> 8 then rex OR 0x01 else rex);
       buf \<leftarrow> (if rex \<noteq> 0x40 then z_x64_append_u8 buf rex else Some buf);
       buf \<leftarrow> z_x64_append_u8 buf 0x83;
       buf \<leftarrow> z_x64_append_u8 buf (0xc0 OR push_bit 3 (modrm_op AND 7) OR (reg AND 7));
       z_x64_append_u8 buf (ucast value) }"

definition z_x64_emit_add_reg_i8 ::
  "ZBuf \<Rightarrow> u32 \<Rightarrow> u8 \<Rightarrow> bool \<Rightarrow> ZBuf option" where
  "z_x64_emit_add_reg_i8 buf reg value wide = z_x64_emit_reg_i8_op buf 0 reg value wide"

definition z_x64_emit_and_reg_i8 ::
  "ZBuf \<Rightarrow> u32 \<Rightarrow> u8 \<Rightarrow> bool \<Rightarrow> ZBuf option" where
  "z_x64_emit_and_reg_i8 buf reg value wide = z_x64_emit_reg_i8_op buf 4 reg value wide"

definition z_x64_emit_cmp_reg_i8 ::
  "ZBuf \<Rightarrow> u32 \<Rightarrow> u8 \<Rightarrow> bool \<Rightarrow> ZBuf option" where
  "z_x64_emit_cmp_reg_i8 buf reg value wide = z_x64_emit_reg_i8_op buf 7 reg value wide"

definition z_x64_emit_and_reg_u32 ::
  "ZBuf \<Rightarrow> u32 \<Rightarrow> u32 \<Rightarrow> bool \<Rightarrow> ZBuf option" where
  "z_x64_emit_and_reg_u32 buf reg value wide =
     do {
       _ \<leftarrow> z_x64_require_reg reg;
       let rex = (if wide then 0x48 else 0x40);
       let rex = (if reg \<ge> 8 then rex OR 0x01 else rex);
       buf \<leftarrow> (if rex \<noteq> 0x40 then z_x64_append_u8 buf rex else Some buf);
       buf \<leftarrow> z_x64_append_u8 buf 0x81;
       buf \<leftarrow> z_x64_append_u8 buf (0xe0 OR (reg AND 7));
       z_x64_append_u32 buf value }"

definition z_x64_emit_neg_reg :: "ZBuf \<Rightarrow> u32 \<Rightarrow> bool \<Rightarrow> ZBuf option" where
  "z_x64_emit_neg_reg buf reg wide =
     do {
       _ \<leftarrow> z_x64_require_reg reg;
       let rex = (if wide then 0x48 else 0x40);
       let rex = (if reg \<ge> 8 then rex OR 0x01 else rex);
       buf \<leftarrow> (if rex \<noteq> 0x40 then z_x64_append_u8 buf rex else Some buf);
       buf \<leftarrow> z_x64_append_u8 buf 0xf7;
       z_x64_append_u8 buf (0xd8 OR (reg AND 7)) }"

definition z_x64_emit_shr_reg_one :: "ZBuf \<Rightarrow> u32 \<Rightarrow> bool \<Rightarrow> ZBuf option" where
  "z_x64_emit_shr_reg_one buf reg wide =
     do {
       _ \<leftarrow> z_x64_require_reg reg;
       let rex = (if wide then 0x48 else 0x40);
       let rex = (if reg \<ge> 8 then rex OR 0x01 else rex);
       buf \<leftarrow> (if rex \<noteq> 0x40 then z_x64_append_u8 buf rex else Some buf);
       buf \<leftarrow> z_x64_append_u8 buf 0xd1;
       z_x64_append_u8 buf (0xe8 OR (reg AND 7)) }"

definition z_x64_emit_shift_reg_imm8 ::
  "ZBuf \<Rightarrow> u32 \<Rightarrow> u32 \<Rightarrow> u32 \<Rightarrow> bool \<Rightarrow> ZBuf option" where
  "z_x64_emit_shift_reg_imm8 buf modrm_op reg amount wide =
     do {
       _ \<leftarrow> (if modrm_op > 7 \<or> amount > 0xff then None else Some ());
       _ \<leftarrow> z_x64_require_reg reg;
       let rex = (if wide then 0x48 else 0x40);
       let rex = (if reg \<ge> 8 then rex OR 0x01 else rex);
       buf \<leftarrow> (if rex \<noteq> 0x40 then z_x64_append_u8 buf rex else Some buf);
       buf \<leftarrow> z_x64_append_u8 buf 0xc1;
       buf \<leftarrow> z_x64_append_u8 buf (0xc0 OR push_bit 3 (modrm_op AND 7) OR (reg AND 7));
       z_x64_append_u8 buf amount }"

definition z_x64_emit_shl_reg_imm8 ::
  "ZBuf \<Rightarrow> u32 \<Rightarrow> u32 \<Rightarrow> bool \<Rightarrow> ZBuf option" where
  "z_x64_emit_shl_reg_imm8 buf reg amount wide = z_x64_emit_shift_reg_imm8 buf 4 reg amount wide"

definition z_x64_emit_shr_reg_imm8 ::
  "ZBuf \<Rightarrow> u32 \<Rightarrow> u32 \<Rightarrow> bool \<Rightarrow> ZBuf option" where
  "z_x64_emit_shr_reg_imm8 buf reg amount wide = z_x64_emit_shift_reg_imm8 buf 5 reg amount wide"

definition z_x64_emit_imul_reg_i32 ::
  "ZBuf \<Rightarrow> u32 \<Rightarrow> u32 \<Rightarrow> bool \<Rightarrow> ZBuf option" where
  "z_x64_emit_imul_reg_i32 buf reg value wide =
     do {
       _ \<leftarrow> z_x64_require_reg reg;
       let rex = (if wide then 0x48 else 0x40);
       let rex = (if reg \<ge> 8 then rex OR 0x05 else rex);
       buf \<leftarrow> (if rex \<noteq> 0x40 then z_x64_append_u8 buf rex else Some buf);
       buf \<leftarrow> z_x64_append_u8 buf 0x69;
       buf \<leftarrow> z_x64_append_u8 buf (0xc0 OR push_bit 3 (reg AND 7) OR (reg AND 7));
       z_x64_append_u32 buf value }"

definition z_x64_emit_add_rax_u32 :: "ZBuf \<Rightarrow> u32 \<Rightarrow> bool \<Rightarrow> ZBuf option" where
  "z_x64_emit_add_rax_u32 buf value wide =
     do {
       buf \<leftarrow> z_x64_emit_wide_prefix buf wide;
       buf \<leftarrow> z_x64_append_u8 buf 0x05;
       z_x64_append_u32 buf value }"

definition z_x64_emit_sub_rax_u32 :: "ZBuf \<Rightarrow> u32 \<Rightarrow> bool \<Rightarrow> ZBuf option" where
  "z_x64_emit_sub_rax_u32 buf value wide =
     do {
       buf \<leftarrow> z_x64_emit_wide_prefix buf wide;
       buf \<leftarrow> z_x64_append_u8 buf 0x2d;
       z_x64_append_u32 buf value }"

definition z_x64_emit_base_index_scale_disp_op ::
  "ZBuf \<Rightarrow> u32 \<Rightarrow> u32 \<Rightarrow> u32 \<Rightarrow> u32 \<Rightarrow> u32 \<Rightarrow> u32 \<Rightarrow> bool \<Rightarrow> bool \<Rightarrow> ZBuf option" where
  "z_x64_emit_base_index_scale_disp_op buf opcode reg base_reg index_reg scale disp wide reg_is_byte =
     do {
       _ \<leftarrow> z_x64_require_reg reg;
       _ \<leftarrow> z_x64_require_reg base_reg;
       _ \<leftarrow> z_x64_require_sib_index index_reg;
       let force_rex = \<not> wide \<and> reg_is_byte \<and> reg \<ge> 4 \<and> reg < 8;
       let rex = (if wide then 0x48 else 0x40);
       let rex = (if reg \<ge> 8 then rex OR 0x04 else rex);
       let rex = (if index_reg \<ge> 8 then rex OR 0x02 else rex);
       let rex = (if base_reg \<ge> 8 then rex OR 0x01 else rex);
       buf \<leftarrow> (if rex \<noteq> 0x40 \<or> force_rex then z_x64_append_u8 buf rex else Some buf);
       buf \<leftarrow> z_x64_append_u8 buf opcode;
       let needs_base_disp = base_reg AND 7 = 5;
       let md = 0x80;
       let md = (if disp = 0 \<and> \<not> needs_base_disp then 0x00 else (if disp \<le> 127 then 0x40
           else md));
       buf \<leftarrow> z_x64_append_u8 buf (md OR push_bit 3 (reg AND 7) OR 0x04);
       scale_bits \<leftarrow> z_x64_scale_bits scale;
       buf \<leftarrow> z_x64_append_u8 buf (push_bit 6 scale_bits OR push_bit 3 (index_reg AND 7) OR (base_reg AND 7));
       if md = 0x40 then z_x64_append_u8 buf disp else if md = 0x80 then z_x64_append_u32 buf disp
           else Some buf }"

definition z_x64_emit_base_index_reg ::
  "ZBuf \<Rightarrow> u32 \<Rightarrow> u32 \<Rightarrow> u32 \<Rightarrow> u32 \<Rightarrow> bool \<Rightarrow> bool \<Rightarrow> ZBuf option" where
  "z_x64_emit_base_index_reg buf opcode reg base_reg index_reg wide reg_is_byte =
     z_x64_emit_base_index_scale_disp_op buf opcode reg base_reg index_reg 1 0 wide reg_is_byte"

definition z_x64_emit_load_reg8_base_index ::
  "ZBuf \<Rightarrow> u32 \<Rightarrow> u32 \<Rightarrow> u32 \<Rightarrow> ZBuf option" where
  "z_x64_emit_load_reg8_base_index buf dst_reg base_reg index_reg =
     z_x64_emit_base_index_reg buf 0x8a dst_reg base_reg index_reg False True"

definition z_x64_emit_movzx_reg32_base_index_u8 ::
  "ZBuf \<Rightarrow> u32 \<Rightarrow> u32 \<Rightarrow> u32 \<Rightarrow> ZBuf option" where
  "z_x64_emit_movzx_reg32_base_index_u8 buf dst_reg base_reg index_reg =
     do {
       _ \<leftarrow> z_x64_require_reg dst_reg;
       _ \<leftarrow> z_x64_require_reg base_reg;
       _ \<leftarrow> z_x64_require_sib_index index_reg;
       let rex = 0x40;
       let rex = (if dst_reg \<ge> 8 then rex OR 0x04 else rex);
       let rex = (if index_reg \<ge> 8 then rex OR 0x02 else rex);
       let rex = (if base_reg \<ge> 8 then rex OR 0x01 else rex);
       buf \<leftarrow> (if rex \<noteq> 0x40 then z_x64_append_u8 buf rex else Some buf);
       buf \<leftarrow> z_x64_append_u8 buf 0x0f;
       buf \<leftarrow> z_x64_append_u8 buf 0xb6;
       let md = (if base_reg AND 7 = 5 then 0x40 else 0x00);
       buf \<leftarrow> z_x64_append_u8 buf (md OR push_bit 3 (dst_reg AND 7) OR 0x04);
       buf \<leftarrow> z_x64_append_u8 buf (push_bit 3 (index_reg AND 7) OR (base_reg AND 7));
       if md = 0x40 then z_x64_append_u8 buf 0 else Some buf }"

definition z_x64_emit_store_base_index_reg8 ::
  "ZBuf \<Rightarrow> u32 \<Rightarrow> u32 \<Rightarrow> u32 \<Rightarrow> ZBuf option" where
  "z_x64_emit_store_base_index_reg8 buf base_reg index_reg src_reg =
     z_x64_emit_base_index_reg buf 0x88 src_reg base_reg index_reg False True"

definition z_x64_emit_cmp_base_index_reg8 ::
  "ZBuf \<Rightarrow> u32 \<Rightarrow> u32 \<Rightarrow> u32 \<Rightarrow> ZBuf option" where
  "z_x64_emit_cmp_base_index_reg8 buf base_reg index_reg reg =
     z_x64_emit_base_index_reg buf 0x38 reg base_reg index_reg False True"

definition z_x64_emit_cmp_base_index_u8 ::
  "ZBuf \<Rightarrow> u32 \<Rightarrow> u32 \<Rightarrow> u32 \<Rightarrow> ZBuf option" where
  "z_x64_emit_cmp_base_index_u8 buf base_reg index_reg value =
     do {
       _ \<leftarrow> (if value > 0xff then None else Some ());
       buf \<leftarrow> z_x64_emit_base_index_reg buf 0x80 7 base_reg index_reg False False;
       z_x64_append_u8 buf value }"

definition z_x64_emit_load_base_index_scale_disp_reg ::
  "ZBuf \<Rightarrow> u32 \<Rightarrow> u32 \<Rightarrow> u32 \<Rightarrow> u32 \<Rightarrow> u32 \<Rightarrow> bool \<Rightarrow> ZBuf option" where
  "z_x64_emit_load_base_index_scale_disp_reg buf dst_reg base_reg index_reg scale disp wide =
     z_x64_emit_base_index_scale_disp_op buf 0x8b dst_reg base_reg index_reg scale disp wide False"

definition z_x64_emit_lea_base_index_scale_disp_reg ::
  "ZBuf \<Rightarrow> u32 \<Rightarrow> u32 \<Rightarrow> u32 \<Rightarrow> u32 \<Rightarrow> u32 \<Rightarrow> ZBuf option" where
  "z_x64_emit_lea_base_index_scale_disp_reg buf dst_reg base_reg index_reg scale disp =
     z_x64_emit_base_index_scale_disp_op buf 0x8d dst_reg base_reg index_reg scale disp True False"

definition z_x64_emit_xor_r8d_r8d :: "ZBuf \<Rightarrow> ZBuf option" where
  "z_x64_emit_xor_r8d_r8d buf =
     do {
       buf \<leftarrow> z_x64_append_u8 buf 0x45;
       buf \<leftarrow> z_x64_append_u8 buf 0x31;
       z_x64_append_u8 buf 0xc0 }"

definition z_x64_emit_push_reg64 :: "ZBuf \<Rightarrow> u32 \<Rightarrow> ZBuf option" where
  "z_x64_emit_push_reg64 buf reg =
     do {
       buf \<leftarrow> (if reg \<ge> 8 then z_x64_append_u8 buf 0x41 else Some buf);
       z_x64_append_u8 buf (0x50 + (reg AND 7)) }"

definition z_x64_emit_pop_reg64 :: "ZBuf \<Rightarrow> u32 \<Rightarrow> ZBuf option" where
  "z_x64_emit_pop_reg64 buf reg =
     do {
       buf \<leftarrow> (if reg \<ge> 8 then z_x64_append_u8 buf 0x41 else Some buf);
       z_x64_append_u8 buf (0x58 + (reg AND 7)) }"

definition z_x64_emit_push_rax :: "ZBuf \<Rightarrow> ZBuf option" where
  "z_x64_emit_push_rax buf = z_x64_emit_push_reg64 buf 0"

definition z_x64_emit_pop_rax :: "ZBuf \<Rightarrow> ZBuf option" where
  "z_x64_emit_pop_rax buf = z_x64_emit_pop_reg64 buf 0"

definition z_x64_emit_mov_rcx_from_rax :: "ZBuf \<Rightarrow> bool \<Rightarrow> ZBuf option" where
  "z_x64_emit_mov_rcx_from_rax buf wide =
     do {
       buf \<leftarrow> z_x64_emit_wide_prefix buf wide;
       buf \<leftarrow> z_x64_append_u8 buf 0x89;
       z_x64_append_u8 buf 0xc1 }"

definition z_x64_emit_mov_r9_from_rax :: "ZBuf \<Rightarrow> ZBuf option" where
  "z_x64_emit_mov_r9_from_rax buf =
     do {
       buf \<leftarrow> z_x64_append_u8 buf 0x49;
       buf \<leftarrow> z_x64_append_u8 buf 0x89;
       z_x64_append_u8 buf 0xc1 }"

definition z_x64_emit_mov_rax_from_rcx :: "ZBuf \<Rightarrow> ZBuf option" where
  "z_x64_emit_mov_rax_from_rcx buf =
     do {
       buf \<leftarrow> z_x64_append_u8 buf 0x48;
       buf \<leftarrow> z_x64_append_u8 buf 0x89;
       z_x64_append_u8 buf 0xc8 }"

definition z_x64_emit_mov_rdx_from_rax :: "ZBuf \<Rightarrow> ZBuf option" where
  "z_x64_emit_mov_rdx_from_rax buf =
     do {
       buf \<leftarrow> z_x64_append_u8 buf 0x48;
       buf \<leftarrow> z_x64_append_u8 buf 0x89;
       z_x64_append_u8 buf 0xc2 }"

definition z_x64_emit_mov_rdi_from_rax :: "ZBuf \<Rightarrow> ZBuf option" where
  "z_x64_emit_mov_rdi_from_rax buf =
     do {
       buf \<leftarrow> z_x64_append_u8 buf 0x48;
       buf \<leftarrow> z_x64_append_u8 buf 0x89;
       z_x64_append_u8 buf 0xc7 }"

definition z_x64_emit_mov_rsi_from_rax :: "ZBuf \<Rightarrow> ZBuf option" where
  "z_x64_emit_mov_rsi_from_rax buf =
     do {
       buf \<leftarrow> z_x64_append_u8 buf 0x48;
       buf \<leftarrow> z_x64_append_u8 buf 0x89;
       z_x64_append_u8 buf 0xc6 }"

definition z_x64_emit_mov_rsi_from_rsp :: "ZBuf \<Rightarrow> ZBuf option" where
  "z_x64_emit_mov_rsi_from_rsp buf =
     do {
       buf \<leftarrow> z_x64_append_u8 buf 0x48;
       buf \<leftarrow> z_x64_append_u8 buf 0x89;
       z_x64_append_u8 buf 0xe6 }"

definition z_x64_emit_mov_rax_from_rdx :: "ZBuf \<Rightarrow> ZBuf option" where
  "z_x64_emit_mov_rax_from_rdx buf =
     do {
       buf \<leftarrow> z_x64_append_u8 buf 0x48;
       buf \<leftarrow> z_x64_append_u8 buf 0x89;
       z_x64_append_u8 buf 0xd0 }"

definition z_x64_emit_mov_rax_from_rdi :: "ZBuf \<Rightarrow> ZBuf option" where
  "z_x64_emit_mov_rax_from_rdi buf =
     do {
       buf \<leftarrow> z_x64_append_u8 buf 0x48;
       buf \<leftarrow> z_x64_append_u8 buf 0x89;
       z_x64_append_u8 buf 0xf8 }"

definition z_x64_emit_mov_eax_from_ecx :: "ZBuf \<Rightarrow> ZBuf option" where
  "z_x64_emit_mov_eax_from_ecx buf =
     do {
       buf \<leftarrow> z_x64_append_u8 buf 0x89;
       z_x64_append_u8 buf 0xc8 }"

definition z_x64_emit_mov_rax_u64_patchable :: "ZBuf \<Rightarrow> u64 \<Rightarrow> (ZBuf \<times> nat) option" where
  "z_x64_emit_mov_rax_u64_patchable buf value =
     do {
       buf \<leftarrow> z_x64_append_u8 buf 0x48;
       buf \<leftarrow> z_x64_append_u8 buf 0xb8;
       let patch = length (zdata buf);
       buf \<leftarrow> z_x64_append_u64 buf value;
       Some (buf, patch) }"

definition z_x64_emit_mov_rax_u64 :: "ZBuf \<Rightarrow> u64 \<Rightarrow> ZBuf option" where
  "z_x64_emit_mov_rax_u64 buf value =
     do {
       (buf, _) \<leftarrow> z_x64_emit_mov_rax_u64_patchable buf value;
       Some buf }"

definition z_x64_emit_xor_eax_eax :: "ZBuf \<Rightarrow> ZBuf option" where
  "z_x64_emit_xor_eax_eax buf =
     do {
       buf \<leftarrow> z_x64_append_u8 buf 0x31;
       z_x64_append_u8 buf 0xc0 }"

definition z_x64_emit_xor_ecx_ecx :: "ZBuf \<Rightarrow> ZBuf option" where
  "z_x64_emit_xor_ecx_ecx buf =
     do {
       buf \<leftarrow> z_x64_append_u8 buf 0x31;
       z_x64_append_u8 buf 0xc9 }"

definition z_x64_emit_xor_rdi_rdi :: "ZBuf \<Rightarrow> ZBuf option" where
  "z_x64_emit_xor_rdi_rdi buf =
     do {
       buf \<leftarrow> z_x64_append_u8 buf 0x48;
       buf \<leftarrow> z_x64_append_u8 buf 0x31;
       z_x64_append_u8 buf 0xff }"

definition z_x64_emit_xor_rax_rax :: "ZBuf \<Rightarrow> ZBuf option" where
  "z_x64_emit_xor_rax_rax buf =
     do {
       buf \<leftarrow> z_x64_append_u8 buf 0x48;
       z_x64_emit_xor_eax_eax buf }"

definition z_x64_emit_inc_ecx :: "ZBuf \<Rightarrow> ZBuf option" where
  "z_x64_emit_inc_ecx buf =
     do {
       buf \<leftarrow> z_x64_append_u8 buf 0xff;
       z_x64_append_u8 buf 0xc1 }"

definition z_x64_emit_inc_rcx :: "ZBuf \<Rightarrow> ZBuf option" where
  "z_x64_emit_inc_rcx buf =
     do {
       buf \<leftarrow> z_x64_append_u8 buf 0x48;
       z_x64_emit_inc_ecx buf }"

definition z_x64_emit_inc_r8 :: "ZBuf \<Rightarrow> ZBuf option" where
  "z_x64_emit_inc_r8 buf =
     do {
       buf \<leftarrow> z_x64_append_u8 buf 0x49;
       buf \<leftarrow> z_x64_append_u8 buf 0xff;
       z_x64_append_u8 buf 0xc0 }"

definition z_x64_emit_dec_r8d :: "ZBuf \<Rightarrow> ZBuf option" where
  "z_x64_emit_dec_r8d buf =
     do {
       buf \<leftarrow> z_x64_append_u8 buf 0x41;
       buf \<leftarrow> z_x64_append_u8 buf 0xff;
       z_x64_append_u8 buf 0xc8 }"

definition z_x64_emit_add_rax_rcx :: "ZBuf \<Rightarrow> bool \<Rightarrow> ZBuf option" where
  "z_x64_emit_add_rax_rcx buf wide = z_x64_emit_add_reg_reg buf 0 1 wide"

definition z_x64_emit_sub_rax_rcx :: "ZBuf \<Rightarrow> bool \<Rightarrow> ZBuf option" where
  "z_x64_emit_sub_rax_rcx buf wide = z_x64_emit_sub_reg_reg buf 0 1 wide"

definition z_x64_emit_imul_rax_rcx :: "ZBuf \<Rightarrow> bool \<Rightarrow> ZBuf option" where
  "z_x64_emit_imul_rax_rcx buf wide =
     do {
       buf \<leftarrow> z_x64_emit_wide_prefix buf wide;
       buf \<leftarrow> z_x64_append_u8 buf 0x0f;
       buf \<leftarrow> z_x64_append_u8 buf 0xaf;
       z_x64_append_u8 buf 0xc1 }"

definition z_x64_emit_and_rax_rcx :: "ZBuf \<Rightarrow> bool \<Rightarrow> ZBuf option" where
  "z_x64_emit_and_rax_rcx buf wide =
     do {
       buf \<leftarrow> z_x64_emit_wide_prefix buf wide;
       buf \<leftarrow> z_x64_append_u8 buf 0x21;
       z_x64_append_u8 buf 0xc8 }"

definition z_x64_emit_or_rax_rcx :: "ZBuf \<Rightarrow> bool \<Rightarrow> ZBuf option" where
  "z_x64_emit_or_rax_rcx buf wide =
     do {
       buf \<leftarrow> z_x64_emit_wide_prefix buf wide;
       buf \<leftarrow> z_x64_append_u8 buf 0x09;
       z_x64_append_u8 buf 0xc8 }"

definition z_x64_emit_xor_rax_rcx :: "ZBuf \<Rightarrow> bool \<Rightarrow> ZBuf option" where
  "z_x64_emit_xor_rax_rcx buf wide =
     do {
       buf \<leftarrow> z_x64_emit_wide_prefix buf wide;
       buf \<leftarrow> z_x64_append_u8 buf 0x31;
       z_x64_append_u8 buf 0xc8 }"

definition z_x64_emit_shl_rax_cl :: "ZBuf \<Rightarrow> bool \<Rightarrow> ZBuf option" where
  "z_x64_emit_shl_rax_cl buf wide =
     do {
       buf \<leftarrow> z_x64_emit_wide_prefix buf wide;
       buf \<leftarrow> z_x64_append_u8 buf 0xd3;
       z_x64_append_u8 buf 0xe0 }"

definition z_x64_emit_shr_rax_cl :: "ZBuf \<Rightarrow> bool \<Rightarrow> ZBuf option" where
  "z_x64_emit_shr_rax_cl buf wide =
     do {
       buf \<leftarrow> z_x64_emit_wide_prefix buf wide;
       buf \<leftarrow> z_x64_append_u8 buf 0xd3;
       z_x64_append_u8 buf 0xe8 }"

definition z_x64_emit_rol_rax_cl :: "ZBuf \<Rightarrow> bool \<Rightarrow> ZBuf option" where
  "z_x64_emit_rol_rax_cl buf wide =
     do {
       buf \<leftarrow> z_x64_emit_wide_prefix buf wide;
       buf \<leftarrow> z_x64_append_u8 buf 0xd3;
       z_x64_append_u8 buf 0xc0 }"

definition z_x64_emit_ror_rax_cl :: "ZBuf \<Rightarrow> bool \<Rightarrow> ZBuf option" where
  "z_x64_emit_ror_rax_cl buf wide =
     do {
       buf \<leftarrow> z_x64_emit_wide_prefix buf wide;
       buf \<leftarrow> z_x64_append_u8 buf 0xd3;
       z_x64_append_u8 buf 0xc8 }"

definition z_x64_emit_add_rdx_rcx :: "ZBuf \<Rightarrow> bool \<Rightarrow> ZBuf option" where
  "z_x64_emit_add_rdx_rcx buf wide = z_x64_emit_add_reg_reg buf 2 1 wide"

definition z_x64_emit_shl_rcx_imm8 :: "ZBuf \<Rightarrow> u32 \<Rightarrow> ZBuf option" where
  "z_x64_emit_shl_rcx_imm8 buf amount = z_x64_emit_shl_reg_imm8 buf 1 amount True"

definition z_x64_emit_shr_rcx_imm8 :: "ZBuf \<Rightarrow> u32 \<Rightarrow> ZBuf option" where
  "z_x64_emit_shr_rcx_imm8 buf amount = z_x64_emit_shr_reg_imm8 buf 1 amount True"

definition z_x64_emit_ptr_reg_disp_op ::
  "ZBuf \<Rightarrow> u32 \<Rightarrow> u32 \<Rightarrow> u32 \<Rightarrow> u32 \<Rightarrow> u32 \<Rightarrow> bool \<Rightarrow> bool \<Rightarrow> ZBuf option" where
  "z_x64_emit_ptr_reg_disp_op buf escape opcode reg base_reg disp wide reg_is_byte =
     do {
       _ \<leftarrow> z_x64_require_reg reg;
       _ \<leftarrow> z_x64_require_reg base_reg;
       let force_rex = \<not> wide \<and> reg_is_byte \<and> reg \<ge> 4 \<and> reg < 8;
       let rex = (if wide then 0x48 else 0x40);
       let rex = (if reg \<ge> 8 then rex OR 0x04 else rex);
       let rex = (if base_reg \<ge> 8 then rex OR 0x01 else rex);
       buf \<leftarrow> (if rex \<noteq> 0x40 \<or> force_rex then z_x64_append_u8 buf rex else Some buf);
       buf \<leftarrow> (if escape \<noteq> 0 then z_x64_append_u8 buf escape else Some buf);
       buf \<leftarrow> z_x64_append_u8 buf opcode;
       let sib = base_reg AND 7 = 4;
       let needs_base_disp = base_reg AND 7 = 5;
       let md = 0x80;
       let md = (if disp = 0 \<and> \<not> needs_base_disp then 0x00 else (if disp \<le> 127 then 0x40
           else md));
       buf \<leftarrow> z_x64_append_u8 buf (md OR push_bit 3 (reg AND 7) OR (if sib then 0x04
           else base_reg AND 7));
       buf \<leftarrow> (if sib then z_x64_append_u8 buf (0x20 OR (base_reg AND 7)) else Some buf);
       if md = 0x40 then z_x64_append_u8 buf disp else if md = 0x80 then z_x64_append_u32 buf disp
           else Some buf }"

definition z_x64_emit_movzx_reg32_ptr_reg_u8 ::
  "ZBuf \<Rightarrow> u32 \<Rightarrow> u32 \<Rightarrow> ZBuf option" where
  "z_x64_emit_movzx_reg32_ptr_reg_u8 buf dst_reg base_reg =
     z_x64_emit_ptr_reg_disp_op buf 0x0f 0xb6 dst_reg base_reg 0 False False"

definition z_x64_emit_movzx_reg32_ptr_reg_disp_u16 ::
  "ZBuf \<Rightarrow> u32 \<Rightarrow> u32 \<Rightarrow> u32 \<Rightarrow> ZBuf option" where
  "z_x64_emit_movzx_reg32_ptr_reg_disp_u16 buf dst_reg base_reg disp =
     z_x64_emit_ptr_reg_disp_op buf 0x0f 0xb7 dst_reg base_reg disp False False"

definition z_x64_emit_load_reg_ptr_reg ::
  "ZBuf \<Rightarrow> u32 \<Rightarrow> u32 \<Rightarrow> bool \<Rightarrow> ZBuf option" where
  "z_x64_emit_load_reg_ptr_reg buf dst_reg base_reg wide =
     z_x64_emit_ptr_reg_disp_op buf 0 0x8b dst_reg base_reg 0 wide False"

definition z_x64_emit_mov_ptr_reg_disp_u8 ::
  "ZBuf \<Rightarrow> u32 \<Rightarrow> u32 \<Rightarrow> u32 \<Rightarrow> ZBuf option" where
  "z_x64_emit_mov_ptr_reg_disp_u8 buf base_reg disp value =
     do {
       _ \<leftarrow> (if value > 0xff then None else Some ());
       buf \<leftarrow> z_x64_emit_ptr_reg_disp_op buf 0 0xc6 0 base_reg disp False False;
       z_x64_append_u8 buf value }"

definition z_x64_emit_store_ptr_reg8_from_reg ::
  "ZBuf \<Rightarrow> u32 \<Rightarrow> u32 \<Rightarrow> ZBuf option" where
  "z_x64_emit_store_ptr_reg8_from_reg buf base_reg src_reg =
     z_x64_emit_ptr_reg_disp_op buf 0 0x88 src_reg base_reg 0 False True"

definition z_x64_emit_store_ptr_reg_from_reg ::
  "ZBuf \<Rightarrow> u32 \<Rightarrow> u32 \<Rightarrow> bool \<Rightarrow> ZBuf option" where
  "z_x64_emit_store_ptr_reg_from_reg buf base_reg src_reg wide =
     z_x64_emit_ptr_reg_disp_op buf 0 0x89 src_reg base_reg 0 wide False"

definition z_x64_emit_cmp_reg_ptr_reg ::
  "ZBuf \<Rightarrow> u32 \<Rightarrow> u32 \<Rightarrow> bool \<Rightarrow> ZBuf option" where
  "z_x64_emit_cmp_reg_ptr_reg buf lhs_reg base_reg wide =
     z_x64_emit_ptr_reg_disp_op buf 0 0x3b lhs_reg base_reg 0 wide False"

definition z_x64_emit_div_rax_rcx ::
  "ZBuf \<Rightarrow> bool \<Rightarrow> bool \<Rightarrow> bool \<Rightarrow> ZBuf option" where
  "z_x64_emit_div_rax_rcx buf wide uns keep_remainder =
     do {
       buf \<leftarrow> (if uns then do { buf \<leftarrow> z_x64_emit_wide_prefix buf wide;
           buf \<leftarrow> z_x64_append_u8 buf 0x31; buf \<leftarrow> z_x64_append_u8 buf 0xd2;
           buf \<leftarrow> z_x64_emit_wide_prefix buf wide; buf \<leftarrow> z_x64_append_u8 buf 0xf7;
           z_x64_append_u8 buf 0xf1 } else do { buf \<leftarrow> z_x64_emit_wide_prefix buf wide;
           buf \<leftarrow> z_x64_append_u8 buf 0x99; buf \<leftarrow> z_x64_emit_wide_prefix buf wide;
           buf \<leftarrow> z_x64_append_u8 buf 0xf7; z_x64_append_u8 buf 0xf9 });
       if keep_remainder then do { buf \<leftarrow> z_x64_emit_wide_prefix buf wide;
           buf \<leftarrow> z_x64_append_u8 buf 0x89; z_x64_append_u8 buf 0xd0 } else Some buf }"

definition z_x64_emit_test_reg_reg :: "ZBuf \<Rightarrow> u32 \<Rightarrow> bool \<Rightarrow> ZBuf option" where
  "z_x64_emit_test_reg_reg buf reg wide = z_x64_emit_reg_reg_op buf 0x85 reg reg wide"

definition z_x64_emit_test_rax_rax :: "ZBuf \<Rightarrow> bool \<Rightarrow> ZBuf option" where
  "z_x64_emit_test_rax_rax buf wide = z_x64_emit_test_reg_reg buf 0 wide"

definition z_x64_emit_test_ecx_ecx :: "ZBuf \<Rightarrow> ZBuf option" where
  "z_x64_emit_test_ecx_ecx buf = z_x64_emit_test_reg_reg buf 1 False"

definition z_x64_emit_cmp_rax_rcx :: "ZBuf \<Rightarrow> bool \<Rightarrow> ZBuf option" where
  "z_x64_emit_cmp_rax_rcx buf wide = z_x64_emit_cmp_reg_reg buf 0 1 wide"

definition z_x64_emit_setcc_al_to_bool :: "ZBuf \<Rightarrow> u32 \<Rightarrow> ZBuf option" where
  "z_x64_emit_setcc_al_to_bool buf setcc_opcode =
     do {
       _ \<leftarrow> (if setcc_opcode < 0x90 \<or> setcc_opcode > 0x9f then None else Some ());
       buf \<leftarrow> z_x64_append_u8 buf 0x0f;
       buf \<leftarrow> z_x64_append_u8 buf setcc_opcode;
       buf \<leftarrow> z_x64_append_u8 buf 0xc0;
       buf \<leftarrow> z_x64_append_u8 buf 0x0f;
       buf \<leftarrow> z_x64_append_u8 buf 0xb6;
       z_x64_append_u8 buf 0xc0 }"

definition z_x64_emit_cmp_rax_rcx_to_bool ::
  "ZBuf \<Rightarrow> u32 \<Rightarrow> bool \<Rightarrow> ZBuf option" where
  "z_x64_emit_cmp_rax_rcx_to_bool buf setcc_opcode wide =
     do {
       buf \<leftarrow> z_x64_emit_cmp_rax_rcx buf wide;
       z_x64_emit_setcc_al_to_bool buf setcc_opcode }"

definition z_x64_emit_bool_from_nonnegative_rax :: "ZBuf \<Rightarrow> ZBuf option" where
  "z_x64_emit_bool_from_nonnegative_rax buf =
     do {
       buf \<leftarrow> z_x64_emit_test_rax_rax buf True;
       z_x64_emit_setcc_al_to_bool buf 0x99 }"

definition z_x64_emit_sub_rsp :: "ZBuf \<Rightarrow> u32 \<Rightarrow> ZBuf option" where
  "z_x64_emit_sub_rsp buf amount = (if amount = 0 then Some buf
      else do { buf \<leftarrow> z_x64_append_u8 buf 0x48; if amount \<le> 127
      then do { buf \<leftarrow> z_x64_append_u8 buf 0x83; buf \<leftarrow> z_x64_append_u8 buf 0xec;
      z_x64_append_u8 buf amount } else do { buf \<leftarrow> z_x64_append_u8 buf 0x81;
      buf \<leftarrow> z_x64_append_u8 buf 0xec; z_x64_append_u32 buf amount } })"

definition z_x64_emit_prologue :: "ZBuf \<Rightarrow> u32 \<Rightarrow> ZBuf option" where
  "z_x64_emit_prologue buf stack_size =
     do {
       buf \<leftarrow> z_x64_append_u8 buf 0x55;
       buf \<leftarrow> z_x64_append_u8 buf 0x48;
       buf \<leftarrow> z_x64_append_u8 buf 0x89;
       buf \<leftarrow> z_x64_append_u8 buf 0xe5;
       z_x64_emit_sub_rsp buf stack_size }"

definition z_x64_emit_epilogue :: "ZBuf \<Rightarrow> ZBuf option" where
  "z_x64_emit_epilogue buf =
     do {
       buf \<leftarrow> z_x64_append_u8 buf 0xc9;
       z_x64_append_u8 buf 0xc3 }"

definition z_x64_emit_mov_eax_u32 :: "ZBuf \<Rightarrow> u32 \<Rightarrow> ZBuf option" where
  "z_x64_emit_mov_eax_u32 buf value =
     do {
       buf \<leftarrow> z_x64_append_u8 buf 0xb8;
       z_x64_append_u32 buf value }"

definition z_x64_emit_ud2 :: "ZBuf \<Rightarrow> ZBuf option" where
  "z_x64_emit_ud2 buf =
     do {
       buf \<leftarrow> z_x64_append_u8 buf 0x0f;
       z_x64_append_u8 buf 0x0b }"

definition z_x64_emit_syscall :: "ZBuf \<Rightarrow> ZBuf option" where
  "z_x64_emit_syscall buf =
     do {
       buf \<leftarrow> z_x64_append_u8 buf 0x0f;
       z_x64_append_u8 buf 0x05 }"

definition z_x64_emit_add_rsp :: "ZBuf \<Rightarrow> u32 \<Rightarrow> ZBuf option" where
  "z_x64_emit_add_rsp buf amount = (if amount = 0 then Some buf
      else do { buf \<leftarrow> z_x64_append_u8 buf 0x48; if amount \<le> 127
      then do { buf \<leftarrow> z_x64_append_u8 buf 0x83; buf \<leftarrow> z_x64_append_u8 buf 0xc4;
      z_x64_append_u8 buf amount } else do { buf \<leftarrow> z_x64_append_u8 buf 0x81;
      buf \<leftarrow> z_x64_append_u8 buf 0xc4; z_x64_append_u32 buf amount } })"

definition z_x64_emit_xmm_xmm_op ::
  "ZBuf \<Rightarrow> u32 \<Rightarrow> u32 \<Rightarrow> u32 \<Rightarrow> u32 \<Rightarrow> ZBuf option" where
  "z_x64_emit_xmm_xmm_op buf prefix opcode dst_xmm src_xmm =
     do {
       buf \<leftarrow> (if prefix \<noteq> 0 then z_x64_append_u8 buf prefix else Some buf);
       let rex = 0x40;
       let rex = (if dst_xmm \<ge> 8 then rex OR 0x04 else rex);
       let rex = (if src_xmm \<ge> 8 then rex OR 0x01 else rex);
       buf \<leftarrow> (if rex \<noteq> 0x40 then z_x64_append_u8 buf rex else Some buf);
       buf \<leftarrow> z_x64_append_u8 buf 0x0f;
       buf \<leftarrow> z_x64_append_u8 buf opcode;
       z_x64_append_u8 buf (0xc0 OR push_bit 3 (dst_xmm AND 7) OR (src_xmm AND 7)) }"

definition z_x64_emit_xmm_ptr_rbp_disp_op ::
  "ZBuf \<Rightarrow> u32 \<Rightarrow> u32 \<Rightarrow> u32 \<Rightarrow> u32 \<Rightarrow> ZBuf option" where
  "z_x64_emit_xmm_ptr_rbp_disp_op buf prefix opcode xmm_reg offset =
     do {
       buf \<leftarrow> (if prefix \<noteq> 0 then z_x64_append_u8 buf prefix else Some buf);
       buf \<leftarrow> (if xmm_reg \<ge> 8 then z_x64_append_u8 buf 0x44 else Some buf);
       buf \<leftarrow> z_x64_append_u8 buf 0x0f;
       buf \<leftarrow> z_x64_append_u8 buf opcode;
       let reg_low = xmm_reg AND 7;
       if offset \<le> 127
           then do { buf \<leftarrow> z_x64_append_u8 buf (0x40 OR push_bit 3 reg_low OR 0x05);
           z_x64_append_u8 buf (- offset) }
           else do { buf \<leftarrow> z_x64_append_u8 buf (0x80 OR push_bit 3 reg_low OR 0x05);
           z_x64_append_u32 buf (- offset) } }"

definition z_x64_emit_movss_xmm_reg :: "ZBuf \<Rightarrow> u32 \<Rightarrow> u32 \<Rightarrow> ZBuf option" where
  "z_x64_emit_movss_xmm_reg buf dst_xmm src_xmm = z_x64_emit_xmm_xmm_op buf 0xf3 0x10 dst_xmm src_xmm"

definition z_x64_emit_movsd_xmm_reg :: "ZBuf \<Rightarrow> u32 \<Rightarrow> u32 \<Rightarrow> ZBuf option" where
  "z_x64_emit_movsd_xmm_reg buf dst_xmm src_xmm = z_x64_emit_xmm_xmm_op buf 0xf2 0x10 dst_xmm src_xmm"

definition z_x64_emit_movd_xmm_from_gpr :: "ZBuf \<Rightarrow> u32 \<Rightarrow> u32 \<Rightarrow> ZBuf option" where
  "z_x64_emit_movd_xmm_from_gpr buf xmm_reg gpr_reg =
     do {
       buf \<leftarrow> z_x64_append_u8 buf 0x66;
       let rex = 0x40;
       let rex = (if xmm_reg \<ge> 8 then rex OR 0x04 else rex);
       let rex = (if gpr_reg \<ge> 8 then rex OR 0x01 else rex);
       buf \<leftarrow> (if rex \<noteq> 0x40 then z_x64_append_u8 buf rex else Some buf);
       buf \<leftarrow> z_x64_append_u8 buf 0x0f;
       buf \<leftarrow> z_x64_append_u8 buf 0x6e;
       z_x64_append_u8 buf (0xc0 OR push_bit 3 (xmm_reg AND 7) OR (gpr_reg AND 7)) }"

definition z_x64_emit_movq_xmm_from_gpr :: "ZBuf \<Rightarrow> u32 \<Rightarrow> u32 \<Rightarrow> ZBuf option" where
  "z_x64_emit_movq_xmm_from_gpr buf xmm_reg gpr_reg =
     do {
       buf \<leftarrow> z_x64_append_u8 buf 0x66;
       let rex = 0x48;
       let rex = (if xmm_reg \<ge> 8 then rex OR 0x04 else rex);
       let rex = (if gpr_reg \<ge> 8 then rex OR 0x01 else rex);
       buf \<leftarrow> z_x64_append_u8 buf rex;
       buf \<leftarrow> z_x64_append_u8 buf 0x0f;
       buf \<leftarrow> z_x64_append_u8 buf 0x6e;
       z_x64_append_u8 buf (0xc0 OR push_bit 3 (xmm_reg AND 7) OR (gpr_reg AND 7)) }"

definition z_x64_emit_movd_gpr_from_xmm :: "ZBuf \<Rightarrow> u32 \<Rightarrow> u32 \<Rightarrow> ZBuf option" where
  "z_x64_emit_movd_gpr_from_xmm buf gpr_reg xmm_reg =
     do {
       buf \<leftarrow> z_x64_append_u8 buf 0x66;
       let rex = 0x40;
       let rex = (if xmm_reg \<ge> 8 then rex OR 0x04 else rex);
       let rex = (if gpr_reg \<ge> 8 then rex OR 0x01 else rex);
       buf \<leftarrow> (if rex \<noteq> 0x40 then z_x64_append_u8 buf rex else Some buf);
       buf \<leftarrow> z_x64_append_u8 buf 0x0f;
       buf \<leftarrow> z_x64_append_u8 buf 0x7e;
       z_x64_append_u8 buf (0xc0 OR push_bit 3 (xmm_reg AND 7) OR (gpr_reg AND 7)) }"

definition z_x64_emit_movq_gpr_from_xmm :: "ZBuf \<Rightarrow> u32 \<Rightarrow> u32 \<Rightarrow> ZBuf option" where
  "z_x64_emit_movq_gpr_from_xmm buf gpr_reg xmm_reg =
     do {
       buf \<leftarrow> z_x64_append_u8 buf 0x66;
       let rex = 0x48;
       let rex = (if xmm_reg \<ge> 8 then rex OR 0x04 else rex);
       let rex = (if gpr_reg \<ge> 8 then rex OR 0x01 else rex);
       buf \<leftarrow> z_x64_append_u8 buf rex;
       buf \<leftarrow> z_x64_append_u8 buf 0x0f;
       buf \<leftarrow> z_x64_append_u8 buf 0x7e;
       z_x64_append_u8 buf (0xc0 OR push_bit 3 (xmm_reg AND 7) OR (gpr_reg AND 7)) }"

definition z_x64_emit_addss_xmm_xmm :: "ZBuf \<Rightarrow> u32 \<Rightarrow> u32 \<Rightarrow> ZBuf option" where
  "z_x64_emit_addss_xmm_xmm buf dst_xmm src_xmm = z_x64_emit_xmm_xmm_op buf 0xf3 0x58 dst_xmm src_xmm"

definition z_x64_emit_addsd_xmm_xmm :: "ZBuf \<Rightarrow> u32 \<Rightarrow> u32 \<Rightarrow> ZBuf option" where
  "z_x64_emit_addsd_xmm_xmm buf dst_xmm src_xmm = z_x64_emit_xmm_xmm_op buf 0xf2 0x58 dst_xmm src_xmm"

definition z_x64_emit_subss_xmm_xmm :: "ZBuf \<Rightarrow> u32 \<Rightarrow> u32 \<Rightarrow> ZBuf option" where
  "z_x64_emit_subss_xmm_xmm buf dst_xmm src_xmm = z_x64_emit_xmm_xmm_op buf 0xf3 0x5c dst_xmm src_xmm"

definition z_x64_emit_subsd_xmm_xmm :: "ZBuf \<Rightarrow> u32 \<Rightarrow> u32 \<Rightarrow> ZBuf option" where
  "z_x64_emit_subsd_xmm_xmm buf dst_xmm src_xmm = z_x64_emit_xmm_xmm_op buf 0xf2 0x5c dst_xmm src_xmm"

definition z_x64_emit_mulss_xmm_xmm :: "ZBuf \<Rightarrow> u32 \<Rightarrow> u32 \<Rightarrow> ZBuf option" where
  "z_x64_emit_mulss_xmm_xmm buf dst_xmm src_xmm = z_x64_emit_xmm_xmm_op buf 0xf3 0x59 dst_xmm src_xmm"

definition z_x64_emit_mulsd_xmm_xmm :: "ZBuf \<Rightarrow> u32 \<Rightarrow> u32 \<Rightarrow> ZBuf option" where
  "z_x64_emit_mulsd_xmm_xmm buf dst_xmm src_xmm = z_x64_emit_xmm_xmm_op buf 0xf2 0x59 dst_xmm src_xmm"

definition z_x64_emit_divss_xmm_xmm :: "ZBuf \<Rightarrow> u32 \<Rightarrow> u32 \<Rightarrow> ZBuf option" where
  "z_x64_emit_divss_xmm_xmm buf dst_xmm src_xmm = z_x64_emit_xmm_xmm_op buf 0xf3 0x5e dst_xmm src_xmm"

definition z_x64_emit_divsd_xmm_xmm :: "ZBuf \<Rightarrow> u32 \<Rightarrow> u32 \<Rightarrow> ZBuf option" where
  "z_x64_emit_divsd_xmm_xmm buf dst_xmm src_xmm = z_x64_emit_xmm_xmm_op buf 0xf2 0x5e dst_xmm src_xmm"

definition z_x64_emit_ucomiss_xmm_xmm :: "ZBuf \<Rightarrow> u32 \<Rightarrow> u32 \<Rightarrow> ZBuf option" where
  "z_x64_emit_ucomiss_xmm_xmm buf xmm_left xmm_right = z_x64_emit_xmm_xmm_op buf 0 0x2e xmm_left xmm_right"

definition z_x64_emit_ucomisd_xmm_xmm :: "ZBuf \<Rightarrow> u32 \<Rightarrow> u32 \<Rightarrow> ZBuf option" where
  "z_x64_emit_ucomisd_xmm_xmm buf xmm_left xmm_right = z_x64_emit_xmm_xmm_op buf 0x66 0x2e xmm_left xmm_right"

definition z_x64_emit_movss_xmm_ptr_rbp_disp ::
  "ZBuf \<Rightarrow> u32 \<Rightarrow> u32 \<Rightarrow> ZBuf option" where
  "z_x64_emit_movss_xmm_ptr_rbp_disp buf xmm_reg offset = z_x64_emit_xmm_ptr_rbp_disp_op buf 0xf3 0x10 xmm_reg offset"

definition z_x64_emit_movsd_xmm_ptr_rbp_disp ::
  "ZBuf \<Rightarrow> u32 \<Rightarrow> u32 \<Rightarrow> ZBuf option" where
  "z_x64_emit_movsd_xmm_ptr_rbp_disp buf xmm_reg offset = z_x64_emit_xmm_ptr_rbp_disp_op buf 0xf2 0x10 xmm_reg offset"

definition z_x64_emit_movss_ptr_rbp_disp_xmm ::
  "ZBuf \<Rightarrow> u32 \<Rightarrow> u32 \<Rightarrow> ZBuf option" where
  "z_x64_emit_movss_ptr_rbp_disp_xmm buf xmm_reg offset = z_x64_emit_xmm_ptr_rbp_disp_op buf 0xf3 0x11 xmm_reg offset"

definition z_x64_emit_movsd_ptr_rbp_disp_xmm ::
  "ZBuf \<Rightarrow> u32 \<Rightarrow> u32 \<Rightarrow> ZBuf option" where
  "z_x64_emit_movsd_ptr_rbp_disp_xmm buf xmm_reg offset = z_x64_emit_xmm_ptr_rbp_disp_op buf 0xf2 0x11 xmm_reg offset"


section \<open>The encoder writes through the byte sink\<close>

interpretation x64_sink: byte_sink z_x64_append_u8
  by unfold_locales (simp add: z_x64_append_u8_def ucast_low_byte emits_append_char)

lemma x64_append_u8 [emits_intros]: "emits (\<lambda>b. z_x64_append_u8 b v) [ucast v]"
  by (rule x64_sink.put8_emits)

lemma x64_append_u32 [emits_intros]: "emits (\<lambda>b. z_x64_append_u32 b v) (le32 v)"
  using x64_sink.put32_emits [of v] by (simp add: z_x64_append_u32_def)

lemma x64_append_u64 [emits_intros]: "emits (\<lambda>b. z_x64_append_u64 b v) (le64 v)"
  unfolding z_x64_append_u64_def le64_def by (intro emits_intros)

end
