(* ===== verification/X64Decode.thy ===== *)
theory X64Decode
  imports X64 BitFields
begin

text \<open>
  A decoder for the x86-64 instructions the encoder writes, after the Intel manual: one legacy
  prefix, REX, a one- or two-byte opcode, ModRM with SIB and displacement, an immediate. It splits a
  byte string into the first instruction and the rest, so that an emitter is right when its bytes are
  exactly the one instruction its name promises, whatever is appended behind them.
\<close>

section \<open>Instructions\<close>

text \<open>A memory operand is a base register, an index with the exponent of its scale, and a displacement.\<close>

datatype x64_operand = Reg u32 | Mem u32 "(u32 \<times> u32) option" u32 | RipRel u32

datatype x64_args = NoArgs | OpReg u32 | RegRm u32 x64_operand

text \<open>Prefix, whether there is a REX byte, its W bit, the opcode, the operands, the immediate bytes.\<close>

datatype x64_insn = X64 "u8 option" bool bool "u8 list" x64_args "u8 list"

text \<open>What follows an opcode: nothing, a register in its low bits, or ModRM; and the immediate's size.\<close>

datatype x64_shape = Plain nat | OpLow nat | ModRM nat

definition modrm_ops :: "u8 list" where
  "modrm_ops = [0x01, 0x03, 0x09, 0x21, 0x29, 0x31, 0x38, 0x39, 0x3b, 0x85, 0x88, 0x89, 0x8a, 0x8b, 0x8d, 0xd1, 0xd3, 0xf7, 0xff]"

definition shape1 :: "u8 \<Rightarrow> bool \<Rightarrow> x64_shape option" where
  "shape1 op w =
     (if op \<in> set modrm_ops then Some (ModRM 0)
      else if op \<in> {0x80, 0x83, 0xc1, 0xc6} then Some (ModRM 1)
      else if op \<in> {0x69, 0x81, 0xc7} then Some (ModRM 4)
      else if op \<in> {0x05, 0x2d, 0xe8, 0xe9} then Some (Plain 4)
      else if op \<in> {0x98, 0x99, 0xc3, 0xc9} then Some (Plain 0)
      else if fld 3 5 (ucast op) = 0x0a \<or> fld 3 5 (ucast op) = 0x0b then Some (OpLow 0)
      else if fld 3 5 (ucast op) = 0x17 then Some (OpLow (if w then 8 else 4))
      else None)"

definition shape2 :: "u8 \<Rightarrow> x64_shape option" where
  "shape2 op =
     (if op \<in> {0x05, 0x0b} then Some (Plain 0)
      else if fld 4 4 (ucast op) = 8 then Some (Plain 4)
      else if fld 4 4 (ucast op) = 9 then Some (ModRM 0)
      else if op \<in> {0x10, 0x11, 0x2e, 0x58, 0x59, 0x5c, 0x5e, 0x6e, 0x7e, 0xaf, 0xb6, 0xb7} then Some (ModRM 0)
      else None)"

section \<open>The decoder\<close>

definition ext :: "bool \<Rightarrow> u32 \<Rightarrow> u32" where
  "ext hi low = (if hi then 8 OR low else low)"

definition decode_disp :: "u32 \<Rightarrow> u8 list \<Rightarrow> (u32 \<times> u8 list) option" where
  "decode_disp md bs =
     (if md = 0 then Some (0, bs)
      else if md = 1 then (case bs of [] \<Rightarrow> None | d # bs \<Rightarrow> Some (scast d, bs))
      else if length bs < 4 then None else Some (read32 bs 0, drop 4 bs))"

definition decode_rm :: "u32 \<Rightarrow> u8 list \<Rightarrow> (u32 \<times> x64_operand \<times> u8 list) option" where
  "decode_rm rex bs =
     (case bs of [] \<Rightarrow> None | m # bs \<Rightarrow>
        let m = ucast m; md = fld 6 2 m; reg = ext (fld 2 1 rex = 1) (fld 3 3 m); low = fld 0 3 m
        in if md = 3 then Some (reg, Reg (ext (fld 0 1 rex = 1) low), bs)
           else if low = 4 then
             (case bs of [] \<Rightarrow> None | s # bs \<Rightarrow>
                let s = ucast s; index = ext (fld 1 1 rex = 1) (fld 3 3 s); base = fld 0 3 s
                in if md = 0 \<and> base = 5 then None
                   else do { (d, bs) \<leftarrow> decode_disp md bs;
                             Some (reg, Mem (ext (fld 0 1 rex = 1) base) (if index = 4 then None else Some (index, fld 6 2 s)) d, bs) })
           else if md = 0 \<and> low = 5 then do { (d, bs) \<leftarrow> decode_disp 2 bs; Some (reg, RipRel d, bs) }
           else do { (d, bs) \<leftarrow> decode_disp md bs; Some (reg, Mem (ext (fld 0 1 rex = 1) low) None d, bs) })"

definition decode_tail ::
  "u8 option \<Rightarrow> bool \<Rightarrow> u32 \<Rightarrow> u8 list \<Rightarrow> x64_shape option \<Rightarrow> u8 list \<Rightarrow> (x64_insn \<times> u8 list) option" where
  "decode_tail pfx has_rex rex op shape bs =
     (case shape of
        None \<Rightarrow> None
      | Some (Plain n) \<Rightarrow>
          if length bs < n then None else Some (X64 pfx has_rex (fld 3 1 rex = 1) op NoArgs (take n bs), drop n bs)
      | Some (OpLow n) \<Rightarrow>
          if length bs < n then None
          else Some (X64 pfx has_rex (fld 3 1 rex = 1) [hd op AND 0xf8]
            (OpReg (ext (fld 0 1 rex = 1) (fld 0 3 (ucast (hd op))))) (take n bs), drop n bs)
      | Some (ModRM n) \<Rightarrow>
          do { (reg, rm, bs) \<leftarrow> decode_rm rex bs;
               if length bs < n then None
               else Some (X64 pfx has_rex (fld 3 1 rex = 1) op (RegRm reg rm) (take n bs), drop n bs) })"

definition decode_op :: "u8 option \<Rightarrow> bool \<Rightarrow> u32 \<Rightarrow> u8 list \<Rightarrow> (x64_insn \<times> u8 list) option" where
  "decode_op pfx has_rex rex bs =
     (case bs of [] \<Rightarrow> None
      | op # bs \<Rightarrow>
          if op = 0x0f then
            (case bs of [] \<Rightarrow> None | op2 # bs \<Rightarrow> decode_tail pfx has_rex rex [0x0f, op2] (shape2 op2) bs)
          else decode_tail pfx has_rex rex [op] (shape1 op (fld 3 1 rex = 1)) bs)"

definition decode_rex :: "u8 option \<Rightarrow> u8 list \<Rightarrow> (x64_insn \<times> u8 list) option" where
  "decode_rex pfx bs =
     (case bs of [] \<Rightarrow> None
      | b # bs' \<Rightarrow> if fld 4 4 (ucast b) = 4 then decode_op pfx True (ucast b) bs' else decode_op pfx False 0x40 bs)"

definition x64_decode :: "u8 list \<Rightarrow> (x64_insn \<times> u8 list) option" where
  "x64_decode bs =
     (case bs of [] \<Rightarrow> None
      | b # bs' \<Rightarrow> if b = 0x66 \<or> b = 0xf2 \<or> b = 0xf3 then decode_rex (Some b) bs' else decode_rex None bs)"

definition emits_x64 :: "(ZBuf \<Rightarrow> ZBuf option) \<Rightarrow> x64_insn \<Rightarrow> bool" where
  "emits_x64 f i \<longleftrightarrow> (\<exists>bs. emits f bs \<and> (\<forall>rest. x64_decode (bs @ rest) = Some (i, rest)))"

lemma emits_x64I: "emits f bs \<Longrightarrow> (\<And>rest. x64_decode (bs @ rest) = Some (i, rest)) \<Longrightarrow> emits_x64 f i"
  by (auto simp: emits_x64_def)

section \<open>Facts about registers and displacements\<close>

lemma one_below_8 [simp]: "\<not> 8 \<le> (1 :: u32)"
  by (simp add: word_le_nat_alt)

lemma reg_cases:
  assumes "reg < (16 :: u32)"
  shows "reg \<in> {0, 1, 2, 3, 4, 5, 6, 7, 8, 9, 10, 11, 12, 13, 14, 15}"
proof -
  have "unat reg < 16" using assms by (simp add: word_less_nat_alt)
  then have "reg \<in> word_of_nat ` set [0..<16]" by (intro image_eqI [of _ _ "unat reg"]) simp_all
  then show ?thesis by (simp add: upt_rec)
qed

lemma ext_low [simp]:
  assumes "reg < (16 :: u32)"
  shows "ext (reg \<ge> 8) (reg AND 7) = reg" "reg \<ge> 8 \<Longrightarrow> ext True (reg AND 7) = reg" "\<not> reg \<ge> 8 \<Longrightarrow> ext False (reg AND 7) = reg"
proof -
  show "ext (reg \<ge> 8) (reg AND 7) = reg" using reg_cases [OF assms] by (auto simp: ext_def word_le_nat_alt)
  then show "reg \<ge> 8 \<Longrightarrow> ext True (reg AND 7) = reg" "\<not> reg \<ge> 8 \<Longrightarrow> ext False (reg AND 7) = reg" by auto
qed

lemma ext_num [simp]:
  "ext False 0 = 0" "ext False 1 = 1" "ext False (numeral k) = numeral k"
  "ext True 0 = 8" "ext True 1 = 9" "ext True (numeral k) = 8 OR numeral k"
  by (simp_all add: ext_def)

lemma byte_id [simp]: "(ucast (ucast i :: u32) :: u8) = i"
  by (rule bit_word_eqI) (simp add: bit_simps)

lemma scast_small: "- 128 \<le> k \<Longrightarrow> k < 128 \<Longrightarrow> (scast (word_of_int k :: u8) :: u32) = word_of_int k"
  by (simp add: signed_of_int signed_take_bit_int_eq_self)

lemma ucast_of_int: "(ucast (word_of_int k :: u32) :: u8) = word_of_int k"
  by (rule bit_word_eqI) (simp add: bit_simps)

lemma disp8_pos [simp]: "d \<le> 127 \<Longrightarrow> (scast (ucast d :: u8) :: u32) = d"
  and disp8_neg [simp]: "d \<le> 127 \<Longrightarrow> (scast (ucast (- d) :: u8) :: u32) = - d" for d :: u32
proof -
  assume d: "d \<le> 127"
  then have b: "uint d \<le> 127" by (simp add: word_le_def)
  have z: "- 128 \<le> uint d" using uint_ge_0 [of d] by linarith
  have p: "ucast d = (word_of_int (uint d) :: u8)" by (rule ucast_eq)
  have n: "(ucast (- d) :: u8) = word_of_int (- uint d)"
    using ucast_of_int [of "- uint d"] by simp
  show "(scast (ucast d :: u8) :: u32) = d" unfolding p using b z by (subst scast_small) auto
  show "(scast (ucast (- d) :: u8) :: u32) = - d" unfolding n using b uint_ge_0 [of d] by (subst scast_small) (linarith | simp)+
qed

lemma read32_Cons [simp]: "read32 (le32 v @ rest) 0 = v"
  by simp

lemma read32_append [simp]: "length xs = 4 \<Longrightarrow> read32 (xs @ ys) 0 = read32 xs 0"
  by (simp add: read32_append_left)

lemma require_reg [simp]: "reg < 16 \<Longrightarrow> z_x64_require_reg reg = Some ()"
  by (simp add: z_x64_require_reg_def not_le)

lemma require_sib_index [simp]: "reg < 16 \<Longrightarrow> reg \<noteq> 4 \<Longrightarrow> z_x64_require_sib_index reg = Some ()"
  by (simp add: z_x64_require_sib_index_def)

lemma scale_bits_1 [simp]: "z_x64_scale_bits 1 = Some 0"
  by (simp add: z_x64_scale_bits_def)

lemma scale_field: "z_x64_scale_bits scale = Some sb \<Longrightarrow> fld 6 2 (push_bit 6 sb) = sb"
  by (auto simp: z_x64_scale_bits_def fld_def mask_eq_exp_minus_1 split: if_splits)

lemma index_not_4 [simp]: "reg < (16 :: u32) \<Longrightarrow> reg \<noteq> 4 \<Longrightarrow> \<not> 8 \<le> reg \<Longrightarrow> reg AND 7 \<noteq> 4"
  using ext_low(3) [of reg] by (auto simp: ext_def)

text \<open>The cases the encoder distinguishes, as case rules.\<close>

lemma disp_cases:
  obtains "d = (0 :: u32)" | "d \<noteq> 0" "d \<le> 127" | "d \<noteq> 0" "\<not> d \<le> 127"
  by blast

lemma base_cases:
  assumes "r < (16 :: u32)"
  obtains "r = 4" | "r = 5" | "r = 12" | "r = 13"
    | "r AND 7 \<noteq> 4" "r AND 7 \<noteq> 5" "8 \<le> r" | "r AND 7 \<noteq> 4" "r AND 7 \<noteq> 5" "\<not> 8 \<le> r"
  using reg_cases [OF assms] by auto

lemma byte_cases:
  obtains "8 \<le> r" "4 \<le> (r :: u32)" | "\<not> 8 \<le> r" "4 \<le> r" | "\<not> 8 \<le> r" "\<not> 4 \<le> r"
  using order_trans [of 4 8 r] by auto

text \<open>What the decoder needs to know of an opcode that takes a ModRM byte and nothing else.\<close>

lemma modrm_op:
  assumes "op \<in> set modrm_ops"
  shows "shape1 op w = Some (ModRM 0)" "op \<noteq> 0x66" "op \<noteq> 0xf2" "op \<noteq> 0xf3" "op \<noteq> 0x0f" "fld 4 4 (ucast op) \<noteq> 4"
  using assms by (auto simp: shape1_def modrm_ops_def fld_def mask_eq_exp_minus_1)

lemma modrm_op32: "ucast op \<in> set modrm_ops \<Longrightarrow> fld 4 4 op \<noteq> 4" for op :: u32
  using modrm_op(6) [of "ucast op"] by (simp add: bit_fields)

lemmas x64_decode_simps = x64_decode_def decode_rex_def decode_op_def decode_tail_def decode_rm_def decode_disp_def
  Let_def bit_fields

end
