(* ===== verification/X64Regs.thy ===== *)
theory X64Regs
  imports X64Decode
begin

text \<open>
  The emitters on registers chosen by the caller, and the ones on fixed registers, one by one: the
  bytes of each are exactly one instruction, the one its name promises.
\<close>

lemma x64_cmp_reg_reg:
  assumes "lhs < 16" "rhs < 16"
  shows "emits_x64 (\<lambda>b. z_x64_emit_cmp_reg_reg b lhs rhs wide)
     (X64 None (wide \<or> rhs \<ge> 8 \<or> lhs \<ge> 8) wide [0x39] (RegRm rhs (Reg lhs)) [])"
  by (cases wide; cases "rhs \<ge> 8"; cases "lhs \<ge> 8")
    (rule emits_x64I, simp add: z_x64_emit_cmp_reg_reg_def assms Let_def del: push_bit_and, (rule emits_intros)+,
     simp add: x64_decode_simps shape1_def shape2_def modrm_ops_def assms del: push_bit_and)+

lemma x64_mov_reg_from_rax:
  assumes "reg < 16"
  shows "emits_x64 (\<lambda>b. z_x64_emit_mov_reg_from_rax b reg wide)
     (X64 None (wide \<or> reg \<ge> 8) wide [0x89] (RegRm 0 (Reg reg)) [])"
  by (cases wide; cases "reg \<ge> 8")
    (rule emits_x64I, simp add: z_x64_emit_mov_reg_from_rax_def assms Let_def del: push_bit_and, (rule emits_intros)+,
     simp add: x64_decode_simps shape1_def shape2_def modrm_ops_def assms del: push_bit_and)+

lemma x64_mov_reg_from_reg:
  assumes "dst < 16" "src < 16"
  shows "emits_x64 (\<lambda>b. z_x64_emit_mov_reg_from_reg b dst src wide)
     (X64 None (wide \<or> src \<ge> 8 \<or> dst \<ge> 8) wide [0x89] (RegRm src (Reg dst)) [])"
  by (cases wide; cases "src \<ge> 8"; cases "dst \<ge> 8")
    (rule emits_x64I, simp add: z_x64_emit_mov_reg_from_reg_def assms Let_def del: push_bit_and, (rule emits_intros)+,
     simp add: x64_decode_simps shape1_def shape2_def modrm_ops_def assms del: push_bit_and)+

lemma x64_xor_reg_reg:
  assumes "reg < 16"
  shows "emits_x64 (\<lambda>b. z_x64_emit_xor_reg_reg b reg wide)
     (X64 None (wide \<or> reg \<ge> 8) wide [0x31] (RegRm reg (Reg reg)) [])"
  by (cases wide; cases "reg \<ge> 8")
    (rule emits_x64I, simp add: z_x64_emit_xor_reg_reg_def assms Let_def del: push_bit_and, (rule emits_intros)+,
     simp add: x64_decode_simps shape1_def shape2_def modrm_ops_def assms del: push_bit_and)+

lemma x64_add_reg_reg:
  assumes "dst < 16" "src < 16"
  shows "emits_x64 (\<lambda>b. z_x64_emit_add_reg_reg b dst src wide)
     (X64 None (wide \<or> src \<ge> 8 \<or> dst \<ge> 8) wide [0x01] (RegRm src (Reg dst)) [])"
  by (cases wide; cases "src \<ge> 8"; cases "dst \<ge> 8")
    (rule emits_x64I, simp add: z_x64_emit_add_reg_reg_def z_x64_emit_reg_reg_op_def assms Let_def del:
      push_bit_and, (rule emits_intros)+,
     simp add: x64_decode_simps shape1_def shape2_def modrm_ops_def assms del: push_bit_and)+

lemma x64_sub_reg_reg:
  assumes "dst < 16" "src < 16"
  shows "emits_x64 (\<lambda>b. z_x64_emit_sub_reg_reg b dst src wide)
     (X64 None (wide \<or> src \<ge> 8 \<or> dst \<ge> 8) wide [0x29] (RegRm src (Reg dst)) [])"
  by (cases wide; cases "src \<ge> 8"; cases "dst \<ge> 8")
    (rule emits_x64I, simp add: z_x64_emit_sub_reg_reg_def z_x64_emit_reg_reg_op_def assms Let_def del:
      push_bit_and, (rule emits_intros)+,
     simp add: x64_decode_simps shape1_def shape2_def modrm_ops_def assms del: push_bit_and)+

lemma x64_xor_reg_from_reg:
  assumes "dst < 16" "src < 16"
  shows "emits_x64 (\<lambda>b. z_x64_emit_xor_reg_from_reg b dst src wide)
     (X64 None (wide \<or> src \<ge> 8 \<or> dst \<ge> 8) wide [0x31] (RegRm src (Reg dst)) [])"
  by (cases wide; cases "src \<ge> 8"; cases "dst \<ge> 8")
    (rule emits_x64I, simp add: z_x64_emit_xor_reg_from_reg_def z_x64_emit_reg_reg_op_def assms Let_def del:
      push_bit_and, (rule emits_intros)+,
     simp add: x64_decode_simps shape1_def shape2_def modrm_ops_def assms del: push_bit_and)+

lemma x64_test_reg_reg:
  assumes "reg < 16"
  shows "emits_x64 (\<lambda>b. z_x64_emit_test_reg_reg b reg wide)
     (X64 None (wide \<or> reg \<ge> 8) wide [0x85] (RegRm reg (Reg reg)) [])"
  by (cases wide; cases "reg \<ge> 8")
    (rule emits_x64I, simp add: z_x64_emit_test_reg_reg_def z_x64_emit_reg_reg_op_def assms Let_def del:
      push_bit_and, (rule emits_intros)+,
     simp add: x64_decode_simps shape1_def shape2_def modrm_ops_def assms del: push_bit_and)+

lemma x64_add_reg_i8:
  assumes "reg < 16"
  shows "emits_x64 (\<lambda>b. z_x64_emit_add_reg_i8 b reg i8 wide)
     (X64 None (wide \<or> reg \<ge> 8) wide [0x83] (RegRm 0 (Reg reg)) [i8])"
  by (cases wide; cases "reg \<ge> 8")
    (rule emits_x64I, simp add: z_x64_emit_add_reg_i8_def z_x64_emit_reg_i8_op_def assms Let_def del:
      push_bit_and, (rule emits_intros)+,
     simp add: x64_decode_simps shape1_def shape2_def modrm_ops_def assms del: push_bit_and)+

lemma x64_and_reg_i8:
  assumes "reg < 16"
  shows "emits_x64 (\<lambda>b. z_x64_emit_and_reg_i8 b reg i8 wide)
     (X64 None (wide \<or> reg \<ge> 8) wide [0x83] (RegRm 4 (Reg reg)) [i8])"
  by (cases wide; cases "reg \<ge> 8")
    (rule emits_x64I, simp add: z_x64_emit_and_reg_i8_def z_x64_emit_reg_i8_op_def assms Let_def del:
      push_bit_and, (rule emits_intros)+,
     simp add: x64_decode_simps shape1_def shape2_def modrm_ops_def assms del: push_bit_and)+

lemma x64_cmp_reg_i8:
  assumes "reg < 16"
  shows "emits_x64 (\<lambda>b. z_x64_emit_cmp_reg_i8 b reg i8 wide)
     (X64 None (wide \<or> reg \<ge> 8) wide [0x83] (RegRm 7 (Reg reg)) [i8])"
  by (cases wide; cases "reg \<ge> 8")
    (rule emits_x64I, simp add: z_x64_emit_cmp_reg_i8_def z_x64_emit_reg_i8_op_def assms Let_def del:
      push_bit_and, (rule emits_intros)+,
     simp add: x64_decode_simps shape1_def shape2_def modrm_ops_def assms del: push_bit_and)+

lemma x64_and_reg_u32:
  assumes "reg < 16"
  shows "emits_x64 (\<lambda>b. z_x64_emit_and_reg_u32 b reg v wide)
     (X64 None (wide \<or> reg \<ge> 8) wide [0x81] (RegRm 4 (Reg reg)) (le32 v))"
  by (cases wide; cases "reg \<ge> 8")
    (rule emits_x64I, simp add: z_x64_emit_and_reg_u32_def assms Let_def del: push_bit_and, (rule emits_intros)+,
     simp add: x64_decode_simps shape1_def shape2_def modrm_ops_def assms del: push_bit_and)+

lemma x64_neg_reg:
  assumes "reg < 16"
  shows "emits_x64 (\<lambda>b. z_x64_emit_neg_reg b reg wide)
     (X64 None (wide \<or> reg \<ge> 8) wide [0xf7] (RegRm 3 (Reg reg)) [])"
  by (cases wide; cases "reg \<ge> 8")
    (rule emits_x64I, simp add: z_x64_emit_neg_reg_def assms Let_def del: push_bit_and, (rule emits_intros)+,
     simp add: x64_decode_simps shape1_def shape2_def modrm_ops_def assms del: push_bit_and)+

lemma x64_shr_reg_one:
  assumes "reg < 16"
  shows "emits_x64 (\<lambda>b. z_x64_emit_shr_reg_one b reg wide)
     (X64 None (wide \<or> reg \<ge> 8) wide [0xd1] (RegRm 5 (Reg reg)) [])"
  by (cases wide; cases "reg \<ge> 8")
    (rule emits_x64I, simp add: z_x64_emit_shr_reg_one_def assms Let_def del: push_bit_and, (rule emits_intros)+,
     simp add: x64_decode_simps shape1_def shape2_def modrm_ops_def assms del: push_bit_and)+

lemma x64_shl_reg_imm8:
  assumes "reg < 16" "amount \<le> 255"
  shows "emits_x64 (\<lambda>b. z_x64_emit_shl_reg_imm8 b reg amount wide)
     (X64 None (wide \<or> reg \<ge> 8) wide [0xc1] (RegRm 4 (Reg reg)) [ucast amount])"
  by (cases wide; cases "reg \<ge> 8")
    (rule emits_x64I, simp add: z_x64_emit_shl_reg_imm8_def z_x64_emit_shift_reg_imm8_def assms assms(2) [THEN
      leD] Let_def del: push_bit_and, (rule emits_intros)+,
     simp add: x64_decode_simps shape1_def shape2_def modrm_ops_def assms assms(2) [THEN leD] del: push_bit_and)+

lemma x64_shr_reg_imm8:
  assumes "reg < 16" "amount \<le> 255"
  shows "emits_x64 (\<lambda>b. z_x64_emit_shr_reg_imm8 b reg amount wide)
     (X64 None (wide \<or> reg \<ge> 8) wide [0xc1] (RegRm 5 (Reg reg)) [ucast amount])"
  by (cases wide; cases "reg \<ge> 8")
    (rule emits_x64I, simp add: z_x64_emit_shr_reg_imm8_def z_x64_emit_shift_reg_imm8_def assms assms(2) [THEN
      leD] Let_def del: push_bit_and, (rule emits_intros)+,
     simp add: x64_decode_simps shape1_def shape2_def modrm_ops_def assms assms(2) [THEN leD] del: push_bit_and)+

lemma x64_imul_reg_i32:
  assumes "reg < 16"
  shows "emits_x64 (\<lambda>b. z_x64_emit_imul_reg_i32 b reg v wide)
     (X64 None (wide \<or> reg \<ge> 8) wide [0x69] (RegRm reg (Reg reg)) (le32 v))"
  by (cases wide; cases "reg \<ge> 8")
    (rule emits_x64I, simp add: z_x64_emit_imul_reg_i32_def assms Let_def del: push_bit_and, (rule emits_intros)+,
     simp add: x64_decode_simps shape1_def shape2_def modrm_ops_def assms del: push_bit_and)+

lemma x64_mov_reg_u32:
  assumes "reg < 16"
  shows "emits_x64 (\<lambda>b. z_x64_emit_mov_reg_u32 b reg v)
     (X64 None (reg \<ge> 8) False [0xb8] (OpReg reg) (le32 v))"
  using reg_cases [OF assms]
  by (elim insertE emptyE; simp only:) (rule emits_x64I, simp add: z_x64_emit_mov_reg_u32_def Let_def del:
      push_bit_and, (rule emits_intros)+,
     simp add: x64_decode_simps shape1_def shape2_def modrm_ops_def del: push_bit_and)+

lemma x64_mov_reg_i32:
  assumes "reg < 16"
  shows "emits_x64 (\<lambda>b. z_x64_emit_mov_reg_i32 b reg v)
     (X64 None True True [0xc7] (RegRm 0 (Reg reg)) (le32 v))"
  by (cases "reg \<ge> 8")
    (rule emits_x64I, simp add: z_x64_emit_mov_reg_i32_def assms Let_def del: push_bit_and, (rule emits_intros)+,
     simp add: x64_decode_simps shape1_def shape2_def modrm_ops_def assms del: push_bit_and)+

lemma x64_mov_reg_u64:
  assumes "reg < 16"
  shows "emits_x64 (\<lambda>b. z_x64_emit_mov_reg_u64 b reg q) (X64 None True True [0xb8] (OpReg reg) (le64 q))"
  using reg_cases [OF assms]
  by (elim insertE emptyE; simp only:) (rule emits_x64I, simp add: z_x64_emit_mov_reg_u64_def Let_def del:
      push_bit_and, (rule emits_intros)+,
     simp add: x64_decode_simps shape1_def shape2_def modrm_ops_def del: push_bit_and)+

lemma x64_push_reg64:
  assumes "reg < 16"
  shows "emits_x64 (\<lambda>b. z_x64_emit_push_reg64 b reg) (X64 None (reg \<ge> 8) False [0x50] (OpReg reg) [])"
  using reg_cases [OF assms]
  by (elim insertE emptyE; simp only:) (rule emits_x64I, simp add: z_x64_emit_push_reg64_def Let_def del:
      push_bit_and, (rule emits_intros)+,
     simp add: x64_decode_simps shape1_def shape2_def modrm_ops_def del: push_bit_and)+

lemma x64_pop_reg64:
  assumes "reg < 16"
  shows "emits_x64 (\<lambda>b. z_x64_emit_pop_reg64 b reg) (X64 None (reg \<ge> 8) False [0x58] (OpReg reg) [])"
  using reg_cases [OF assms]
  by (elim insertE emptyE; simp only:) (rule emits_x64I, simp add: z_x64_emit_pop_reg64_def Let_def del:
      push_bit_and, (rule emits_intros)+,
     simp add: x64_decode_simps shape1_def shape2_def modrm_ops_def del: push_bit_and)+

lemma x64_cdqe:
  "emits_x64 (\<lambda>b. z_x64_emit_cdqe b) (X64 None True True [0x98] NoArgs [])"
  by (rule emits_x64I, simp add: z_x64_emit_cdqe_def Let_def del: push_bit_and, (rule emits_intros)+,
     simp add: x64_decode_simps shape1_def shape2_def modrm_ops_def del: push_bit_and)

lemma x64_add_rax_u32:
  "emits_x64 (\<lambda>b. z_x64_emit_add_rax_u32 b v wide) (X64 None wide wide [0x05] NoArgs (le32 v))"
  by (cases wide)
    (rule emits_x64I, simp add: z_x64_emit_add_rax_u32_def z_x64_emit_wide_prefix_def Let_def del: push_bit_and,
      (rule emits_intros)+,
     simp add: x64_decode_simps shape1_def shape2_def modrm_ops_def del: push_bit_and)+

lemma x64_sub_rax_u32:
  "emits_x64 (\<lambda>b. z_x64_emit_sub_rax_u32 b v wide) (X64 None wide wide [0x2d] NoArgs (le32 v))"
  by (cases wide)
    (rule emits_x64I, simp add: z_x64_emit_sub_rax_u32_def z_x64_emit_wide_prefix_def Let_def del: push_bit_and,
      (rule emits_intros)+,
     simp add: x64_decode_simps shape1_def shape2_def modrm_ops_def del: push_bit_and)+

lemma x64_push_rax:
  "emits_x64 (\<lambda>b. z_x64_emit_push_rax b) (X64 None False False [0x50] (OpReg 0) [])"
  by (rule emits_x64I, simp add: z_x64_emit_push_rax_def z_x64_emit_push_reg64_def Let_def del: push_bit_and,
      (rule emits_intros)+,
     simp add: x64_decode_simps shape1_def shape2_def modrm_ops_def del: push_bit_and)

lemma x64_pop_rax:
  "emits_x64 (\<lambda>b. z_x64_emit_pop_rax b) (X64 None False False [0x58] (OpReg 0) [])"
  by (rule emits_x64I, simp add: z_x64_emit_pop_rax_def z_x64_emit_pop_reg64_def Let_def del: push_bit_and,
      (rule emits_intros)+,
     simp add: x64_decode_simps shape1_def shape2_def modrm_ops_def del: push_bit_and)

lemma x64_mov_rcx_from_rax:
  "emits_x64 (\<lambda>b. z_x64_emit_mov_rcx_from_rax b wide) (X64 None wide wide [0x89] (RegRm 0 (Reg 1)) [])"
  by (cases wide)
    (rule emits_x64I, simp add: z_x64_emit_mov_rcx_from_rax_def z_x64_emit_wide_prefix_def Let_def del:
      push_bit_and, (rule emits_intros)+,
     simp add: x64_decode_simps shape1_def shape2_def modrm_ops_def del: push_bit_and)+

lemma x64_mov_r9_from_rax:
  "emits_x64 (\<lambda>b. z_x64_emit_mov_r9_from_rax b) (X64 None True True [0x89] (RegRm 0 (Reg 9)) [])"
  by (rule emits_x64I, simp add: z_x64_emit_mov_r9_from_rax_def Let_def del: push_bit_and, (rule emits_intros)+,
     simp add: x64_decode_simps shape1_def shape2_def modrm_ops_def del: push_bit_and)

lemma x64_mov_rax_from_rcx:
  "emits_x64 (\<lambda>b. z_x64_emit_mov_rax_from_rcx b) (X64 None True True [0x89] (RegRm 1 (Reg 0)) [])"
  by (rule emits_x64I, simp add: z_x64_emit_mov_rax_from_rcx_def Let_def del: push_bit_and, (rule emits_intros)+,
     simp add: x64_decode_simps shape1_def shape2_def modrm_ops_def del: push_bit_and)

lemma x64_mov_rdx_from_rax:
  "emits_x64 (\<lambda>b. z_x64_emit_mov_rdx_from_rax b) (X64 None True True [0x89] (RegRm 0 (Reg 2)) [])"
  by (rule emits_x64I, simp add: z_x64_emit_mov_rdx_from_rax_def Let_def del: push_bit_and, (rule emits_intros)+,
     simp add: x64_decode_simps shape1_def shape2_def modrm_ops_def del: push_bit_and)

lemma x64_mov_rdi_from_rax:
  "emits_x64 (\<lambda>b. z_x64_emit_mov_rdi_from_rax b) (X64 None True True [0x89] (RegRm 0 (Reg 7)) [])"
  by (rule emits_x64I, simp add: z_x64_emit_mov_rdi_from_rax_def Let_def del: push_bit_and, (rule emits_intros)+,
     simp add: x64_decode_simps shape1_def shape2_def modrm_ops_def del: push_bit_and)

lemma x64_mov_rsi_from_rax:
  "emits_x64 (\<lambda>b. z_x64_emit_mov_rsi_from_rax b) (X64 None True True [0x89] (RegRm 0 (Reg 6)) [])"
  by (rule emits_x64I, simp add: z_x64_emit_mov_rsi_from_rax_def Let_def del: push_bit_and, (rule emits_intros)+,
     simp add: x64_decode_simps shape1_def shape2_def modrm_ops_def del: push_bit_and)

lemma x64_mov_rsi_from_rsp:
  "emits_x64 (\<lambda>b. z_x64_emit_mov_rsi_from_rsp b) (X64 None True True [0x89] (RegRm 4 (Reg 6)) [])"
  by (rule emits_x64I, simp add: z_x64_emit_mov_rsi_from_rsp_def Let_def del: push_bit_and, (rule emits_intros)+,
     simp add: x64_decode_simps shape1_def shape2_def modrm_ops_def del: push_bit_and)

lemma x64_mov_rax_from_rdx:
  "emits_x64 (\<lambda>b. z_x64_emit_mov_rax_from_rdx b) (X64 None True True [0x89] (RegRm 2 (Reg 0)) [])"
  by (rule emits_x64I, simp add: z_x64_emit_mov_rax_from_rdx_def Let_def del: push_bit_and, (rule emits_intros)+,
     simp add: x64_decode_simps shape1_def shape2_def modrm_ops_def del: push_bit_and)

lemma x64_mov_rax_from_rdi:
  "emits_x64 (\<lambda>b. z_x64_emit_mov_rax_from_rdi b) (X64 None True True [0x89] (RegRm 7 (Reg 0)) [])"
  by (rule emits_x64I, simp add: z_x64_emit_mov_rax_from_rdi_def Let_def del: push_bit_and, (rule emits_intros)+,
     simp add: x64_decode_simps shape1_def shape2_def modrm_ops_def del: push_bit_and)

lemma x64_mov_eax_from_ecx:
  "emits_x64 (\<lambda>b. z_x64_emit_mov_eax_from_ecx b) (X64 None False False [0x89] (RegRm 1 (Reg 0)) [])"
  by (rule emits_x64I, simp add: z_x64_emit_mov_eax_from_ecx_def Let_def del: push_bit_and, (rule emits_intros)+,
     simp add: x64_decode_simps shape1_def shape2_def modrm_ops_def del: push_bit_and)

lemma x64_mov_rax_u64:
  "emits_x64 (\<lambda>b. z_x64_emit_mov_rax_u64 b q) (X64 None True True [0xb8] (OpReg 0) (le64 q))"
  by (rule emits_x64I, simp add: z_x64_emit_mov_rax_u64_def z_x64_emit_mov_rax_u64_patchable_def Let_def del:
      push_bit_and, (rule emits_intros)+,
     simp add: x64_decode_simps shape1_def shape2_def modrm_ops_def del: push_bit_and)

lemma x64_xor_eax_eax:
  "emits_x64 (\<lambda>b. z_x64_emit_xor_eax_eax b) (X64 None False False [0x31] (RegRm 0 (Reg 0)) [])"
  by (rule emits_x64I, simp add: z_x64_emit_xor_eax_eax_def Let_def del: push_bit_and, (rule emits_intros)+,
     simp add: x64_decode_simps shape1_def shape2_def modrm_ops_def del: push_bit_and)

lemma x64_xor_ecx_ecx:
  "emits_x64 (\<lambda>b. z_x64_emit_xor_ecx_ecx b) (X64 None False False [0x31] (RegRm 1 (Reg 1)) [])"
  by (rule emits_x64I, simp add: z_x64_emit_xor_ecx_ecx_def Let_def del: push_bit_and, (rule emits_intros)+,
     simp add: x64_decode_simps shape1_def shape2_def modrm_ops_def del: push_bit_and)

lemma x64_xor_rdi_rdi:
  "emits_x64 (\<lambda>b. z_x64_emit_xor_rdi_rdi b) (X64 None True True [0x31] (RegRm 7 (Reg 7)) [])"
  by (rule emits_x64I, simp add: z_x64_emit_xor_rdi_rdi_def Let_def del: push_bit_and, (rule emits_intros)+,
     simp add: x64_decode_simps shape1_def shape2_def modrm_ops_def del: push_bit_and)

lemma x64_xor_rax_rax:
  "emits_x64 (\<lambda>b. z_x64_emit_xor_rax_rax b) (X64 None True True [0x31] (RegRm 0 (Reg 0)) [])"
  by (rule emits_x64I, simp add: z_x64_emit_xor_rax_rax_def z_x64_emit_xor_eax_eax_def Let_def del:
      push_bit_and, (rule emits_intros)+,
     simp add: x64_decode_simps shape1_def shape2_def modrm_ops_def del: push_bit_and)

lemma x64_xor_r8d_r8d:
  "emits_x64 (\<lambda>b. z_x64_emit_xor_r8d_r8d b) (X64 None True False [0x31] (RegRm 8 (Reg 8)) [])"
  by (rule emits_x64I, simp add: z_x64_emit_xor_r8d_r8d_def Let_def del: push_bit_and, (rule emits_intros)+,
     simp add: x64_decode_simps shape1_def shape2_def modrm_ops_def del: push_bit_and)

lemma x64_inc_ecx:
  "emits_x64 (\<lambda>b. z_x64_emit_inc_ecx b) (X64 None False False [0xff] (RegRm 0 (Reg 1)) [])"
  by (rule emits_x64I, simp add: z_x64_emit_inc_ecx_def Let_def del: push_bit_and, (rule emits_intros)+,
     simp add: x64_decode_simps shape1_def shape2_def modrm_ops_def del: push_bit_and)

lemma x64_inc_rcx:
  "emits_x64 (\<lambda>b. z_x64_emit_inc_rcx b) (X64 None True True [0xff] (RegRm 0 (Reg 1)) [])"
  by (rule emits_x64I, simp add: z_x64_emit_inc_rcx_def z_x64_emit_inc_ecx_def Let_def del: push_bit_and, (rule
      emits_intros)+,
     simp add: x64_decode_simps shape1_def shape2_def modrm_ops_def del: push_bit_and)

lemma x64_inc_r8:
  "emits_x64 (\<lambda>b. z_x64_emit_inc_r8 b) (X64 None True True [0xff] (RegRm 0 (Reg 8)) [])"
  by (rule emits_x64I, simp add: z_x64_emit_inc_r8_def Let_def del: push_bit_and, (rule emits_intros)+,
     simp add: x64_decode_simps shape1_def shape2_def modrm_ops_def del: push_bit_and)

lemma x64_dec_r8d:
  "emits_x64 (\<lambda>b. z_x64_emit_dec_r8d b) (X64 None True False [0xff] (RegRm 1 (Reg 8)) [])"
  by (rule emits_x64I, simp add: z_x64_emit_dec_r8d_def Let_def del: push_bit_and, (rule emits_intros)+,
     simp add: x64_decode_simps shape1_def shape2_def modrm_ops_def del: push_bit_and)

lemma x64_add_rax_rcx:
  "emits_x64 (\<lambda>b. z_x64_emit_add_rax_rcx b wide) (X64 None wide wide [0x01] (RegRm 1 (Reg 0)) [])"
  by (cases wide)
    (rule emits_x64I, simp add: z_x64_emit_add_rax_rcx_def z_x64_emit_add_reg_reg_def z_x64_emit_reg_reg_op_def
      Let_def del: push_bit_and, (rule emits_intros)+,
     simp add: x64_decode_simps shape1_def shape2_def modrm_ops_def del: push_bit_and)+

lemma x64_sub_rax_rcx:
  "emits_x64 (\<lambda>b. z_x64_emit_sub_rax_rcx b wide) (X64 None wide wide [0x29] (RegRm 1 (Reg 0)) [])"
  by (cases wide)
    (rule emits_x64I, simp add: z_x64_emit_sub_rax_rcx_def z_x64_emit_sub_reg_reg_def z_x64_emit_reg_reg_op_def
      Let_def del: push_bit_and, (rule emits_intros)+,
     simp add: x64_decode_simps shape1_def shape2_def modrm_ops_def del: push_bit_and)+

lemma x64_add_rdx_rcx:
  "emits_x64 (\<lambda>b. z_x64_emit_add_rdx_rcx b wide) (X64 None wide wide [0x01] (RegRm 1 (Reg 2)) [])"
  by (cases wide)
    (rule emits_x64I, simp add: z_x64_emit_add_rdx_rcx_def z_x64_emit_add_reg_reg_def z_x64_emit_reg_reg_op_def
      Let_def del: push_bit_and, (rule emits_intros)+,
     simp add: x64_decode_simps shape1_def shape2_def modrm_ops_def del: push_bit_and)+

lemma x64_cmp_rax_rcx:
  "emits_x64 (\<lambda>b. z_x64_emit_cmp_rax_rcx b wide) (X64 None wide wide [0x39] (RegRm 1 (Reg 0)) [])"
  by (cases wide)
    (rule emits_x64I, simp add: z_x64_emit_cmp_rax_rcx_def z_x64_emit_cmp_reg_reg_def Let_def del: push_bit_and,
      (rule emits_intros)+,
     simp add: x64_decode_simps shape1_def shape2_def modrm_ops_def del: push_bit_and)+

lemma x64_imul_rax_rcx:
  "emits_x64 (\<lambda>b. z_x64_emit_imul_rax_rcx b wide) (X64 None wide wide [0x0f, 0xaf] (RegRm 0 (Reg 1)) [])"
  by (cases wide)
    (rule emits_x64I, simp add: z_x64_emit_imul_rax_rcx_def z_x64_emit_wide_prefix_def Let_def del:
      push_bit_and, (rule emits_intros)+,
     simp add: x64_decode_simps shape1_def shape2_def modrm_ops_def del: push_bit_and)+

lemma x64_and_rax_rcx:
  "emits_x64 (\<lambda>b. z_x64_emit_and_rax_rcx b wide) (X64 None wide wide [0x21] (RegRm 1 (Reg 0)) [])"
  by (cases wide)
    (rule emits_x64I, simp add: z_x64_emit_and_rax_rcx_def z_x64_emit_wide_prefix_def Let_def del: push_bit_and,
      (rule emits_intros)+,
     simp add: x64_decode_simps shape1_def shape2_def modrm_ops_def del: push_bit_and)+

lemma x64_or_rax_rcx:
  "emits_x64 (\<lambda>b. z_x64_emit_or_rax_rcx b wide) (X64 None wide wide [0x09] (RegRm 1 (Reg 0)) [])"
  by (cases wide)
    (rule emits_x64I, simp add: z_x64_emit_or_rax_rcx_def z_x64_emit_wide_prefix_def Let_def del: push_bit_and,
      (rule emits_intros)+,
     simp add: x64_decode_simps shape1_def shape2_def modrm_ops_def del: push_bit_and)+

lemma x64_xor_rax_rcx:
  "emits_x64 (\<lambda>b. z_x64_emit_xor_rax_rcx b wide) (X64 None wide wide [0x31] (RegRm 1 (Reg 0)) [])"
  by (cases wide)
    (rule emits_x64I, simp add: z_x64_emit_xor_rax_rcx_def z_x64_emit_wide_prefix_def Let_def del: push_bit_and,
      (rule emits_intros)+,
     simp add: x64_decode_simps shape1_def shape2_def modrm_ops_def del: push_bit_and)+

lemma x64_shl_rax_cl:
  "emits_x64 (\<lambda>b. z_x64_emit_shl_rax_cl b wide) (X64 None wide wide [0xd3] (RegRm 4 (Reg 0)) [])"
  by (cases wide)
    (rule emits_x64I, simp add: z_x64_emit_shl_rax_cl_def z_x64_emit_wide_prefix_def Let_def del: push_bit_and,
      (rule emits_intros)+,
     simp add: x64_decode_simps shape1_def shape2_def modrm_ops_def del: push_bit_and)+

lemma x64_shr_rax_cl:
  "emits_x64 (\<lambda>b. z_x64_emit_shr_rax_cl b wide) (X64 None wide wide [0xd3] (RegRm 5 (Reg 0)) [])"
  by (cases wide)
    (rule emits_x64I, simp add: z_x64_emit_shr_rax_cl_def z_x64_emit_wide_prefix_def Let_def del: push_bit_and,
      (rule emits_intros)+,
     simp add: x64_decode_simps shape1_def shape2_def modrm_ops_def del: push_bit_and)+

lemma x64_rol_rax_cl:
  "emits_x64 (\<lambda>b. z_x64_emit_rol_rax_cl b wide) (X64 None wide wide [0xd3] (RegRm 0 (Reg 0)) [])"
  by (cases wide)
    (rule emits_x64I, simp add: z_x64_emit_rol_rax_cl_def z_x64_emit_wide_prefix_def Let_def del: push_bit_and,
      (rule emits_intros)+,
     simp add: x64_decode_simps shape1_def shape2_def modrm_ops_def del: push_bit_and)+

lemma x64_ror_rax_cl:
  "emits_x64 (\<lambda>b. z_x64_emit_ror_rax_cl b wide) (X64 None wide wide [0xd3] (RegRm 1 (Reg 0)) [])"
  by (cases wide)
    (rule emits_x64I, simp add: z_x64_emit_ror_rax_cl_def z_x64_emit_wide_prefix_def Let_def del: push_bit_and,
      (rule emits_intros)+,
     simp add: x64_decode_simps shape1_def shape2_def modrm_ops_def del: push_bit_and)+

lemma x64_shl_rcx_imm8:
  assumes "amount \<le> 255"
  shows "emits_x64 (\<lambda>b. z_x64_emit_shl_rcx_imm8 b amount)
     (X64 None True True [0xc1] (RegRm 4 (Reg 1)) [ucast amount])"
  by (rule emits_x64I, simp add: z_x64_emit_shl_rcx_imm8_def z_x64_emit_shl_reg_imm8_def
      z_x64_emit_shift_reg_imm8_def assms assms(1) [THEN leD] Let_def del: push_bit_and, (rule emits_intros)+,
     simp add: x64_decode_simps shape1_def shape2_def modrm_ops_def assms assms(1) [THEN leD] del: push_bit_and)

lemma x64_shr_rcx_imm8:
  assumes "amount \<le> 255"
  shows "emits_x64 (\<lambda>b. z_x64_emit_shr_rcx_imm8 b amount)
     (X64 None True True [0xc1] (RegRm 5 (Reg 1)) [ucast amount])"
  by (rule emits_x64I, simp add: z_x64_emit_shr_rcx_imm8_def z_x64_emit_shr_reg_imm8_def
      z_x64_emit_shift_reg_imm8_def assms assms(1) [THEN leD] Let_def del: push_bit_and, (rule emits_intros)+,
     simp add: x64_decode_simps shape1_def shape2_def modrm_ops_def assms assms(1) [THEN leD] del: push_bit_and)

lemma x64_test_rax_rax:
  "emits_x64 (\<lambda>b. z_x64_emit_test_rax_rax b wide) (X64 None wide wide [0x85] (RegRm 0 (Reg 0)) [])"
  by (cases wide)
    (rule emits_x64I, simp add: z_x64_emit_test_rax_rax_def z_x64_emit_test_reg_reg_def
      z_x64_emit_reg_reg_op_def Let_def del: push_bit_and, (rule emits_intros)+,
     simp add: x64_decode_simps shape1_def shape2_def modrm_ops_def del: push_bit_and)+

lemma x64_test_ecx_ecx:
  "emits_x64 (\<lambda>b. z_x64_emit_test_ecx_ecx b) (X64 None False False [0x85] (RegRm 1 (Reg 1)) [])"
  by (rule emits_x64I, simp add: z_x64_emit_test_ecx_ecx_def z_x64_emit_test_reg_reg_def
      z_x64_emit_reg_reg_op_def Let_def del: push_bit_and, (rule emits_intros)+,
     simp add: x64_decode_simps shape1_def shape2_def modrm_ops_def del: push_bit_and)

lemma x64_mov_eax_u32:
  "emits_x64 (\<lambda>b. z_x64_emit_mov_eax_u32 b v) (X64 None False False [0xb8] (OpReg 0) (le32 v))"
  by (rule emits_x64I, simp add: z_x64_emit_mov_eax_u32_def Let_def del: push_bit_and, (rule emits_intros)+,
     simp add: x64_decode_simps shape1_def shape2_def modrm_ops_def del: push_bit_and)

lemma x64_ud2:
  "emits_x64 (\<lambda>b. z_x64_emit_ud2 b) (X64 None False False [0x0f, 0x0b] NoArgs [])"
  by (rule emits_x64I, simp add: z_x64_emit_ud2_def Let_def del: push_bit_and, (rule emits_intros)+,
     simp add: x64_decode_simps shape1_def shape2_def modrm_ops_def del: push_bit_and)

lemma x64_syscall:
  "emits_x64 (\<lambda>b. z_x64_emit_syscall b) (X64 None False False [0x0f, 0x05] NoArgs [])"
  by (rule emits_x64I, simp add: z_x64_emit_syscall_def Let_def del: push_bit_and, (rule emits_intros)+,
     simp add: x64_decode_simps shape1_def shape2_def modrm_ops_def del: push_bit_and)

end
