(* ===== verification/X64Mem.thy ===== *)
theory X64Mem
  imports X64Decode
begin

text \<open>
  The emitters that address memory, one by one: base, index, scale and displacement come back from
  the bytes, for every register that needs a REX bit, a SIB byte (rsp, r12) or a displacement (rbp, r13).
\<close>

lemma x64_load_rsp_offset_reg:
  assumes "reg < 16"
  shows "emits_x64 (\<lambda>b. z_x64_emit_load_rsp_offset_reg b reg offset wide)
     (X64 None (wide \<or> reg \<ge> 8) wide [0x8b] (RegRm reg (Mem 4 None offset)) [])"
  by (cases wide; cases "reg \<ge> 8"; cases rule: disp_cases [of offset])
    (rule emits_x64I, simp add: z_x64_emit_load_rsp_offset_reg_def z_x64_emit_rsp_offset_reg_def assms Let_def
      del: push_bit_and, (rule emits_intros)+,
     simp add: x64_decode_simps shape1_def shape2_def modrm_ops_def assms del: push_bit_and)+

lemma x64_store_rsp_offset_reg:
  assumes "reg < 16"
  shows "emits_x64 (\<lambda>b. z_x64_emit_store_rsp_offset_reg b reg offset wide)
     (X64 None (wide \<or> reg \<ge> 8) wide [0x89] (RegRm reg (Mem 4 None offset)) [])"
  by (cases wide; cases "reg \<ge> 8"; cases rule: disp_cases [of offset])
    (rule emits_x64I, simp add: z_x64_emit_store_rsp_offset_reg_def z_x64_emit_rsp_offset_reg_def assms Let_def
      del: push_bit_and, (rule emits_intros)+,
     simp add: x64_decode_simps shape1_def shape2_def modrm_ops_def assms del: push_bit_and)+

lemma x64_lea_rsp_offset_reg:
  assumes "reg < 16"
  shows "emits_x64 (\<lambda>b. z_x64_emit_lea_rsp_offset_reg b reg offset)
     (X64 None True True [0x8d] (RegRm reg (Mem 4 None offset)) [])"
  by (cases "reg \<ge> 8"; cases rule: disp_cases [of offset])
    (rule emits_x64I, simp add: z_x64_emit_lea_rsp_offset_reg_def z_x64_emit_rsp_offset_reg_def assms Let_def
      del: push_bit_and, (rule emits_intros)+,
     simp add: x64_decode_simps shape1_def shape2_def modrm_ops_def assms del: push_bit_and)+

lemma x64_inc_rsp_offset64:
  "emits_x64 (\<lambda>b. z_x64_emit_inc_rsp_offset64 b offset)
     (X64 None True True [0xff] (RegRm 0 (Mem 4 None offset)) [])"
  by (cases rule: disp_cases [of offset])
    (rule emits_x64I, simp add: z_x64_emit_inc_rsp_offset64_def z_x64_emit_rsp_offset_reg_def Let_def del:
      push_bit_and, (rule emits_intros)+,
     simp add: x64_decode_simps shape1_def shape2_def modrm_ops_def del: push_bit_and)+

lemma x64_add_rax_rsp_offset:
  "emits_x64 (\<lambda>b. z_x64_emit_add_rax_rsp_offset b offset)
     (X64 None True True [0x03] (RegRm 0 (Mem 4 None offset)) [])"
  by (cases rule: disp_cases [of offset])
    (rule emits_x64I, simp add: z_x64_emit_add_rax_rsp_offset_def z_x64_emit_rsp_offset_reg_def Let_def del:
      push_bit_and, (rule emits_intros)+,
     simp add: x64_decode_simps shape1_def shape2_def modrm_ops_def del: push_bit_and)+

lemma x64_cmp_rax_rsp_offset:
  "emits_x64 (\<lambda>b. z_x64_emit_cmp_rax_rsp_offset b offset)
     (X64 None True True [0x3b] (RegRm 0 (Mem 4 None offset)) [])"
  by (cases rule: disp_cases [of offset])
    (rule emits_x64I, simp add: z_x64_emit_cmp_rax_rsp_offset_def z_x64_emit_rsp_offset_reg_def Let_def del:
      push_bit_and, (rule emits_intros)+,
     simp add: x64_decode_simps shape1_def shape2_def modrm_ops_def del: push_bit_and)+

lemma x64_mov_rsp_offset_u32:
  "emits_x64 (\<lambda>b. z_x64_emit_mov_rsp_offset_u32 b offset v wide)
     (X64 None wide wide [0xc7] (RegRm 0 (Mem 4 None offset)) (le32 v))"
  by (cases wide; cases rule: disp_cases [of offset])
    (rule emits_x64I, simp add: z_x64_emit_mov_rsp_offset_u32_def Let_def del: push_bit_and, (rule emits_intros)+,
     simp add: x64_decode_simps shape1_def shape2_def modrm_ops_def del: push_bit_and)+

lemma x64_load_rbp_positive_reg:
  assumes "reg < 16"
  shows "emits_x64 (\<lambda>b. z_x64_emit_load_rbp_positive_reg b reg offset wide)
     (X64 None (wide \<or> reg \<ge> 8) wide [0x8b] (RegRm reg (Mem 5 None offset)) [])"
  by (cases wide; cases "reg \<ge> 8"; cases "offset \<le> 127")
    (rule emits_x64I, simp add: z_x64_emit_load_rbp_positive_reg_def assms Let_def del: push_bit_and, (rule
      emits_intros)+,
     simp add: x64_decode_simps shape1_def shape2_def modrm_ops_def assms del: push_bit_and)+

lemma x64_rbp_disp_reg:
  assumes "reg < 16" "ucast opcode \<in> set modrm_ops"
  shows "emits_x64 (\<lambda>b. z_x64_emit_rbp_disp_reg b opcode reg offset wide)
     (X64 None (wide \<or> reg \<ge> 8) wide [ucast opcode] (RegRm reg (Mem 5 None (- offset))) [])"
  by (cases wide; cases "reg \<ge> 8"; cases "offset \<le> 127")
    (rule emits_x64I, simp add: z_x64_emit_rbp_disp_reg_def assms Let_def del: push_bit_and, (rule emits_intros)+,
     simp add: x64_decode_simps modrm_op [OF assms(2)] modrm_op32 [OF assms(2)] assms del: push_bit_and)+

lemma x64_load_reg8_base_index:
  assumes "dst < 16" "base < 16" "index < 16" "index \<noteq> 4"
  shows "emits_x64 (\<lambda>b. z_x64_emit_load_reg8_base_index b dst base index)
     (X64 None (dst \<ge> 4 \<or> index \<ge> 8 \<or> base \<ge> 8) False [0x8a] (RegRm dst (Mem base (Some (index, 0)) 0)) [])"
  by (cases rule: byte_cases [of dst]; cases "index \<ge> 8"; cases rule: base_cases [OF assms(2)])
    (rule emits_x64I, simp add: z_x64_emit_load_reg8_base_index_def z_x64_emit_base_index_reg_def
      z_x64_emit_base_index_scale_disp_op_def assms Let_def del: push_bit_and, (rule emits_intros)+,
     simp add: x64_decode_simps shape1_def shape2_def modrm_ops_def assms del: push_bit_and)+

lemma x64_store_base_index_reg8:
  assumes "src < 16" "base < 16" "index < 16" "index \<noteq> 4"
  shows "emits_x64 (\<lambda>b. z_x64_emit_store_base_index_reg8 b base index src)
     (X64 None (src \<ge> 4 \<or> index \<ge> 8 \<or> base \<ge> 8) False [0x88] (RegRm src (Mem base (Some (index, 0)) 0)) [])"
  by (cases rule: byte_cases [of src]; cases "index \<ge> 8"; cases rule: base_cases [OF assms(2)])
    (rule emits_x64I, simp add: z_x64_emit_store_base_index_reg8_def z_x64_emit_base_index_reg_def
      z_x64_emit_base_index_scale_disp_op_def assms Let_def del: push_bit_and, (rule emits_intros)+,
     simp add: x64_decode_simps shape1_def shape2_def modrm_ops_def assms del: push_bit_and)+

lemma x64_cmp_base_index_reg8:
  assumes "reg < 16" "base < 16" "index < 16" "index \<noteq> 4"
  shows "emits_x64 (\<lambda>b. z_x64_emit_cmp_base_index_reg8 b base index reg)
     (X64 None (reg \<ge> 4 \<or> index \<ge> 8 \<or> base \<ge> 8) False [0x38] (RegRm reg (Mem base (Some (index, 0)) 0)) [])"
  by (cases rule: byte_cases [of reg]; cases "index \<ge> 8"; cases rule: base_cases [OF assms(2)])
    (rule emits_x64I, simp add: z_x64_emit_cmp_base_index_reg8_def z_x64_emit_base_index_reg_def
      z_x64_emit_base_index_scale_disp_op_def assms Let_def del: push_bit_and, (rule emits_intros)+,
     simp add: x64_decode_simps shape1_def shape2_def modrm_ops_def assms del: push_bit_and)+

lemma x64_cmp_base_index_u8:
  assumes "base < 16" "index < 16" "index \<noteq> 4" "v \<le> 255"
  shows "emits_x64 (\<lambda>b. z_x64_emit_cmp_base_index_u8 b base index v)
     (X64 None (index \<ge> 8 \<or> base \<ge> 8) False [0x80] (RegRm 7 (Mem base (Some (index, 0)) 0)) [ucast v])"
  by (cases "index \<ge> 8"; cases rule: base_cases [OF assms(1)])
    (rule emits_x64I, simp add: z_x64_emit_cmp_base_index_u8_def z_x64_emit_base_index_reg_def
      z_x64_emit_base_index_scale_disp_op_def assms assms(4) [THEN leD] Let_def del: push_bit_and, (rule
      emits_intros)+,
     simp add: x64_decode_simps shape1_def shape2_def modrm_ops_def assms assms(4) [THEN leD] del: push_bit_and)+

lemma x64_movzx_reg32_base_index_u8:
  assumes "dst < 16" "base < 16" "index < 16" "index \<noteq> 4"
  shows "emits_x64 (\<lambda>b. z_x64_emit_movzx_reg32_base_index_u8 b dst base index)
     (X64 None (dst \<ge> 8 \<or> index \<ge> 8 \<or> base \<ge> 8) False [0x0f, 0xb6] (RegRm dst (Mem base (Some (index, 0)) 0)) [])"
  by (cases "dst \<ge> 8"; cases "index \<ge> 8"; cases rule: base_cases [OF assms(2)])
    (rule emits_x64I, simp add: z_x64_emit_movzx_reg32_base_index_u8_def assms Let_def del: push_bit_and, (rule
      emits_intros)+,
     simp add: x64_decode_simps shape1_def shape2_def modrm_ops_def assms del: push_bit_and)+

lemma x64_load_base_index_scale_disp_reg:
  assumes "dst < 16" "base < 16" "index < 16" "index \<noteq> 4" "z_x64_scale_bits scale = Some sb"
  shows "emits_x64 (\<lambda>b. z_x64_emit_load_base_index_scale_disp_reg b dst base index scale disp wide)
     (X64 None (wide \<or> dst \<ge> 8 \<or> index \<ge> 8 \<or> base \<ge> 8) wide [0x8b] (RegRm dst (Mem base (Some (index, sb)) disp)) [])"
  by (cases wide; cases "dst \<ge> 8"; cases "index \<ge> 8"; cases rule: base_cases [OF assms(2)]; cases rule:
      disp_cases [of disp])
    (rule emits_x64I, simp add: z_x64_emit_load_base_index_scale_disp_reg_def
      z_x64_emit_base_index_scale_disp_op_def assms Let_def del: push_bit_and, (rule emits_intros)+,
     simp add: x64_decode_simps shape1_def shape2_def modrm_ops_def scale_field [OF assms(5)] assms del: push_bit_and)+

lemma x64_lea_base_index_scale_disp_reg:
  assumes "dst < 16" "base < 16" "index < 16" "index \<noteq> 4" "z_x64_scale_bits scale = Some sb"
  shows "emits_x64 (\<lambda>b. z_x64_emit_lea_base_index_scale_disp_reg b dst base index scale disp)
     (X64 None True True [0x8d] (RegRm dst (Mem base (Some (index, sb)) disp)) [])"
  by (cases "dst \<ge> 8"; cases "index \<ge> 8"; cases rule: base_cases [OF assms(2)]; cases rule: disp_cases
      [of disp])
    (rule emits_x64I, simp add: z_x64_emit_lea_base_index_scale_disp_reg_def
      z_x64_emit_base_index_scale_disp_op_def assms Let_def del: push_bit_and, (rule emits_intros)+,
     simp add: x64_decode_simps shape1_def shape2_def modrm_ops_def scale_field [OF assms(5)] assms del: push_bit_and)+

lemma x64_movzx_reg32_ptr_reg_u8:
  assumes "dst < 16" "base < 16"
  shows "emits_x64 (\<lambda>b. z_x64_emit_movzx_reg32_ptr_reg_u8 b dst base)
     (X64 None (dst \<ge> 8 \<or> base \<ge> 8) False [0x0f, 0xb6] (RegRm dst (Mem base None 0)) [])"
  by (cases "dst \<ge> 8"; cases rule: base_cases [OF assms(2)])
    (rule emits_x64I, simp add: z_x64_emit_movzx_reg32_ptr_reg_u8_def z_x64_emit_ptr_reg_disp_op_def assms
      Let_def del: push_bit_and, (rule emits_intros)+,
     simp add: x64_decode_simps shape1_def shape2_def modrm_ops_def assms del: push_bit_and)+

lemma x64_movzx_reg32_ptr_reg_disp_u16:
  assumes "dst < 16" "base < 16"
  shows "emits_x64 (\<lambda>b. z_x64_emit_movzx_reg32_ptr_reg_disp_u16 b dst base disp)
     (X64 None (dst \<ge> 8 \<or> base \<ge> 8) False [0x0f, 0xb7] (RegRm dst (Mem base None disp)) [])"
  by (cases "dst \<ge> 8"; cases rule: base_cases [OF assms(2)]; cases rule: disp_cases [of disp])
    (rule emits_x64I, simp add: z_x64_emit_movzx_reg32_ptr_reg_disp_u16_def z_x64_emit_ptr_reg_disp_op_def assms
      Let_def del: push_bit_and, (rule emits_intros)+,
     simp add: x64_decode_simps shape1_def shape2_def modrm_ops_def assms del: push_bit_and)+

lemma x64_load_reg_ptr_reg:
  assumes "dst < 16" "base < 16"
  shows "emits_x64 (\<lambda>b. z_x64_emit_load_reg_ptr_reg b dst base wide)
     (X64 None (wide \<or> dst \<ge> 8 \<or> base \<ge> 8) wide [0x8b] (RegRm dst (Mem base None 0)) [])"
  by (cases wide; cases "dst \<ge> 8"; cases rule: base_cases [OF assms(2)])
    (rule emits_x64I, simp add: z_x64_emit_load_reg_ptr_reg_def z_x64_emit_ptr_reg_disp_op_def assms Let_def
      del: push_bit_and, (rule emits_intros)+,
     simp add: x64_decode_simps shape1_def shape2_def modrm_ops_def assms del: push_bit_and)+

lemma x64_mov_ptr_reg_disp_u8:
  assumes "base < 16" "v \<le> 255"
  shows "emits_x64 (\<lambda>b. z_x64_emit_mov_ptr_reg_disp_u8 b base disp v)
     (X64 None (base \<ge> 8) False [0xc6] (RegRm 0 (Mem base None disp)) [ucast v])"
  by (cases rule: base_cases [OF assms(1)]; cases rule: disp_cases [of disp])
    (rule emits_x64I, simp add: z_x64_emit_mov_ptr_reg_disp_u8_def z_x64_emit_ptr_reg_disp_op_def assms assms(2)
      [THEN leD] Let_def del: push_bit_and, (rule emits_intros)+,
     simp add: x64_decode_simps shape1_def shape2_def modrm_ops_def assms assms(2) [THEN leD] del: push_bit_and)+

lemma x64_store_ptr_reg8_from_reg:
  assumes "src < 16" "base < 16"
  shows "emits_x64 (\<lambda>b. z_x64_emit_store_ptr_reg8_from_reg b base src)
     (X64 None (src \<ge> 4 \<or> base \<ge> 8) False [0x88] (RegRm src (Mem base None 0)) [])"
  by (cases rule: byte_cases [of src]; cases rule: base_cases [OF assms(2)])
    (rule emits_x64I, simp add: z_x64_emit_store_ptr_reg8_from_reg_def z_x64_emit_ptr_reg_disp_op_def assms
      Let_def del: push_bit_and, (rule emits_intros)+,
     simp add: x64_decode_simps shape1_def shape2_def modrm_ops_def assms del: push_bit_and)+

lemma x64_store_ptr_reg_from_reg:
  assumes "src < 16" "base < 16"
  shows "emits_x64 (\<lambda>b. z_x64_emit_store_ptr_reg_from_reg b base src wide)
     (X64 None (wide \<or> src \<ge> 8 \<or> base \<ge> 8) wide [0x89] (RegRm src (Mem base None 0)) [])"
  by (cases wide; cases "src \<ge> 8"; cases rule: base_cases [OF assms(2)])
    (rule emits_x64I, simp add: z_x64_emit_store_ptr_reg_from_reg_def z_x64_emit_ptr_reg_disp_op_def assms
      Let_def del: push_bit_and, (rule emits_intros)+,
     simp add: x64_decode_simps shape1_def shape2_def modrm_ops_def assms del: push_bit_and)+

lemma x64_cmp_reg_ptr_reg:
  assumes "reg < 16" "base < 16"
  shows "emits_x64 (\<lambda>b. z_x64_emit_cmp_reg_ptr_reg b reg base wide)
     (X64 None (wide \<or> reg \<ge> 8 \<or> base \<ge> 8) wide [0x3b] (RegRm reg (Mem base None 0)) [])"
  by (cases wide; cases "reg \<ge> 8"; cases rule: base_cases [OF assms(2)])
    (rule emits_x64I, simp add: z_x64_emit_cmp_reg_ptr_reg_def z_x64_emit_ptr_reg_disp_op_def assms Let_def del:
      push_bit_and, (rule emits_intros)+,
     simp add: x64_decode_simps shape1_def shape2_def modrm_ops_def assms del: push_bit_and)+

end
