(* ===== verification/X64Sse.thy ===== *)
theory X64Sse
  imports X64Decode
begin

text \<open>
  The SSE emitters, one by one.
\<close>

lemma x64_movss_xmm_reg:
  assumes "dst < 16" "src < 16"
  shows "emits_x64 (\<lambda>b. z_x64_emit_movss_xmm_reg b dst src)
     (X64 (Some 0xf3) (dst \<ge> 8 \<or> src \<ge> 8) False [0x0f, 0x10] (RegRm dst (Reg src)) [])"
  by (cases "dst \<ge> 8"; cases "src \<ge> 8")
    (rule emits_x64I, simp add: z_x64_emit_movss_xmm_reg_def z_x64_emit_xmm_xmm_op_def assms Let_def del:
      push_bit_and, (rule emits_intros)+,
     simp add: x64_decode_simps shape1_def shape2_def modrm_ops_def assms del: push_bit_and)+

lemma x64_movsd_xmm_reg:
  assumes "dst < 16" "src < 16"
  shows "emits_x64 (\<lambda>b. z_x64_emit_movsd_xmm_reg b dst src)
     (X64 (Some 0xf2) (dst \<ge> 8 \<or> src \<ge> 8) False [0x0f, 0x10] (RegRm dst (Reg src)) [])"
  by (cases "dst \<ge> 8"; cases "src \<ge> 8")
    (rule emits_x64I, simp add: z_x64_emit_movsd_xmm_reg_def z_x64_emit_xmm_xmm_op_def assms Let_def del:
      push_bit_and, (rule emits_intros)+,
     simp add: x64_decode_simps shape1_def shape2_def modrm_ops_def assms del: push_bit_and)+

lemma x64_addss_xmm_xmm:
  assumes "dst < 16" "src < 16"
  shows "emits_x64 (\<lambda>b. z_x64_emit_addss_xmm_xmm b dst src)
     (X64 (Some 0xf3) (dst \<ge> 8 \<or> src \<ge> 8) False [0x0f, 0x58] (RegRm dst (Reg src)) [])"
  by (cases "dst \<ge> 8"; cases "src \<ge> 8")
    (rule emits_x64I, simp add: z_x64_emit_addss_xmm_xmm_def z_x64_emit_xmm_xmm_op_def assms Let_def del:
      push_bit_and, (rule emits_intros)+,
     simp add: x64_decode_simps shape1_def shape2_def modrm_ops_def assms del: push_bit_and)+

lemma x64_addsd_xmm_xmm:
  assumes "dst < 16" "src < 16"
  shows "emits_x64 (\<lambda>b. z_x64_emit_addsd_xmm_xmm b dst src)
     (X64 (Some 0xf2) (dst \<ge> 8 \<or> src \<ge> 8) False [0x0f, 0x58] (RegRm dst (Reg src)) [])"
  by (cases "dst \<ge> 8"; cases "src \<ge> 8")
    (rule emits_x64I, simp add: z_x64_emit_addsd_xmm_xmm_def z_x64_emit_xmm_xmm_op_def assms Let_def del:
      push_bit_and, (rule emits_intros)+,
     simp add: x64_decode_simps shape1_def shape2_def modrm_ops_def assms del: push_bit_and)+

lemma x64_subss_xmm_xmm:
  assumes "dst < 16" "src < 16"
  shows "emits_x64 (\<lambda>b. z_x64_emit_subss_xmm_xmm b dst src)
     (X64 (Some 0xf3) (dst \<ge> 8 \<or> src \<ge> 8) False [0x0f, 0x5c] (RegRm dst (Reg src)) [])"
  by (cases "dst \<ge> 8"; cases "src \<ge> 8")
    (rule emits_x64I, simp add: z_x64_emit_subss_xmm_xmm_def z_x64_emit_xmm_xmm_op_def assms Let_def del:
      push_bit_and, (rule emits_intros)+,
     simp add: x64_decode_simps shape1_def shape2_def modrm_ops_def assms del: push_bit_and)+

lemma x64_subsd_xmm_xmm:
  assumes "dst < 16" "src < 16"
  shows "emits_x64 (\<lambda>b. z_x64_emit_subsd_xmm_xmm b dst src)
     (X64 (Some 0xf2) (dst \<ge> 8 \<or> src \<ge> 8) False [0x0f, 0x5c] (RegRm dst (Reg src)) [])"
  by (cases "dst \<ge> 8"; cases "src \<ge> 8")
    (rule emits_x64I, simp add: z_x64_emit_subsd_xmm_xmm_def z_x64_emit_xmm_xmm_op_def assms Let_def del:
      push_bit_and, (rule emits_intros)+,
     simp add: x64_decode_simps shape1_def shape2_def modrm_ops_def assms del: push_bit_and)+

lemma x64_mulss_xmm_xmm:
  assumes "dst < 16" "src < 16"
  shows "emits_x64 (\<lambda>b. z_x64_emit_mulss_xmm_xmm b dst src)
     (X64 (Some 0xf3) (dst \<ge> 8 \<or> src \<ge> 8) False [0x0f, 0x59] (RegRm dst (Reg src)) [])"
  by (cases "dst \<ge> 8"; cases "src \<ge> 8")
    (rule emits_x64I, simp add: z_x64_emit_mulss_xmm_xmm_def z_x64_emit_xmm_xmm_op_def assms Let_def del:
      push_bit_and, (rule emits_intros)+,
     simp add: x64_decode_simps shape1_def shape2_def modrm_ops_def assms del: push_bit_and)+

lemma x64_mulsd_xmm_xmm:
  assumes "dst < 16" "src < 16"
  shows "emits_x64 (\<lambda>b. z_x64_emit_mulsd_xmm_xmm b dst src)
     (X64 (Some 0xf2) (dst \<ge> 8 \<or> src \<ge> 8) False [0x0f, 0x59] (RegRm dst (Reg src)) [])"
  by (cases "dst \<ge> 8"; cases "src \<ge> 8")
    (rule emits_x64I, simp add: z_x64_emit_mulsd_xmm_xmm_def z_x64_emit_xmm_xmm_op_def assms Let_def del:
      push_bit_and, (rule emits_intros)+,
     simp add: x64_decode_simps shape1_def shape2_def modrm_ops_def assms del: push_bit_and)+

lemma x64_divss_xmm_xmm:
  assumes "dst < 16" "src < 16"
  shows "emits_x64 (\<lambda>b. z_x64_emit_divss_xmm_xmm b dst src)
     (X64 (Some 0xf3) (dst \<ge> 8 \<or> src \<ge> 8) False [0x0f, 0x5e] (RegRm dst (Reg src)) [])"
  by (cases "dst \<ge> 8"; cases "src \<ge> 8")
    (rule emits_x64I, simp add: z_x64_emit_divss_xmm_xmm_def z_x64_emit_xmm_xmm_op_def assms Let_def del:
      push_bit_and, (rule emits_intros)+,
     simp add: x64_decode_simps shape1_def shape2_def modrm_ops_def assms del: push_bit_and)+

lemma x64_divsd_xmm_xmm:
  assumes "dst < 16" "src < 16"
  shows "emits_x64 (\<lambda>b. z_x64_emit_divsd_xmm_xmm b dst src)
     (X64 (Some 0xf2) (dst \<ge> 8 \<or> src \<ge> 8) False [0x0f, 0x5e] (RegRm dst (Reg src)) [])"
  by (cases "dst \<ge> 8"; cases "src \<ge> 8")
    (rule emits_x64I, simp add: z_x64_emit_divsd_xmm_xmm_def z_x64_emit_xmm_xmm_op_def assms Let_def del:
      push_bit_and, (rule emits_intros)+,
     simp add: x64_decode_simps shape1_def shape2_def modrm_ops_def assms del: push_bit_and)+

lemma x64_ucomiss_xmm_xmm:
  assumes "dst < 16" "src < 16"
  shows "emits_x64 (\<lambda>b. z_x64_emit_ucomiss_xmm_xmm b dst src)
     (X64 None (dst \<ge> 8 \<or> src \<ge> 8) False [0x0f, 0x2e] (RegRm dst (Reg src)) [])"
  by (cases "dst \<ge> 8"; cases "src \<ge> 8")
    (rule emits_x64I, simp add: z_x64_emit_ucomiss_xmm_xmm_def z_x64_emit_xmm_xmm_op_def assms Let_def del:
      push_bit_and, (rule emits_intros)+,
     simp add: x64_decode_simps shape1_def shape2_def modrm_ops_def assms del: push_bit_and)+

lemma x64_ucomisd_xmm_xmm:
  assumes "dst < 16" "src < 16"
  shows "emits_x64 (\<lambda>b. z_x64_emit_ucomisd_xmm_xmm b dst src)
     (X64 (Some 0x66) (dst \<ge> 8 \<or> src \<ge> 8) False [0x0f, 0x2e] (RegRm dst (Reg src)) [])"
  by (cases "dst \<ge> 8"; cases "src \<ge> 8")
    (rule emits_x64I, simp add: z_x64_emit_ucomisd_xmm_xmm_def z_x64_emit_xmm_xmm_op_def assms Let_def del:
      push_bit_and, (rule emits_intros)+,
     simp add: x64_decode_simps shape1_def shape2_def modrm_ops_def assms del: push_bit_and)+

lemma x64_movd_xmm_from_gpr:
  assumes "xmm < 16" "gpr < 16"
  shows "emits_x64 (\<lambda>b. z_x64_emit_movd_xmm_from_gpr b xmm gpr)
     (X64 (Some 0x66) (xmm \<ge> 8 \<or> gpr \<ge> 8) False [0x0f, 0x6e] (RegRm xmm (Reg gpr)) [])"
  by (cases "xmm \<ge> 8"; cases "gpr \<ge> 8")
    (rule emits_x64I, simp add: z_x64_emit_movd_xmm_from_gpr_def assms Let_def del: push_bit_and, (rule emits_intros)+,
     simp add: x64_decode_simps shape1_def shape2_def modrm_ops_def assms del: push_bit_and)+

lemma x64_movq_xmm_from_gpr:
  assumes "xmm < 16" "gpr < 16"
  shows "emits_x64 (\<lambda>b. z_x64_emit_movq_xmm_from_gpr b xmm gpr)
     (X64 (Some 0x66) True True [0x0f, 0x6e] (RegRm xmm (Reg gpr)) [])"
  by (cases "xmm \<ge> 8"; cases "gpr \<ge> 8")
    (rule emits_x64I, simp add: z_x64_emit_movq_xmm_from_gpr_def assms Let_def del: push_bit_and, (rule emits_intros)+,
     simp add: x64_decode_simps shape1_def shape2_def modrm_ops_def assms del: push_bit_and)+

lemma x64_movd_gpr_from_xmm:
  assumes "xmm < 16" "gpr < 16"
  shows "emits_x64 (\<lambda>b. z_x64_emit_movd_gpr_from_xmm b gpr xmm)
     (X64 (Some 0x66) (xmm \<ge> 8 \<or> gpr \<ge> 8) False [0x0f, 0x7e] (RegRm xmm (Reg gpr)) [])"
  by (cases "xmm \<ge> 8"; cases "gpr \<ge> 8")
    (rule emits_x64I, simp add: z_x64_emit_movd_gpr_from_xmm_def assms Let_def del: push_bit_and, (rule emits_intros)+,
     simp add: x64_decode_simps shape1_def shape2_def modrm_ops_def assms del: push_bit_and)+

lemma x64_movq_gpr_from_xmm:
  assumes "xmm < 16" "gpr < 16"
  shows "emits_x64 (\<lambda>b. z_x64_emit_movq_gpr_from_xmm b gpr xmm)
     (X64 (Some 0x66) True True [0x0f, 0x7e] (RegRm xmm (Reg gpr)) [])"
  by (cases "xmm \<ge> 8"; cases "gpr \<ge> 8")
    (rule emits_x64I, simp add: z_x64_emit_movq_gpr_from_xmm_def assms Let_def del: push_bit_and, (rule emits_intros)+,
     simp add: x64_decode_simps shape1_def shape2_def modrm_ops_def assms del: push_bit_and)+

lemma x64_movss_xmm_ptr_rbp_disp:
  assumes "xmm < 16"
  shows "emits_x64 (\<lambda>b. z_x64_emit_movss_xmm_ptr_rbp_disp b xmm offset)
     (X64 (Some 0xf3) (xmm \<ge> 8) False [0x0f, 0x10] (RegRm xmm (Mem 5 None (- offset))) [])"
  by (cases "xmm \<ge> 8"; cases "offset \<le> 127")
    (rule emits_x64I, simp add: z_x64_emit_movss_xmm_ptr_rbp_disp_def z_x64_emit_xmm_ptr_rbp_disp_op_def assms
      Let_def del: push_bit_and, (rule emits_intros)+,
     simp add: x64_decode_simps shape1_def shape2_def modrm_ops_def assms del: push_bit_and)+

lemma x64_movsd_xmm_ptr_rbp_disp:
  assumes "xmm < 16"
  shows "emits_x64 (\<lambda>b. z_x64_emit_movsd_xmm_ptr_rbp_disp b xmm offset)
     (X64 (Some 0xf2) (xmm \<ge> 8) False [0x0f, 0x10] (RegRm xmm (Mem 5 None (- offset))) [])"
  by (cases "xmm \<ge> 8"; cases "offset \<le> 127")
    (rule emits_x64I, simp add: z_x64_emit_movsd_xmm_ptr_rbp_disp_def z_x64_emit_xmm_ptr_rbp_disp_op_def assms
      Let_def del: push_bit_and, (rule emits_intros)+,
     simp add: x64_decode_simps shape1_def shape2_def modrm_ops_def assms del: push_bit_and)+

lemma x64_movss_ptr_rbp_disp_xmm:
  assumes "xmm < 16"
  shows "emits_x64 (\<lambda>b. z_x64_emit_movss_ptr_rbp_disp_xmm b xmm offset)
     (X64 (Some 0xf3) (xmm \<ge> 8) False [0x0f, 0x11] (RegRm xmm (Mem 5 None (- offset))) [])"
  by (cases "xmm \<ge> 8"; cases "offset \<le> 127")
    (rule emits_x64I, simp add: z_x64_emit_movss_ptr_rbp_disp_xmm_def z_x64_emit_xmm_ptr_rbp_disp_op_def assms
      Let_def del: push_bit_and, (rule emits_intros)+,
     simp add: x64_decode_simps shape1_def shape2_def modrm_ops_def assms del: push_bit_and)+

lemma x64_movsd_ptr_rbp_disp_xmm:
  assumes "xmm < 16"
  shows "emits_x64 (\<lambda>b. z_x64_emit_movsd_ptr_rbp_disp_xmm b xmm offset)
     (X64 (Some 0xf2) (xmm \<ge> 8) False [0x0f, 0x11] (RegRm xmm (Mem 5 None (- offset))) [])"
  by (cases "xmm \<ge> 8"; cases "offset \<le> 127")
    (rule emits_x64I, simp add: z_x64_emit_movsd_ptr_rbp_disp_xmm_def z_x64_emit_xmm_ptr_rbp_disp_op_def assms
      Let_def del: push_bit_and, (rule emits_intros)+,
     simp add: x64_decode_simps shape1_def shape2_def modrm_ops_def assms del: push_bit_and)+

end
