(* ===== verification/X64Props.thy ===== *)
theory X64Props
  imports X64Regs X64Mem X64Sse
begin

text \<open>
  The properties of the x86-64 encoder: every emitter writes exactly the one instruction its name
  promises, the guards stop what cannot be encoded, and patched jumps land.
\<close>

section \<open>Emitters\<close>

text \<open>
  C33. The emitters on registers of the caller's choice: for every register number below 16 and both
  operand sizes, the appended bytes are exactly one instruction, with the opcode, the REX bits, the
  registers and the immediate of the call.
\<close>

theorem x64_register_emitters_decode:
  assumes "dst < 16" "src < 16" "amount \<le> 255"
  shows
  "emits_x64 (\<lambda>b. z_x64_emit_cmp_reg_reg b dst src wide)
     (X64 None (wide \<or> src \<ge> 8 \<or> dst \<ge> 8) wide [0x39] (RegRm src (Reg dst)) []) \<and>
   emits_x64 (\<lambda>b. z_x64_emit_mov_reg_from_rax b dst wide)
     (X64 None (wide \<or> dst \<ge> 8) wide [0x89] (RegRm 0 (Reg dst)) []) \<and>
   emits_x64 (\<lambda>b. z_x64_emit_mov_reg_from_reg b dst src wide)
     (X64 None (wide \<or> src \<ge> 8 \<or> dst \<ge> 8) wide [0x89] (RegRm src (Reg dst)) []) \<and>
   emits_x64 (\<lambda>b. z_x64_emit_xor_reg_reg b dst wide)
     (X64 None (wide \<or> dst \<ge> 8) wide [0x31] (RegRm dst (Reg dst)) []) \<and>
   emits_x64 (\<lambda>b. z_x64_emit_add_reg_reg b dst src wide)
     (X64 None (wide \<or> src \<ge> 8 \<or> dst \<ge> 8) wide [0x01] (RegRm src (Reg dst)) []) \<and>
   emits_x64 (\<lambda>b. z_x64_emit_sub_reg_reg b dst src wide)
     (X64 None (wide \<or> src \<ge> 8 \<or> dst \<ge> 8) wide [0x29] (RegRm src (Reg dst)) []) \<and>
   emits_x64 (\<lambda>b. z_x64_emit_xor_reg_from_reg b dst src wide)
     (X64 None (wide \<or> src \<ge> 8 \<or> dst \<ge> 8) wide [0x31] (RegRm src (Reg dst)) []) \<and>
   emits_x64 (\<lambda>b. z_x64_emit_test_reg_reg b dst wide)
     (X64 None (wide \<or> dst \<ge> 8) wide [0x85] (RegRm dst (Reg dst)) []) \<and>
   emits_x64 (\<lambda>b. z_x64_emit_add_reg_i8 b dst i8 wide)
     (X64 None (wide \<or> dst \<ge> 8) wide [0x83] (RegRm 0 (Reg dst)) [i8]) \<and>
   emits_x64 (\<lambda>b. z_x64_emit_and_reg_i8 b dst i8 wide)
     (X64 None (wide \<or> dst \<ge> 8) wide [0x83] (RegRm 4 (Reg dst)) [i8]) \<and>
   emits_x64 (\<lambda>b. z_x64_emit_cmp_reg_i8 b dst i8 wide)
     (X64 None (wide \<or> dst \<ge> 8) wide [0x83] (RegRm 7 (Reg dst)) [i8]) \<and>
   emits_x64 (\<lambda>b. z_x64_emit_and_reg_u32 b dst v wide)
     (X64 None (wide \<or> dst \<ge> 8) wide [0x81] (RegRm 4 (Reg dst)) (le32 v)) \<and>
   emits_x64 (\<lambda>b. z_x64_emit_neg_reg b dst wide)
     (X64 None (wide \<or> dst \<ge> 8) wide [0xf7] (RegRm 3 (Reg dst)) []) \<and>
   emits_x64 (\<lambda>b. z_x64_emit_shr_reg_one b dst wide)
     (X64 None (wide \<or> dst \<ge> 8) wide [0xd1] (RegRm 5 (Reg dst)) []) \<and>
   emits_x64 (\<lambda>b. z_x64_emit_shl_reg_imm8 b dst amount wide)
     (X64 None (wide \<or> dst \<ge> 8) wide [0xc1] (RegRm 4 (Reg dst)) [ucast amount]) \<and>
   emits_x64 (\<lambda>b. z_x64_emit_shr_reg_imm8 b dst amount wide)
     (X64 None (wide \<or> dst \<ge> 8) wide [0xc1] (RegRm 5 (Reg dst)) [ucast amount]) \<and>
   emits_x64 (\<lambda>b. z_x64_emit_imul_reg_i32 b dst v wide)
     (X64 None (wide \<or> dst \<ge> 8) wide [0x69] (RegRm dst (Reg dst)) (le32 v)) \<and>
   emits_x64 (\<lambda>b. z_x64_emit_mov_reg_u32 b dst v)
     (X64 None (dst \<ge> 8) False [0xb8] (OpReg dst) (le32 v)) \<and>
   emits_x64 (\<lambda>b. z_x64_emit_mov_reg_i32 b dst v)
     (X64 None True True [0xc7] (RegRm 0 (Reg dst)) (le32 v)) \<and>
   emits_x64 (\<lambda>b. z_x64_emit_mov_reg_u64 b dst q)
     (X64 None True True [0xb8] (OpReg dst) (le64 q)) \<and>
   emits_x64 (\<lambda>b. z_x64_emit_push_reg64 b dst)
     (X64 None (dst \<ge> 8) False [0x50] (OpReg dst) []) \<and>
   emits_x64 (\<lambda>b. z_x64_emit_pop_reg64 b dst)
     (X64 None (dst \<ge> 8) False [0x58] (OpReg dst) []) \<and>
   emits_x64 (\<lambda>b. z_x64_emit_shl_rcx_imm8 b amount)
     (X64 None True True [0xc1] (RegRm 4 (Reg 1)) [ucast amount]) \<and>
   emits_x64 (\<lambda>b. z_x64_emit_shr_rcx_imm8 b amount)
     (X64 None True True [0xc1] (RegRm 5 (Reg 1)) [ucast amount])"
  using assms
  by (intro conjI
      x64_cmp_reg_reg x64_mov_reg_from_rax x64_mov_reg_from_reg x64_xor_reg_reg x64_add_reg_reg
      x64_sub_reg_reg x64_xor_reg_from_reg x64_test_reg_reg x64_add_reg_i8 x64_and_reg_i8 x64_cmp_reg_i8
      x64_and_reg_u32 x64_neg_reg x64_shr_reg_one x64_shl_reg_imm8 x64_shr_reg_imm8 x64_imul_reg_i32
      x64_mov_reg_u32 x64_mov_reg_i32 x64_mov_reg_u64 x64_push_reg64 x64_pop_reg64 x64_shl_rcx_imm8
      x64_shr_rcx_imm8) auto

theorem x64_register_emitters_decode_witness:
  "emits_x64 (\<lambda>b. z_x64_emit_mov_reg_from_reg b 12 3 True) (X64 None True True [0x89] (RegRm 3 (Reg 12)) [])"
  using x64_register_emitters_decode [of 12 3 0] by simp

text \<open>The emitters on fixed registers append exactly one instruction each, the one they are named after.\<close>

lemma x64_fixed_emitters:
  "emits_x64 (\<lambda>b. z_x64_emit_cdqe b)
     (X64 None True True [0x98] NoArgs []) \<and>
   emits_x64 (\<lambda>b. z_x64_emit_add_rax_u32 b v wide)
     (X64 None wide wide [0x05] NoArgs (le32 v)) \<and>
   emits_x64 (\<lambda>b. z_x64_emit_sub_rax_u32 b v wide)
     (X64 None wide wide [0x2d] NoArgs (le32 v)) \<and>
   emits_x64 (\<lambda>b. z_x64_emit_push_rax b)
     (X64 None False False [0x50] (OpReg 0) []) \<and>
   emits_x64 (\<lambda>b. z_x64_emit_pop_rax b)
     (X64 None False False [0x58] (OpReg 0) []) \<and>
   emits_x64 (\<lambda>b. z_x64_emit_mov_rcx_from_rax b wide)
     (X64 None wide wide [0x89] (RegRm 0 (Reg 1)) []) \<and>
   emits_x64 (\<lambda>b. z_x64_emit_mov_r9_from_rax b)
     (X64 None True True [0x89] (RegRm 0 (Reg 9)) []) \<and>
   emits_x64 (\<lambda>b. z_x64_emit_mov_rax_from_rcx b)
     (X64 None True True [0x89] (RegRm 1 (Reg 0)) []) \<and>
   emits_x64 (\<lambda>b. z_x64_emit_mov_rdx_from_rax b)
     (X64 None True True [0x89] (RegRm 0 (Reg 2)) []) \<and>
   emits_x64 (\<lambda>b. z_x64_emit_mov_rdi_from_rax b)
     (X64 None True True [0x89] (RegRm 0 (Reg 7)) []) \<and>
   emits_x64 (\<lambda>b. z_x64_emit_mov_rsi_from_rax b)
     (X64 None True True [0x89] (RegRm 0 (Reg 6)) []) \<and>
   emits_x64 (\<lambda>b. z_x64_emit_mov_rsi_from_rsp b)
     (X64 None True True [0x89] (RegRm 4 (Reg 6)) []) \<and>
   emits_x64 (\<lambda>b. z_x64_emit_mov_rax_from_rdx b)
     (X64 None True True [0x89] (RegRm 2 (Reg 0)) []) \<and>
   emits_x64 (\<lambda>b. z_x64_emit_mov_rax_from_rdi b)
     (X64 None True True [0x89] (RegRm 7 (Reg 0)) []) \<and>
   emits_x64 (\<lambda>b. z_x64_emit_mov_eax_from_ecx b)
     (X64 None False False [0x89] (RegRm 1 (Reg 0)) []) \<and>
   emits_x64 (\<lambda>b. z_x64_emit_mov_rax_u64 b q)
     (X64 None True True [0xb8] (OpReg 0) (le64 q)) \<and>
   emits_x64 (\<lambda>b. z_x64_emit_xor_eax_eax b)
     (X64 None False False [0x31] (RegRm 0 (Reg 0)) []) \<and>
   emits_x64 (\<lambda>b. z_x64_emit_xor_ecx_ecx b)
     (X64 None False False [0x31] (RegRm 1 (Reg 1)) []) \<and>
   emits_x64 (\<lambda>b. z_x64_emit_xor_rdi_rdi b)
     (X64 None True True [0x31] (RegRm 7 (Reg 7)) []) \<and>
   emits_x64 (\<lambda>b. z_x64_emit_xor_rax_rax b)
     (X64 None True True [0x31] (RegRm 0 (Reg 0)) []) \<and>
   emits_x64 (\<lambda>b. z_x64_emit_xor_r8d_r8d b)
     (X64 None True False [0x31] (RegRm 8 (Reg 8)) []) \<and>
   emits_x64 (\<lambda>b. z_x64_emit_inc_ecx b)
     (X64 None False False [0xff] (RegRm 0 (Reg 1)) []) \<and>
   emits_x64 (\<lambda>b. z_x64_emit_inc_rcx b)
     (X64 None True True [0xff] (RegRm 0 (Reg 1)) []) \<and>
   emits_x64 (\<lambda>b. z_x64_emit_inc_r8 b)
     (X64 None True True [0xff] (RegRm 0 (Reg 8)) []) \<and>
   emits_x64 (\<lambda>b. z_x64_emit_dec_r8d b)
     (X64 None True False [0xff] (RegRm 1 (Reg 8)) []) \<and>
   emits_x64 (\<lambda>b. z_x64_emit_add_rax_rcx b wide)
     (X64 None wide wide [0x01] (RegRm 1 (Reg 0)) []) \<and>
   emits_x64 (\<lambda>b. z_x64_emit_sub_rax_rcx b wide)
     (X64 None wide wide [0x29] (RegRm 1 (Reg 0)) []) \<and>
   emits_x64 (\<lambda>b. z_x64_emit_add_rdx_rcx b wide)
     (X64 None wide wide [0x01] (RegRm 1 (Reg 2)) []) \<and>
   emits_x64 (\<lambda>b. z_x64_emit_cmp_rax_rcx b wide)
     (X64 None wide wide [0x39] (RegRm 1 (Reg 0)) []) \<and>
   emits_x64 (\<lambda>b. z_x64_emit_imul_rax_rcx b wide)
     (X64 None wide wide [0x0f, 0xaf] (RegRm 0 (Reg 1)) []) \<and>
   emits_x64 (\<lambda>b. z_x64_emit_and_rax_rcx b wide)
     (X64 None wide wide [0x21] (RegRm 1 (Reg 0)) []) \<and>
   emits_x64 (\<lambda>b. z_x64_emit_or_rax_rcx b wide)
     (X64 None wide wide [0x09] (RegRm 1 (Reg 0)) []) \<and>
   emits_x64 (\<lambda>b. z_x64_emit_xor_rax_rcx b wide)
     (X64 None wide wide [0x31] (RegRm 1 (Reg 0)) []) \<and>
   emits_x64 (\<lambda>b. z_x64_emit_shl_rax_cl b wide)
     (X64 None wide wide [0xd3] (RegRm 4 (Reg 0)) []) \<and>
   emits_x64 (\<lambda>b. z_x64_emit_shr_rax_cl b wide)
     (X64 None wide wide [0xd3] (RegRm 5 (Reg 0)) []) \<and>
   emits_x64 (\<lambda>b. z_x64_emit_rol_rax_cl b wide)
     (X64 None wide wide [0xd3] (RegRm 0 (Reg 0)) []) \<and>
   emits_x64 (\<lambda>b. z_x64_emit_ror_rax_cl b wide)
     (X64 None wide wide [0xd3] (RegRm 1 (Reg 0)) []) \<and>
   emits_x64 (\<lambda>b. z_x64_emit_test_rax_rax b wide)
     (X64 None wide wide [0x85] (RegRm 0 (Reg 0)) []) \<and>
   emits_x64 (\<lambda>b. z_x64_emit_test_ecx_ecx b)
     (X64 None False False [0x85] (RegRm 1 (Reg 1)) []) \<and>
   emits_x64 (\<lambda>b. z_x64_emit_mov_eax_u32 b v)
     (X64 None False False [0xb8] (OpReg 0) (le32 v)) \<and>
   emits_x64 (\<lambda>b. z_x64_emit_ud2 b)
     (X64 None False False [0x0f, 0x0b] NoArgs []) \<and>
   emits_x64 (\<lambda>b. z_x64_emit_syscall b)
     (X64 None False False [0x0f, 0x05] NoArgs [])"
  by (intro conjI
      x64_cdqe x64_add_rax_u32 x64_sub_rax_u32 x64_push_rax x64_pop_rax x64_mov_rcx_from_rax
      x64_mov_r9_from_rax x64_mov_rax_from_rcx x64_mov_rdx_from_rax x64_mov_rdi_from_rax
      x64_mov_rsi_from_rax x64_mov_rsi_from_rsp x64_mov_rax_from_rdx x64_mov_rax_from_rdi
      x64_mov_eax_from_ecx x64_mov_rax_u64 x64_xor_eax_eax x64_xor_ecx_ecx x64_xor_rdi_rdi x64_xor_rax_rax
      x64_xor_r8d_r8d x64_inc_ecx x64_inc_rcx x64_inc_r8 x64_dec_r8d x64_add_rax_rcx x64_sub_rax_rcx
      x64_add_rdx_rcx x64_cmp_rax_rcx x64_imul_rax_rcx x64_and_rax_rcx x64_or_rax_rcx x64_xor_rax_rcx
      x64_shl_rax_cl x64_shr_rax_cl x64_rol_rax_cl x64_ror_rax_cl x64_test_rax_rax x64_test_ecx_ecx
      x64_mov_eax_u32 x64_ud2 x64_syscall)

text \<open>
  C34. The emitters that address memory: base, index, scale and displacement are read back from the
  bytes exactly as passed, for every base register (with the SIB byte rsp and r12 need, the
  displacement rbp and r13 need) and every displacement; the byte forms carry the REX byte that makes
  registers 4 to 7 mean spl, bpl, sil and dil.
\<close>

theorem x64_memory_emitters_decode:
  assumes "dst < 16" "base < 16" "index < 16" "index \<noteq> 4" "z_x64_scale_bits scale = Some sb" "imm \<le> 255"
    "ucast opcode \<in> set modrm_ops"
  shows
  "emits_x64 (\<lambda>b. z_x64_emit_load_rsp_offset_reg b dst offset wide)
     (X64 None (wide \<or> dst \<ge> 8) wide [0x8b] (RegRm dst (Mem 4 None offset)) []) \<and>
   emits_x64 (\<lambda>b. z_x64_emit_store_rsp_offset_reg b dst offset wide)
     (X64 None (wide \<or> dst \<ge> 8) wide [0x89] (RegRm dst (Mem 4 None offset)) []) \<and>
   emits_x64 (\<lambda>b. z_x64_emit_lea_rsp_offset_reg b dst offset)
     (X64 None True True [0x8d] (RegRm dst (Mem 4 None offset)) []) \<and>
   emits_x64 (\<lambda>b. z_x64_emit_inc_rsp_offset64 b offset)
     (X64 None True True [0xff] (RegRm 0 (Mem 4 None offset)) []) \<and>
   emits_x64 (\<lambda>b. z_x64_emit_add_rax_rsp_offset b offset)
     (X64 None True True [0x03] (RegRm 0 (Mem 4 None offset)) []) \<and>
   emits_x64 (\<lambda>b. z_x64_emit_cmp_rax_rsp_offset b offset)
     (X64 None True True [0x3b] (RegRm 0 (Mem 4 None offset)) []) \<and>
   emits_x64 (\<lambda>b. z_x64_emit_mov_rsp_offset_u32 b offset v wide)
     (X64 None wide wide [0xc7] (RegRm 0 (Mem 4 None offset)) (le32 v)) \<and>
   emits_x64 (\<lambda>b. z_x64_emit_load_rbp_positive_reg b dst offset wide)
     (X64 None (wide \<or> dst \<ge> 8) wide [0x8b] (RegRm dst (Mem 5 None offset)) []) \<and>
   emits_x64 (\<lambda>b. z_x64_emit_rbp_disp_reg b opcode dst offset wide)
     (X64 None (wide \<or> dst \<ge> 8) wide [ucast opcode] (RegRm dst (Mem 5 None (- offset))) []) \<and>
   emits_x64 (\<lambda>b. z_x64_emit_load_reg8_base_index b dst base index)
     (X64 None (dst \<ge> 4 \<or> index \<ge> 8 \<or> base \<ge> 8) False [0x8a] (RegRm dst (Mem base (Some (index, 0)) 0)) []) \<and>
   emits_x64 (\<lambda>b. z_x64_emit_store_base_index_reg8 b base index dst)
     (X64 None (dst \<ge> 4 \<or> index \<ge> 8 \<or> base \<ge> 8) False [0x88] (RegRm dst (Mem base (Some (index, 0)) 0)) []) \<and>
   emits_x64 (\<lambda>b. z_x64_emit_cmp_base_index_reg8 b base index dst)
     (X64 None (dst \<ge> 4 \<or> index \<ge> 8 \<or> base \<ge> 8) False [0x38] (RegRm dst (Mem base (Some (index, 0)) 0)) []) \<and>
   emits_x64 (\<lambda>b. z_x64_emit_cmp_base_index_u8 b base index imm)
     (X64 None (index \<ge> 8 \<or> base \<ge> 8) False [0x80] (RegRm 7 (Mem base (Some (index, 0)) 0)) [ucast imm]) \<and>
   emits_x64 (\<lambda>b. z_x64_emit_movzx_reg32_base_index_u8 b dst base index)
     (X64 None (dst \<ge> 8 \<or> index \<ge> 8 \<or> base \<ge> 8) False [0x0f, 0xb6] (RegRm dst (Mem base (Some (index, 0)) 0)) []) \<and>
   emits_x64 (\<lambda>b. z_x64_emit_load_base_index_scale_disp_reg b dst base index scale disp wide)
     (X64 None (wide \<or> dst \<ge> 8 \<or> index \<ge> 8 \<or> base \<ge> 8) wide [0x8b] (RegRm dst (Mem base (Some (index, sb)) disp)) []) \<and>
   emits_x64 (\<lambda>b. z_x64_emit_lea_base_index_scale_disp_reg b dst base index scale disp)
     (X64 None True True [0x8d] (RegRm dst (Mem base (Some (index, sb)) disp)) []) \<and>
   emits_x64 (\<lambda>b. z_x64_emit_movzx_reg32_ptr_reg_u8 b dst base)
     (X64 None (dst \<ge> 8 \<or> base \<ge> 8) False [0x0f, 0xb6] (RegRm dst (Mem base None 0)) []) \<and>
   emits_x64 (\<lambda>b. z_x64_emit_movzx_reg32_ptr_reg_disp_u16 b dst base disp)
     (X64 None (dst \<ge> 8 \<or> base \<ge> 8) False [0x0f, 0xb7] (RegRm dst (Mem base None disp)) []) \<and>
   emits_x64 (\<lambda>b. z_x64_emit_load_reg_ptr_reg b dst base wide)
     (X64 None (wide \<or> dst \<ge> 8 \<or> base \<ge> 8) wide [0x8b] (RegRm dst (Mem base None 0)) []) \<and>
   emits_x64 (\<lambda>b. z_x64_emit_mov_ptr_reg_disp_u8 b base disp imm)
     (X64 None (base \<ge> 8) False [0xc6] (RegRm 0 (Mem base None disp)) [ucast imm]) \<and>
   emits_x64 (\<lambda>b. z_x64_emit_store_ptr_reg8_from_reg b base dst)
     (X64 None (dst \<ge> 4 \<or> base \<ge> 8) False [0x88] (RegRm dst (Mem base None 0)) []) \<and>
   emits_x64 (\<lambda>b. z_x64_emit_store_ptr_reg_from_reg b base dst wide)
     (X64 None (wide \<or> dst \<ge> 8 \<or> base \<ge> 8) wide [0x89] (RegRm dst (Mem base None 0)) []) \<and>
   emits_x64 (\<lambda>b. z_x64_emit_cmp_reg_ptr_reg b dst base wide)
     (X64 None (wide \<or> dst \<ge> 8 \<or> base \<ge> 8) wide [0x3b] (RegRm dst (Mem base None 0)) [])"
  using assms
  by (intro conjI
      x64_load_rsp_offset_reg x64_store_rsp_offset_reg x64_lea_rsp_offset_reg x64_inc_rsp_offset64
      x64_add_rax_rsp_offset x64_cmp_rax_rsp_offset x64_mov_rsp_offset_u32 x64_load_rbp_positive_reg
      x64_rbp_disp_reg x64_load_reg8_base_index x64_store_base_index_reg8 x64_cmp_base_index_reg8
      x64_cmp_base_index_u8 x64_movzx_reg32_base_index_u8 x64_load_base_index_scale_disp_reg
      x64_lea_base_index_scale_disp_reg x64_movzx_reg32_ptr_reg_u8 x64_movzx_reg32_ptr_reg_disp_u16
      x64_load_reg_ptr_reg x64_mov_ptr_reg_disp_u8 x64_store_ptr_reg8_from_reg x64_store_ptr_reg_from_reg
      x64_cmp_reg_ptr_reg) auto

theorem x64_memory_emitters_decode_witness:
  "emits_x64 (\<lambda>b. z_x64_emit_lea_base_index_scale_disp_reg b 9 13 12 8 0)
     (X64 None True True [0x8d] (RegRm 9 (Mem 13 (Some (12, 3)) 0)) [])"
proof -
  have "(ucast (0x8b :: u32) :: u8) \<in> set modrm_ops" by (simp add: modrm_ops_def)
  moreover have "z_x64_scale_bits 8 = Some 3" by (simp add: z_x64_scale_bits_def)
  ultimately show ?thesis
    using x64_memory_emitters_decode [where dst = 9 and base = 13 and index = 12 and scale = 8 and sb = 3
      and imm = 0 and opcode = "0x8b" and disp = 0] by simp
qed

text \<open>
  C35. The SSE emitters: with xmm registers below 16 each appends exactly one instruction with its
  mandatory prefix in front of the REX byte, and moves between the register files name the right sides.
\<close>

theorem x64_sse_emitters_decode:
  assumes "dst < 16" "src < 16"
  shows
  "emits_x64 (\<lambda>b. z_x64_emit_movss_xmm_reg b dst src)
     (X64 (Some 0xf3) (dst \<ge> 8 \<or> src \<ge> 8) False [0x0f, 0x10] (RegRm dst (Reg src)) []) \<and>
   emits_x64 (\<lambda>b. z_x64_emit_movsd_xmm_reg b dst src)
     (X64 (Some 0xf2) (dst \<ge> 8 \<or> src \<ge> 8) False [0x0f, 0x10] (RegRm dst (Reg src)) []) \<and>
   emits_x64 (\<lambda>b. z_x64_emit_addss_xmm_xmm b dst src)
     (X64 (Some 0xf3) (dst \<ge> 8 \<or> src \<ge> 8) False [0x0f, 0x58] (RegRm dst (Reg src)) []) \<and>
   emits_x64 (\<lambda>b. z_x64_emit_addsd_xmm_xmm b dst src)
     (X64 (Some 0xf2) (dst \<ge> 8 \<or> src \<ge> 8) False [0x0f, 0x58] (RegRm dst (Reg src)) []) \<and>
   emits_x64 (\<lambda>b. z_x64_emit_subss_xmm_xmm b dst src)
     (X64 (Some 0xf3) (dst \<ge> 8 \<or> src \<ge> 8) False [0x0f, 0x5c] (RegRm dst (Reg src)) []) \<and>
   emits_x64 (\<lambda>b. z_x64_emit_subsd_xmm_xmm b dst src)
     (X64 (Some 0xf2) (dst \<ge> 8 \<or> src \<ge> 8) False [0x0f, 0x5c] (RegRm dst (Reg src)) []) \<and>
   emits_x64 (\<lambda>b. z_x64_emit_mulss_xmm_xmm b dst src)
     (X64 (Some 0xf3) (dst \<ge> 8 \<or> src \<ge> 8) False [0x0f, 0x59] (RegRm dst (Reg src)) []) \<and>
   emits_x64 (\<lambda>b. z_x64_emit_mulsd_xmm_xmm b dst src)
     (X64 (Some 0xf2) (dst \<ge> 8 \<or> src \<ge> 8) False [0x0f, 0x59] (RegRm dst (Reg src)) []) \<and>
   emits_x64 (\<lambda>b. z_x64_emit_divss_xmm_xmm b dst src)
     (X64 (Some 0xf3) (dst \<ge> 8 \<or> src \<ge> 8) False [0x0f, 0x5e] (RegRm dst (Reg src)) []) \<and>
   emits_x64 (\<lambda>b. z_x64_emit_divsd_xmm_xmm b dst src)
     (X64 (Some 0xf2) (dst \<ge> 8 \<or> src \<ge> 8) False [0x0f, 0x5e] (RegRm dst (Reg src)) []) \<and>
   emits_x64 (\<lambda>b. z_x64_emit_ucomiss_xmm_xmm b dst src)
     (X64 None (dst \<ge> 8 \<or> src \<ge> 8) False [0x0f, 0x2e] (RegRm dst (Reg src)) []) \<and>
   emits_x64 (\<lambda>b. z_x64_emit_ucomisd_xmm_xmm b dst src)
     (X64 (Some 0x66) (dst \<ge> 8 \<or> src \<ge> 8) False [0x0f, 0x2e] (RegRm dst (Reg src)) []) \<and>
   emits_x64 (\<lambda>b. z_x64_emit_movd_xmm_from_gpr b dst src)
     (X64 (Some 0x66) (dst \<ge> 8 \<or> src \<ge> 8) False [0x0f, 0x6e] (RegRm dst (Reg src)) []) \<and>
   emits_x64 (\<lambda>b. z_x64_emit_movq_xmm_from_gpr b dst src)
     (X64 (Some 0x66) True True [0x0f, 0x6e] (RegRm dst (Reg src)) []) \<and>
   emits_x64 (\<lambda>b. z_x64_emit_movd_gpr_from_xmm b src dst)
     (X64 (Some 0x66) (dst \<ge> 8 \<or> src \<ge> 8) False [0x0f, 0x7e] (RegRm dst (Reg src)) []) \<and>
   emits_x64 (\<lambda>b. z_x64_emit_movq_gpr_from_xmm b src dst)
     (X64 (Some 0x66) True True [0x0f, 0x7e] (RegRm dst (Reg src)) []) \<and>
   emits_x64 (\<lambda>b. z_x64_emit_movss_xmm_ptr_rbp_disp b dst offset)
     (X64 (Some 0xf3) (dst \<ge> 8) False [0x0f, 0x10] (RegRm dst (Mem 5 None (- offset))) []) \<and>
   emits_x64 (\<lambda>b. z_x64_emit_movsd_xmm_ptr_rbp_disp b dst offset)
     (X64 (Some 0xf2) (dst \<ge> 8) False [0x0f, 0x10] (RegRm dst (Mem 5 None (- offset))) []) \<and>
   emits_x64 (\<lambda>b. z_x64_emit_movss_ptr_rbp_disp_xmm b dst offset)
     (X64 (Some 0xf3) (dst \<ge> 8) False [0x0f, 0x11] (RegRm dst (Mem 5 None (- offset))) []) \<and>
   emits_x64 (\<lambda>b. z_x64_emit_movsd_ptr_rbp_disp_xmm b dst offset)
     (X64 (Some 0xf2) (dst \<ge> 8) False [0x0f, 0x11] (RegRm dst (Mem 5 None (- offset))) [])"
  using assms
  by (intro conjI
      x64_movss_xmm_reg x64_movsd_xmm_reg x64_addss_xmm_xmm x64_addsd_xmm_xmm x64_subss_xmm_xmm
      x64_subsd_xmm_xmm x64_mulss_xmm_xmm x64_mulsd_xmm_xmm x64_divss_xmm_xmm x64_divsd_xmm_xmm
      x64_ucomiss_xmm_xmm x64_ucomisd_xmm_xmm x64_movd_xmm_from_gpr x64_movq_xmm_from_gpr
      x64_movd_gpr_from_xmm x64_movq_gpr_from_xmm x64_movss_xmm_ptr_rbp_disp x64_movsd_xmm_ptr_rbp_disp
      x64_movss_ptr_rbp_disp_xmm x64_movsd_ptr_rbp_disp_xmm) auto

theorem x64_sse_emitters_decode_witness:
  "emits_x64 (\<lambda>b. z_x64_emit_addsd_xmm_xmm b 9 2) (X64 (Some 0xf2) True False [0x0f, 0x58] (RegRm 9 (Reg 2)) [])"
  using x64_sse_emitters_decode [of 9 2] by simp

section \<open>Guards\<close>



section \<open>Short sequences\<close>

fun decode_seq :: "nat \<Rightarrow> u8 list \<Rightarrow> (x64_insn list \<times> u8 list) option" where
  "decode_seq 0 bs = Some ([], bs)"
| "decode_seq (Suc n) bs =
     do { (i, bs) \<leftarrow> x64_decode bs; (is, bs) \<leftarrow> decode_seq n bs; Some (i # is, bs) }"

definition emits_seq :: "(ZBuf \<Rightarrow> ZBuf option) \<Rightarrow> x64_insn list \<Rightarrow> bool" where
  "emits_seq f is \<longleftrightarrow> (\<exists>bs. emits f bs \<and> (\<forall>rest. decode_seq (length is) (bs @ rest) = Some (is, rest)))"

lemma emits_seqI: "emits f bs \<Longrightarrow> (\<And>rest. decode_seq (length is) (bs @ rest) = Some (is, rest)) \<Longrightarrow> emits_seq f is"
  by (auto simp: emits_seq_def)

lemma emits_seq_Nil: "emits_seq (\<lambda>b. Some b) []"
  by (rule emits_seqI [OF emits_return]) simp

lemma emits_seq_one: "emits_x64 f i \<Longrightarrow> emits_seq f [i]"
  by (auto simp: emits_x64_def emits_seq_def)

lemma decode_seq_append:
  "decode_seq (m + n) bs = do { (is, bs) \<leftarrow> decode_seq m bs; (js, bs) \<leftarrow> decode_seq n bs; Some (is @ js, bs) }"
  by (induction m arbitrary: bs) (auto split: bind_splits)

lemma emits_seq_bind:
  assumes "emits_seq f is" "emits_seq g js"
  shows "emits_seq (\<lambda>b. Option.bind (f b) g) (is @ js)"
proof -
  obtain xs ys where "emits f xs" "\<And>rest. decode_seq (length is) (xs @ rest) = Some (is, rest)"
    "emits g ys" "\<And>rest. decode_seq (length js) (ys @ rest) = Some (js, rest)"
    using assms by (auto simp: emits_seq_def)
  then show ?thesis
    by (intro emits_seqI [of _ "xs @ ys"] emits_bind) (simp_all add: decode_seq_append)
qed

definition rsp_insn :: "u32 \<Rightarrow> u32 \<Rightarrow> x64_insn list" where
  "rsp_insn k amount =
     (if amount = 0 then []
      else if amount \<le> 127 then [X64 None True True [0x83] (RegRm k (Reg 4)) [ucast amount]]
      else [X64 None True True [0x81] (RegRm k (Reg 4)) (le32 amount)])"

lemma seq_sub_rsp: "emits_seq (\<lambda>b. z_x64_emit_sub_rsp b amount) (rsp_insn 5 amount)"
proof (cases rule: disp_cases [of amount])
  case 1
  then show ?thesis by (simp add: z_x64_emit_sub_rsp_def rsp_insn_def emits_seq_Nil)
next
  case 2
  have "emits_x64 (\<lambda>b. z_x64_emit_sub_rsp b amount) (X64 None True True [0x83] (RegRm 5 (Reg 4)) [ucast amount])"
    by (rule emits_x64I, simp add: z_x64_emit_sub_rsp_def 2, (rule emits_intros)+, simp add: x64_decode_simps shape1_def modrm_ops_def)
  with 2 show ?thesis by (simp add: rsp_insn_def emits_seq_one)
next
  case 3
  have "emits_x64 (\<lambda>b. z_x64_emit_sub_rsp b amount) (X64 None True True [0x81] (RegRm 5 (Reg 4)) (le32 amount))"
    by (rule emits_x64I, simp add: z_x64_emit_sub_rsp_def 3, (rule emits_intros)+, simp add: x64_decode_simps shape1_def modrm_ops_def)
  with 3 show ?thesis by (simp add: rsp_insn_def emits_seq_one)
qed

lemma seq_add_rsp: "emits_seq (\<lambda>b. z_x64_emit_add_rsp b amount) (rsp_insn 0 amount)"
proof (cases rule: disp_cases [of amount])
  case 1
  then show ?thesis by (simp add: z_x64_emit_add_rsp_def rsp_insn_def emits_seq_Nil)
next
  case 2
  have "emits_x64 (\<lambda>b. z_x64_emit_add_rsp b amount) (X64 None True True [0x83] (RegRm 0 (Reg 4)) [ucast amount])"
    by (rule emits_x64I, simp add: z_x64_emit_add_rsp_def 2, (rule emits_intros)+, simp add: x64_decode_simps shape1_def modrm_ops_def)
  with 2 show ?thesis by (simp add: rsp_insn_def emits_seq_one)
next
  case 3
  have "emits_x64 (\<lambda>b. z_x64_emit_add_rsp b amount) (X64 None True True [0x81] (RegRm 0 (Reg 4)) (le32 amount))"
    by (rule emits_x64I, simp add: z_x64_emit_add_rsp_def 3, (rule emits_intros)+, simp add: x64_decode_simps shape1_def modrm_ops_def)
  with 3 show ?thesis by (simp add: rsp_insn_def emits_seq_one)
qed

lemma seq_prologue:
  "emits_seq (\<lambda>b. z_x64_emit_prologue b n) ([X64 None False False [0x50] (OpReg 5) [], X64 None True True [0x89] (RegRm 4 (Reg 5)) []] @ rsp_insn 5 n)"
proof -
  have "emits_seq (\<lambda>b. do { buf \<leftarrow> z_x64_append_u8 b 0x55; buf \<leftarrow> z_x64_append_u8 buf 0x48; buf \<leftarrow> z_x64_append_u8 buf 0x89; z_x64_append_u8 buf 0xe5 })
     [X64 None False False [0x50] (OpReg 5) [], X64 None True True [0x89] (RegRm 4 (Reg 5)) []]"
    by (rule emits_seqI, (rule emits_intros)+) (simp add: x64_decode_simps shape1_def modrm_ops_def)
  from emits_seq_bind [OF this seq_sub_rsp [of n]] show ?thesis
    by (simp add: z_x64_emit_prologue_def)
qed

text \<open>The divisions: a cleared or sign-extended \<open>rdx\<close>, then \<open>div\<close> or \<open>idiv\<close> by \<open>rcx\<close>, and the remainder moved if wanted.\<close>

definition div_insns :: "bool \<Rightarrow> bool \<Rightarrow> bool \<Rightarrow> x64_insn list" where
  "div_insns wide uns keep =
     (if uns then [X64 None wide wide [0x31] (RegRm 2 (Reg 2)) [], X64 None wide wide [0xf7] (RegRm 6 (Reg 1)) []]
      else [X64 None wide wide [0x99] NoArgs [], X64 None wide wide [0xf7] (RegRm 7 (Reg 1)) []]) @
     (if keep then [X64 None wide wide [0x89] (RegRm 2 (Reg 0)) []] else [])"

lemma seq_div: "emits_seq (\<lambda>b. z_x64_emit_div_rax_rcx b wide uns keep) (div_insns wide uns keep)"
  by (cases wide; cases uns; cases keep)
    (rule emits_seqI, simp add: z_x64_emit_div_rax_rcx_def z_x64_emit_wide_prefix_def, (rule emits_intros)+,
     simp add: div_insns_def x64_decode_simps shape1_def modrm_ops_def)+

text \<open>
  C38. The emitters that take no register append what they are named after: those on fixed registers
  exactly one instruction each, the sequences their instructions in order. The prologue is \<open>push rbp; mov rbp, rsp; sub rsp, n\<close>, the epilogue \<open>leave; ret\<close>, a
  stack adjustment is one instruction with the shorter immediate when it fits and nothing for zero,
  and a division prepares \<open>rdx\<close> as its signedness needs before it divides by \<open>rcx\<close>.
\<close>

theorem x64_sequences_decode:
  "(emits_x64 (\<lambda>b. z_x64_emit_cdqe b)
     (X64 None True True [0x98] NoArgs []) \<and>
   emits_x64 (\<lambda>b. z_x64_emit_add_rax_u32 b v wide)
     (X64 None wide wide [0x05] NoArgs (le32 v)) \<and>
   emits_x64 (\<lambda>b. z_x64_emit_sub_rax_u32 b v wide)
     (X64 None wide wide [0x2d] NoArgs (le32 v)) \<and>
   emits_x64 (\<lambda>b. z_x64_emit_push_rax b)
     (X64 None False False [0x50] (OpReg 0) []) \<and>
   emits_x64 (\<lambda>b. z_x64_emit_pop_rax b)
     (X64 None False False [0x58] (OpReg 0) []) \<and>
   emits_x64 (\<lambda>b. z_x64_emit_mov_rcx_from_rax b wide)
     (X64 None wide wide [0x89] (RegRm 0 (Reg 1)) []) \<and>
   emits_x64 (\<lambda>b. z_x64_emit_mov_r9_from_rax b)
     (X64 None True True [0x89] (RegRm 0 (Reg 9)) []) \<and>
   emits_x64 (\<lambda>b. z_x64_emit_mov_rax_from_rcx b)
     (X64 None True True [0x89] (RegRm 1 (Reg 0)) []) \<and>
   emits_x64 (\<lambda>b. z_x64_emit_mov_rdx_from_rax b)
     (X64 None True True [0x89] (RegRm 0 (Reg 2)) []) \<and>
   emits_x64 (\<lambda>b. z_x64_emit_mov_rdi_from_rax b)
     (X64 None True True [0x89] (RegRm 0 (Reg 7)) []) \<and>
   emits_x64 (\<lambda>b. z_x64_emit_mov_rsi_from_rax b)
     (X64 None True True [0x89] (RegRm 0 (Reg 6)) []) \<and>
   emits_x64 (\<lambda>b. z_x64_emit_mov_rsi_from_rsp b)
     (X64 None True True [0x89] (RegRm 4 (Reg 6)) []) \<and>
   emits_x64 (\<lambda>b. z_x64_emit_mov_rax_from_rdx b)
     (X64 None True True [0x89] (RegRm 2 (Reg 0)) []) \<and>
   emits_x64 (\<lambda>b. z_x64_emit_mov_rax_from_rdi b)
     (X64 None True True [0x89] (RegRm 7 (Reg 0)) []) \<and>
   emits_x64 (\<lambda>b. z_x64_emit_mov_eax_from_ecx b)
     (X64 None False False [0x89] (RegRm 1 (Reg 0)) []) \<and>
   emits_x64 (\<lambda>b. z_x64_emit_mov_rax_u64 b q)
     (X64 None True True [0xb8] (OpReg 0) (le64 q)) \<and>
   emits_x64 (\<lambda>b. z_x64_emit_xor_eax_eax b)
     (X64 None False False [0x31] (RegRm 0 (Reg 0)) []) \<and>
   emits_x64 (\<lambda>b. z_x64_emit_xor_ecx_ecx b)
     (X64 None False False [0x31] (RegRm 1 (Reg 1)) []) \<and>
   emits_x64 (\<lambda>b. z_x64_emit_xor_rdi_rdi b)
     (X64 None True True [0x31] (RegRm 7 (Reg 7)) []) \<and>
   emits_x64 (\<lambda>b. z_x64_emit_xor_rax_rax b)
     (X64 None True True [0x31] (RegRm 0 (Reg 0)) []) \<and>
   emits_x64 (\<lambda>b. z_x64_emit_xor_r8d_r8d b)
     (X64 None True False [0x31] (RegRm 8 (Reg 8)) []) \<and>
   emits_x64 (\<lambda>b. z_x64_emit_inc_ecx b)
     (X64 None False False [0xff] (RegRm 0 (Reg 1)) []) \<and>
   emits_x64 (\<lambda>b. z_x64_emit_inc_rcx b)
     (X64 None True True [0xff] (RegRm 0 (Reg 1)) []) \<and>
   emits_x64 (\<lambda>b. z_x64_emit_inc_r8 b)
     (X64 None True True [0xff] (RegRm 0 (Reg 8)) []) \<and>
   emits_x64 (\<lambda>b. z_x64_emit_dec_r8d b)
     (X64 None True False [0xff] (RegRm 1 (Reg 8)) []) \<and>
   emits_x64 (\<lambda>b. z_x64_emit_add_rax_rcx b wide)
     (X64 None wide wide [0x01] (RegRm 1 (Reg 0)) []) \<and>
   emits_x64 (\<lambda>b. z_x64_emit_sub_rax_rcx b wide)
     (X64 None wide wide [0x29] (RegRm 1 (Reg 0)) []) \<and>
   emits_x64 (\<lambda>b. z_x64_emit_add_rdx_rcx b wide)
     (X64 None wide wide [0x01] (RegRm 1 (Reg 2)) []) \<and>
   emits_x64 (\<lambda>b. z_x64_emit_cmp_rax_rcx b wide)
     (X64 None wide wide [0x39] (RegRm 1 (Reg 0)) []) \<and>
   emits_x64 (\<lambda>b. z_x64_emit_imul_rax_rcx b wide)
     (X64 None wide wide [0x0f, 0xaf] (RegRm 0 (Reg 1)) []) \<and>
   emits_x64 (\<lambda>b. z_x64_emit_and_rax_rcx b wide)
     (X64 None wide wide [0x21] (RegRm 1 (Reg 0)) []) \<and>
   emits_x64 (\<lambda>b. z_x64_emit_or_rax_rcx b wide)
     (X64 None wide wide [0x09] (RegRm 1 (Reg 0)) []) \<and>
   emits_x64 (\<lambda>b. z_x64_emit_xor_rax_rcx b wide)
     (X64 None wide wide [0x31] (RegRm 1 (Reg 0)) []) \<and>
   emits_x64 (\<lambda>b. z_x64_emit_shl_rax_cl b wide)
     (X64 None wide wide [0xd3] (RegRm 4 (Reg 0)) []) \<and>
   emits_x64 (\<lambda>b. z_x64_emit_shr_rax_cl b wide)
     (X64 None wide wide [0xd3] (RegRm 5 (Reg 0)) []) \<and>
   emits_x64 (\<lambda>b. z_x64_emit_rol_rax_cl b wide)
     (X64 None wide wide [0xd3] (RegRm 0 (Reg 0)) []) \<and>
   emits_x64 (\<lambda>b. z_x64_emit_ror_rax_cl b wide)
     (X64 None wide wide [0xd3] (RegRm 1 (Reg 0)) []) \<and>
   emits_x64 (\<lambda>b. z_x64_emit_test_rax_rax b wide)
     (X64 None wide wide [0x85] (RegRm 0 (Reg 0)) []) \<and>
   emits_x64 (\<lambda>b. z_x64_emit_test_ecx_ecx b)
     (X64 None False False [0x85] (RegRm 1 (Reg 1)) []) \<and>
   emits_x64 (\<lambda>b. z_x64_emit_mov_eax_u32 b v)
     (X64 None False False [0xb8] (OpReg 0) (le32 v)) \<and>
   emits_x64 (\<lambda>b. z_x64_emit_ud2 b)
     (X64 None False False [0x0f, 0x0b] NoArgs []) \<and>
   emits_x64 (\<lambda>b. z_x64_emit_syscall b)
     (X64 None False False [0x0f, 0x05] NoArgs [])) \<and>
   emits_seq (\<lambda>b. z_x64_emit_prologue b n)
     ([X64 None False False [0x50] (OpReg 5) [], X64 None True True [0x89] (RegRm 4 (Reg 5)) []] @ rsp_insn 5 n) \<and>
   emits_seq (\<lambda>b. z_x64_emit_epilogue b) [X64 None False False [0xc9] NoArgs [], X64 None False False [0xc3] NoArgs []] \<and>
   emits_seq (\<lambda>b. z_x64_emit_add_rsp b n) (rsp_insn 0 n) \<and>
   emits_seq (\<lambda>b. z_x64_emit_sub_rsp b n) (rsp_insn 5 n) \<and>
   emits_seq (\<lambda>b. z_x64_emit_div_rax_rcx b wide uns keep) (div_insns wide uns keep)"
proof (rule conjI [OF x64_fixed_emitters], intro conjI seq_prologue seq_add_rsp seq_sub_rsp seq_div)
  show "emits_seq (\<lambda>b. z_x64_emit_epilogue b) [X64 None False False [0xc9] NoArgs [], X64 None False False [0xc3] NoArgs []]"
    by (rule emits_seqI, simp add: z_x64_emit_epilogue_def, (rule emits_intros)+) (simp add: x64_decode_simps shape1_def modrm_ops_def)
qed

section \<open>Jumps\<close>

lemma sint_of_int: "- (2 ^ 31) \<le> k \<Longrightarrow> k < 2 ^ 31 \<Longrightarrow> sint (word_of_int k :: u32) = k"
  by (simp add: signed_of_int signed_take_bit_int_eq_self)

lemma decode_jump:
  "opcode = 0xe8 \<or> opcode = 0xe9 \<Longrightarrow>
    x64_decode (ucast (opcode :: u32) # le32 v @ rest) = Some (X64 None False False [ucast opcode] NoArgs (le32 v), rest)"
  by (elim disjE; simp add: x64_decode_simps shape1_def modrm_ops_def)

lemma patch_append:
  assumes "zdata b = xs @ ys" "length ys \<ge> 4" "z_x64_patch_u32 b (length xs) v = Some b'"
  shows "zdata b' = xs @ le32 v @ drop 4 ys"
proof -
  obtain a0 a1 a2 a3 zs where ys: "ys = a0 # a1 # a2 # a3 # zs"
    using assms(2) by (auto simp: numeral_eq_Suc Suc_le_length_iff intro: that)
  show ?thesis
    using assms(3) by (auto simp: z_x64_patch_u32_def zbuf_patch4_def assms(1) ys ucast_low_byte le32_def
        list_update_append split: if_splits)
qed

text \<open>
  C36. A jump or call written by a placeholder and patched later lands on its target: whatever was
  appended behind it in between, after \<open>patch_rel32\<close> at the returned offset the bytes decode to the same
  jump, its displacement added to the end of the instruction is the target, and no other byte changed.
\<close>

theorem x64_patched_jump_lands:
  assumes ok: "zbuf_ok b"
    and opc: "opcode = 0xe8 \<or> opcode = 0xe9"
    and emit: "z_x64_emit_jmp32_placeholder b opcode = Some (b1, patch)"
    and later: "zdata b2 = zdata b1 @ later_bytes"
    and reach: "- (2 ^ 31) \<le> int target - int (patch + 4)" "int target - int (patch + 4) < 2 ^ 31"
  shows "\<exists>b3 rel. z_x64_patch_rel32 b2 patch target = Some b3 \<and>
    zdata b3 = zdata b @ [ucast opcode] @ le32 rel @ later_bytes \<and>
    x64_decode (drop (length (zdata b)) (zdata b3)) = Some (X64 None False False [ucast opcode] NoArgs (le32 rel), later_bytes) \<and>
    int (patch + 4) + sint rel = int target"
proof -
  let ?rel = "word_of_int (int target - int (patch + 4)) :: u32"
  obtain c where c: "z_x64_append_u8 b opcode = Some c" "patch = length (zdata c)" "z_x64_append_u32 c 0 = Some b1"
    using emit by (auto simp: z_x64_emit_jmp32_placeholder_def Let_def split: bind_splits)
  have d1: "zdata c = zdata b @ [ucast opcode]" "zbuf_ok c" using emitsD [OF x64_append_u8 ok c(1)] by auto
  have d2: "zdata b1 = zdata c @ le32 0" using emitsD [OF x64_append_u32 d1(2) c(3)] by auto
  have "patch + 4 \<le> length (zdata b2)" by (simp add: later d2 c(2))
  then obtain b3 where b3: "z_x64_patch_u32 b2 patch ?rel = Some b3"
    by (simp add: z_x64_patch_u32_def zbuf_patch4_def)
  have d3: "zdata b3 = zdata b @ [ucast opcode] @ le32 ?rel @ later_bytes"
    using patch_append [of b2 "zdata c" "le32 0 @ later_bytes" ?rel b3] b3 by (simp add: later d2 d1 c(2))
  have "sint ?rel = int target - int (patch + 4)"
    by (rule sint_of_int [OF reach])
  moreover have "x64_decode (ucast opcode # le32 ?rel @ later_bytes) = Some (X64 None False False [ucast opcode] NoArgs (le32 ?rel), later_bytes)"
    by (rule decode_jump [OF opc])
  ultimately show ?thesis
    using b3 d3 by (intro exI [of _ b3] exI [of _ ?rel]) (simp add: z_x64_patch_rel32_def Let_def)
qed

theorem x64_patched_jump_lands_witness:
  "\<exists>b1 b3 rel. z_x64_emit_jmp32_placeholder zbuf_init 0xe9 = Some (b1, 1) \<and>
     z_x64_patch_rel32 b1 1 0 = Some b3 \<and> 5 + sint (rel :: u32) = 0 \<and> zdata b3 = [0xe9] @ le32 rel"
proof -
  obtain b1 where b1: "z_x64_emit_jmp32_placeholder zbuf_init 0xe9 = Some (b1, 1)"
    by (simp add: z_x64_emit_jmp32_placeholder_def z_x64_append_u32_def z_x64_append_u8_def zbuf_append_char_def
        zbuf_init_def SIZE_MAX_def Let_def)
  show ?thesis
    using x64_patched_jump_lands [OF zbuf_ok_init _ b1, of b1 "[]" 0] b1 by auto
qed

end
