(* ===== verification/ImageLayout.thy ===== *)
theory ImageLayout
  imports ZBuf
begin

text \<open>
  Files laid out by offset, as the object writers \<open>elf_format.c\<close>, \<open>coff_format.c\<close> and
  \<open>macho_format.c\<close> build them: alignment, the padding loop every writer has, and what a reader
  finds at an offset of the written bytes. \<open>emits_from n\<close> is \<open>emits\<close> for code that looks at
  how many bytes the buffer already has; \<open>placed bs off xs\<close> says that \<open>xs\<close> stands at \<open>off\<close>.
\<close>

named_theorems emits_from_intros \<open>rules that compute the bytes a writer appends to a buffer of known length\<close>

lemma byte_ucast: "ucast (ucast (x :: u8) :: u32) = x"
  by (rule bit_word_eqI) (auto simp: bit_simps)

section \<open>Alignment\<close>

definition size_add :: "nat \<Rightarrow> nat \<Rightarrow> nat" where
  "size_add a b = (a + b) mod 18446744073709551616"

lemma size_add_id [simp]: "a + b < 18446744073709551616 \<Longrightarrow> size_add a b = a + b"
  by (simp add: size_add_def)

definition align_up :: "nat \<Rightarrow> nat \<Rightarrow> nat" where
  "align_up val alignment =
     (let remainder = (if alignment \<noteq> 0 then val mod alignment else 0)
      in if remainder = 0 then val else size_add val (alignment - remainder))"

lemma align_up_0 [simp]: "align_up v 0 = v"
  by (simp add: align_up_def)

lemma align_up_eq:
  assumes "v + a < 18446744073709551616"
  shows "align_up v a = (if a = 0 \<or> v mod a = 0 then v else v + (a - v mod a))"
  using assms by (simp add: align_up_def Let_def)

lemma align_up_ge: "v + a < 18446744073709551616 \<Longrightarrow> v \<le> align_up v a"
  using mod_le_divisor [of a v] by (auto simp: align_up_eq simp del: mod_le_divisor)

lemma align_up_le: "v + a < 18446744073709551616 \<Longrightarrow> align_up v a \<le> v + a"
  by (simp add: align_up_eq)

lemma align_up_aligned:
  assumes "v + a < 18446744073709551616" "a \<noteq> 0"
  shows "align_up v a mod a = 0"
proof (cases "v mod a = 0")
  case False
  have "v mod a < a" using assms(2) by simp
  then have "v + (a - v mod a) = a * (v div a) + a"
    using mult_div_mod_eq [of a v] by linarith
  then have "(v + (a - v mod a)) mod a = 0" by simp
  with False assms show ?thesis by (simp only: align_up_eq) simp
qed (use assms in \<open>simp add: align_up_eq\<close>)

lemma align_up_least:
  "v + a < 18446744073709551616 \<Longrightarrow> a \<noteq> 0 \<Longrightarrow> align_up v a < v + a"
  by (simp add: align_up_eq)

section \<open>Writers that know the length of the buffer\<close>

definition emits_from :: "nat \<Rightarrow> (ZBuf \<Rightarrow> ZBuf option) \<Rightarrow> u8 list \<Rightarrow> bool" where
  "emits_from n f bs \<longleftrightarrow> (\<forall>b. zbuf_ok b \<longrightarrow> length (zdata b) = n \<longrightarrow>
     (if bs = [] \<or> n + length bs \<le> SIZE_MAX - 1
      then \<exists>b'. f b = Some b' \<and> zbuf_ok b' \<and> zdata b' = zdata b @ bs
      else f b = None))"

lemma emits_from [emits_from_intros]: "emits f bs \<Longrightarrow> emits_from n f bs"
  unfolding emits_def emits_from_def by blast

lemma emits_from_room:
  assumes "emits_from n f bs" "zbuf_ok b" "length (zdata b) = n" "bs = [] \<or> n + length bs \<le> SIZE_MAX - 1"
  shows "\<exists>b'. f b = Some b' \<and> zbuf_ok b' \<and> zdata b' = zdata b @ bs"
  using assms unfolding emits_from_def by metis

lemma emits_from_full:
  assumes "emits_from n f bs" "zbuf_ok b" "length (zdata b) = n" "\<not> (bs = [] \<or> n + length bs \<le> SIZE_MAX - 1)"
  shows "f b = None"
  using assms unfolding emits_from_def by metis

lemma emits_from_bind [emits_from_intros]:
  assumes f: "emits_from n f xs" and g: "emits_from (n + length xs) g ys"
  shows "emits_from n (\<lambda>b. Option.bind (f b) g) (xs @ ys)"
  unfolding emits_from_def
proof (intro allI impI)
  fix b assume ok: "zbuf_ok b" and n: "length (zdata b) = n"
  show "if xs @ ys = [] \<or> n + length (xs @ ys) \<le> SIZE_MAX - 1
        then \<exists>b'. Option.bind (f b) g = Some b' \<and> zbuf_ok b' \<and> zdata b' = zdata b @ xs @ ys
        else Option.bind (f b) g = None"
  proof (cases "xs = [] \<or> n + length xs \<le> SIZE_MAX - 1")
    case False
    from emits_from_full [OF f ok n this] False show ?thesis by auto
  next
    case True
    from emits_from_room [OF f ok n this]
    obtain b1 where b1: "f b = Some b1" "zbuf_ok b1" "zdata b1 = zdata b @ xs" by blast
    have l: "length (zdata b1) = n + length xs" using b1 n by simp
    show ?thesis
    proof (cases "ys = [] \<or> n + length xs + length ys \<le> SIZE_MAX - 1")
      case room: True
      from emits_from_room [OF g b1(2) l this] room True b1 show ?thesis
        by (auto simp: add.assoc)
    next
      case full: False
      from emits_from_full [OF g b1(2) l this] full b1 show ?thesis by (auto simp: add.assoc)
    qed
  qed
qed

lemma emits_from_eq: "emits_from n f xs \<Longrightarrow> xs = ys \<Longrightarrow> emits_from n f ys"
  by simp

lemma emits_from_if:
  "(c \<Longrightarrow> emits_from n f xs) \<Longrightarrow> (\<not> c \<Longrightarrow> emits_from n g ys) \<Longrightarrow>
   emits_from n (\<lambda>b. if c then f b else g b) (if c then xs else ys)"
  by simp

lemma emits_from_length:
  "emits_from n (f n) xs \<Longrightarrow> emits_from n (\<lambda>b. f (length (zdata b)) b) xs"
  unfolding emits_from_def by auto

lemma emits_from_init:
  assumes "emits_from 0 f bs" "length bs < SIZE_MAX"
  obtains out where "f zbuf_init = Some out" "zbuf_ok out" "zdata out = bs"
proof -
  have "bs = [] \<or> 0 + length bs \<le> SIZE_MAX - 1" using assms(2) by auto
  from emits_from_room [OF assms(1) _ _ this, of zbuf_init] that show thesis by auto
qed

section \<open>Padding\<close>

text \<open>
  \<open>while (buf->len < offset) put(buf, 0);\<close> with fuel for the rounds; the writers give it the
  \<open>offset - len\<close> rounds that are enough (\<open>pad_emits\<close>).
\<close>

fun pad_loop :: "(ZBuf \<Rightarrow> u32 \<Rightarrow> ZBuf option) \<Rightarrow> nat \<Rightarrow> ZBuf \<Rightarrow> nat \<Rightarrow> ZBuf option" where
  "pad_loop put fuel buf offset =
     (if length (zdata buf) < offset then
        (case fuel of 0 \<Rightarrow> None
         | Suc fuel \<Rightarrow> do { buf \<leftarrow> put buf 0; pad_loop put fuel buf offset })
      else Some buf)"

declare pad_loop.simps [simp del]

context byte_sink
begin

lemma pad_emits:
  "fuel = off - n \<Longrightarrow> emits_from n (\<lambda>b. pad_loop put8 fuel b off) (replicate (off - n) 0)"
proof (induction fuel arbitrary: n)
  case 0
  have "emits_from n (\<lambda>b. pad_loop put8 0 b off) []"
    unfolding emits_from_def using 0 by (auto simp: pad_loop.simps)
  with 0 show ?case by simp
next
  case (Suc fuel)
  then have lt: "n < off" and s: "off - n = Suc (off - Suc n)" "fuel = off - Suc n" by auto
  have one: "emits_from n (\<lambda>b. put8 b 0) [0]"
    using emits_from [OF put8_emits [of 0]] by simp
  have "emits_from n (\<lambda>b. Option.bind (put8 b 0) (\<lambda>b. pad_loop put8 fuel b off)) ([0] @ replicate (off - Suc n) 0)"
    by (rule emits_from_bind [OF one]) (use Suc.IH [OF s(2)] in simp)
  then have "emits_from n (\<lambda>b. pad_loop put8 (Suc fuel) b off) ([0] @ replicate (off - Suc n) 0)"
    unfolding emits_from_def using lt by (auto simp: pad_loop.simps [of _ "Suc fuel"])
  then show ?case by (simp add: s(1))
qed

lemma pad_to_emits:
  "emits_from n (\<lambda>b. pad_loop put8 (off - length (zdata b)) b off) (replicate (off - n) 0)"
  by (rule emits_from_length [where f = "\<lambda>l b. pad_loop put8 (off - l) b off"]) (rule pad_emits [OF refl])

lemma put_place_emits:
  "emits_from n (\<lambda>b. Option.bind (pad_loop put8 (off - length (zdata b)) b off)
       (\<lambda>b. fold_emit (\<lambda>b x. put8 b (ucast (x :: u8))) xs b)) (replicate (off - n) 0 @ xs)"
  by (rule emits_from_bind [OF pad_to_emits]) (rule emits_from [OF put_bytes_emits])

end

section \<open>What stands at an offset\<close>

definition placed :: "u8 list \<Rightarrow> nat \<Rightarrow> u8 list \<Rightarrow> bool" where
  "placed bs off xs \<longleftrightarrow> off + length xs \<le> length bs \<and> take (length xs) (drop off bs) = xs"

lemma placed_here: "length pre = off \<Longrightarrow> placed (pre @ xs @ post) off xs"
  by (auto simp: placed_def)

lemma placed_append: "placed bs off xs \<Longrightarrow> placed (bs @ ys) off xs"
  by (auto simp: placed_def)

lemma placed_split:
  assumes "placed bs off (xs @ ys)"
  shows "placed bs off xs" "placed bs (off + length xs) ys"
proof -
  from assms have t: "take (length xs + length ys) (drop off bs) = xs @ ys" "off + (length xs + length ys) \<le> length bs"
    by (auto simp: placed_def)
  have "take (length xs) (take (length xs + length ys) (drop off bs)) = xs" using t(1) by (metis append_eq_conv_conj)
  then have "take (length xs) (drop off bs) = xs" unfolding take_take by (simp add: min_def)
  then show "placed bs off xs" using t(2) by (simp add: placed_def)
  have "drop (length xs) (take (length xs + length ys) (drop off bs)) = ys" using t(1) by (metis append_eq_conv_conj)
  then have "take (length ys) (drop (off + length xs) bs) = ys"
    unfolding drop_take drop_drop by (simp add: add.commute)
  then show "placed bs (off + length xs) ys" using t(2) by (simp add: placed_def)
qed

lemma placed_nth: "placed bs off xs \<Longrightarrow> i < length xs \<Longrightarrow> bs ! (off + i) = xs ! i"
  unfolding placed_def by (metis add_leD1 nth_drop nth_take)

lemma placed_take: "placed bs off xs \<Longrightarrow> take (length xs) (drop off bs) = xs"
  by (simp add: placed_def)

lemma placed_read16: "placed bs off (le16 v) \<Longrightarrow> read16 bs off = v"
  using placed_nth [of bs off "le16 v" 0] placed_nth [of bs off "le16 v" 1] read16_le16 [of v]
  by (simp add: read16_def)

lemma placed_read32:
  assumes "placed bs off (le32 v)"
  shows "read32 bs off = v"
proof -
  have "bs ! (off + i) = le32 v ! i" if "i < 4" for i
    using placed_nth [OF assms, of i] that by simp
  from this [of 0] this [of 1] this [of 2] this [of 3] have "read32 bs off = read32 (le32 v) 0"
    by (simp add: read32_def numeral_2_eq_2)
  then show ?thesis by (simp add: read32_le32)
qed

lemma placed_read64:
  assumes "placed bs off (le64 v)"
  shows "read64 bs off = v"
proof -
  have "read32 bs off = ucast v" "read32 bs (off + 4) = ucast (drop_bit 32 v)"
    using placed_split [of bs off "le32 (ucast v)" "le32 (ucast (drop_bit 32 v))"] assms placed_read32
    by (auto simp: le64_def)
  moreover have "read32 (le64 v) 0 = ucast v" "read32 (le64 v) 4 = ucast (drop_bit 32 v)"
    using read32_append_right [of "le32 (ucast v)" "le32 (ucast (drop_bit 32 v))" 0]
    by (simp_all add: le64_def read32_le32)
  ultimately show ?thesis using read64_le64 [of v] by (simp add: read64_def)
qed

section \<open>Segments at offsets\<close>

fun lay :: "nat \<Rightarrow> (nat \<times> u8 list) list \<Rightarrow> u8 list" where
  "lay n [] = []"
| "lay n ((off, xs) # segs) = replicate (off - n) 0 @ xs @ lay (n + (off - n) + length xs) segs"

fun chained :: "nat \<Rightarrow> (nat \<times> u8 list) list \<Rightarrow> bool" where
  "chained n [] = True"
| "chained n ((off, xs) # segs) = (n \<le> off \<and> chained (off + length xs) segs)"

lemma lay_placed:
  "chained n segs \<Longrightarrow> length pre = n \<Longrightarrow> (off, xs) \<in> set segs \<Longrightarrow> placed (pre @ lay n segs) off xs"
proof (induction n segs arbitrary: pre rule: lay.induct)
  case (2 n o' ys segs)
  let ?z = "replicate (o' - n) (0 :: u8)"
  show ?case
  proof (cases "(off, xs) = (o', ys)")
    case True
    then show ?thesis
      using 2 placed_here [of "pre @ ?z" off xs "lay (n + (o' - n) + length ys) segs"] by simp
  next
    case False
    then have "placed ((pre @ ?z @ ys) @ lay (n + (o' - n) + length ys) segs) off xs"
      using 2 by (intro "2.IH") auto
    then show ?thesis by simp
  qed
qed simp

lemma placed_concat:
  assumes "placed bs off (concat hs)" "\<forall>x \<in> set hs. length x = k" "i < length hs"
  shows "placed bs (off + k * i) (hs ! i)"
  using assms
proof (induction hs arbitrary: off i)
  case (Cons h hs)
  then have "placed bs off (h @ concat hs)" by simp
  note sp = placed_split [OF this]
  show ?case
  proof (cases i)
    case (Suc j)
    have "placed bs (off + k + k * j) (hs ! j)" using Cons sp(2) Suc by simp
    then show ?thesis by (simp add: Suc add.assoc)
  qed (use sp in simp)
qed simp

lemma emits_from_run:
  assumes "emits f xs" "emits_from (length xs) g ys" "zs = xs @ ys" "length zs < SIZE_MAX"
  shows "\<exists>out. Option.bind (f zbuf_init) g = Some out \<and> zbuf_ok out \<and> zdata out = zs"
proof -
  have "emits_from 0 (\<lambda>b. Option.bind (f b) g) zs"
    using emits_from_bind [OF emits_from [OF assms(1), of 0], of g ys] assms(2,3) by simp
  from emits_from_init [OF this assms(4)] show ?thesis by metis
qed

lemma emits_from_place:
  assumes "emits_from n p (replicate (off - n) 0 @ xs)" "n \<le> off"
    "emits_from (off + length xs) g (lay (off + length xs) segs)"
  shows "emits_from n (\<lambda>b. Option.bind (p b) g) (lay n ((off, xs) # segs))"
  using emits_from_bind [OF assms(1), of g] assms(2,3) by simp

lemma emits_from_pad:
  assumes "emits_from n p (replicate (off - n) 0)" "n \<le> off" "emits g xs"
  shows "emits_from n (\<lambda>b. Option.bind (p b) g) (lay n [(off, xs)])"
  using emits_from_bind [OF assms(1) emits_from [OF assms(3)]] by simp

definition aligned :: "nat \<Rightarrow> nat \<Rightarrow> bool" where
  "aligned off a \<longleftrightarrow> a = 0 \<or> off mod a = 0"

lemma align_up_step:
  assumes "v + a < 18446744073709551616" "w = align_up v a"
  shows "v \<le> w" "w \<le> v + a" "aligned w a"
proof -
  show "v \<le> w" "w \<le> v + a" using align_up_ge [OF assms(1)] align_up_le [OF assms(1)] assms(2) by simp_all
  show "aligned w a" using align_up_aligned [OF assms(1)] assms(2) unfolding aligned_def by (cases "a = 0") simp_all
qed

lemma lay_length:
  "chained n (segs @ [(off, xs)]) \<Longrightarrow> n + length (lay n (segs @ [(off, xs)])) = off + length xs"
  by (induction n segs rule: lay.induct) auto

lemma placed_inside:
  "placed bs off xs \<Longrightarrow> xs = a @ ys @ c \<Longrightarrow> placed bs (off + length a) ys"
  using placed_split by metis

lemma placed_sub:
  assumes "placed bs off xs" "k + length ys \<le> length xs" "take (length ys) (drop k xs) = ys"
  shows "placed bs (off + k) ys"
proof -
  have "xs = take k xs @ ys @ drop (length ys) (drop k xs)"
    using assms(3) by (metis append_take_drop_id)
  from placed_inside [OF assms(1) this] assms(2) show ?thesis by simp
qed

lemma emits_from_place_last:
  assumes "emits_from n p (replicate (off - n) 0 @ xs)"
  shows "emits_from n p (lay n [(off, xs)])"
  using assms by simp

section \<open>Patching a run of bytes\<close>

text \<open>The eight stores of the loop, in its order; \<open>None\<close> is a store past the written bytes.\<close>

fun patch_bytes_loop :: "ZBuf \<Rightarrow> nat \<Rightarrow> (nat \<Rightarrow> u8) \<Rightarrow> nat \<Rightarrow> nat \<Rightarrow> ZBuf option" where
  "patch_bytes_loop buf offset byte i 0 = Some buf"
| "patch_bytes_loop buf offset byte i (Suc k) =
     (if offset + i < length (zdata buf)
      then patch_bytes_loop (buf\<lparr>zdata := (zdata buf)[offset + i := byte i]\<rparr>) offset byte (Suc i) k
      else None)"

definition patched :: "u8 list \<Rightarrow> nat \<Rightarrow> u8 list \<Rightarrow> u8 list" where
  "patched bs off xs = take off bs @ xs @ drop (off + length xs) bs"

lemma patch_bytes_loop_gen:
  "off + i + k \<le> length (zdata buf) \<Longrightarrow>
   patch_bytes_loop buf off f i k = Some (buf\<lparr>zdata := patched (zdata buf) (off + i) (map f [i..<i + k])\<rparr>)"
proof (induction k arbitrary: buf i)
  case 0
  then show ?case by (simp add: patched_def)
next
  case (Suc k)
  let ?d = "zdata buf"
  have "patched (?d[off + i := f i]) (off + Suc i) (map f [Suc i..<Suc i + k]) = patched ?d (off + i) (map f [i..<i + Suc k])"
  proof -
    have "take (Suc (off + i)) (?d[off + i := f i]) = take (off + i) ?d @ [f i]"
      using Suc.prems by (simp add: take_Suc_conv_app_nth)
    moreover have "[i..<i + Suc k] = i # [Suc i..<Suc i + k]" using upt_conv_Cons by simp
    ultimately show ?thesis by (simp add: patched_def)
  qed
  moreover have "patch_bytes_loop (buf\<lparr>zdata := ?d[off + i := f i]\<rparr>) off f (Suc i) k
      = Some (buf\<lparr>zdata := patched (?d[off + i := f i]) (off + Suc i) (map f [Suc i..<Suc i + k])\<rparr>)"
    using Suc.prems Suc.IH [of "Suc i" "buf\<lparr>zdata := ?d[off + i := f i]\<rparr>"] by simp
  ultimately show ?case using Suc.prems by simp
qed

lemma patch_bytes_loop_eq:
  "off + k \<le> length (zdata buf) \<Longrightarrow>
   patch_bytes_loop buf off f 0 k = Some (buf\<lparr>zdata := patched (zdata buf) off (map f [0..<k])\<rparr>)"
  using patch_bytes_loop_gen [of off 0 k buf f] by simp

lemma length_patched [simp]: "off + length xs \<le> length bs \<Longrightarrow> length (patched bs off xs) = length bs"
  by (simp add: patched_def)

lemma placed_patched: "off + length xs \<le> length bs \<Longrightarrow> placed (patched bs off xs) off xs"
  unfolding patched_def by (rule placed_here) simp

lemma placed_iff_nth:
  "placed bs off xs \<longleftrightarrow> off + length xs \<le> length bs \<and> (\<forall>i < length xs. bs ! (off + i) = xs ! i)"
  by (auto simp: placed_def list_eq_iff_nth_eq)

lemma nth_patched:
  assumes "off + length xs \<le> length bs" "i < length bs"
  shows "patched bs off xs ! i = (if off \<le> i \<and> i < off + length xs then xs ! (i - off) else bs ! i)"
  using assms by (auto simp: patched_def nth_append min_def)

lemma placed_patched_other:
  assumes "placed bs o2 ys" "off + length xs \<le> length bs" "o2 + length ys \<le> off \<or> off + length xs \<le> o2"
  shows "placed (patched bs off xs) o2 ys"
  using assms by (auto simp: placed_iff_nth nth_patched)

lemma zbuf_patch4_eq:
  "off + 4 \<le> length (zdata buf) \<Longrightarrow>
   zbuf_patch4 buf off b0 b1 b2 b3 = Some (buf\<lparr>zdata := patched (zdata buf) off [b0, b1, b2, b3]\<rparr>)"
  by (auto simp: zbuf_patch4_def nth_patched nth_list_update nth_Cons' intro!: ZBuf.equality nth_equalityI)

lemma byte_of_word: "(ucast (v AND 0xff :: u64) :: u8) = ucast v"
proof -
  have m: "(0xff :: u64) = mask 8" by (simp add: mask_eq_exp_minus_1)
  show ?thesis unfolding m by (rule bit_word_eqI) (simp add: bit_simps)
qed

lemma le64_bytes: "map (\<lambda>i. ucast (drop_bit (i * 8) (v :: u64)) :: u8) [0..<8] = le64 v"
proof -
  have "[0..<8] = [0, 1, 2, 3, 4, 5, 6, 7 :: nat]" by (simp add: upt_rec)
  moreover have h: "(ucast (drop_bit k (ucast (drop_bit 32 v) :: u32)) :: u8) = ucast (drop_bit (32 + k) v)" if "k \<le> 24" for k
    using that by (intro bit_word_eqI) (simp add: bit_simps add.assoc [symmetric])
  moreover have l: "(ucast (drop_bit k (ucast v :: u32)) :: u8) = ucast (drop_bit k v)" if "k \<le> 24" for k
    using that by (intro bit_word_eqI) (simp add: bit_simps)
  ultimately show ?thesis
    using h [of 0] l [of 0] by (simp add: le64_def le32_def)
qed

section \<open>C strings in a file\<close>

definition cstr_at :: "u8 list \<Rightarrow> nat \<Rightarrow> u8 list" where
  "cstr_at bs off = takeWhile (\<lambda>b. b \<noteq> 0) (drop off bs)"

definition cstr_bytes :: "string \<Rightarrow> u8 list" where
  "cstr_bytes s = map of_char s @ [0]"

lemma placed_name:
  assumes "placed bs off (cstr_bytes s)" "NUL \<notin> set s"
  shows "cstr_at bs off = map of_char s"
proof -
  have "drop off bs = cstr_bytes s @ drop (length (cstr_bytes s)) (drop off bs)"
    using placed_take [OF assms(1)] by (metis append_take_drop_id)
  then have "cstr_at bs off = takeWhile (\<lambda>b. b \<noteq> 0) (map of_char s @ 0 # drop (length (cstr_bytes s)) (drop off bs))"
    by (simp add: cstr_at_def cstr_bytes_def)
  moreover have "(of_char c :: u8) \<noteq> 0" if "c \<in> set s" for c
  proof
    assume "(of_char c :: u8) = 0"
    then have "(of_nat (of_char c) :: u8) = 0" by (simp add: of_nat_of_char)
    then have "256 dvd (of_char c :: nat)" by (simp add: word_of_nat_eq_0_iff)
    moreover have "(of_char c :: nat) < 256" by simp
    ultimately have "of_char c = (0 :: nat)" by (metis nat_dvd_not_less not_gr_zero)
    then have "of_char c = (of_char NUL :: nat)" by (simp add: NUL_def)
    then have "c = NUL" by (simp only: of_char_eq_iff)
    with that assms(2) show False by simp
  qed
  ultimately show ?thesis by (simp add: takeWhile_append)
qed

section \<open>Results that are returned\<close>

text \<open>\<open>returns m Q\<close>: \<open>m\<close> returns, with a result that satisfies \<open>Q\<close>.\<close>

definition returns :: "'a option \<Rightarrow> ('a \<Rightarrow> bool) \<Rightarrow> bool" where
  "returns m Q \<longleftrightarrow> (\<exists>r. m = Some r \<and> Q r)"

lemma returns_Some [simp]: "returns (Some r) Q = Q r"
  by (simp add: returns_def)

lemma returns_bind: "returns m P \<Longrightarrow> (\<And>r. P r \<Longrightarrow> returns (g r) Q) \<Longrightarrow> returns (Option.bind m g) Q"
  by (auto simp: returns_def)

lemma returns_emit:
  assumes "emits_from n f xs" "zbuf_ok b" "length (zdata b) = n" "n + length xs < SIZE_MAX"
    "\<And>b'. zbuf_ok b' \<Longrightarrow> zdata b' = zdata b @ xs \<Longrightarrow> returns (g b') Q"
  shows "returns (Option.bind (f b) g) Q"
proof -
  have "xs = [] \<or> n + length xs \<le> SIZE_MAX - 1" using assms(4) by linarith
  from emits_from_room [OF assms(1-3) this] obtain b' where "f b = Some b'" "zbuf_ok b'" "zdata b' = zdata b @ xs" by blast
  with assms(5) show ?thesis by simp
qed

lemma returns_emit0:
  assumes "emits f xs" "zbuf_ok b" "length (zdata b) + length xs < SIZE_MAX"
    "\<And>b'. zbuf_ok b' \<Longrightarrow> zdata b' = zdata b @ xs \<Longrightarrow> returns (g b') Q"
  shows "returns (Option.bind (f b) g) Q"
  by (rule returns_emit [OF emits_from [OF assms(1)] assms(2) refl assms(3,4)])

end
