(* ===== verification/ElfFormat.thy ===== *)
theory ElfFormat
  imports ImageLayout
begin

text \<open>
  The ELF writer of \<open>native/zerox-c/src/elf_format.c\<close>: the little-endian appenders, symbol and
  relocation records, section headers, the relocatable object and the executable image. A
  \<open>size_t\<close> is a \<open>nat\<close> with the wrap-around of the additions written out (\<open>size_add\<close>); an image
  pointer and the buffer pointers in it are options, \<open>None\<close> being NULL.
\<close>

section \<open>Sizes and appenders\<close>

definition z_elf_align :: "nat \<Rightarrow> nat \<Rightarrow> nat" where
  "z_elf_align val alignment =
     (let remainder = (if alignment \<noteq> 0 then val mod alignment else 0)
      in if remainder = 0 then val else size_add val (alignment - remainder))"

definition z_elf_append_u8 :: "ZBuf \<Rightarrow> u32 \<Rightarrow> ZBuf option" where
  "z_elf_append_u8 buf val = zbuf_append_char buf (ucast (val AND 0xff))"

definition z_elf_append_u16 :: "ZBuf \<Rightarrow> u16 \<Rightarrow> ZBuf option" where
  "z_elf_append_u16 buf val =
     do { buf \<leftarrow> z_elf_append_u8 buf (ucast val);
          z_elf_append_u8 buf (ucast (drop_bit 8 val)) }"

definition z_elf_append_u32 :: "ZBuf \<Rightarrow> u32 \<Rightarrow> ZBuf option" where
  "z_elf_append_u32 buf val =
     do { buf \<leftarrow> z_elf_append_u8 buf val;
          buf \<leftarrow> z_elf_append_u8 buf (drop_bit 8 val);
          buf \<leftarrow> z_elf_append_u8 buf (drop_bit 16 val);
          z_elf_append_u8 buf (drop_bit 24 val) }"

definition z_elf_append_u64 :: "ZBuf \<Rightarrow> u64 \<Rightarrow> ZBuf option" where
  "z_elf_append_u64 buf val =
     do { buf \<leftarrow> z_elf_append_u32 buf (ucast val);
          z_elf_append_u32 buf (ucast (drop_bit 32 val)) }"

definition z_elf_append_bytes :: "ZBuf \<Rightarrow> u8 list \<Rightarrow> ZBuf option" where
  "z_elf_append_bytes buf bytes = fold_emit (\<lambda>buf byte. z_elf_append_u8 buf (ucast byte)) bytes buf"

definition z_elf_append_zeros :: "ZBuf \<Rightarrow> nat \<Rightarrow> ZBuf option" where
  "z_elf_append_zeros buf len = fold_emit (\<lambda>buf _. z_elf_append_u8 buf 0) [0..<len] buf"

definition z_elf_pad_to :: "ZBuf \<Rightarrow> nat \<Rightarrow> ZBuf option" where
  "z_elf_pad_to buf offset = pad_loop z_elf_append_u8 (offset - length (zdata buf)) buf offset"

definition z_elf_append_symbol :: "ZBuf \<Rightarrow> u32 \<Rightarrow> u8 \<Rightarrow> u16 \<Rightarrow> u64 \<Rightarrow> u64 \<Rightarrow> ZBuf option" where
  "z_elf_append_symbol symtab name info shndx val sz =
     do { symtab \<leftarrow> z_elf_append_u32 symtab name;
          symtab \<leftarrow> z_elf_append_u8 symtab (ucast info);
          symtab \<leftarrow> z_elf_append_u8 symtab 0;
          symtab \<leftarrow> z_elf_append_u16 symtab shndx;
          symtab \<leftarrow> z_elf_append_u64 symtab val;
          z_elf_append_u64 symtab sz }"

definition z_elf_append_rela :: "ZBuf \<Rightarrow> u64 \<Rightarrow> u32 \<Rightarrow> u32 \<Rightarrow> u64 \<Rightarrow> ZBuf option" where
  "z_elf_append_rela rela offset symb ty addend =
     do { rela \<leftarrow> z_elf_append_u64 rela offset;
          rela \<leftarrow> z_elf_append_u64 rela (push_bit 32 (ucast symb) OR ucast ty);
          z_elf_append_u64 rela addend }"

definition elf_append_section_header ::
  "ZBuf \<Rightarrow> u32 \<Rightarrow> u32 \<Rightarrow> u64 \<Rightarrow> u64 \<Rightarrow> u64 \<Rightarrow> u32 \<Rightarrow> u32 \<Rightarrow> u64 \<Rightarrow> u64 \<Rightarrow> ZBuf option" where
  "elf_append_section_header out name ty flags offset sz link info align entsize =
     do { out \<leftarrow> z_elf_append_u32 out name;
          out \<leftarrow> z_elf_append_u32 out ty;
          out \<leftarrow> z_elf_append_u64 out flags;
          out \<leftarrow> z_elf_append_u64 out 0;
          out \<leftarrow> z_elf_append_u64 out offset;
          out \<leftarrow> z_elf_append_u64 out sz;
          out \<leftarrow> z_elf_append_u32 out link;
          out \<leftarrow> z_elf_append_u32 out info;
          out \<leftarrow> z_elf_append_u64 out align;
          z_elf_append_u64 out entsize }"

section \<open>Images\<close>

datatype ZElfMachine = Z_ELF_MACHINE_X86_64 | Z_ELF_MACHINE_AARCH64

fun elf_machine_value :: "ZElfMachine \<Rightarrow> u16" where
  "elf_machine_value Z_ELF_MACHINE_X86_64 = 62"
| "elf_machine_value Z_ELF_MACHINE_AARCH64 = 183"

record ZElfObjectImage =
  oi_machine :: ZElfMachine
  oi_text :: "ZBuf option"
  oi_text_align :: nat
  oi_rodata :: "ZBuf option"
  oi_rodata_align :: nat
  oi_rela_text :: "ZBuf option"
  oi_symtab :: "ZBuf option"
  oi_strtab :: "ZBuf option"
  oi_local_symbol_count :: u32

record ZElfExecutableImage =
  ei_machine :: ZElfMachine
  ei_base_addr :: u64
  ei_entry_addr :: u64
  ei_text_offset :: nat
  ei_text :: "ZBuf option"
  ei_rodata :: "ZBuf option"
  ei_rodata_offset :: nat
  ei_segment_align :: u64

text \<open>\<open>image && image->f ? image->f : &empty\<close>, as bytes.\<close>

definition image_bytes :: "'i option \<Rightarrow> ('i \<Rightarrow> ZBuf option) \<Rightarrow> u8 list" where
  "image_bytes img f = (case Option.bind img f of None \<Rightarrow> [] | Some b \<Rightarrow> zdata b)"

text \<open>\<open>image && image->f ? image->f : d\<close> for a size.\<close>

definition image_size :: "'i option \<Rightarrow> ('i \<Rightarrow> nat) \<Rightarrow> nat \<Rightarrow> nat" where
  "image_size img f d = (case img of None \<Rightarrow> d | Some i \<Rightarrow> if f i \<noteq> 0 then f i else d)"

definition elf_ident :: "u8 list" where
  "elf_ident = [0x7f, 0x45, 0x4c, 0x46, 2, 1, 1, 0, 0, 0, 0, 0, 0, 0, 0, 0]"

section \<open>The relocatable object\<close>

text \<open>
  The section-name table is built first; the names' offsets are the lengths it has when each
  name is appended.
\<close>

definition elf_name :: "ZBuf \<Rightarrow> string \<Rightarrow> (u32 \<times> ZBuf) option" where
  "elf_name shstrtab name =
     do { let off = (of_nat (length (zdata shstrtab)) :: u32);
          b \<leftarrow> zbuf_append shstrtab name;
          b \<leftarrow> z_elf_append_u8 b 0;
          Some (off, b) }"

record elf_names =
  sh_name_text :: u32
  sh_name_rodata :: u32
  sh_name_rela_text :: u32
  sh_name_symtab :: u32
  sh_name_strtab :: u32
  sh_name_shstrtab :: u32
  shstrtab_bytes :: "u8 list"

definition elf_section_names :: "bool \<Rightarrow> bool \<Rightarrow> elf_names option" where
  "elf_section_names has_rodata has_rela_text =
     do { b \<leftarrow> z_elf_append_u8 zbuf_init 0;
          (tx, b) \<leftarrow> elf_name b ''.text'';
          (ro, b) \<leftarrow> (if has_rodata then elf_name b ''.rodata'' else Some (0, b));
          (rl, b) \<leftarrow> (if has_rela_text then elf_name b ''.rela.text'' else Some (0, b));
          (sy, b) \<leftarrow> elf_name b ''.symtab'';
          (st, b) \<leftarrow> elf_name b ''.strtab'';
          (sh, b) \<leftarrow> elf_name b ''.shstrtab'';
          Some \<lparr>sh_name_text = tx, sh_name_rodata = ro, sh_name_rela_text = rl,
                sh_name_symtab = sy, sh_name_strtab = st, sh_name_shstrtab = sh,
                shstrtab_bytes = zdata b\<rparr> }"

record elf_layout =
  text_offset :: nat
  rodata_offset :: nat
  rela_text_offset :: nat
  symtab_offset :: nat
  strtab_offset :: nat
  shstrtab_offset :: nat
  shoff :: nat

definition elf_object_layout :: "u8 list \<Rightarrow> u8 list \<Rightarrow> u8 list \<Rightarrow> u8 list \<Rightarrow> u8 list \<Rightarrow> u8 list \<Rightarrow> nat \<Rightarrow> nat \<Rightarrow> elf_layout" where
  "elf_object_layout code rodata rela_text symtab strtab shstrtab text_align rodata_align =
     (let has_rodata = 0 < length rodata;
          has_rela_text = 0 < length rela_text;
          text_off = z_elf_align 64 text_align;
          rodata_off = (if has_rodata then z_elf_align (size_add text_off (length code)) rodata_align else 0);
          rela_off = (if has_rela_text
             then z_elf_align (if has_rodata then size_add rodata_off (length rodata)
                               else size_add text_off (length code)) 8
             else 0);
          symtab_off = z_elf_align
             (if has_rela_text then size_add rela_off (length rela_text)
              else if has_rodata then size_add rodata_off (length rodata)
              else size_add text_off (length code)) 8;
          strtab_off = size_add symtab_off (length symtab);
          shstrtab_off = size_add strtab_off (length strtab)
      in \<lparr>text_offset = text_off, rodata_offset = rodata_off, rela_text_offset = rela_off,
          symtab_offset = symtab_off, strtab_offset = strtab_off, shstrtab_offset = shstrtab_off,
          shoff = z_elf_align (size_add shstrtab_off (length shstrtab)) 8\<rparr>)"

definition elf_append_ehdr :: "ZBuf \<Rightarrow> u16 \<Rightarrow> u16 \<Rightarrow> u64 \<Rightarrow> u64 \<Rightarrow> u64 \<Rightarrow> u16 \<Rightarrow> u16 \<Rightarrow> u16 \<Rightarrow> u16 \<Rightarrow> u16 \<Rightarrow> ZBuf option" where
  "elf_append_ehdr out ty machine entry phoff sho phentsize phnum shentsize shnum shstrndx =
     do { out \<leftarrow> z_elf_append_bytes out elf_ident;
          out \<leftarrow> z_elf_append_u16 out ty;
          out \<leftarrow> z_elf_append_u16 out machine;
          out \<leftarrow> z_elf_append_u32 out 1;
          out \<leftarrow> z_elf_append_u64 out entry;
          out \<leftarrow> z_elf_append_u64 out phoff;
          out \<leftarrow> z_elf_append_u64 out sho;
          out \<leftarrow> z_elf_append_u32 out 0;
          out \<leftarrow> z_elf_append_u16 out 64;
          out \<leftarrow> z_elf_append_u16 out phentsize;
          out \<leftarrow> z_elf_append_u16 out phnum;
          out \<leftarrow> z_elf_append_u16 out shentsize;
          out \<leftarrow> z_elf_append_u16 out shnum;
          z_elf_append_u16 out shstrndx }"

definition elf_place :: "ZBuf \<Rightarrow> nat \<Rightarrow> u8 list \<Rightarrow> ZBuf option" where
  "elf_place out offset bytes = do { out \<leftarrow> z_elf_pad_to out offset; z_elf_append_bytes out bytes }"

definition z_elf_write_object64 :: "ZElfObjectImage option \<Rightarrow> ZBuf option" where
  "z_elf_write_object64 img =
     do { let code = image_bytes img oi_text;
          let rodata = image_bytes img oi_rodata;
          let rela_text = image_bytes img oi_rela_text;
          let symtab = image_bytes img oi_symtab;
          let strtab = image_bytes img oi_strtab;
          let has_rodata = (0 < length rodata);
          let has_rela_text = (0 < length rela_text);
          let text_align = image_size img oi_text_align 16;
          let rodata_align = image_size img oi_rodata_align 8;
          nm \<leftarrow> elf_section_names has_rodata has_rela_text;
          let shstrtab = shstrtab_bytes nm;
          let shnum = 5 + (if has_rodata then 1 else 0) + (if has_rela_text then 1 else 0);
          let symtab_shndx = 2 + (if has_rodata then 1 else 0) + (if has_rela_text then 1 else (0 :: u16));
          let strtab_shndx = symtab_shndx + 1;
          let shstrtab_shndx = strtab_shndx + 1;
          let l = elf_object_layout code rodata rela_text symtab strtab shstrtab text_align rodata_align;
          out \<leftarrow> elf_append_ehdr zbuf_init 1 (case img of None \<Rightarrow> 0 | Some i \<Rightarrow> elf_machine_value (oi_machine i))
                    0 0 (of_nat (shoff l)) 0 0 64 shnum shstrtab_shndx;
          out \<leftarrow> elf_place out (text_offset l) code;
          out \<leftarrow> (if has_rodata then elf_place out (rodata_offset l) rodata else Some out);
          out \<leftarrow> (if has_rela_text then elf_place out (rela_text_offset l) rela_text else Some out);
          out \<leftarrow> elf_place out (symtab_offset l) symtab;
          out \<leftarrow> elf_place out (strtab_offset l) strtab;
          out \<leftarrow> elf_place out (shstrtab_offset l) shstrtab;
          out \<leftarrow> z_elf_pad_to out (shoff l);
          out \<leftarrow> elf_append_section_header out 0 0 0 0 0 0 0 0 0;
          out \<leftarrow> elf_append_section_header out (sh_name_text nm) 1 0x6 (of_nat (text_offset l)) (of_nat (length code)) 0 0 (of_nat text_align) 0;
          out \<leftarrow> (if has_rodata
                  then elf_append_section_header out (sh_name_rodata nm) 1 0x2 (of_nat (rodata_offset l)) (of_nat (length rodata)) 0 0 (of_nat rodata_align) 0
                  else Some out);
          out \<leftarrow> (if has_rela_text
                  then elf_append_section_header out (sh_name_rela_text nm) 4 0 (of_nat (rela_text_offset l)) (of_nat (length rela_text)) (ucast symtab_shndx) 1 8 24
                  else Some out);
          out \<leftarrow> elf_append_section_header out (sh_name_symtab nm) 2 0 (of_nat (symtab_offset l)) (of_nat (length symtab)) (ucast strtab_shndx)
                    (case img of None \<Rightarrow> 1 | Some i \<Rightarrow> oi_local_symbol_count i) 8 24;
          out \<leftarrow> elf_append_section_header out (sh_name_strtab nm) 3 0 (of_nat (strtab_offset l)) (of_nat (length strtab)) 0 0 1 0;
          elf_append_section_header out (sh_name_shstrtab nm) 3 0 (of_nat (shstrtab_offset l)) (of_nat (length shstrtab)) 0 0 1 0 }"

section \<open>The executable image\<close>

text \<open>
  \<open>file_size\<close> reads \<open>image->text_offset\<close> without the NULL guard the other lines have, so the
  function needs an image: it takes one, not an option.
\<close>

definition z_elf_write_executable64 :: "ZElfExecutableImage \<Rightarrow> ZBuf option" where
  "z_elf_write_executable64 img =
     do { let code = image_bytes (Some img) ei_text;
          let rodata = image_bytes (Some img) ei_rodata;
          let has_rodata = (ei_rodata img \<noteq> None \<and> 0 < length rodata);
          let file_size = (if has_rodata then size_add (ei_rodata_offset img) (length rodata)
                           else size_add (ei_text_offset img) (length code));
          out \<leftarrow> elf_append_ehdr zbuf_init 2 (elf_machine_value (ei_machine img)) (ei_entry_addr img) 64 0 56 1 0 0 0;
          out \<leftarrow> z_elf_append_u32 out 1;
          out \<leftarrow> z_elf_append_u32 out 5;
          out \<leftarrow> z_elf_append_u64 out 0;
          out \<leftarrow> z_elf_append_u64 out (ei_base_addr img);
          out \<leftarrow> z_elf_append_u64 out (ei_base_addr img);
          out \<leftarrow> z_elf_append_u64 out (of_nat file_size);
          out \<leftarrow> z_elf_append_u64 out (of_nat file_size);
          out \<leftarrow> z_elf_append_u64 out (if ei_segment_align img \<noteq> 0 then ei_segment_align img else 0x1000);
          out \<leftarrow> elf_place out (ei_text_offset img) code;
          (if has_rodata then elf_place out (ei_rodata_offset img) rodata else Some out) }"

section \<open>What the appenders append\<close>

interpretation elf_sink: byte_sink z_elf_append_u8
  by unfold_locales (simp add: z_elf_append_u8_def ucast_low_byte emits_append_char)

lemma z_elf_align_eq: "z_elf_align = align_up"
  by (intro ext) (simp add: z_elf_align_def align_up_def)

lemma elf_u8 [emits_intros]: "emits (\<lambda>b. z_elf_append_u8 b v) [ucast v]"
  by (rule elf_sink.put8_emits)

lemma elf_u16 [emits_intros]: "emits (\<lambda>b. z_elf_append_u16 b v) (le16 v)"
  using elf_sink.put16_emits [of v] by (simp add: z_elf_append_u16_def)

lemma elf_u32 [emits_intros]: "emits (\<lambda>b. z_elf_append_u32 b v) (le32 v)"
  using elf_sink.put32_emits [of v] by (simp add: z_elf_append_u32_def)

lemma elf_u64 [emits_intros]: "emits (\<lambda>b. z_elf_append_u64 b v) (le64 v)"
  unfolding z_elf_append_u64_def le64_def by (rule emits_bind [OF elf_u32 elf_u32])

lemma elf_bytes [emits_intros]: "emits (\<lambda>b. z_elf_append_bytes b xs) xs"
  unfolding z_elf_append_bytes_def by (rule elf_sink.put_bytes_emits)

lemma elf_zeros [emits_intros]: "emits (\<lambda>b. z_elf_append_zeros b n) (replicate n 0)"
  unfolding z_elf_append_zeros_def by (rule elf_sink.put_zeros_emits)

lemma elf_pad [emits_from_intros]: "emits_from n (\<lambda>b. z_elf_pad_to b off) (replicate (off - n) 0)"
  unfolding z_elf_pad_to_def by (rule elf_sink.pad_to_emits)

lemma elf_place_emits [emits_from_intros]:
  "emits_from n (\<lambda>b. elf_place b off xs) (replicate (off - n) 0 @ xs)"
  unfolding elf_place_def z_elf_pad_to_def z_elf_append_bytes_def by (rule elf_sink.put_place_emits)

definition elf_symbol_bytes :: "u32 \<Rightarrow> u8 \<Rightarrow> u16 \<Rightarrow> u64 \<Rightarrow> u64 \<Rightarrow> u8 list" where
  "elf_symbol_bytes name info shndx val sz = le32 name @ [info] @ [0] @ le16 shndx @ le64 val @ le64 sz"

lemma elf_symbol [emits_intros]:
  "emits (\<lambda>b. z_elf_append_symbol b name info shndx val sz) (elf_symbol_bytes name info shndx val sz)"
  unfolding z_elf_append_symbol_def
  by (rule emits_eq, (rule emits_intros)+) (simp add: elf_symbol_bytes_def byte_ucast)

definition elf_rela_bytes :: "u64 \<Rightarrow> u32 \<Rightarrow> u32 \<Rightarrow> u64 \<Rightarrow> u8 list" where
  "elf_rela_bytes offset symb ty addend = le64 offset @ le64 (push_bit 32 (ucast symb) OR ucast ty) @ le64 addend"

lemma elf_rela [emits_intros]:
  "emits (\<lambda>b. z_elf_append_rela b offset symb ty addend) (elf_rela_bytes offset symb ty addend)"
  unfolding z_elf_append_rela_def elf_rela_bytes_def by (rule emits_intros)+

definition elf_shdr_bytes :: "u32 \<Rightarrow> u32 \<Rightarrow> u64 \<Rightarrow> u64 \<Rightarrow> u64 \<Rightarrow> u32 \<Rightarrow> u32 \<Rightarrow> u64 \<Rightarrow> u64 \<Rightarrow> u8 list" where
  "elf_shdr_bytes name ty flags offset sz link info align entsize =
     le32 name @ le32 ty @ le64 flags @ le64 0 @ le64 offset @ le64 sz @ le32 link @ le32 info @ le64 align @ le64 entsize"

lemma elf_shdr [emits_intros]:
  "emits (\<lambda>b. elf_append_section_header b name ty flags offset sz link info align entsize)
     (elf_shdr_bytes name ty flags offset sz link info align entsize)"
  unfolding elf_append_section_header_def elf_shdr_bytes_def by (rule emits_intros)+

lemma length_elf_records [simp]:
  "length (elf_symbol_bytes name info shndx val sz) = 24"
  "length (elf_rela_bytes offset symb ty addend) = 24"
  "length (elf_shdr_bytes nm ty flags off sz link info4 align entsize) = 64"
  by (simp_all add: elf_symbol_bytes_def elf_rela_bytes_def elf_shdr_bytes_def)

definition elf_ehdr_bytes :: "u16 \<Rightarrow> u16 \<Rightarrow> u64 \<Rightarrow> u64 \<Rightarrow> u64 \<Rightarrow> u16 \<Rightarrow> u16 \<Rightarrow> u16 \<Rightarrow> u16 \<Rightarrow> u16 \<Rightarrow> u8 list" where
  "elf_ehdr_bytes ty machine entry phoff sho phentsize phnum shentsize shnum shstrndx =
     elf_ident @ le16 ty @ le16 machine @ le32 1 @ le64 entry @ le64 phoff @ le64 sho @ le32 0 @ le16 64
     @ le16 phentsize @ le16 phnum @ le16 shentsize @ le16 shnum @ le16 shstrndx"

lemma elf_ehdr [emits_intros]:
  "emits (\<lambda>b. elf_append_ehdr b ty machine entry phoff sho phentsize phnum shentsize shnum shstrndx)
     (elf_ehdr_bytes ty machine entry phoff sho phentsize phnum shentsize shnum shstrndx)"
  unfolding elf_append_ehdr_def elf_ehdr_bytes_def by (rule emits_intros)+

lemma length_elf_ehdr [simp]:
  "length (elf_ehdr_bytes ty machine entry phoff sho phentsize phnum shentsize shnum shstrndx) = 64"
  by (simp add: elf_ehdr_bytes_def elf_ident_def)

section \<open>Section names\<close>

text \<open>The name table, computed for each combination of the two optional sections.\<close>

definition elf_names_of :: "bool \<Rightarrow> bool \<Rightarrow> elf_names" where
  "elf_names_of ro rela =
     (let a = (if ro then 15 else 7); s = (if rela then a + 11 else a)
      in \<lparr>sh_name_text = 1, sh_name_rodata = (if ro then 7 else 0), sh_name_rela_text = (if rela then a else 0),
          sh_name_symtab = s, sh_name_strtab = s + 8, sh_name_shstrtab = s + 16,
          shstrtab_bytes = [0] @ cstr_bytes ''.text'' @ (if ro then cstr_bytes ''.rodata'' else [])
            @ (if rela then cstr_bytes ''.rela.text'' else []) @ cstr_bytes ''.symtab''
            @ cstr_bytes ''.strtab'' @ cstr_bytes ''.shstrtab''\<rparr>)"

lemma elf_section_names_eq: "elf_section_names ro rela = Some (elf_names_of ro rela)"
  by (cases ro; cases rela; simp add: elf_section_names_def elf_name_def z_elf_append_u8_def
      zbuf_append_char_def zbuf_init_def SIZE_MAX_def z_grow_capacity_def grow_loop.simps
      elf_names_of_def cstr_bytes_def)

end
