(* ===== verification/ElfProps.thy ===== *)
theory ElfProps
  imports ElfFormat
begin

text \<open>
  A reader of ELF section tables, written from the file format and not from the writer, and the
  proof that it reads back from the written object every section the image has: its name, its
  bytes, its flags and links, at an offset that respects its alignment.
\<close>

section \<open>Reading an ELF file\<close>

record elf_section =
  es_name :: "u8 list"
  es_type :: u32
  es_flags :: u64
  es_content :: "u8 list"
  es_link :: u32
  es_info :: u32
  es_entsize :: u64
  es_valid :: bool

definition elf_shdr_at :: "u8 list \<Rightarrow> nat \<Rightarrow> nat" where
  "elf_shdr_at bs i = unat (read64 bs 40) + 64 * i"

text \<open>A section is valid when its bytes lie inside the file and its offset is aligned.\<close>

definition elf_section_at :: "u8 list \<Rightarrow> nat \<Rightarrow> elf_section" where
  "elf_section_at bs i =
     (let h = elf_shdr_at bs i;
          names = unat (read64 bs (elf_shdr_at bs (unat (read16 bs 62)) + 24));
          off = unat (read64 bs (h + 24));
          sz = unat (read64 bs (h + 32));
          align = unat (read64 bs (h + 48))
      in \<lparr>es_name = cstr_at bs (names + unat (read32 bs h)),
          es_type = read32 bs (h + 4), es_flags = read64 bs (h + 8),
          es_content = take sz (drop off bs),
          es_link = read32 bs (h + 40), es_info = read32 bs (h + 44), es_entsize = read64 bs (h + 56),
          es_valid = (off + sz \<le> length bs \<and> (align = 0 \<or> off mod align = 0))\<rparr>)"

definition elf_sections :: "u8 list \<Rightarrow> elf_section list" where
  "elf_sections bs = map (elf_section_at bs) [0..<unat (read16 bs 60)]"

section \<open>Records at an offset\<close>

lemma placed_shdr:
  assumes "placed bs h (elf_shdr_bytes name ty flags offset sz link info align entsize)"
  shows "read32 bs h = name" "read32 bs (h + 4) = ty" "read64 bs (h + 8) = flags"
    "read64 bs (h + 24) = offset" "read64 bs (h + 32) = sz" "read32 bs (h + 40) = link"
    "read32 bs (h + 44) = info" "read64 bs (h + 48) = align" "read64 bs (h + 56) = entsize"
proof -
  note p0 = placed_split [OF assms [unfolded elf_shdr_bytes_def]]
  note p1 = placed_split [OF p0(2)] note p2 = placed_split [OF p1(2)] note p3 = placed_split [OF p2(2)]
  note p4 = placed_split [OF p3(2)] note p5 = placed_split [OF p4(2)] note p6 = placed_split [OF p5(2)]
  note p7 = placed_split [OF p6(2)] note p8 = placed_split [OF p7(2)]
  show "read32 bs h = name" using placed_read32 [OF p0(1)] .
  show "read32 bs (h + 4) = ty" using placed_read32 [OF p1(1)] by (simp add: add.commute)
  show "read64 bs (h + 8) = flags" using placed_read64 [OF p2(1)] by (simp add: add.commute)
  show "read64 bs (h + 24) = offset" using placed_read64 [OF p4(1)] by (simp add: add.commute)
  show "read64 bs (h + 32) = sz" using placed_read64 [OF p5(1)] by (simp add: add.commute)
  show "read32 bs (h + 40) = link" using placed_read32 [OF p6(1)] by (simp add: add.commute)
  show "read32 bs (h + 44) = info" using placed_read32 [OF p7(1)] by (simp add: add.commute)
  show "read64 bs (h + 48) = align" using placed_read64 [OF p8(1)] by (simp add: add.commute)
  show "read64 bs (h + 56) = entsize" using placed_read64 [OF p8(2)] by (simp add: add.commute)
qed

lemma placed_ehdr:
  assumes "placed bs 0 (elf_ehdr_bytes ty machine entry phoff sho phentsize phnum shentsize shnum shstrndx)"
  shows "take 16 bs = elf_ident" "read16 bs 16 = ty" "read16 bs 18 = machine" "read64 bs 24 = entry"
    "read64 bs 32 = phoff" "read64 bs 40 = sho" "read16 bs 54 = phentsize" "read16 bs 56 = phnum"
    "read16 bs 58 = shentsize" "read16 bs 60 = shnum" "read16 bs 62 = shstrndx"
proof -
  have li: "length elf_ident = 16" by (simp add: elf_ident_def)
  note p0 = placed_split [OF assms [unfolded elf_ehdr_bytes_def]]
  note p1 = placed_split [OF p0(2)] note p2 = placed_split [OF p1(2)] note p3 = placed_split [OF p2(2)]
  note p4 = placed_split [OF p3(2)] note p5 = placed_split [OF p4(2)] note p6 = placed_split [OF p5(2)]
  note p7 = placed_split [OF p6(2)] note p8 = placed_split [OF p7(2)] note p9 = placed_split [OF p8(2)]
  note p10 = placed_split [OF p9(2)] note p11 = placed_split [OF p10(2)] note p12 = placed_split [OF p11(2)]
  show "take 16 bs = elf_ident" using placed_take [OF p0(1)] by (simp add: li)
  show "read16 bs 16 = ty" using placed_read16 [OF p1(1)] by (simp add: li)
  show "read16 bs 18 = machine" using placed_read16 [OF p2(1)] by (simp add: li)
  show "read64 bs 24 = entry" using placed_read64 [OF p4(1)] by (simp add: li)
  show "read64 bs 32 = phoff" using placed_read64 [OF p5(1)] by (simp add: li)
  show "read64 bs 40 = sho" using placed_read64 [OF p6(1)] by (simp add: li)
  show "read16 bs 54 = phentsize" using placed_read16 [OF p9(1)] by (simp add: li)
  show "read16 bs 56 = phnum" using placed_read16 [OF p10(1)] by (simp add: li)
  show "read16 bs 58 = shentsize" using placed_read16 [OF p11(1)] by (simp add: li)
  show "read16 bs 60 = shnum" using placed_read16 [OF placed_split(1) [OF p11(2)]] by (simp add: li)
  show "read16 bs 62 = shstrndx" using placed_read16 [OF placed_split(2) [OF p11(2)]] by (simp add: li)
qed


section \<open>The bytes of the object\<close>

record elf_hdr =
  eh_name :: string
  eh_nameoff :: u32
  eh_type :: u32
  eh_flags :: u64
  eh_off :: nat
  eh_content :: "u8 list"
  eh_link :: u32
  eh_info :: u32
  eh_align :: nat
  eh_entsize :: u64

definition eh_bytes :: "elf_hdr \<Rightarrow> u8 list" where
  "eh_bytes h = elf_shdr_bytes (eh_nameoff h) (eh_type h) (eh_flags h) (of_nat (eh_off h))
     (of_nat (length (eh_content h))) (eh_link h) (eh_info h) (of_nat (eh_align h)) (eh_entsize h)"

lemma length_eh_bytes [simp]: "length (eh_bytes h) = 64"
  by (simp add: eh_bytes_def)

text \<open>What a reader must find of an image: its sections, in the order of the table.\<close>

definition elf_expected :: "elf_hdr \<Rightarrow> elf_section" where
  "elf_expected h = \<lparr>es_name = map of_char (eh_name h), es_type = eh_type h, es_flags = eh_flags h,
     es_content = eh_content h, es_link = eh_link h, es_info = eh_info h, es_entsize = eh_entsize h, es_valid = True\<rparr>"

lemma elf_section_at_expected:
  assumes table: "placed bs sho (concat (map eh_bytes hs))" and sho: "unat (read64 bs 40) = sho"
    and strs: "unat (read16 bs 62) = k" "k < length hs" "eh_off (hs ! k) = so" "so < 18446744073709551616"
    and i: "i < length hs"
    and content: "placed bs (eh_off (hs ! i)) (eh_content (hs ! i))"
    and name: "placed bs (so + unat (eh_nameoff (hs ! i))) (cstr_bytes (eh_name (hs ! i)))" "NUL \<notin> set (eh_name (hs ! i))"
    and al: "eh_align (hs ! i) < 18446744073709551616" "eh_align (hs ! i) = 0 \<or> eh_off (hs ! i) mod eh_align (hs ! i) = 0"
    and fit: "length bs < 18446744073709551616"
  shows "elf_section_at bs i = elf_expected (hs ! i)"
proof -
  have pl: "placed bs (sho + 64 * j) (eh_bytes (hs ! j))" if "j < length hs" for j
    using placed_concat [OF table, of 64 j] that by auto
  note h = placed_shdr [OF pl [OF i, unfolded eh_bytes_def]]
  note st = placed_shdr(4) [OF pl [OF strs(2), unfolded eh_bytes_def]]
  have inb: "eh_off (hs ! i) + length (eh_content (hs ! i)) \<le> length bs"
    using content by (simp add: placed_def)
  have u: "unat (of_nat (eh_off (hs ! i)) :: u64) = eh_off (hs ! i)"
    "unat (of_nat (length (eh_content (hs ! i))) :: u64) = length (eh_content (hs ! i))"
    "unat (of_nat (eh_align (hs ! i)) :: u64) = eh_align (hs ! i)" "unat (of_nat so :: u64) = so"
    using inb fit al strs(4) by (simp_all add: unat_of_nat)
  have nm: "cstr_at bs (so + unat (eh_nameoff (hs ! i))) = map of_char (eh_name (hs ! i))"
    by (rule placed_name [OF name])
  show ?thesis
    using h st u nm inb al(2) placed_take [OF content]
    by (simp add: elf_section_at_def elf_shdr_at_def sho strs Let_def elf_expected_def)
qed

definition elf_image_size :: "ZElfObjectImage option \<Rightarrow> nat" where
  "elf_image_size img = image_size img oi_text_align 16 + image_size img oi_rodata_align 8
     + length (image_bytes img oi_text) + length (image_bytes img oi_rodata) + length (image_bytes img oi_rela_text)
     + length (image_bytes img oi_symtab) + length (image_bytes img oi_strtab)"

definition obj_layout :: "ZElfObjectImage option \<Rightarrow> elf_layout" where
  "obj_layout img = elf_object_layout (image_bytes img oi_text) (image_bytes img oi_rodata) (image_bytes img oi_rela_text)
     (image_bytes img oi_symtab) (image_bytes img oi_strtab)
     (shstrtab_bytes (elf_names_of (0 < length (image_bytes img oi_rodata)) (0 < length (image_bytes img oi_rela_text))))
     (image_size img oi_text_align 16) (image_size img oi_rodata_align 8)"

definition obj_hdrs :: "ZElfObjectImage option \<Rightarrow> elf_hdr list" where
  "obj_hdrs img =
     (let ro = 0 < length (image_bytes img oi_rodata); rela = 0 < length (image_bytes img oi_rela_text);
          nm = elf_names_of ro rela; l = obj_layout img;
          sy = 2 + (if ro then 1 else 0) + (if rela then 1 else (0 :: u16))
      in [\<lparr>eh_name = '''', eh_nameoff = 0, eh_type = 0, eh_flags = 0, eh_off = 0, eh_content = [], eh_link = 0, eh_info = 0, eh_align = 0, eh_entsize = 0\<rparr>,
          \<lparr>eh_name = ''.text'', eh_nameoff = sh_name_text nm, eh_type = 1, eh_flags = 6, eh_off = text_offset l,
           eh_content = image_bytes img oi_text, eh_link = 0, eh_info = 0, eh_align = image_size img oi_text_align 16, eh_entsize = 0\<rparr>]
         @ (if ro then [\<lparr>eh_name = ''.rodata'', eh_nameoff = sh_name_rodata nm, eh_type = 1, eh_flags = 2, eh_off = rodata_offset l,
           eh_content = image_bytes img oi_rodata, eh_link = 0, eh_info = 0, eh_align = image_size img oi_rodata_align 8, eh_entsize = 0\<rparr>] else [])
         @ (if rela then [\<lparr>eh_name = ''.rela.text'', eh_nameoff = sh_name_rela_text nm, eh_type = 4, eh_flags = 0, eh_off = rela_text_offset l,
           eh_content = image_bytes img oi_rela_text, eh_link = ucast sy, eh_info = 1, eh_align = 8, eh_entsize = 24\<rparr>] else [])
         @ [\<lparr>eh_name = ''.symtab'', eh_nameoff = sh_name_symtab nm, eh_type = 2, eh_flags = 0, eh_off = symtab_offset l,
           eh_content = image_bytes img oi_symtab, eh_link = ucast (sy + 1),
           eh_info = (case img of None \<Rightarrow> 1 | Some i \<Rightarrow> oi_local_symbol_count i), eh_align = 8, eh_entsize = 24\<rparr>,
           \<lparr>eh_name = ''.strtab'', eh_nameoff = sh_name_strtab nm, eh_type = 3, eh_flags = 0, eh_off = strtab_offset l,
           eh_content = image_bytes img oi_strtab, eh_link = 0, eh_info = 0, eh_align = 1, eh_entsize = 0\<rparr>,
           \<lparr>eh_name = ''.shstrtab'', eh_nameoff = sh_name_shstrtab nm, eh_type = 3, eh_flags = 0, eh_off = shstrtab_offset l,
           eh_content = shstrtab_bytes nm, eh_link = 0, eh_info = 0, eh_align = 1, eh_entsize = 0\<rparr>])"

definition obj_segments :: "ZElfObjectImage option \<Rightarrow> (nat \<times> u8 list) list" where
  "obj_segments img = map (\<lambda>h. (eh_off h, eh_content h)) (tl (obj_hdrs img))
     @ [(shoff (obj_layout img), concat (map eh_bytes (obj_hdrs img)))]"

definition obj_ehdr :: "ZElfObjectImage option \<Rightarrow> u8 list" where
  "obj_ehdr img = elf_ehdr_bytes 1 (case img of None \<Rightarrow> 0 | Some i \<Rightarrow> elf_machine_value (oi_machine i)) 0 0
     (of_nat (shoff (obj_layout img))) 0 0 64 (of_nat (length (obj_hdrs img))) (of_nat (length (obj_hdrs img) - 1))"

lemmas obj_unfold = obj_segments_def obj_ehdr_def obj_hdrs_def Let_def eh_bytes_def

lemma write_object_bytes:
  assumes "length (obj_ehdr img @ lay 64 (obj_segments img)) < SIZE_MAX" "chained 64 (obj_segments img)"
  shows "\<exists>out. z_elf_write_object64 img = Some out \<and> zbuf_ok out \<and> zdata out = obj_ehdr img @ lay 64 (obj_segments img)"
  using assms
  apply (simp only: z_elf_write_object64_def Let_def elf_section_names_eq bind.bind_lunit obj_layout_def [symmetric])
  apply (rule emits_from_run [OF elf_ehdr, where ys = "lay 64 (obj_segments img)"])
  subgoal
    by ((cases "0 < length (image_bytes img oi_rodata)"; cases "0 < length (image_bytes img oi_rela_text)"),
      (simp_all only: length_elf_ehdr obj_segments_def obj_hdrs_def Let_def if_True if_False append.simps list.map list.sel
        elf_hdr.simps concat.simps eh_bytes_def bind.bind_lunit simp_thms chained.simps append_Nil2 list.size(3)
        semiring_1_class.of_nat_0 of_nat_1 of_nat_numeral),
      ((rule emits_from_place [OF elf_place_emits] emits_from_pad [OF elf_pad] emits_bind elf_shdr) | simp only:)+)
  subgoal
    by (simp only: append_same_eq obj_ehdr_def obj_hdrs_def Let_def) simp
  by simp

lemma length_shstrtab: "length (shstrtab_bytes (elf_names_of ro rela)) \<le> 100"
  by (simp add: elf_names_of_def Let_def cstr_bytes_def)

lemma elf_layout_facts:
  fixes tx rd rl sy st nm :: "u8 list" and ta ra :: nat
  assumes B: "ta + ra + length tx + length rd + length rl + length sy + length st < 4611686018427387904"
    and N: "length nm \<le> 100" and l: "l = elf_object_layout tx rd rl sy st nm ta ra"
  defines "e1 \<equiv> text_offset l + length tx"
  defines "e2 \<equiv> if 0 < length rd then rodata_offset l + length rd else e1"
  defines "e3 \<equiv> if 0 < length rl then rela_text_offset l + length rl else e2"
  shows "64 \<le> text_offset l" "aligned (text_offset l) ta"
    "0 < length rd \<Longrightarrow> e1 \<le> rodata_offset l \<and> aligned (rodata_offset l) ra"
    "0 < length rl \<Longrightarrow> e2 \<le> rela_text_offset l \<and> aligned (rela_text_offset l) 8"
    "e3 \<le> symtab_offset l" "aligned (symtab_offset l) 8"
    "symtab_offset l + length sy = strtab_offset l" "strtab_offset l + length st = shstrtab_offset l"
    "shstrtab_offset l + length nm \<le> shoff l" "shoff l < 9223372036854775808"
proof -
  note ld = l [unfolded elf_object_layout_def Let_def z_elf_align_eq]
  have t: "text_offset l = align_up 64 ta" by (simp add: ld)
  note T = align_up_step [OF _ t]
  have tb: "text_offset l \<le> 64 + ta" "64 \<le> text_offset l" "aligned (text_offset l) ta" using T B by simp_all
  have e1: "size_add (align_up 64 ta) (length tx) = e1" using tb(1) B by (simp add: e1_def t)
  have r: "0 < length rd \<Longrightarrow> rodata_offset l = align_up e1 ra" using e1 by (simp add: ld)
  have e1b: "e1 \<le> 64 + ta + length tx" using tb by (simp add: e1_def)
  have rb: "e1 \<le> rodata_offset l \<and> aligned (rodata_offset l) ra \<and> rodata_offset l \<le> e1 + ra" if "0 < length rd"
    using align_up_step [OF _ r [OF that]] e1b B by simp
  have e2b: "e1 \<le> e2" "e2 \<le> e1 + ra + length rd" using rb by (auto simp: e2_def)
  have e2: "0 < length rd \<Longrightarrow> size_add (align_up e1 ra) (length rd) = e2" "\<not> 0 < length rd \<Longrightarrow> e1 = e2"
    using rb r B e1b by (simp_all add: e2_def)
  have rl: "0 < length rl \<Longrightarrow> rela_text_offset l = align_up e2 8"
    by (cases "0 < length rd") (simp_all add: ld e1 e2 del: length_greater_0_conv)
  have rlb: "e2 \<le> rela_text_offset l \<and> aligned (rela_text_offset l) 8 \<and> rela_text_offset l \<le> e2 + 8" if "0 < length rl"
    using align_up_step [OF _ rl [OF that]] e2b e1b B by simp
  have e3b: "e2 \<le> e3" "e3 \<le> e2 + 8 + length rl" using rlb by (auto simp: e3_def)
  have "symtab_offset l = align_up (if 0 < length rl then size_add (align_up e2 8) (length rl) else e2) 8"
    by (cases "0 < length rd"; cases "0 < length rl") (simp_all add: ld e1 e2 del: length_greater_0_conv)
  also have "(if 0 < length rl then size_add (align_up e2 8) (length rl) else e2) = e3"
    using rlb rl e2b e1b B by (auto simp: e3_def)
  finally have s: "symtab_offset l = align_up e3 8" .
  have sb: "e3 \<le> symtab_offset l" "aligned (symtab_offset l) 8" "symtab_offset l \<le> e3 + 8"
    using align_up_step [OF _ s] e3b e2b e1b B by simp_all
  have st: "strtab_offset l = size_add (symtab_offset l) (length sy)"
    and sh: "shstrtab_offset l = size_add (strtab_offset l) (length st)"
    and so: "shoff l = align_up (size_add (shstrtab_offset l) (length nm)) 8" by (simp_all add: ld)
  have st': "strtab_offset l = symtab_offset l + length sy"
    using sb e3b e2b e1b B by (simp add: st)
  have sh': "shstrtab_offset l = strtab_offset l + length st"
    using st' sb e3b e2b e1b B by (simp add: sh)
  have so': "shoff l = align_up (shstrtab_offset l + length nm) 8"
    using sh' st' sb e3b e2b e1b B N by (simp add: so)
  have sob: "shstrtab_offset l + length nm \<le> shoff l" "shoff l \<le> shstrtab_offset l + length nm + 8"
    using align_up_step [OF _ so'] sh' st' sb e3b e2b e1b B N by simp_all
  show "64 \<le> text_offset l" "aligned (text_offset l) ta" using tb by simp_all
  show "0 < length rd \<Longrightarrow> e1 \<le> rodata_offset l \<and> aligned (rodata_offset l) ra" using rb by simp
  show "0 < length rl \<Longrightarrow> e2 \<le> rela_text_offset l \<and> aligned (rela_text_offset l) 8" using rlb by simp
  show "e3 \<le> symtab_offset l" "aligned (symtab_offset l) 8" using sb by simp_all
  show "symtab_offset l + length sy = strtab_offset l" "strtab_offset l + length st = shstrtab_offset l"
    using st' sh' by simp_all
  show "shstrtab_offset l + length nm \<le> shoff l" "shoff l < 9223372036854775808"
    using sob sh' st' sb e3b e2b e1b B N by simp_all
qed

lemma obj_chained:
  assumes "elf_image_size img < 4611686018427387904"
  shows "chained 64 (obj_segments img)"
    and "\<forall>h \<in> set (obj_hdrs img). aligned (eh_off h) (eh_align h)"
    and "shoff (obj_layout img) < 9223372036854775808"
proof -
  have N: "length (shstrtab_bytes (elf_names_of (0 < length (image_bytes img oi_rodata)) (0 < length (image_bytes img oi_rela_text)))) \<le> 100"
    by (rule length_shstrtab)
  note F = elf_layout_facts [OF assms [unfolded elf_image_size_def] N obj_layout_def]
  show "chained 64 (obj_segments img)" "\<forall>h \<in> set (obj_hdrs img). aligned (eh_off h) (eh_align h)"
    using F by (cases "0 < length (image_bytes img oi_rodata)"; cases "0 < length (image_bytes img oi_rela_text)";
      simp add: obj_segments_def obj_hdrs_def Let_def aligned_def)+
  show "shoff (obj_layout img) < 9223372036854775808" by (rule F(10))
qed


definition elf_sec :: "string \<Rightarrow> u32 \<Rightarrow> u64 \<Rightarrow> u8 list \<Rightarrow> u32 \<Rightarrow> u32 \<Rightarrow> u64 \<Rightarrow> elf_section" where
  "elf_sec name ty flags content link info entsize =
     \<lparr>es_name = map of_char name, es_type = ty, es_flags = flags, es_content = content, es_link = link,
      es_info = info, es_entsize = entsize, es_valid = True\<rparr>"

text \<open>The sections of an image, as a linker has to see them.\<close>

definition elf_object_sections :: "ZElfObjectImage option \<Rightarrow> elf_section list" where
  "elf_object_sections img =
     (let rodata = image_bytes img oi_rodata; rela = image_bytes img oi_rela_text;
          symtab = (if rodata \<noteq> [] \<and> rela \<noteq> [] then 4 else if rodata \<noteq> [] \<or> rela \<noteq> [] then 3 else 2)
      in [elf_sec '''' 0 0 [] 0 0 0, elf_sec ''.text'' 1 6 (image_bytes img oi_text) 0 0 0]
         @ (if rodata \<noteq> [] then [elf_sec ''.rodata'' 1 2 rodata 0 0 0] else [])
         @ (if rela \<noteq> [] then [elf_sec ''.rela.text'' 4 0 rela symtab 1 24] else [])
         @ [elf_sec ''.symtab'' 2 0 (image_bytes img oi_symtab) (symtab + 1)
              (case img of None \<Rightarrow> 1 | Some i \<Rightarrow> oi_local_symbol_count i) 24,
            elf_sec ''.strtab'' 3 0 (image_bytes img oi_strtab) 0 0 0,
            elf_sec ''.shstrtab'' 3 0 (shstrtab_bytes (elf_names_of (rodata \<noteq> []) (rela \<noteq> []))) 0 0 0])"

lemma elf_object_sections_eq: "elf_object_sections img = map elf_expected (obj_hdrs img)"
  by (simp add: elf_object_sections_def obj_hdrs_def Let_def elf_sec_def elf_expected_def)

lemma obj_hdrs_last:
  "length (obj_hdrs img) \<le> 7 \<and> 0 < length (obj_hdrs img)
   \<and> eh_off (obj_hdrs img ! (length (obj_hdrs img) - 1)) = shstrtab_offset (obj_layout img)"
  by (simp add: obj_hdrs_def Let_def nth_append)

lemma obj_hdrs_placed:
  assumes "chained 64 (obj_segments img)" "h \<in> set (obj_hdrs img)"
  shows "placed (obj_ehdr img @ lay 64 (obj_segments img)) (eh_off h) (eh_content h)"
proof (cases "h = hd (obj_hdrs img)")
  case True
  then show ?thesis by (simp add: obj_hdrs_def Let_def placed_def)
next
  case False
  then have "h \<in> set (tl (obj_hdrs img))" using assms(2) by (cases "obj_hdrs img") auto
  then have "(eh_off h, eh_content h) \<in> set (obj_segments img)" by (auto simp: obj_segments_def)
  then show ?thesis by (intro lay_placed [OF assms(1)]) (simp_all add: obj_ehdr_def)
qed

lemma obj_names_placed:
  assumes "placed bs so (shstrtab_bytes (elf_names_of (0 < length (image_bytes img oi_rodata)) (0 < length (image_bytes img oi_rela_text))))"
    "h \<in> set (obj_hdrs img)"
  shows "placed bs (so + unat (eh_nameoff h)) (cstr_bytes (eh_name h)) \<and> NUL \<notin> set (eh_name h)"
proof -
  note * = placed_sub [OF assms(1)]
  have "unat (eh_nameoff h) + length (cstr_bytes (eh_name h)) \<le> length (shstrtab_bytes (elf_names_of (0 < length (image_bytes img oi_rodata)) (0 < length (image_bytes img oi_rela_text))))
   \<and> take (length (cstr_bytes (eh_name h))) (drop (unat (eh_nameoff h)) (shstrtab_bytes (elf_names_of (0 < length (image_bytes img oi_rodata)) (0 < length (image_bytes img oi_rela_text))))) = cstr_bytes (eh_name h)
   \<and> NUL \<notin> set (eh_name h)"
    using assms(2) by (cases "0 < length (image_bytes img oi_rodata)"; cases "0 < length (image_bytes img oi_rela_text)")
      (auto simp: obj_hdrs_def Let_def elf_names_of_def cstr_bytes_def NUL_def)
  with * show ?thesis by blast
qed


lemma obj_length:
  assumes "elf_image_size img < 4611686018427387904"
  shows "length (obj_ehdr img @ lay 64 (obj_segments img)) < 9223372036854776400"
proof -
  have "64 + length (lay 64 (obj_segments img)) = shoff (obj_layout img) + length (concat (map eh_bytes (obj_hdrs img)))"
    using lay_length [of 64 "map (\<lambda>h. (eh_off h, eh_content h)) (tl (obj_hdrs img))"] obj_chained(1) [OF assms]
    by (simp add: obj_segments_def)
  moreover have "length (concat (map eh_bytes (obj_hdrs img))) = 64 * length (obj_hdrs img)"
    by (simp add: length_concat o_def sum_list_triv)
  ultimately show ?thesis
    using obj_chained(3) [OF assms] obj_hdrs_last [of img] by (simp add: obj_ehdr_def)
qed

lemma obj_hdr_align:
  "elf_image_size img < 4611686018427387904 \<Longrightarrow> h \<in> set (obj_hdrs img) \<Longrightarrow> eh_align h < 18446744073709551616"
  by (auto simp: obj_hdrs_def Let_def elf_image_size_def split: if_splits)

lemma obj_read_sections:
  assumes size: "elf_image_size img < 4611686018427387904"
  shows "elf_sections (obj_ehdr img @ lay 64 (obj_segments img)) = elf_object_sections img"
proof -
  let ?bs = "obj_ehdr img @ lay 64 (obj_segments img)"
  let ?hs = "obj_hdrs img"
  note ch = obj_chained [OF size]
  note last = obj_hdrs_last [of img]
  have "placed ?bs 0 (obj_ehdr img)" by (simp add: placed_def)
  note eh = placed_ehdr [OF this [unfolded obj_ehdr_def], folded obj_ehdr_def]
  have lt: "length ?hs < 65536" "length ?hs - Suc 0 < 65536" using last by linarith+
  have n: "unat (read16 ?bs 60) = length ?hs" and k: "unat (read16 ?bs 62) = length ?hs - 1"
    using lt by (simp_all add: eh unat_of_nat)
  have sho: "unat (read64 ?bs 40) = shoff (obj_layout img)"
    using ch(3) by (simp add: eh unat_of_nat)
  have table: "placed ?bs (shoff (obj_layout img)) (concat (map eh_bytes ?hs))"
    by (rule lay_placed [OF ch(1)]) (simp_all add: obj_ehdr_def obj_segments_def)
  have strs: "placed ?bs (shstrtab_offset (obj_layout img))
      (shstrtab_bytes (elf_names_of (0 < length (image_bytes img oi_rodata)) (0 < length (image_bytes img oi_rela_text))))"
    by (rule lay_placed [OF ch(1)]) (simp_all add: obj_ehdr_def obj_segments_def obj_hdrs_def Let_def)
  have "elf_section_at ?bs i = elf_expected (?hs ! i)" if i: "i < length ?hs" for i
  proof (rule elf_section_at_expected [OF table sho k])
    have m: "?hs ! i \<in> set ?hs" using i by simp
    show "length ?hs - 1 < length ?hs" using last by simp
    show "eh_off (?hs ! (length ?hs - 1)) = shstrtab_offset (obj_layout img)" using last by simp
    show "shstrtab_offset (obj_layout img) < 18446744073709551616"
      using strs obj_length [OF size] by (simp add: placed_def)
    show "i < length ?hs" by (rule i)
    show "placed ?bs (eh_off (?hs ! i)) (eh_content (?hs ! i))" by (rule obj_hdrs_placed [OF ch(1) m])
    show "placed ?bs (shstrtab_offset (obj_layout img) + unat (eh_nameoff (?hs ! i))) (cstr_bytes (eh_name (?hs ! i)))"
      "NUL \<notin> set (eh_name (?hs ! i))" using obj_names_placed [OF strs m] by simp_all
    show "eh_align (?hs ! i) < 18446744073709551616" by (rule obj_hdr_align [OF size m])
    show "eh_align (?hs ! i) = 0 \<or> eh_off (?hs ! i) mod eh_align (?hs ! i) = 0"
      using ch(2) m by (auto simp: aligned_def)
    show "length ?bs < 18446744073709551616" using obj_length [OF size] by simp
  qed
  then have "map (elf_section_at ?bs) [0..<length ?hs] = map elf_expected ?hs"
    by (intro nth_equalityI) simp_all
  then show ?thesis unfolding elf_sections_def n elf_object_sections_eq .
qed

text \<open>
  C15. Reading back the object that \<open>z_elf_write_object64\<close> writes gives the image: the section
  table has exactly the sections of the image, each with its name, type, flags, bytes and links,
  inside the file and at an offset that respects its alignment. The header names the machine.
\<close>

theorem elf_object_roundtrip:
  assumes "elf_image_size img < 4611686018427387904"
  shows "\<exists>out. z_elf_write_object64 img = Some out
    \<and> take 16 (zdata out) = elf_ident \<and> read16 (zdata out) 16 = 1
    \<and> read16 (zdata out) 18 = (case img of None \<Rightarrow> 0 | Some i \<Rightarrow> elf_machine_value (oi_machine i))
    \<and> elf_sections (zdata out) = elf_object_sections img"
proof -
  let ?bs = "obj_ehdr img @ lay 64 (obj_segments img)"
  have "placed ?bs 0 (obj_ehdr img)" by (simp add: placed_def)
  note eh = placed_ehdr [OF this [unfolded obj_ehdr_def], folded obj_ehdr_def]
  have "length ?bs < SIZE_MAX" using obj_length [OF assms] by (simp add: SIZE_MAX_def)
  from write_object_bytes [OF this obj_chained(1) [OF assms]] show ?thesis
    using eh obj_read_sections [OF assms] by fastforce
qed

definition demo_image :: ZElfObjectImage where
  "demo_image = \<lparr>oi_machine = Z_ELF_MACHINE_X86_64, oi_text = Some \<lparr>zdata = [0xc3], zcap = 64\<rparr>, oi_text_align = 16,
     oi_rodata = Some \<lparr>zdata = [1, 2, 3], zcap = 64\<rparr>, oi_rodata_align = 8, oi_rela_text = None,
     oi_symtab = Some \<lparr>zdata = replicate 24 0, zcap = 64\<rparr>, oi_strtab = Some \<lparr>zdata = [0], zcap = 64\<rparr>,
     oi_local_symbol_count = 1\<rparr>"

lemma elf_object_roundtrip_witness:
  "\<exists>out. z_elf_write_object64 (Some demo_image) = Some out
    \<and> map es_content (elf_sections (zdata out)) ! 1 = [0xc3] \<and> length (elf_sections (zdata out)) = 6"
proof -
  have "elf_image_size (Some demo_image) < 4611686018427387904"
    by (simp add: elf_image_size_def demo_image_def image_size_def image_bytes_def)
  from elf_object_roundtrip [OF this] show ?thesis
    by (auto simp: elf_object_sections_def Let_def demo_image_def image_bytes_def elf_sec_def)
qed


section \<open>The executable image\<close>

text \<open>
  What the kernel maps: the one loadable segment of the file, \<open>p_filesz\<close> bytes from \<open>p_offset\<close>
  at \<open>p_vaddr\<close>. \<open>elf_loaded bs addr xs\<close>: after loading, the bytes \<open>xs\<close> stand at \<open>addr\<close>.
\<close>

definition elf_loaded :: "u8 list \<Rightarrow> nat \<Rightarrow> u8 list \<Rightarrow> bool" where
  "elf_loaded bs addr xs \<longleftrightarrow>
     (let ph = unat (read64 bs 32); off = unat (read64 bs (ph + 8)); va = unat (read64 bs (ph + 16));
          mem = take (unat (read64 bs (ph + 32))) (drop off bs)
      in read16 bs 56 = 1 \<and> read32 bs ph = 1 \<and> va \<le> addr \<and> placed mem (addr - va) xs)"

definition elf_phdr_bytes :: "ZElfExecutableImage \<Rightarrow> nat \<Rightarrow> u8 list" where
  "elf_phdr_bytes img fsize =
     le32 1 @ le32 5 @ le64 0 @ le64 (ei_base_addr img) @ le64 (ei_base_addr img) @ le64 (of_nat fsize) @ le64 (of_nat fsize)
     @ le64 (if ei_segment_align img \<noteq> 0 then ei_segment_align img else 0x1000)"

definition exe_segments :: "ZElfExecutableImage \<Rightarrow> (nat \<times> u8 list) list" where
  "exe_segments img = (ei_text_offset img, image_bytes (Some img) ei_text)
     # (if image_bytes (Some img) ei_rodata \<noteq> [] then [(ei_rodata_offset img, image_bytes (Some img) ei_rodata)] else [])"

definition exe_end :: "ZElfExecutableImage \<Rightarrow> nat" where
  "exe_end img = fst (last (exe_segments img)) + length (snd (last (exe_segments img)))"

definition exe_head :: "ZElfExecutableImage \<Rightarrow> u8 list" where
  "exe_head img = elf_ehdr_bytes 2 (elf_machine_value (ei_machine img)) (ei_entry_addr img) 64 0 56 1 0 0 0
     @ elf_phdr_bytes img (exe_end img)"

lemma length_exe_head [simp]: "length (exe_head img) = 120"
  by (simp add: exe_head_def elf_phdr_bytes_def)

lemma exe_rodata: "(ei_rodata img \<noteq> None \<and> 0 < length (image_bytes (Some img) ei_rodata)) = (image_bytes (Some img) ei_rodata \<noteq> [])"
  by (auto simp: image_bytes_def split: option.splits)

lemma write_executable_bytes:
  assumes "chained 120 (exe_segments img)" "exe_end img < 18446744073709551000"
  shows "\<exists>out. z_elf_write_executable64 img = Some out \<and> zbuf_ok out
     \<and> zdata out = exe_head img @ lay 120 (exe_segments img)"
proof -
  have len: "length (exe_head img @ lay 120 (exe_segments img)) < SIZE_MAX"
    using lay_length [of 120 "butlast (exe_segments img)" "fst (last (exe_segments img))" "snd (last (exe_segments img))"] assms
    by (simp add: exe_segments_def exe_end_def SIZE_MAX_def split: if_splits)
  have fs: "(if ei_rodata img \<noteq> None \<and> 0 < length (image_bytes (Some img) ei_rodata)
       then size_add (ei_rodata_offset img) (length (image_bytes (Some img) ei_rodata))
       else size_add (ei_text_offset img) (length (image_bytes (Some img) ei_text))) = exe_end img"
    using assms(2) unfolding exe_rodata by (auto simp: exe_end_def exe_segments_def split: if_splits)
  have body: "emits_from 120 (\<lambda>b. Option.bind (elf_place b (ei_text_offset img) (image_bytes (Some img) ei_text))
      (\<lambda>b. if image_bytes (Some img) ei_rodata \<noteq> [] then elf_place b (ei_rodata_offset img) (image_bytes (Some img) ei_rodata) else Some b))
      (lay 120 (exe_segments img))"
    unfolding exe_segments_def
    by (rule emits_from_place [OF elf_place_emits])
      (use assms(1) in \<open>auto simp: exe_segments_def emits_from [OF emits_Some] intro: emits_from_place_last [OF elf_place_emits] simp del: lay.simps(2)\<close>)
  show ?thesis
    unfolding z_elf_write_executable64_def Let_def fs
    unfolding exe_rodata
    apply (rule emits_from_run [OF elf_ehdr _ _ len, where ys = "elf_phdr_bytes img (exe_end img) @ lay 120 (exe_segments img)"])
    unfolding exe_head_def elf_phdr_bytes_def append_assoc
     apply ((rule emits_from_bind, rule emits_from [OF elf_u32] emits_from [OF elf_u64])+)
     using body apply simp
    apply (rule refl)
    done
qed

lemma placed_phdr:
  assumes "placed bs h (elf_phdr_bytes img fsize)"
  shows "read32 bs h = 1" "read64 bs (h + 8) = 0" "read64 bs (h + 16) = ei_base_addr img" "read64 bs (h + 32) = of_nat fsize"
proof -
  note p0 = placed_split [OF assms [unfolded elf_phdr_bytes_def]]
  note p1 = placed_split [OF p0(2)] note p2 = placed_split [OF p1(2)] note p3 = placed_split [OF p2(2)]
  note p4 = placed_split [OF p3(2)] note p5 = placed_split [OF p4(2)]
  show "read32 bs h = 1" using placed_read32 [OF p0(1)] .
  show "read64 bs (h + 8) = 0" using placed_read64 [OF p2(1)] by (simp add: add.commute)
  show "read64 bs (h + 16) = ei_base_addr img" using placed_read64 [OF p3(1)] by (simp add: add.commute)
  show "read64 bs (h + 32) = of_nat fsize" using placed_read64 [OF p5(1)] by (simp add: add.commute)
qed

lemma executable_loads:
  assumes "120 \<le> ei_text_offset img"
    and "image_bytes (Some img) ei_rodata \<noteq> [] \<Longrightarrow>
         ei_text_offset img + length (image_bytes (Some img) ei_text) \<le> ei_rodata_offset img"
    and "ei_text_offset img + length (image_bytes (Some img) ei_text) < 9223372036854775808"
    and "ei_rodata_offset img + length (image_bytes (Some img) ei_rodata) < 9223372036854775808"
  shows "\<exists>out. z_elf_write_executable64 img = Some out
    \<and> elf_loaded (zdata out) (unat (ei_base_addr img) + ei_text_offset img) (image_bytes (Some img) ei_text)
    \<and> (image_bytes (Some img) ei_rodata \<noteq> [] \<longrightarrow>
       elf_loaded (zdata out) (unat (ei_base_addr img) + ei_rodata_offset img) (image_bytes (Some img) ei_rodata))
    \<and> elf_loaded (zdata out) (unat (ei_base_addr img)) (zdata out)
    \<and> read16 (zdata out) 16 = 2 \<and> read16 (zdata out) 18 = elf_machine_value (ei_machine img)
    \<and> read64 (zdata out) 24 = ei_entry_addr img"
proof -
  let ?bs = "exe_head img @ lay 120 (exe_segments img)"
  have ch: "chained 120 (exe_segments img)" using assms(1,2) by (auto simp: exe_segments_def)
  have en: "exe_end img < 9223372036854775808" using assms(3,4) by (auto simp: exe_end_def exe_segments_def)
  have len: "length ?bs = exe_end img"
    using lay_length [of 120 "butlast (exe_segments img)" "fst (last (exe_segments img))" "snd (last (exe_segments img))"] ch
    by (cases "image_bytes (Some img) ei_rodata = []") (simp_all add: exe_segments_def exe_end_def)
  have hd: "placed ?bs 0 (exe_head img)" by (simp add: placed_def)
  note hd = placed_split [OF hd [unfolded exe_head_def], folded exe_head_def]
  note eh = placed_ehdr [OF hd(1)]
  note ph = placed_phdr [OF hd(2)]
  have seg: "placed ?bs off xs" if "(off, xs) \<in> set (exe_segments img)" for off xs
    by (rule lay_placed [OF ch _ that]) simp
  have ld: "elf_loaded ?bs (unat (ei_base_addr img) + off) xs" if "placed ?bs off xs" for off xs
  proof -
    have "take (exe_end img) ?bs = ?bs" using len by simp
    then show ?thesis
      using that ph eh en by (simp add: elf_loaded_def unat_of_nat)
  qed
  have all: "placed ?bs 0 ?bs" by (simp add: placed_def)
  have "elf_loaded ?bs (unat (ei_base_addr img) + ei_text_offset img) (image_bytes (Some img) ei_text)"
    by (intro ld seg) (simp add: exe_segments_def)
  moreover have "image_bytes (Some img) ei_rodata \<noteq> [] \<longrightarrow>
      elf_loaded ?bs (unat (ei_base_addr img) + ei_rodata_offset img) (image_bytes (Some img) ei_rodata)"
    by (intro impI ld seg) (simp add: exe_segments_def)
  moreover have "elf_loaded ?bs (unat (ei_base_addr img)) ?bs" using ld [OF all] by simp
  moreover obtain out where "z_elf_write_executable64 img = Some out" "zdata out = ?bs"
    using write_executable_bytes [OF ch] en by auto
  ultimately show ?thesis using eh by auto
qed

text \<open>
  C18. Loading the executable that \<open>z_elf_write_executable64\<close> writes puts the code at
  \<open>base + text_offset\<close> and the constants at \<open>base + rodata_offset\<close>, maps the whole file, and the
  header names the entry address and the machine.
\<close>

theorem elf_executable_loads:
  assumes "120 \<le> ei_text_offset img"
    and "image_bytes (Some img) ei_rodata \<noteq> [] \<Longrightarrow>
         ei_text_offset img + length (image_bytes (Some img) ei_text) \<le> ei_rodata_offset img"
    and "ei_text_offset img + length (image_bytes (Some img) ei_text) < 9223372036854775808"
    and "ei_rodata_offset img + length (image_bytes (Some img) ei_rodata) < 9223372036854775808"
  shows "\<exists>out. z_elf_write_executable64 img = Some out
    \<and> elf_loaded (zdata out) (unat (ei_base_addr img) + ei_text_offset img) (image_bytes (Some img) ei_text)
    \<and> (image_bytes (Some img) ei_rodata \<noteq> [] \<longrightarrow>
       elf_loaded (zdata out) (unat (ei_base_addr img) + ei_rodata_offset img) (image_bytes (Some img) ei_rodata))
    \<and> elf_loaded (zdata out) (unat (ei_base_addr img)) (zdata out)
    \<and> read16 (zdata out) 16 = 2 \<and> read16 (zdata out) 18 = elf_machine_value (ei_machine img)
    \<and> read64 (zdata out) 24 = ei_entry_addr img"
  using executable_loads [of img] assms by blast

definition demo_exe :: ZElfExecutableImage where
  "demo_exe = \<lparr>ei_machine = Z_ELF_MACHINE_X86_64, ei_base_addr = 0x400000, ei_entry_addr = 0x4000b0, ei_text_offset = 176,
     ei_text = Some \<lparr>zdata = [0xc3], zcap = 64\<rparr>, ei_rodata = Some \<lparr>zdata = [7, 8], zcap = 64\<rparr>, ei_rodata_offset = 184,
     ei_segment_align = 0\<rparr>"

lemma elf_executable_loads_witness:
  "\<exists>out. z_elf_write_executable64 demo_exe = Some out \<and> elf_loaded (zdata out) 4194488 [7, 8]"
  using elf_executable_loads [of demo_exe] by (auto simp: demo_exe_def image_bytes_def)

end
