(* ===== verification/CoffFormat.thy ===== *)
theory CoffFormat
  imports ImageLayout
begin

text \<open>
  The COFF and PE writer of \<open>native/zerox-c/src/coff_format.c\<close>: appenders and patches, symbol
  records with their string table, the relocatable object, the kernel32 import table and the
  PE32+ executable. NULL pointers are \<open>None\<close>; \<open>None\<close> as a result is the exit of the allocator
  or a store past the written bytes.
\<close>

section \<open>Appenders and patches\<close>

definition z_coff_align :: "nat \<Rightarrow> nat \<Rightarrow> nat" where
  "z_coff_align val alignment =
     (let remainder = (if alignment \<noteq> 0 then val mod alignment else 0)
      in if remainder = 0 then val else size_add val (alignment - remainder))"

definition z_coff_append_u8 :: "ZBuf \<Rightarrow> u32 \<Rightarrow> ZBuf option" where
  "z_coff_append_u8 buf val = zbuf_append_char buf (ucast (val AND 0xff))"

definition z_coff_append_u16 :: "ZBuf \<Rightarrow> u16 \<Rightarrow> ZBuf option" where
  "z_coff_append_u16 buf val =
     do { buf \<leftarrow> z_coff_append_u8 buf (ucast val);
          z_coff_append_u8 buf (ucast (drop_bit 8 val)) }"

definition z_coff_append_u32 :: "ZBuf \<Rightarrow> u32 \<Rightarrow> ZBuf option" where
  "z_coff_append_u32 buf val =
     do { buf \<leftarrow> z_coff_append_u8 buf val;
          buf \<leftarrow> z_coff_append_u8 buf (drop_bit 8 val);
          buf \<leftarrow> z_coff_append_u8 buf (drop_bit 16 val);
          z_coff_append_u8 buf (drop_bit 24 val) }"

definition z_coff_append_u64 :: "ZBuf \<Rightarrow> u64 \<Rightarrow> ZBuf option" where
  "z_coff_append_u64 buf val =
     do { buf \<leftarrow> z_coff_append_u32 buf (ucast (val AND 0xffffffff));
          z_coff_append_u32 buf (ucast (drop_bit 32 val)) }"

definition z_coff_append_bytes :: "ZBuf \<Rightarrow> u8 list \<Rightarrow> ZBuf option" where
  "z_coff_append_bytes buf bytes = fold_emit (\<lambda>buf byte. z_coff_append_u8 buf (ucast byte)) bytes buf"

definition z_coff_append_zeros :: "ZBuf \<Rightarrow> nat \<Rightarrow> ZBuf option" where
  "z_coff_append_zeros buf len = fold_emit (\<lambda>buf _. z_coff_append_u8 buf 0) [0..<len] buf"

definition z_coff_pad_to :: "ZBuf \<Rightarrow> nat \<Rightarrow> ZBuf option" where
  "z_coff_pad_to buf offset = pad_loop z_coff_append_u8 (offset - length (zdata buf)) buf offset"

definition z_coff_patch_u32 :: "ZBuf \<Rightarrow> nat \<Rightarrow> u32 \<Rightarrow> ZBuf option" where
  "z_coff_patch_u32 buf offset val =
     zbuf_patch4 buf offset (ucast (val AND 0xff)) (ucast (drop_bit 8 val AND 0xff))
       (ucast (drop_bit 16 val AND 0xff)) (ucast (drop_bit 24 val AND 0xff))"

definition z_coff_patch_u64 :: "ZBuf \<Rightarrow> nat \<Rightarrow> u64 \<Rightarrow> ZBuf option" where
  "z_coff_patch_u64 buf offset val =
     patch_bytes_loop buf offset (\<lambda>i. ucast (drop_bit (i * 8) val AND 0xff)) 0 8"

definition z_coff_append_reloc_amd64 :: "ZBuf \<Rightarrow> u32 \<Rightarrow> u32 \<Rightarrow> u16 \<Rightarrow> ZBuf option" where
  "z_coff_append_reloc_amd64 buf offset symbol_index ty =
     do { buf \<leftarrow> z_coff_append_u32 buf offset;
          buf \<leftarrow> z_coff_append_u32 buf symbol_index;
          z_coff_append_u16 buf ty }"

section \<open>Symbols\<close>

definition coff_append_name :: "ZBuf \<Rightarrow> string option \<Rightarrow> ZBuf option" where
  "coff_append_name buf name =
     do { let len = (case name of None \<Rightarrow> 0 | Some s \<Rightarrow> length s);
          let len = (if len > 8 then 8 else len);
          buf \<leftarrow> fold_emit (\<lambda>buf c. z_coff_append_u8 buf (ucast (of_char c :: u8))) (take len (str_or name '''')) buf;
          fold_emit (\<lambda>buf (_ :: nat). z_coff_append_u8 buf 0) [len..<8] buf }"

text \<open>Writes into two buffers: the symbol record and the string table.\<close>

definition coff_append_symbol_name :: "ZBuf \<Rightarrow> string option \<Rightarrow> ZBuf \<Rightarrow> (ZBuf \<times> ZBuf) option" where
  "coff_append_symbol_name buf name strings =
     (let len = (case name of None \<Rightarrow> 0 | Some s \<Rightarrow> length s)
      in if len \<le> 8 then do { buf \<leftarrow> coff_append_name buf name; Some (buf, strings) }
         else do { buf \<leftarrow> z_coff_append_u32 buf 0;
                   buf \<leftarrow> z_coff_append_u32 buf (of_nat (length (zdata strings)) + 4);
                   strings \<leftarrow> zbuf_append strings (str_or name '''');
                   strings \<leftarrow> z_coff_append_u8 strings 0;
                   Some (buf, strings) })"

record ZCoffSymbol =
  cs_name :: "string option"
  cs_value :: u32
  cs_section_number :: u16
  cs_type :: u16
  cs_storage_class :: u8

definition Z_COFF_SYMBOL_STATIC :: u8 where
  "Z_COFF_SYMBOL_STATIC = 3"

definition coff_append_symbol :: "ZBuf \<Rightarrow> ZCoffSymbol option \<Rightarrow> ZBuf \<Rightarrow> (ZBuf \<times> ZBuf) option" where
  "coff_append_symbol out symbol strings =
     do { let name = (case Option.bind symbol cs_name of None \<Rightarrow> ''zerox_fn'' | Some n \<Rightarrow> n);
          (out, strings) \<leftarrow> coff_append_symbol_name out (Some name) strings;
          out \<leftarrow> z_coff_append_u32 out (case symbol of None \<Rightarrow> 0 | Some s \<Rightarrow> cs_value s);
          out \<leftarrow> z_coff_append_u16 out (case symbol of None \<Rightarrow> 0 | Some s \<Rightarrow> cs_section_number s);
          out \<leftarrow> z_coff_append_u16 out (case symbol of None \<Rightarrow> 0 | Some s \<Rightarrow> cs_type s);
          out \<leftarrow> z_coff_append_u8 out (case symbol of None \<Rightarrow> ucast Z_COFF_SYMBOL_STATIC | Some s \<Rightarrow> ucast (cs_storage_class s));
          out \<leftarrow> z_coff_append_u8 out 0;
          Some (out, strings) }"

fun coff_append_symbols :: "ZBuf \<Rightarrow> ZCoffSymbol list \<Rightarrow> ZBuf \<Rightarrow> (ZBuf \<times> ZBuf) option" where
  "coff_append_symbols out [] strings = Some (out, strings)"
| "coff_append_symbols out (s # symbols) strings =
     do { (out, strings) \<leftarrow> coff_append_symbol out (Some s) strings;
          coff_append_symbols out symbols strings }"

section \<open>The relocatable object\<close>

datatype ZCoffMachine = Z_COFF_MACHINE_AMD64

fun coff_machine_value :: "ZCoffMachine \<Rightarrow> u16" where
  "coff_machine_value Z_COFF_MACHINE_AMD64 = 0x8664"

record ZCoffObjectImage =
  co_machine :: ZCoffMachine
  co_text :: "ZBuf option"
  co_rodata :: "ZBuf option"
  co_text_relocs :: "ZBuf option"
  co_text_reloc_count :: u16
  co_symbols :: "ZCoffSymbol list"

definition coff_bytes :: "'i option \<Rightarrow> ('i \<Rightarrow> ZBuf option) \<Rightarrow> u8 list" where
  "coff_bytes img f = (case Option.bind img f of None \<Rightarrow> [] | Some b \<Rightarrow> zdata b)"

definition coff_section_symbol :: "string \<Rightarrow> u16 \<Rightarrow> ZCoffSymbol" where
  "coff_section_symbol name num =
     \<lparr>cs_name = Some name, cs_value = 0, cs_section_number = num, cs_type = 0, cs_storage_class = Z_COFF_SYMBOL_STATIC\<rparr>"

definition coff_append_object_section ::
  "ZBuf \<Rightarrow> string \<Rightarrow> u32 \<Rightarrow> u32 \<Rightarrow> u32 \<Rightarrow> u16 \<Rightarrow> u32 \<Rightarrow> ZBuf option" where
  "coff_append_object_section out name len raw_offset reloc_offset reloc_count characteristics =
     do { out \<leftarrow> coff_append_name out (Some name);
          out \<leftarrow> z_coff_append_u32 out len;
          out \<leftarrow> z_coff_append_u32 out 0;
          out \<leftarrow> z_coff_append_u32 out len;
          out \<leftarrow> z_coff_append_u32 out raw_offset;
          out \<leftarrow> z_coff_append_u32 out reloc_offset;
          out \<leftarrow> z_coff_append_u32 out 0;
          out \<leftarrow> z_coff_append_u16 out reloc_count;
          out \<leftarrow> z_coff_append_u16 out 0;
          z_coff_append_u32 out characteristics }"

definition z_coff_write_object :: "ZCoffObjectImage option \<Rightarrow> ZBuf option" where
  "z_coff_write_object img =
     do { let code = coff_bytes img co_text;
          let rodata = coff_bytes img co_rodata;
          let relocs = coff_bytes img co_text_relocs;
          let has_rodata = (0 < length rodata);
          let symbols = (case img of None \<Rightarrow> [] | Some i \<Rightarrow> co_symbols i);
          let section_count = (if has_rodata then 2 else 1 :: u16);
          let section_symbol_count = (if has_rodata then 2 else 1 :: u32);
          let header_size = 20 + 40 * ucast section_count;
          let raw_text_offset = (header_size :: u32);
          let raw_rodata_offset = (if has_rodata then raw_text_offset + of_nat (length code) else 0);
          let reloc_offset = raw_text_offset + of_nat (length code) + of_nat (length rodata);
          let symbol_offset = reloc_offset + of_nat (length relocs);
          let symbol_count = section_symbol_count + of_nat (length symbols);
          out \<leftarrow> z_coff_append_u16 zbuf_init (case img of None \<Rightarrow> 0 | Some i \<Rightarrow> coff_machine_value (co_machine i));
          out \<leftarrow> z_coff_append_u16 out section_count;
          out \<leftarrow> z_coff_append_u32 out 0;
          out \<leftarrow> z_coff_append_u32 out symbol_offset;
          out \<leftarrow> z_coff_append_u32 out symbol_count;
          out \<leftarrow> z_coff_append_u16 out 0;
          out \<leftarrow> z_coff_append_u16 out 0;
          out \<leftarrow> coff_append_object_section out ''.text'' (of_nat (length code)) raw_text_offset
                    (if 0 < length relocs then reloc_offset else 0)
                    (case img of None \<Rightarrow> 0 | Some i \<Rightarrow> co_text_reloc_count i) 0x60000020;
          out \<leftarrow> (if has_rodata
                  then coff_append_object_section out ''.rdata'' (of_nat (length rodata)) raw_rodata_offset 0 0 0x40000040
                  else Some out);
          out \<leftarrow> z_coff_append_bytes out code;
          out \<leftarrow> z_coff_append_bytes out rodata;
          out \<leftarrow> z_coff_append_bytes out relocs;
          (out, strings) \<leftarrow> coff_append_symbol out (Some (coff_section_symbol ''.text'' 1)) zbuf_init;
          (out, strings) \<leftarrow> (if has_rodata
                  then coff_append_symbol out (Some (coff_section_symbol ''.rdata'' 2)) strings
                  else Some (out, strings));
          (out, strings) \<leftarrow> coff_append_symbols out symbols strings;
          out \<leftarrow> z_coff_append_u32 out (of_nat (length (zdata strings)) + 4);
          z_coff_append_bytes out (zdata strings) }"

section \<open>The import table\<close>

definition Z_COFF_IMPORT_COUNT :: nat where
  "Z_COFF_IMPORT_COUNT = 3"

definition coff_import_names :: "string list" where
  "coff_import_names = [''ExitProcess'', ''GetStdHandle'', ''WriteFile'']"

record CoffImportLayout =
  import_directory_rva :: u32
  import_directory_size :: u32
  iat_rva :: u32
  iat_size :: u32
  iat_offsets :: "u32 list"

definition coff_pad_align :: "ZBuf \<Rightarrow> nat \<Rightarrow> ZBuf option" where
  "coff_pad_align buf alignment = z_coff_pad_to buf (z_coff_align (length (zdata buf)) alignment)"

definition zbuf_len :: "ZBuf \<Rightarrow> u32" where
  "zbuf_len buf = of_nat (length (zdata buf))"

fun coff_append_hints :: "ZBuf \<Rightarrow> string list \<Rightarrow> (ZBuf \<times> u32 list) option" where
  "coff_append_hints rdata [] = Some (rdata, [])"
| "coff_append_hints rdata (n # names) =
     do { rdata \<leftarrow> coff_pad_align rdata 2;
          let hint = zbuf_len rdata;
          rdata \<leftarrow> z_coff_append_u16 rdata 0;
          rdata \<leftarrow> z_coff_append_bytes rdata (map of_char n @ [0]);
          (rdata, hints) \<leftarrow> coff_append_hints rdata names;
          Some (rdata, hint # hints) }"

text \<open>\<open>uint64_t thunk = rdata_rva + hint_name_offsets[i]\<close>: the sum is 32 bits wide.\<close>

fun coff_patch_thunks :: "ZBuf \<Rightarrow> u32 \<Rightarrow> u32 \<Rightarrow> u32 \<Rightarrow> nat \<Rightarrow> u32 list \<Rightarrow> (ZBuf \<times> u32 list) option" where
  "coff_patch_thunks rdata rdata_rva int_offset iat_offset i [] = Some (rdata, [])"
| "coff_patch_thunks rdata rdata_rva int_offset iat_offset i (h # hints) =
     do { let thunk = (ucast (rdata_rva + h) :: u64);
          rdata \<leftarrow> z_coff_patch_u64 rdata (unat (int_offset + of_nat i * 8)) thunk;
          rdata \<leftarrow> z_coff_patch_u64 rdata (unat (iat_offset + of_nat i * 8)) thunk;
          (rdata, offs) \<leftarrow> coff_patch_thunks rdata rdata_rva int_offset iat_offset (Suc i) hints;
          Some (rdata, (iat_offset + of_nat i * 8) # offs) }"

definition coff_append_import_table :: "ZBuf \<Rightarrow> u32 \<Rightarrow> (ZBuf \<times> CoffImportLayout) option" where
  "coff_append_import_table rdata rdata_rva =
     do { rdata \<leftarrow> coff_pad_align rdata 4;
          let descriptor_offset = zbuf_len rdata;
          rdata \<leftarrow> z_coff_append_zeros rdata 40;
          rdata \<leftarrow> coff_pad_align rdata 8;
          let int_offset = zbuf_len rdata;
          rdata \<leftarrow> z_coff_append_zeros rdata ((Z_COFF_IMPORT_COUNT + 1) * 8);
          rdata \<leftarrow> coff_pad_align rdata 8;
          let iat_offset = zbuf_len rdata;
          rdata \<leftarrow> z_coff_append_zeros rdata ((Z_COFF_IMPORT_COUNT + 1) * 8);
          let dll_name_offset = zbuf_len rdata;
          rdata \<leftarrow> z_coff_append_bytes rdata (map of_char ''KERNEL32.dll'' @ [0]);
          (rdata, hint_name_offsets) \<leftarrow> coff_append_hints rdata coff_import_names;
          rdata \<leftarrow> z_coff_patch_u32 rdata (unat descriptor_offset) (rdata_rva + int_offset);
          rdata \<leftarrow> z_coff_patch_u32 rdata (unat (descriptor_offset + 12)) (rdata_rva + dll_name_offset);
          rdata \<leftarrow> z_coff_patch_u32 rdata (unat (descriptor_offset + 16)) (rdata_rva + iat_offset);
          (rdata, offs) \<leftarrow> coff_patch_thunks rdata rdata_rva int_offset iat_offset 0 hint_name_offsets;
          Some (rdata, \<lparr>import_directory_rva = rdata_rva + descriptor_offset, import_directory_size = 40,
                        iat_rva = rdata_rva + iat_offset, iat_size = 32, iat_offsets = offs\<rparr>) }"

section \<open>The PE executable\<close>

definition coff_append_pe_data_directory :: "ZBuf \<Rightarrow> u32 \<Rightarrow> u32 \<Rightarrow> ZBuf option" where
  "coff_append_pe_data_directory out rva sz = do { out \<leftarrow> z_coff_append_u32 out rva; z_coff_append_u32 out sz }"

definition coff_append_pe_data_directories :: "ZBuf \<Rightarrow> CoffImportLayout option \<Rightarrow> ZBuf option" where
  "coff_append_pe_data_directories out imports =
     fold_emit (\<lambda>out d. coff_append_pe_data_directory out (fst d) (snd d))
       ([(0, 0), (case imports of None \<Rightarrow> (0, 0) | Some l \<Rightarrow> (import_directory_rva l, import_directory_size l))]
        @ replicate 10 (0, 0)
        @ [(case imports of None \<Rightarrow> (0, 0) | Some l \<Rightarrow> (iat_rva l, iat_size l)), (0, 0), (0, 0), (0, 0)]) out"

definition coff_append_pe64_optional_header ::
  "ZBuf \<Rightarrow> u32 \<Rightarrow> u32 \<Rightarrow> u32 \<Rightarrow> u64 \<Rightarrow> u32 \<Rightarrow> u32 \<Rightarrow> u32 \<Rightarrow> u32 \<Rightarrow> CoffImportLayout option \<Rightarrow> ZBuf option" where
  "coff_append_pe64_optional_header out text_raw_size rdata_raw_size text_rva image_base section_alignment
       file_alignment size_of_image headers_size imports =
     do { out \<leftarrow> z_coff_append_u16 out 0x20b;
          out \<leftarrow> z_coff_append_u8 out 0;
          out \<leftarrow> z_coff_append_u8 out 1;
          out \<leftarrow> z_coff_append_u32 out text_raw_size;
          out \<leftarrow> z_coff_append_u32 out rdata_raw_size;
          out \<leftarrow> z_coff_append_u32 out 0;
          out \<leftarrow> z_coff_append_u32 out text_rva;
          out \<leftarrow> z_coff_append_u32 out text_rva;
          out \<leftarrow> z_coff_append_u64 out image_base;
          out \<leftarrow> z_coff_append_u32 out section_alignment;
          out \<leftarrow> z_coff_append_u32 out file_alignment;
          out \<leftarrow> z_coff_append_u16 out 6;
          out \<leftarrow> z_coff_append_u16 out 0;
          out \<leftarrow> z_coff_append_u16 out 0;
          out \<leftarrow> z_coff_append_u16 out 0;
          out \<leftarrow> z_coff_append_u16 out 6;
          out \<leftarrow> z_coff_append_u16 out 0;
          out \<leftarrow> z_coff_append_u32 out 0;
          out \<leftarrow> z_coff_append_u32 out size_of_image;
          out \<leftarrow> z_coff_append_u32 out headers_size;
          out \<leftarrow> z_coff_append_u32 out 0;
          out \<leftarrow> z_coff_append_u16 out 3;
          out \<leftarrow> z_coff_append_u16 out 0x0100;
          out \<leftarrow> z_coff_append_u64 out 0x100000;
          out \<leftarrow> z_coff_append_u64 out 0x1000;
          out \<leftarrow> z_coff_append_u64 out 0x100000;
          out \<leftarrow> z_coff_append_u64 out 0x1000;
          out \<leftarrow> z_coff_append_u32 out 0;
          out \<leftarrow> z_coff_append_u32 out 16;
          coff_append_pe_data_directories out imports }"

definition coff_append_pe_section_header ::
  "ZBuf \<Rightarrow> string \<Rightarrow> u32 \<Rightarrow> u32 \<Rightarrow> u32 \<Rightarrow> u32 \<Rightarrow> u32 \<Rightarrow> ZBuf option" where
  "coff_append_pe_section_header out name virtual_size virtual_address raw_size raw_offset characteristics =
     do { out \<leftarrow> coff_append_name out (Some name);
          out \<leftarrow> z_coff_append_u32 out virtual_size;
          out \<leftarrow> z_coff_append_u32 out virtual_address;
          out \<leftarrow> z_coff_append_u32 out raw_size;
          out \<leftarrow> z_coff_append_u32 out raw_offset;
          out \<leftarrow> z_coff_append_u32 out 0;
          out \<leftarrow> z_coff_append_u32 out 0;
          out \<leftarrow> z_coff_append_u16 out 0;
          out \<leftarrow> z_coff_append_u16 out 0;
          z_coff_append_u32 out characteristics }"

record ZCoffImageDataPatch =
  cdp_patch_offset :: nat
  cdp_data_offset :: u32

record ZCoffImportPatch =
  cip_patch_offset :: nat
  cip_import_index :: u32

record ZCoffExecutableImage =
  ce_machine :: ZCoffMachine
  ce_image_base :: u64
  ce_section_alignment :: u32
  ce_file_alignment :: u32
  ce_text :: "ZBuf option"
  ce_rdata :: "ZBuf option"
  ce_rodata_base_offset :: u32
  ce_rodata_patches :: "ZCoffImageDataPatch list"
  ce_import_patches :: "ZCoffImportPatch list"

text \<open>
  \<open>(uint32_t)(int32_t)rel\<close> of the 64-bit difference is its low 32 bits.
\<close>

definition coff_patch_rel32_to_va :: "ZBuf \<Rightarrow> nat \<Rightarrow> u64 \<Rightarrow> u64 \<Rightarrow> ZBuf option" where
  "coff_patch_rel32_to_va code patch_offset text_base_va target_va =
     z_coff_patch_u32 code patch_offset (ucast (target_va - (text_base_va + of_nat patch_offset + 4)))"

fun coff_apply_rodata_patches :: "ZBuf \<Rightarrow> u64 \<Rightarrow> u32 \<Rightarrow> ZCoffImageDataPatch list \<Rightarrow> ZBuf option" where
  "coff_apply_rodata_patches code va base_offset [] = Some code"
| "coff_apply_rodata_patches code va base_offset (p # ps) =
     do { code \<leftarrow> z_coff_patch_u64 code (cdp_patch_offset p) (va + ucast (cdp_data_offset p - base_offset));
          coff_apply_rodata_patches code va base_offset ps }"

fun coff_apply_import_patches :: "ZBuf \<Rightarrow> u64 \<Rightarrow> u64 \<Rightarrow> u32 list \<Rightarrow> ZCoffImportPatch list \<Rightarrow> ZBuf option" where
  "coff_apply_import_patches code rdata_va text_va offs [] = Some code"
| "coff_apply_import_patches code rdata_va text_va offs (p # ps) =
     (if Z_COFF_IMPORT_COUNT \<le> unat (cip_import_index p) then coff_apply_import_patches code rdata_va text_va offs ps
      else do { code \<leftarrow> coff_patch_rel32_to_va code (cip_patch_offset p) text_va
                           (rdata_va + ucast (offs ! unat (cip_import_index p)));
                coff_apply_import_patches code rdata_va text_va offs ps })"

text \<open>
  The writer appends the imports to the caller's \<open>rdata\<close> and patches the caller's \<open>text\<close>: it
  returns the file and both buffers as it leaves them.
\<close>

definition z_coff_write_pe64_executable :: "ZCoffExecutableImage option \<Rightarrow> (ZBuf \<times> ZBuf \<times> ZBuf) option" where
  "z_coff_write_pe64_executable img =
     do { let code = (case Option.bind img ce_text of None \<Rightarrow> zbuf_init | Some b \<Rightarrow> b);
          let rdata = (case Option.bind img ce_rdata of None \<Rightarrow> zbuf_init | Some b \<Rightarrow> b);
          let image_base = (case img of None \<Rightarrow> 0x140000000 | Some i \<Rightarrow> if ce_image_base i \<noteq> 0 then ce_image_base i else 0x140000000);
          let section_alignment = (case img of None \<Rightarrow> 0x1000 | Some i \<Rightarrow> if ce_section_alignment i \<noteq> 0 then ce_section_alignment i else 0x1000);
          let file_alignment = (case img of None \<Rightarrow> 0x200 | Some i \<Rightarrow> if ce_file_alignment i \<noteq> 0 then ce_file_alignment i else 0x200);
          let headers_unaligned = 0x80 + 4 + 20 + 240 + 2 * 40;
          let headers_size = (of_nat (z_coff_align headers_unaligned (unat file_alignment)) :: u32);
          let text_rva = section_alignment;
          let text_raw_offset = headers_size;
          let text_raw_size = of_nat (z_coff_align (length (zdata code)) (unat file_alignment));
          let rdata_rva = of_nat (z_coff_align (size_add (unat text_rva) (length (zdata code))) (unat section_alignment));
          (rdata, imports) \<leftarrow> coff_append_import_table rdata rdata_rva;
          let rdata_raw_offset = text_raw_offset + text_raw_size;
          let rdata_raw_size = of_nat (z_coff_align (length (zdata rdata)) (unat file_alignment));
          let size_of_image = of_nat (z_coff_align (size_add (unat rdata_rva) (length (zdata rdata))) (unat section_alignment));
          code \<leftarrow> (case img of None \<Rightarrow> Some code
                    | Some i \<Rightarrow> coff_apply_rodata_patches code (image_base + ucast rdata_rva) (ce_rodata_base_offset i) (ce_rodata_patches i));
          code \<leftarrow> (case img of None \<Rightarrow> Some code
                    | Some i \<Rightarrow> coff_apply_import_patches code (image_base + ucast rdata_rva) (image_base + ucast text_rva)
                                  (iat_offsets imports) (ce_import_patches i));
          out \<leftarrow> z_coff_append_u8 zbuf_init 0x4d;
          out \<leftarrow> z_coff_append_u8 out 0x5a;
          out \<leftarrow> z_coff_append_zeros out 0x3a;
          out \<leftarrow> z_coff_append_u32 out 0x80;
          out \<leftarrow> z_coff_pad_to out 0x80;
          out \<leftarrow> z_coff_append_u8 out 0x50;
          out \<leftarrow> z_coff_append_u8 out 0x45;
          out \<leftarrow> z_coff_append_u8 out 0;
          out \<leftarrow> z_coff_append_u8 out 0;
          out \<leftarrow> z_coff_append_u16 out (case img of None \<Rightarrow> 0 | Some i \<Rightarrow> coff_machine_value (ce_machine i));
          out \<leftarrow> z_coff_append_u16 out 2;
          out \<leftarrow> z_coff_append_u32 out 0;
          out \<leftarrow> z_coff_append_u32 out 0;
          out \<leftarrow> z_coff_append_u32 out 0;
          out \<leftarrow> z_coff_append_u16 out 240;
          out \<leftarrow> z_coff_append_u16 out 0x0022;
          out \<leftarrow> coff_append_pe64_optional_header out text_raw_size rdata_raw_size text_rva image_base
                    section_alignment file_alignment size_of_image headers_size (Some imports);
          out \<leftarrow> coff_append_pe_section_header out ''.text'' (of_nat (length (zdata code))) text_rva text_raw_size text_raw_offset 0x60000020;
          out \<leftarrow> coff_append_pe_section_header out ''.rdata'' (of_nat (length (zdata rdata))) rdata_rva rdata_raw_size rdata_raw_offset 0x40000040;
          out \<leftarrow> z_coff_pad_to out (unat headers_size);
          out \<leftarrow> z_coff_append_bytes out (zdata code);
          out \<leftarrow> z_coff_pad_to out (unat (text_raw_offset + text_raw_size));
          out \<leftarrow> z_coff_append_bytes out (zdata rdata);
          out \<leftarrow> z_coff_pad_to out (unat (rdata_raw_offset + rdata_raw_size));
          Some (out, code, rdata) }"

section \<open>What the appenders append\<close>

interpretation coff_sink: byte_sink z_coff_append_u8
  by unfold_locales (simp add: z_coff_append_u8_def ucast_low_byte emits_append_char)

lemma z_coff_align_eq: "z_coff_align = align_up"
  by (intro ext) (simp add: z_coff_align_def align_up_def)

lemma coff_u8 [emits_intros]: "emits (\<lambda>b. z_coff_append_u8 b v) [ucast v]"
  by (rule coff_sink.put8_emits)

lemma coff_u16 [emits_intros]: "emits (\<lambda>b. z_coff_append_u16 b v) (le16 v)"
  using coff_sink.put16_emits [of v] by (simp add: z_coff_append_u16_def)

lemma coff_u32 [emits_intros]: "emits (\<lambda>b. z_coff_append_u32 b v) (le32 v)"
  using coff_sink.put32_emits [of v] by (simp add: z_coff_append_u32_def)

lemma low_word: "(ucast (v AND 0xffffffff :: u64) :: u32) = ucast v"
proof -
  have m: "(0xffffffff :: u64) = mask 32" by (simp add: mask_eq_exp_minus_1)
  show ?thesis unfolding m by (rule bit_word_eqI) (simp add: bit_simps)
qed

lemma coff_u64 [emits_intros]: "emits (\<lambda>b. z_coff_append_u64 b v) (le64 v)"
  unfolding z_coff_append_u64_def le64_def low_word by (rule emits_bind [OF coff_u32 coff_u32])

lemma coff_bytes_emits [emits_intros]: "emits (\<lambda>b. z_coff_append_bytes b xs) xs"
  unfolding z_coff_append_bytes_def by (rule coff_sink.put_bytes_emits)

lemma coff_zeros [emits_intros]: "emits (\<lambda>b. z_coff_append_zeros b n) (replicate n 0)"
  unfolding z_coff_append_zeros_def by (rule coff_sink.put_zeros_emits)

lemma coff_pad [emits_from_intros]: "emits_from n (\<lambda>b. z_coff_pad_to b off) (replicate (off - n) 0)"
  unfolding z_coff_pad_to_def by (rule coff_sink.pad_to_emits)

lemma coff_pad_align_emits [emits_from_intros]:
  "emits_from n (\<lambda>b. coff_pad_align b a) (replicate (align_up n a - n) 0)"
  unfolding coff_pad_align_def z_coff_align_eq
  by (rule emits_from_length [where f = "\<lambda>l b. z_coff_pad_to b (align_up l a)"]) (rule coff_pad)

text \<open>A name field: the first eight characters, padded with NUL.\<close>

definition coff_name_bytes :: "string \<Rightarrow> u8 list" where
  "coff_name_bytes s = map of_char (take 8 s) @ replicate (8 - length s) 0"

lemma length_coff_name [simp]: "length (coff_name_bytes s) = 8"
  by (simp add: coff_name_bytes_def)

lemma coff_name_emits [emits_intros]: "emits (\<lambda>b. coff_append_name b (Some s)) (coff_name_bytes s)"
proof -
  let ?n = "if length s > 8 then 8 else length s"
  have a: "emits (fold_emit (\<lambda>buf c. z_coff_append_u8 buf (ucast (of_char c :: u8))) (take ?n s)) (map of_char (take ?n s))"
    using emits_fold [OF coff_u8, of "\<lambda>c. ucast (of_char c :: u8)" "take ?n s"] by (simp add: byte_ucast o_def)
  have b: "emits (fold_emit (\<lambda>buf (_ :: nat). z_coff_append_u8 buf 0) [?n..<8]) (replicate (8 - ?n) 0)"
    using emits_fold [OF coff_u8, of "\<lambda>_ :: nat. 0" "[?n..<8]"] by (simp add: map_replicate_const)
  have "emits (\<lambda>b. coff_append_name b (Some s)) (map of_char (take ?n s) @ replicate (8 - ?n) 0)"
    unfolding coff_append_name_def Let_def option.case str_or_simps by (rule emits_bind [OF a b])
  then show ?thesis by (simp add: coff_name_bytes_def split: if_splits)
qed

end
