(* ===== verification/CoffProps.thy ===== *)
theory CoffProps
  imports CoffFormat
begin

text \<open>
  Readers of COFF objects and PE executables, written from the file formats, and what they find
  in the files of \<open>coff_format.c\<close>: the import directory of kernel32, the sections, the symbols,
  and the calls through the import address table.
\<close>


section \<open>The import table\<close>

definition import_hints :: "u8 list" where
  "import_hints = [0] @ le16 0 @ cstr_bytes ''ExitProcess'' @ le16 0
     @ cstr_bytes ''GetStdHandle'' @ [0] @ le16 0 @ cstr_bytes ''WriteFile''"

lemma length_import_hints [simp]: "length import_hints = 43"
  by (simp add: import_hints_def cstr_bytes_def)

lemma align_even: "m mod 8 = 0 \<Longrightarrow> m < 1000000000000 \<Longrightarrow> align_up (m + 32) 8 = m + 32
  \<and> align_up (m + 77) 2 = m + 78 \<and> align_up (m + 92) 2 = m + 92 \<and> align_up (m + 107) 2 = m + 108"
  by (simp add: align_up_eq mod_add_eq [symmetric] mod_mod_cancel [symmetric, of 2 8])

lemma hints_returns:
  assumes "zbuf_ok b" "length (zdata b) = m + 77" "m mod 8 = 0" "m < 4294967000"
    "\<And>b' hs. zbuf_ok b' \<Longrightarrow> zdata b' = zdata b @ import_hints \<Longrightarrow>
      hs = [of_nat (m + 78), of_nat (m + 92), of_nat (m + 108)] \<Longrightarrow> Q (b', hs)"
  shows "returns (coff_append_hints b coff_import_names) Q"
proof -
  note al = align_even [OF assms(3)]
  have S: "m + 1000 < SIZE_MAX" using assms(4) by (simp add: SIZE_MAX_def)
  have al: "align_up (m + 77) 2 = m + 78" "align_up (92 + m) 2 = m + 92" "align_up (107 + m) 2 = m + 108"
    using align_even [OF assms(3)] assms(4) by (auto simp: add.commute)
  show ?thesis
    unfolding coff_import_names_def coff_append_hints.simps Let_def zbuf_len_def bind_assoc
    using al S assms(1,2)
    apply -
    apply (rule returns_emit [OF coff_pad_align_emits _ refl], assumption, simp)
    apply (rule returns_emit0 [OF coff_u16], assumption, simp)
    apply (rule returns_emit0 [OF coff_bytes_emits], assumption, simp)
    apply (rule returns_emit [OF coff_pad_align_emits _ refl], assumption, simp)
    apply (rule returns_emit0 [OF coff_u16], assumption, simp)
    apply (rule returns_emit0 [OF coff_bytes_emits], assumption, simp)
    apply (rule returns_emit [OF coff_pad_align_emits _ refl], assumption, simp)
    apply (rule returns_emit0 [OF coff_u16], assumption, simp)
    apply (rule returns_emit0 [OF coff_bytes_emits], assumption, simp)
    apply (simp only: bind.bind_lunit prod.case returns_Some)
    apply (rule assms(5), assumption)
     apply (simp add: import_hints_def cstr_bytes_def le16_def)
    apply (simp add: le16_def)
    done
qed

lemma coff_patch_u32_eq:
  "off + 4 \<le> length (zdata buf) \<Longrightarrow> z_coff_patch_u32 buf off v = Some (buf\<lparr>zdata := patched (zdata buf) off (le32 v)\<rparr>)"
  by (simp add: z_coff_patch_u32_def zbuf_patch4_eq ucast_low_byte le32_def)

lemma coff_patch_u64_eq:
  "off + 8 \<le> length (zdata buf) \<Longrightarrow> z_coff_patch_u64 buf off v = Some (buf\<lparr>zdata := patched (zdata buf) off (le64 v)\<rparr>)"
  by (simp only: z_coff_patch_u64_def patch_bytes_loop_eq byte_of_word le64_bytes)

text \<open>The offsets of the table behind \<open>n\<close> bytes of constants.\<close>

definition imp_dir :: "nat \<Rightarrow> nat" where "imp_dir n = align_up n 4"
definition imp_int :: "nat \<Rightarrow> nat" where "imp_int n = align_up (imp_dir n + 40) 8"

lemma imp_offsets:
  assumes "n < 4294966000"
  shows "n \<le> imp_dir n" "imp_dir n \<le> n + 4" "imp_dir n + 40 \<le> imp_int n" "imp_int n \<le> n + 52" "imp_int n mod 8 = 0"
proof -
  show a: "n \<le> imp_dir n" "imp_dir n \<le> n + 4" using align_up_step [of n 4, OF _ refl] assms by (simp_all add: imp_dir_def)
  show "imp_dir n + 40 \<le> imp_int n" "imp_int n \<le> n + 52" "imp_int n mod 8 = 0"
    using align_up_step [of "imp_dir n + 40" 8, OF _ refl] a assms by (simp_all add: imp_int_def aligned_def)
qed

definition import_raw :: "u8 list \<Rightarrow> u8 list" where
  "import_raw ds = ds @ replicate (imp_dir (length ds) - length ds) 0 @ replicate 40 0
     @ replicate (imp_int (length ds) - (imp_dir (length ds) + 40)) 0 @ replicate 64 0
     @ cstr_bytes ''KERNEL32.dll'' @ import_hints"

lemma length_import_raw:
  "length ds < 4294966000 \<Longrightarrow> length (import_raw ds) = imp_int (length ds) + 120"
  using imp_offsets [of "length ds"] by (simp add: import_raw_def cstr_bytes_def)

definition import_patches :: "u32 \<Rightarrow> nat \<Rightarrow> (nat \<times> u8 list) list" where
  "import_patches R n = (let d = imp_dir n; i = imp_int n in
     [(d, le32 (R + of_nat i)), (d + 12, le32 (R + of_nat (i + 64))), (d + 16, le32 (R + of_nat (i + 32))),
      (i, le64 (ucast (R + of_nat (i + 78)))), (i + 32, le64 (ucast (R + of_nat (i + 78)))),
      (i + 8, le64 (ucast (R + of_nat (i + 92)))), (i + 40, le64 (ucast (R + of_nat (i + 92)))),
      (i + 16, le64 (ucast (R + of_nat (i + 108)))), (i + 48, le64 (ucast (R + of_nat (i + 108))))])"

fun patch_all :: "u8 list \<Rightarrow> (nat \<times> u8 list) list \<Rightarrow> u8 list" where
  "patch_all bs [] = bs"
| "patch_all bs ((off, xs) # ps) = patch_all (patched bs off xs) ps"


lemma import_patch_eq:
  fixes r :: ZBuf and n :: nat and R :: u32
  assumes n: "n < 4294966000" and len: "length (zdata r) = imp_int n + 120"
    and hs: "hs = [of_nat (imp_int n + 78), of_nat (imp_int n + 92), of_nat (imp_int n + 108)]"
  shows "\<exists>b'. (do { rdata \<leftarrow> z_coff_patch_u32 r (unat (of_nat (imp_dir n) :: u32)) (R + of_nat (imp_int n));
          rdata \<leftarrow> z_coff_patch_u32 rdata (unat (of_nat (imp_dir n) + 12 :: u32)) (R + of_nat (imp_int n + 64));
          rdata \<leftarrow> z_coff_patch_u32 rdata (unat (of_nat (imp_dir n) + 16 :: u32)) (R + of_nat (imp_int n + 32));
          coff_patch_thunks rdata R (of_nat (imp_int n)) (of_nat (imp_int n + 32)) 0 hs })
     = Some (b', [of_nat (imp_int n + 32), of_nat (imp_int n + 40), of_nat (imp_int n + 48)])
     \<and> zdata b' = patch_all (zdata r) (import_patches R n)"
proof -
  note im = imp_offsets [OF n]
  have u: "unat (of_nat k :: u32) = k" if "k < 4294967296" for k using that by (simp add: unat_of_nat)
  have ud: "unat (of_nat (imp_dir n) :: u32) = imp_dir n" "unat (of_nat (imp_dir n) + 12 :: u32) = imp_dir n + 12"
     "unat (of_nat (imp_dir n) + 16 :: u32) = imp_dir n + 16"
    using u [of "imp_dir n"] u [of "imp_dir n + 12"] u [of "imp_dir n + 16"] im n by (simp_all add: add.commute)
  have ui: "unat (of_nat (imp_int n) + of_nat 0 * 8 :: u32) = imp_int n"
     "unat (of_nat (imp_int n) + of_nat (Suc 0) * 8 :: u32) = imp_int n + 8"
     "unat (of_nat (imp_int n) + of_nat (Suc (Suc 0)) * 8 :: u32) = imp_int n + 16"
     "unat (of_nat (imp_int n + 32) + of_nat 0 * 8 :: u32) = imp_int n + 32"
     "unat (of_nat (imp_int n + 32) + of_nat (Suc 0) * 8 :: u32) = imp_int n + 40"
     "unat (of_nat (imp_int n + 32) + of_nat (Suc (Suc 0)) * 8 :: u32) = imp_int n + 48"
    using u [of "imp_int n"] u [of "imp_int n + 8"] u [of "imp_int n + 16"] u [of "imp_int n + 32"]
      u [of "imp_int n + 40"] u [of "imp_int n + 48"] im n by (simp_all add: add.commute)
  show ?thesis
    unfolding hs coff_patch_thunks.simps Let_def ud ui
    using im n len
    by (simp add: coff_patch_u32_eq coff_patch_u64_eq import_patches_def Let_def add.commute)
qed

lemma import_table_returns:
  assumes ok: "zbuf_ok b" and n: "length (zdata b) < 4294966000"
    and Q: "\<And>b' l. zdata b' = patch_all (import_raw (zdata b)) (import_patches R (length (zdata b))) \<Longrightarrow>
      l = \<lparr>import_directory_rva = R + of_nat (imp_dir (length (zdata b))), import_directory_size = 40,
            iat_rva = R + of_nat (imp_int (length (zdata b)) + 32), iat_size = 32,
            iat_offsets = map (\<lambda>k. of_nat (imp_int (length (zdata b)) + 32 + 8 * k)) [0..<3]\<rparr> \<Longrightarrow> Q (b', l)"
  shows "returns (coff_append_import_table b R) Q"
proof -
  let ?n = "length (zdata b)"
  note im = imp_offsets [OF n]
  have S: "?n + 2000 < SIZE_MAX" using n by (simp add: SIZE_MAX_def)
  have al: "align_up (32 + imp_int ?n) 8 = imp_int ?n + 32" using align_even [OF im(5)] im n by (simp add: add.commute)
  have d: "align_up ?n 4 = imp_dir ?n" and i: "align_up (imp_dir ?n + 40) 8 = imp_int ?n"
    by (simp_all add: imp_dir_def imp_int_def)
  show ?thesis
    unfolding coff_append_import_table_def Let_def zbuf_len_def Z_COFF_IMPORT_COUNT_def
    using ok S al d i im
    apply -
    apply (rule returns_emit [OF coff_pad_align_emits _ refl], assumption, simp)
    apply (rule returns_emit0 [OF coff_zeros], assumption, simp)
    apply (rule returns_emit [OF coff_pad_align_emits _ refl], assumption, simp)
    apply (rule returns_emit0 [OF coff_zeros], assumption, simp)
    apply (rule returns_emit [OF coff_pad_align_emits _ refl], assumption, simp)
    apply (rule returns_emit0 [OF coff_zeros], assumption, simp)
    apply (rule returns_emit0 [OF coff_bytes_emits], assumption, simp)
    apply (rule returns_bind [where P = "\<lambda>(r, hs). zdata r = import_raw (zdata b) \<and> hs = [of_nat (imp_int ?n + 78), of_nat (imp_int ?n + 92), of_nat (imp_int ?n + 108)]"])
     apply (rule hints_returns [where m = "imp_int ?n"], assumption, simp, assumption, use n in simp)
    subgoal by (simp add: import_raw_def cstr_bytes_def replicate_add [of 32 32, simplified])
    subgoal premises prems for b1 b2 b3 b4 b5 b6 b7 r
    proof -
      obtain rd hs where r: "r = (rd, hs)" by (cases r)
      have L: "length (zdata b1) = imp_dir ?n" "length (zdata b3) = imp_int ?n"
        "length (zdata b5) = imp_int ?n + 32" "length (zdata b6) = imp_int ?n + 64" using prems by simp_all
      have rd: "zdata rd = import_raw (zdata b)"
        and hs: "hs = [of_nat (imp_int ?n + 78), of_nat (imp_int ?n + 92), of_nat (imp_int ?n + 108)]"
        using prems r by simp_all
      have len: "length (zdata rd) = imp_int ?n + 120" using rd length_import_raw [OF n] by simp
      from import_patch_eq [OF n len hs, of R] obtain b' where
        b': "do { rdata \<leftarrow> z_coff_patch_u32 rd (unat (of_nat (imp_dir ?n) :: u32)) (R + of_nat (imp_int ?n));
          rdata \<leftarrow> z_coff_patch_u32 rdata (unat (of_nat (imp_dir ?n) + 12 :: u32)) (R + of_nat (imp_int ?n + 64));
          rdata \<leftarrow> z_coff_patch_u32 rdata (unat (of_nat (imp_dir ?n) + 16 :: u32)) (R + of_nat (imp_int ?n + 32));
          coff_patch_thunks rdata R (of_nat (imp_int ?n)) (of_nat (imp_int ?n + 32)) 0 hs }
          = Some (b', [of_nat (imp_int ?n + 32), of_nat (imp_int ?n + 40), of_nat (imp_int ?n + 48)])"
        "zdata b' = patch_all (zdata rd) (import_patches R ?n)" by blast
      then obtain r1 r2 r3 where
        p: "z_coff_patch_u32 rd (unat (of_nat (imp_dir ?n) :: u32)) (R + of_nat (imp_int ?n)) = Some r1"
          "z_coff_patch_u32 r1 (unat (of_nat (imp_dir ?n) + 12 :: u32)) (R + of_nat (imp_int ?n + 64)) = Some r2"
          "z_coff_patch_u32 r2 (unat (of_nat (imp_dir ?n) + 16 :: u32)) (R + of_nat (imp_int ?n + 32)) = Some r3"
          "coff_patch_thunks r3 R (of_nat (imp_int ?n)) (of_nat (imp_int ?n + 32)) 0 hs
             = Some (b', [of_nat (imp_int ?n + 32), of_nat (imp_int ?n + 40), of_nat (imp_int ?n + 48)])"
        unfolding bind_eq_Some_conv by blast
      show ?thesis
        unfolding r L prod.case p bind.bind_lunit returns_Some
        by (rule Q) (simp_all add: b'(2) rd upt_rec)
    qed
    done
qed

section \<open>Reading the imports of a PE file\<close>

definition apart :: "nat \<Rightarrow> 'a list \<Rightarrow> nat \<Rightarrow> 'b list \<Rightarrow> bool" where
  "apart o1 xs o2 ys \<longleftrightarrow> o1 + length xs \<le> o2 \<or> o2 + length ys \<le> o1"

fun patches_ok :: "nat \<Rightarrow> (nat \<times> u8 list) list \<Rightarrow> bool" where
  "patches_ok n [] = True"
| "patches_ok n ((off, xs) # ps) \<longleftrightarrow> off + length xs \<le> n \<and> (\<forall>(o2, ys) \<in> set ps. apart off xs o2 ys) \<and> patches_ok n ps"

lemma patch_all_other:
  assumes "patches_ok (length bs) ps" "placed bs o2 ys" "\<forall>(off, xs) \<in> set ps. apart off xs o2 ys"
  shows "placed (patch_all bs ps) o2 ys"
  using assms
proof (induction bs ps rule: patch_all.induct)
  case (2 bs off xs ps)
  have "placed (patched bs off xs) o2 ys"
    using 2 by (intro placed_patched_other) (auto simp: apart_def)
  then show ?case using 2 by simp
qed simp

lemma patch_all_placed:
  assumes "patches_ok (length bs) ps" "(off, xs) \<in> set ps"
  shows "placed (patch_all bs ps) off xs"
  using assms
proof (induction bs ps rule: patch_all.induct)
  case (2 bs o1 ys ps)
  show ?case
  proof (cases "(off, xs) = (o1, ys)")
    case True
    have "patches_ok (length (patched bs o1 ys)) ps" using 2 by simp
    moreover have "placed (patched bs o1 ys) o1 ys" using 2 by (intro placed_patched) simp
    moreover have "\<forall>(off, xs) \<in> set ps. apart off xs o1 ys" using 2 by (auto simp: apart_def)
    ultimately have "placed (patch_all (patched bs o1 ys) ps) o1 ys" by (rule patch_all_other)
    with True show ?thesis by simp
  qed (use 2 in auto)
qed simp

lemma length_patch_all: "patches_ok (length bs) ps \<Longrightarrow> length (patch_all bs ps) = length bs"
  by (induction bs ps rule: patch_all.induct) auto

text \<open>
  The import directory as the Windows loader walks it, in the bytes \<open>bs\<close> of a section mapped at
  RVA \<open>R\<close>: the name of the library, and the hint/name entries its two thunk tables point to, up
  to the zero that ends each table.
\<close>

fun pe_thunk_names :: "u8 list \<Rightarrow> nat \<Rightarrow> nat \<Rightarrow> nat \<Rightarrow> u8 list list option" where
  "pe_thunk_names bs R off 0 = None"
| "pe_thunk_names bs R off (Suc fuel) =
     (let t = unat (read64 bs off)
      in if t = 0 then Some [] else do { ns \<leftarrow> pe_thunk_names bs R (off + 8) fuel; Some (cstr_at bs (t - R + 2) # ns) })"

definition pe_import :: "u8 list \<Rightarrow> nat \<Rightarrow> nat \<Rightarrow> u8 list \<times> u8 list list option \<times> u8 list list option" where
  "pe_import bs R dir =
     (cstr_at bs (unat (read32 bs (dir + 12)) - R),
      pe_thunk_names bs R (unat (read32 bs dir) - R) (length bs),
      pe_thunk_names bs R (unat (read32 bs (dir + 16)) - R) (length bs))"

lemma import_patches_ok:
  assumes "n < 4294966000" "m = imp_int n + 120"
  shows "patches_ok m (import_patches R n)"
  using imp_offsets [OF assms(1)] assms(2) by (simp add: import_patches_def Let_def apart_def)

lemma import_raw_placed:
  assumes "length ds < 4294966000"
  shows "placed (import_raw ds) 0 ds" "placed (import_raw ds) (imp_dir (length ds) + 20) (replicate 20 0)"
    "placed (import_raw ds) (imp_int (length ds) + 24) (le64 0)" "placed (import_raw ds) (imp_int (length ds) + 56) (le64 0)"
    "placed (import_raw ds) (imp_int (length ds) + 64) (cstr_bytes ''KERNEL32.dll'')"
    "placed (import_raw ds) (imp_int (length ds) + 80) (cstr_bytes ''ExitProcess'')"
    "placed (import_raw ds) (imp_int (length ds) + 94) (cstr_bytes ''GetStdHandle'')"
    "placed (import_raw ds) (imp_int (length ds) + 110) (cstr_bytes ''WriteFile'')"
proof -
  let ?n = "length ds"
  note im = imp_offsets [OF assms]
  let ?z = "replicate (imp_dir ?n - ?n) (0 :: u8)" and ?y = "replicate (imp_int ?n - (imp_dir ?n + 40)) (0 :: u8)"
  show "placed (import_raw ds) 0 ds" by (simp add: import_raw_def placed_def)
  have "import_raw ds = (ds @ ?z @ replicate 20 0) @ replicate 20 0 @ (?y @ replicate 64 0 @ cstr_bytes ''KERNEL32.dll'' @ import_hints)"
    using replicate_add [of 20 20 "0 :: u8"] by (simp add: import_raw_def)
  then show "placed (import_raw ds) (imp_dir ?n + 20) (replicate 20 0)"
    using placed_here [of "ds @ ?z @ replicate 20 0" "imp_dir ?n + 20"] im by simp
  let ?p = "ds @ ?z @ replicate 40 0 @ ?y"
  have lp: "length ?p = imp_int ?n" using im by simp
  have T: "placed (import_raw ds) (imp_int ?n) (replicate 64 0 @ cstr_bytes ''KERNEL32.dll'' @ import_hints)"
    using placed_here [OF lp, of "replicate 64 0 @ cstr_bytes ''KERNEL32.dll'' @ import_hints" "[]"] by (simp add: import_raw_def)
  show "placed (import_raw ds) (imp_int ?n + 24) (le64 0)" "placed (import_raw ds) (imp_int ?n + 56) (le64 0)"
    "placed (import_raw ds) (imp_int ?n + 64) (cstr_bytes ''KERNEL32.dll'')"
    "placed (import_raw ds) (imp_int ?n + 80) (cstr_bytes ''ExitProcess'')"
    "placed (import_raw ds) (imp_int ?n + 94) (cstr_bytes ''GetStdHandle'')"
    "placed (import_raw ds) (imp_int ?n + 110) (cstr_bytes ''WriteFile'')"
    by (rule placed_sub [OF T], (simp add: cstr_bytes_def import_hints_def le64_def le32_def le16_def), (simp add: cstr_bytes_def import_hints_def le64_def le32_def le16_def numeral_nat))+
qed

lemma thunk_walk:
  assumes "placed bs i (le64 (ucast (R + of_nat (j + 78) :: u32)))" "placed bs (i + 8) (le64 (ucast (R + of_nat (j + 92) :: u32)))"
    "placed bs (i + 16) (le64 (ucast (R + of_nat (j + 108) :: u32)))" "placed bs (i + 24) (le64 0)"
    "placed bs (j + 80) (cstr_bytes ''ExitProcess'')" "placed bs (j + 94) (cstr_bytes ''GetStdHandle'')"
    "placed bs (j + 110) (cstr_bytes ''WriteFile'')" "unat R + j + 120 < 4294967296" "4 \<le> k"
  shows "pe_thunk_names bs (unat R) i k = Some (map (map of_char) coff_import_names)"
proof -
  have k: "k = Suc (Suc (Suc (Suc (k - 4))))" using assms(9) by arith
  have t: "unat (ucast (R + of_nat m :: u32) :: u64) = unat R + m" if "m \<le> j + 120" for m
  proof -
    have "unat (R + of_nat m) = unat R + m"
      using that assms(8) by (simp add: unat_word_ariths unat_of_nat)
    moreover have "unat R + m < 18446744073709551616" using that assms(8) by linarith
    ultimately show ?thesis by (simp add: unsigned_ucast_eq take_bit_nat_eq_self)
  qed
  have n: "cstr_at bs (j + 80) = map of_char ''ExitProcess''" "cstr_at bs (j + 94) = map of_char ''GetStdHandle''"
    "cstr_at bs (j + 110) = map of_char ''WriteFile''"
    using assms(5-7) by (simp_all add: placed_name NUL_def)
  have r: "unat (read64 bs i) = unat R + (j + 78)" "unat (read64 bs (i + 8)) = unat R + (j + 92)"
     "unat (read64 bs (i + 16)) = unat R + (j + 108)" "unat (read64 bs (i + 24)) = 0"
    using assms(1-4) by (simp_all only: placed_read64) (simp_all only: t, simp_all)
  show ?thesis
    using r n n [unfolded add.commute [of j]] by (subst k) (simp add: coff_import_names_def add.assoc)
qed

text \<open>
  C17. The import directory that \<open>coff_append_import_table\<close> appends is the one the Windows loader
  expects: walking it finds KERNEL32.dll and the three imported functions in both thunk tables,
  the slots of the address table are where \<open>iat_offsets\<close> says, the table ends with an empty
  descriptor, and the constants that were there before are untouched.
\<close>

theorem coff_imports_load:
  assumes "zbuf_ok rdata" "unat R + length (zdata rdata) < 4294960000"
  shows "\<exists>rdata' l. coff_append_import_table rdata R = Some (rdata', l)
    \<and> placed (zdata rdata') 0 (zdata rdata)
    \<and> pe_import (zdata rdata') (unat R) (unat (import_directory_rva l) - unat R)
        = (map of_char ''KERNEL32.dll'', Some (map (map of_char) coff_import_names), Some (map (map of_char) coff_import_names))
    \<and> placed (zdata rdata') (unat (import_directory_rva l) - unat R + 20) (replicate 20 0)
    \<and> unat (iat_rva l) = unat (read32 (zdata rdata') (unat (import_directory_rva l) - unat R + 16))
    \<and> map unat (iat_offsets l) = map (\<lambda>k. unat (iat_rva l) - unat R + 8 * k) [0..<3]"
proof -
  let ?ds = "zdata rdata" let ?n = "length (zdata rdata)"
  let ?d = "imp_dir ?n" let ?i = "imp_int ?n"
  let ?F = "patch_all (import_raw ?ds) (import_patches R ?n)"
  have n: "?n < 4294966000" using assms(2) by simp
  note im = imp_offsets [OF n]
  have pok: "patches_ok (length (import_raw ?ds)) (import_patches R ?n)"
    by (rule import_patches_ok [OF n length_import_raw [OF n]])
  note P = patch_all_placed [OF pok]
  note raw = import_raw_placed [OF n]
  have keep: "placed ?F 0 ?ds" "placed ?F (?d + 20) (replicate 20 0)" "placed ?F (?i + 24) (le64 0)" "placed ?F (?i + 56) (le64 0)"
    "placed ?F (?i + 64) (cstr_bytes ''KERNEL32.dll'')" "placed ?F (?i + 80) (cstr_bytes ''ExitProcess'')"
    "placed ?F (?i + 94) (cstr_bytes ''GetStdHandle'')" "placed ?F (?i + 110) (cstr_bytes ''WriteFile'')"
    by (rule patch_all_other [OF pok raw(1)] patch_all_other [OF pok raw(2)] patch_all_other [OF pok raw(3)]
      patch_all_other [OF pok raw(4)] patch_all_other [OF pok raw(5)] patch_all_other [OF pok raw(6)]
      patch_all_other [OF pok raw(7)] patch_all_other [OF pok raw(8)];
      use im in \<open>simp add: import_patches_def Let_def apart_def\<close>)+
  have u: "unat (R + of_nat m) = unat R + m" if "m \<le> ?i + 120" for m
    using that im assms(2) by (simp add: unat_word_ariths unat_of_nat)
  have len: "4 \<le> length ?F" "length ?F = ?i + 120"
    using length_patch_all [OF pok] length_import_raw [OF n] by simp_all
  have w: "unat R + ?i + 120 < 4294967296" using im assms(2) by linarith
  have walk: "pe_thunk_names ?F (unat R) ?i (length ?F) = Some (map (map of_char) coff_import_names)"
    by (rule thunk_walk [where j = ?i, OF P P P keep(3) keep(6) keep(7) keep(8) w len(1)])
      (simp_all add: import_patches_def Let_def)
  have walk2: "pe_thunk_names ?F (unat R) (?i + 32) (length ?F) = Some (map (map of_char) coff_import_names)"
    by (rule thunk_walk [where j = ?i, OF P P P _ keep(6) keep(7) keep(8) w len(1)])
      (use keep(4) in \<open>simp_all add: import_patches_def Let_def add.assoc\<close>)
  have rd: "read32 ?F ?d = R + of_nat ?i" "read32 ?F (?d + 12) = R + of_nat (?i + 64)" "read32 ?F (?d + 16) = R + of_nat (?i + 32)"
    by (rule placed_read32, rule P, simp add: import_patches_def Let_def)+
  have dll: "cstr_at ?F (?i + 64) = map of_char ''KERNEL32.dll''"
    using placed_name [OF keep(5)] by (simp add: NUL_def)
  have imp: "pe_import ?F (unat R) ?d = (map of_char ''KERNEL32.dll'', Some (map (map of_char) coff_import_names), Some (map (map of_char) coff_import_names))"
    unfolding pe_import_def rd using u [of ?i] u [of "?i + 64"] u [of "?i + 32"] walk walk2 dll by simp
  have ud: "unat (R + of_nat ?d) - unat R = ?d" "unat (R + of_nat (?i + 32)) = unat R + ?i + 32"
    using u [of ?d] u [of "?i + 32"] im by simp_all
  have off: "unat (of_nat (?i + 32 + 8 * k) :: u32) = ?i + 32 + 8 * k" if "k < 3" for k
    using that w by (subst unat_of_nat) simp
  have iat: "map unat (map (\<lambda>k. of_nat (?i + 32 + 8 * k) :: u32) [0..<3]) = map (\<lambda>k. ?i + 32 + 8 * k) [0..<3]"
    using off by (auto simp only: map_map o_def map_eq_conv set_upt atLeastLessThan_iff)
  have sub: "unat R + ?i + 32 - unat R = ?i + 32" by simp
  have "returns (coff_append_import_table rdata R) (\<lambda>(rdata', l). placed (zdata rdata') 0 ?ds
    \<and> pe_import (zdata rdata') (unat R) (unat (import_directory_rva l) - unat R)
        = (map of_char ''KERNEL32.dll'', Some (map (map of_char) coff_import_names), Some (map (map of_char) coff_import_names))
    \<and> placed (zdata rdata') (unat (import_directory_rva l) - unat R + 20) (replicate 20 0)
    \<and> unat (iat_rva l) = unat (read32 (zdata rdata') (unat (import_directory_rva l) - unat R + 16))
    \<and> map unat (iat_offsets l) = map (\<lambda>k. unat (iat_rva l) - unat R + 8 * k) [0..<3])"
    by (rule import_table_returns [OF assms(1) n])
      (simp only: prod.case CoffImportLayout.simps ud rd imp keep(1,2) iat sub simp_thms)
  then show ?thesis unfolding returns_def by auto
qed

lemma coff_imports_load_witness:
  "\<exists>rdata' l. coff_append_import_table \<lparr>zdata = [1, 2, 3], zcap = 64\<rparr> 0x2000 = Some (rdata', l)
    \<and> fst (pe_import (zdata rdata') 8192 (unat (import_directory_rva l) - 8192)) = map of_char ''KERNEL32.dll''"
  using coff_imports_load [where rdata = "\<lparr>zdata = [1, 2, 3], zcap = 64\<rparr>" and R = "0x2000"]
  by (fastforce simp: zbuf_ok_def SIZE_MAX_def)


section \<open>The PE headers\<close>

definition pe_opt_bytes :: "u32 \<Rightarrow> u32 \<Rightarrow> u32 \<Rightarrow> u64 \<Rightarrow> u32 \<Rightarrow> u32 \<Rightarrow> u32 \<Rightarrow> u32 \<Rightarrow> CoffImportLayout \<Rightarrow> u8 list" where
  "pe_opt_bytes text_raw_size rdata_raw_size text_rva image_base sa fa size_of_image headers_size l =
     le16 0x20b @ [0] @ [1] @ le32 text_raw_size @ le32 rdata_raw_size @ le32 0 @ le32 text_rva @ le32 text_rva
     @ le64 image_base @ le32 sa @ le32 fa @ le16 6 @ le16 0 @ le16 0 @ le16 0 @ le16 6 @ le16 0 @ le32 0
     @ le32 size_of_image @ le32 headers_size @ le32 0 @ le16 3 @ le16 0x100 @ le64 0x100000 @ le64 0x1000 @ le64 0x100000
     @ le64 0x1000 @ le32 0 @ le32 16
     @ replicate 8 0 @ le32 (import_directory_rva l) @ le32 (import_directory_size l) @ replicate 80 0
     @ le32 (iat_rva l) @ le32 (iat_size l) @ replicate 24 0"

lemma length_pe_opt [simp]: "length (pe_opt_bytes a b c d e f g h l) = 240"
  by (simp add: pe_opt_bytes_def)

lemma le32_0: "le32 0 = replicate 4 0"
  by (simp add: le32_def numeral_eq_Suc)

lemma pe_directories:
  "emits (\<lambda>b. coff_append_pe_data_directories b (Some l))
     (replicate 8 0 @ le32 (import_directory_rva l) @ le32 (import_directory_size l) @ replicate 80 0
      @ le32 (iat_rva l) @ le32 (iat_size l) @ replicate 24 0)"
proof -
  have "emits (\<lambda>b. coff_append_pe_data_directory b (fst d) (snd d)) (le32 (fst d) @ le32 (snd d))" for d
    unfolding coff_append_pe_data_directory_def by (rule emits_intros)+
  then show ?thesis
    unfolding coff_append_pe_data_directories_def
    by (rule emits_eq [OF emits_fold]) (simp add: le32_0 numeral_eq_Suc)
qed

lemma pe_opt [emits_intros]:
  "emits (\<lambda>b. coff_append_pe64_optional_header b trs rrs trva base sa fa soi hs (Some l))
     (pe_opt_bytes trs rrs trva base sa fa soi hs l)"
  unfolding coff_append_pe64_optional_header_def pe_opt_bytes_def
  by (rule emits_eq, (rule pe_directories emits_bind coff_u8 coff_u16 coff_u32 coff_u64)+) simp

definition pe_shdr_bytes :: "string \<Rightarrow> u32 \<Rightarrow> u32 \<Rightarrow> u32 \<Rightarrow> u32 \<Rightarrow> u32 \<Rightarrow> u8 list" where
  "pe_shdr_bytes name vsize vaddr rsize roff ch =
     coff_name_bytes name @ le32 vsize @ le32 vaddr @ le32 rsize @ le32 roff @ le32 0 @ le32 0 @ le16 0 @ le16 0 @ le32 ch"

lemma length_pe_shdr [simp]: "length (pe_shdr_bytes a b c d e f) = 40"
  by (simp add: pe_shdr_bytes_def)

lemma pe_shdr [emits_intros]:
  "emits (\<lambda>b. coff_append_pe_section_header b name vs va rs ro ch) (pe_shdr_bytes name vs va rs ro ch)"
  unfolding coff_append_pe_section_header_def pe_shdr_bytes_def by (rule emits_intros)+

text \<open>The headers, up to the first section.\<close>

definition pe_head :: "u16 \<Rightarrow> u8 list \<Rightarrow> u8 list \<Rightarrow> u8 list \<Rightarrow> u8 list" where
  "pe_head machine opt s1 s2 = [0x4d, 0x5a] @ replicate 58 0 @ le32 0x80 @ replicate 64 0 @ [0x50, 0x45, 0, 0]
     @ le16 machine @ le16 2 @ le32 0 @ le32 0 @ le32 0 @ le16 240 @ le16 0x22 @ opt @ s1 @ s2"

section \<open>Calls through the import table\<close>

text \<open>
  The target of a \<open>call [rip + disp32]\<close> whose displacement stands at \<open>off\<close> of code mapped at \<open>va\<close>.
\<close>

definition rip_target :: "u8 list \<Rightarrow> u64 \<Rightarrow> nat \<Rightarrow> u64" where
  "rip_target code va off = va + of_nat off + 4 + scast (read32 code off)"


lemma scast_low_word:
  fixes d :: u64
  assumes "- 2147483648 \<le> sint d" "sint d < 2147483648"
  shows "scast (ucast d :: u32) = d"
proof (rule bit_word_eqI)
  fix n assume n: "n < LENGTH(64)"
  have s: "signed_take_bit 31 (sint d) = sint d"
    using assms by (intro signed_take_bit_int_eq_self) simp_all
  have b: "bit (sint d) n = bit (sint d) (min n 31)"
    by (subst (1) s [symmetric]) (simp add: bit_signed_take_bit_iff min.commute)
  have c: "bit (sint d) k = bit d k" if "k < 64" for k
    using that by (cases "k = 63") (simp_all add: bit_sint_iff)
  have "bit d n = bit d (min n 31)" using b c n by simp
  then show "bit (scast (ucast d :: u32) :: u64) n = bit d n"
    using n by (cases "n < 31") (simp_all add: bit_simps min_def)
qed

fun places_ok :: "nat \<Rightarrow> (nat \<times> nat) list \<Rightarrow> bool" where
  "places_ok n [] = True"
| "places_ok n ((off, k) # ps) \<longleftrightarrow> off + k \<le> n \<and> (\<forall>(o2, k2) \<in> set ps. off + k \<le> o2 \<or> o2 + k2 \<le> off) \<and> places_ok n ps"

lemma patches_ok_places: "patches_ok n ps = places_ok n (map (\<lambda>(off, xs). (off, length xs)) ps)"
  by (induction n ps rule: patches_ok.induct) (auto simp: apart_def)

lemma patches_ok_append: "patches_ok n (ps @ qs) \<longleftrightarrow>
   patches_ok n ps \<and> patches_ok n qs \<and> (\<forall>(o1, xs) \<in> set ps. \<forall>(o2, ys) \<in> set qs. apart o1 xs o2 ys)"
  by (induction n ps rule: patches_ok.induct) auto

lemma patch_all_append: "patch_all bs (ps @ qs) = patch_all (patch_all bs ps) qs"
  by (induction bs ps rule: patch_all.induct) auto

lemma rodata_patches_eq:
  "patches_ok (length (zdata code)) (map (\<lambda>p. (cdp_patch_offset p, le64 (f p))) ps) \<Longrightarrow>
   (\<And>p. f p = va + ucast (cdp_data_offset p - base)) \<Longrightarrow>
   \<exists>code'. coff_apply_rodata_patches code va base ps = Some code'
     \<and> zdata code' = patch_all (zdata code) (map (\<lambda>p. (cdp_patch_offset p, le64 (f p))) ps)"
proof (induction ps arbitrary: code)
  case (Cons p ps)
  let ?c = "code\<lparr>zdata := patched (zdata code) (cdp_patch_offset p) (le64 (f p))\<rparr>"
  have le: "cdp_patch_offset p + 8 \<le> length (zdata code)" using Cons.prems by simp
  then have "length (zdata ?c) = length (zdata code)" by simp
  with Cons.IH [of ?c] Cons.prems have "\<exists>code'. coff_apply_rodata_patches ?c va base ps = Some code'
     \<and> zdata code' = patch_all (zdata ?c) (map (\<lambda>p. (cdp_patch_offset p, le64 (f p))) ps)" by simp
  then show ?case using le Cons.prems(2) [of p] by (simp add: coff_patch_u64_eq)
qed simp

definition import_rel :: "u64 \<Rightarrow> u64 \<Rightarrow> u32 list \<Rightarrow> ZCoffImportPatch \<Rightarrow> u64" where
  "import_rel rdata_va text_va offs p =
     rdata_va + ucast (offs ! unat (cip_import_index p)) - (text_va + of_nat (cip_patch_offset p) + 4)"

definition live_imports :: "ZCoffImportPatch list \<Rightarrow> ZCoffImportPatch list" where
  "live_imports ps = filter (\<lambda>p. unat (cip_import_index p) < 3) ps"

lemma import_calls_eq:
  "patches_ok (length (zdata code)) (map (\<lambda>p. (cip_patch_offset p, le32 (ucast (import_rel rva tva offs p)))) (live_imports ps)) \<Longrightarrow>
   \<exists>code'. coff_apply_import_patches code rva tva offs ps = Some code'
     \<and> zdata code' = patch_all (zdata code) (map (\<lambda>p. (cip_patch_offset p, le32 (ucast (import_rel rva tva offs p)))) (live_imports ps))"
proof (induction ps arbitrary: code)
  case (Cons p ps)
  show ?case
  proof (cases "unat (cip_import_index p) < 3")
    case False
    then show ?thesis using Cons by (simp add: live_imports_def Z_COFF_IMPORT_COUNT_def)
  next
    case True
    let ?c = "code\<lparr>zdata := patched (zdata code) (cip_patch_offset p) (le32 (ucast (import_rel rva tva offs p)))\<rparr>"
    have le: "cip_patch_offset p + 4 \<le> length (zdata code)" using Cons.prems True by (simp add: live_imports_def)
    then have "length (zdata ?c) = length (zdata code)" by simp
    with Cons.IH [of ?c] Cons.prems True have "\<exists>code'. coff_apply_import_patches ?c rva tva offs ps = Some code'
     \<and> zdata code' = patch_all (zdata ?c) (map (\<lambda>p. (cip_patch_offset p, le32 (ucast (import_rel rva tva offs p)))) (live_imports ps))"
      by (simp add: live_imports_def)
    then show ?thesis using le True
      by (simp add: coff_patch_u32_eq coff_patch_rel32_to_va_def import_rel_def live_imports_def Z_COFF_IMPORT_COUNT_def)
  qed
qed (simp add: live_imports_def)

section \<open>The PE executable\<close>

definition or_default :: "'a :: zero \<Rightarrow> 'a \<Rightarrow> 'a" where
  "or_default v d = (if v \<noteq> 0 then v else d)"

definition pe_code :: "ZCoffExecutableImage \<Rightarrow> ZBuf" where
  "pe_code img = (case ce_text img of None \<Rightarrow> zbuf_init | Some b \<Rightarrow> b)"
definition pe_consts :: "ZCoffExecutableImage \<Rightarrow> ZBuf" where
  "pe_consts img = (case ce_rdata img of None \<Rightarrow> zbuf_init | Some b \<Rightarrow> b)"
definition pe_base :: "ZCoffExecutableImage \<Rightarrow> u64" where
  "pe_base img = or_default (ce_image_base img) 0x140000000"
definition pe_sa :: "ZCoffExecutableImage \<Rightarrow> u32" where
  "pe_sa img = or_default (ce_section_alignment img) 0x1000"
definition pe_fa :: "ZCoffExecutableImage \<Rightarrow> u32" where
  "pe_fa img = or_default (ce_file_alignment img) 0x200"

text \<open>Where the second section is mapped.\<close>

definition pe_rva :: "ZCoffExecutableImage \<Rightarrow> nat" where
  "pe_rva img = align_up (unat (pe_sa img) + length (zdata (pe_code img))) (unat (pe_sa img))"

text \<open>The stores into the code: eight bytes for each address, four for each call through the table.\<close>

definition pe_places :: "ZCoffExecutableImage \<Rightarrow> (nat \<times> nat) list" where
  "pe_places img = map (\<lambda>p. (cdp_patch_offset p, 8)) (ce_rodata_patches img)
     @ map (\<lambda>p. (cip_patch_offset p, 4)) (live_imports (ce_import_patches img))"

definition pe_size :: "ZCoffExecutableImage \<Rightarrow> nat" where
  "pe_size img = 2 * unat (pe_sa img) + 3 * unat (pe_fa img) + length (zdata (pe_code img)) + length (zdata (pe_consts img))"

record pe_sect =
  ps_name :: "u8 list"
  ps_rva :: nat
  ps_content :: "u8 list"

text \<open>What the loader reads: the sections, the entry point, the import directory, the image base.\<close>

definition pe_header_at :: "u8 list \<Rightarrow> nat" where
  "pe_header_at bs = unat (read32 bs 60)"

definition pe_sect_at :: "u8 list \<Rightarrow> nat \<Rightarrow> pe_sect" where
  "pe_sect_at bs i =
     (let pe = pe_header_at bs; h = pe + 24 + unat (read16 bs (pe + 20)) + 40 * i
      in \<lparr>ps_name = takeWhile (\<lambda>b. b \<noteq> 0) (take 8 (drop h bs)), ps_rva = unat (read32 bs (h + 12)),
          ps_content = take (unat (read32 bs (h + 8))) (drop (unat (read32 bs (h + 20))) bs)\<rparr>)"

definition pe_sects :: "u8 list \<Rightarrow> pe_sect list" where
  "pe_sects bs = map (pe_sect_at bs) [0..<unat (read16 bs (pe_header_at bs + 6))]"

definition pe_entry :: "u8 list \<Rightarrow> nat" where
  "pe_entry bs = unat (read32 bs (pe_header_at bs + 40))"

definition pe_import_dir :: "u8 list \<Rightarrow> u32" where
  "pe_import_dir bs = read32 bs (pe_header_at bs + 144)"

definition pe_image_base :: "u8 list \<Rightarrow> u64" where
  "pe_image_base bs = read64 bs (pe_header_at bs + 48)"

lemma length_pe_head [simp]: "length opt = 240 \<Longrightarrow> length s1 = 40 \<Longrightarrow> length s2 = 40 \<Longrightarrow> length (pe_head m opt s1 s2) = 472"
  by (simp add: pe_head_def)

text \<open>The file: headers, code, constants, each at its raw offset, and the last section padded.\<close>

lemma pe_header_fields:
  assumes "placed bs 0 (pe_head m opt s1 s2)" "length opt = 240" "length s1 = 40" "length s2 = 40"
  shows "pe_header_at bs = 128" "read16 bs (128 + 6) = 2" "read16 bs (128 + 20) = 240"
    "placed bs 152 opt" "placed bs 392 s1" "placed bs 432 s2"
proof -
  note T = placed_sub [OF assms(1)]
  have h: "placed bs (0 + 60) (le32 0x80)" by (rule T) (simp_all add: pe_head_def assms)
  then show "pe_header_at bs = 128" by (simp add: pe_header_at_def placed_read32)
  have a: "placed bs (0 + 134) (le16 2)" by (rule T) (simp_all add: pe_head_def assms)
  then show "read16 bs (128 + 6) = 2" by (simp add: placed_read16)
  have b: "placed bs (0 + 148) (le16 240)" by (rule T) (simp_all add: pe_head_def assms)
  then show "read16 bs (128 + 20) = 240" by (simp add: placed_read16)
  have "placed bs (0 + 152) opt" by (rule T) (simp_all add: pe_head_def assms)
  then show "placed bs 152 opt" by simp
  have "placed bs (0 + 392) s1" by (rule T) (simp_all add: pe_head_def assms)
  then show "placed bs 392 s1" by simp
  have "placed bs (0 + 432) s2" by (rule T) (simp_all add: pe_head_def assms)
  then show "placed bs 432 s2" by simp
qed

lemma pe_opt_fields:
  assumes "placed bs o1 (pe_opt_bytes trs rrs trva base sa fa soi hs l)"
  shows "read32 bs (o1 + 16) = trva" "read64 bs (o1 + 24) = base" "read32 bs (o1 + 120) = import_directory_rva l"
proof -
  note T = placed_sub [OF assms]
  have "placed bs (o1 + 16) (le32 trva)" by (rule T) (simp_all add: pe_opt_bytes_def)
  then show "read32 bs (o1 + 16) = trva" by (rule placed_read32)
  have "placed bs (o1 + 24) (le64 base)" by (rule T) (simp_all add: pe_opt_bytes_def)
  then show "read64 bs (o1 + 24) = base" by (rule placed_read64)
  have "placed bs (o1 + 120) (le32 (import_directory_rva l))" by (rule T) (simp_all add: pe_opt_bytes_def)
  then show "read32 bs (o1 + 120) = import_directory_rva l" by (rule placed_read32)
qed

lemma pe_sect_fields:
  assumes "placed bs h (pe_shdr_bytes name vs va rs ro ch)" "length name < 8" "NUL \<notin> set name"
  shows "takeWhile (\<lambda>b. b \<noteq> 0) (take 8 (drop h bs)) = map of_char name" "read32 bs (h + 8) = vs"
    "read32 bs (h + 12) = va" "read32 bs (h + 20) = ro"
proof -
  note T = placed_sub [OF assms(1)]
  have n: "placed bs (h + 0) (coff_name_bytes name)" by (rule T) (simp_all add: pe_shdr_bytes_def)
  have "takeWhile (\<lambda>b. b \<noteq> 0) (coff_name_bytes name) = cstr_at (cstr_bytes name) 0"
    using assms(2) by (simp add: coff_name_bytes_def cstr_at_def cstr_bytes_def takeWhile_append Suc_diff_le) 
  also have "\<dots> = map of_char name" by (rule placed_name [OF _ assms(3)]) (simp add: placed_def)
  finally show "takeWhile (\<lambda>b. b \<noteq> 0) (take 8 (drop h bs)) = map of_char name"
    using placed_take [OF n] by simp
  have "placed bs (h + 8) (le32 vs)" by (rule T) (simp_all add: pe_shdr_bytes_def)
  then show "read32 bs (h + 8) = vs" by (rule placed_read32)
  have "placed bs (h + 12) (le32 va)" by (rule T) (simp_all add: pe_shdr_bytes_def)
  then show "read32 bs (h + 12) = va" by (rule placed_read32)
  have "placed bs (h + 20) (le32 ro)" by (rule T) (simp_all add: pe_shdr_bytes_def)
  then show "read32 bs (h + 20) = ro" by (rule placed_read32)
qed


definition pe_hs :: "ZCoffExecutableImage \<Rightarrow> nat" where
  "pe_hs img = align_up 472 (unat (pe_fa img))"
definition pe_crs :: "ZCoffExecutableImage \<Rightarrow> nat" where
  "pe_crs img = align_up (length (zdata (pe_code img))) (unat (pe_fa img))"

definition pe_file :: "ZCoffExecutableImage \<Rightarrow> u8 list \<Rightarrow> u8 list \<Rightarrow> CoffImportLayout \<Rightarrow> u8 list" where
  "pe_file img code rdata l =
     pe_head (coff_machine_value (ce_machine img))
       (pe_opt_bytes (of_nat (pe_crs img)) (of_nat (align_up (length rdata) (unat (pe_fa img)))) (pe_sa img) (pe_base img) (pe_sa img) (pe_fa img)
          (of_nat (align_up (pe_rva img + length rdata) (unat (pe_sa img)))) (of_nat (pe_hs img)) l)
       (pe_shdr_bytes ''.text'' (of_nat (length code)) (pe_sa img) (of_nat (pe_crs img)) (of_nat (pe_hs img)) 0x60000020)
       (pe_shdr_bytes ''.rdata'' (of_nat (length rdata)) (of_nat (pe_rva img)) (of_nat (align_up (length rdata) (unat (pe_fa img))))
          (of_nat (pe_hs img + pe_crs img)) 0x40000040)
     @ lay 472 [(pe_hs img, code), (pe_hs img + pe_crs img, rdata), (pe_hs img + pe_crs img + align_up (length rdata) (unat (pe_fa img)), [])]"

definition pe_code_patches :: "ZCoffExecutableImage \<Rightarrow> CoffImportLayout \<Rightarrow> (nat \<times> u8 list) list" where
  "pe_code_patches img l =
     map (\<lambda>p. (cdp_patch_offset p, le64 (pe_base img + ucast (of_nat (pe_rva img) :: u32) + ucast (cdp_data_offset p - ce_rodata_base_offset img)))) (ce_rodata_patches img)
     @ map (\<lambda>p. (cip_patch_offset p, le32 (ucast (import_rel (pe_base img + ucast (of_nat (pe_rva img) :: u32)) (pe_base img + ucast (pe_sa img)) (iat_offsets l) p))))
        (live_imports (ce_import_patches img))"

lemma pe_bounds:
  assumes "pe_size img < 1073741824"
  shows "472 \<le> pe_hs img" "pe_hs img \<le> 472 + unat (pe_fa img)" "aligned (pe_hs img) (unat (pe_fa img))"
    "length (zdata (pe_code img)) \<le> pe_crs img" "pe_crs img \<le> length (zdata (pe_code img)) + unat (pe_fa img)"
    "unat (pe_sa img) + length (zdata (pe_code img)) \<le> pe_rva img" "pe_rva img \<le> 2 * unat (pe_sa img) + length (zdata (pe_code img))"
    "aligned (pe_rva img) (unat (pe_sa img))"
  using align_up_step [of 472 "unat (pe_fa img)", OF _ refl] align_up_step [of "length (zdata (pe_code img))" "unat (pe_fa img)", OF _ refl]
    align_up_step [of "unat (pe_sa img) + length (zdata (pe_code img))" "unat (pe_sa img)", OF _ refl] assms
  by (simp_all add: pe_hs_def pe_crs_def pe_rva_def pe_size_def)

lemma pe_write:
  assumes sz: "pe_size img < 1073741824"
    and imp: "coff_append_import_table (pe_consts img) (of_nat (pe_rva img)) = Some (rdata, l)"
    and len: "length (zdata rdata) \<le> length (zdata (pe_consts img)) + 200"
    and places: "patches_ok (length (zdata (pe_code img))) (pe_code_patches img l)"
  shows "\<exists>out code. z_coff_write_pe64_executable (Some img) = Some (out, code, rdata)
    \<and> zdata code = patch_all (zdata (pe_code img)) (pe_code_patches img l) \<and> zdata out = pe_file img (zdata code) (zdata rdata) l"
proof -
  note b = pe_bounds [OF sz]
  have ra: "length (zdata rdata) \<le> align_up (length (zdata rdata)) (unat (pe_fa img))"
    "align_up (length (zdata rdata)) (unat (pe_fa img)) \<le> length (zdata rdata) + unat (pe_fa img)"
    using align_up_step [of "length (zdata rdata)" "unat (pe_fa img)", OF _ refl] len sz by (simp_all add: pe_size_def)
  have u: "unat (of_nat k :: u32) = k" if "k < 4294967296" for k using that by (simp add: unat_of_nat)
  from places [unfolded pe_code_patches_def patches_ok_append]
  have p1: "patches_ok (length (zdata (pe_code img))) (map (\<lambda>p. (cdp_patch_offset p, le64 (pe_base img + ucast (of_nat (pe_rva img) :: u32) + ucast (cdp_data_offset p - ce_rodata_base_offset img)))) (ce_rodata_patches img))"
    and p2: "patches_ok (length (zdata (pe_code img))) (map (\<lambda>p. (cip_patch_offset p, le32 (ucast (import_rel (pe_base img + ucast (of_nat (pe_rva img) :: u32)) (pe_base img + ucast (pe_sa img)) (iat_offsets l) p))))
        (live_imports (ce_import_patches img)))" by blast+
  obtain code1 where c1: "coff_apply_rodata_patches (pe_code img) (pe_base img + ucast (of_nat (pe_rva img) :: u32)) (ce_rodata_base_offset img) (ce_rodata_patches img) = Some code1"
    "zdata code1 = patch_all (zdata (pe_code img)) (map (\<lambda>p. (cdp_patch_offset p, le64 (pe_base img + ucast (of_nat (pe_rva img) :: u32) + ucast (cdp_data_offset p - ce_rodata_base_offset img)))) (ce_rodata_patches img))"
    using rodata_patches_eq [OF p1 refl] by blast
  have l1: "length (zdata code1) = length (zdata (pe_code img))" by (simp add: c1(2) length_patch_all [OF p1])
  obtain code where c2: "coff_apply_import_patches code1 (pe_base img + ucast (of_nat (pe_rva img) :: u32)) (pe_base img + ucast (pe_sa img)) (iat_offsets l) (ce_import_patches img) = Some code"
    "zdata code = patch_all (zdata code1) (map (\<lambda>p. (cip_patch_offset p, le32 (ucast (import_rel (pe_base img + ucast (of_nat (pe_rva img) :: u32)) (pe_base img + ucast (pe_sa img)) (iat_offsets l) p))))
        (live_imports (ce_import_patches img)))"
    using import_calls_eq [of code1, unfolded l1, OF p2] by blast
  have cd: "zdata code = patch_all (zdata (pe_code img)) (pe_code_patches img l)"
    by (simp add: c2(2) c1(2) pe_code_patches_def patch_all_append)
  have l2: "length (zdata code) = length (zdata (pe_code img))" by (simp add: cd length_patch_all [OF places])
  have dv: "(case Option.bind (Some img) ce_text of None \<Rightarrow> zbuf_init | Some b \<Rightarrow> b) = pe_code img"
    "(case ce_text img of None \<Rightarrow> zbuf_init | Some b \<Rightarrow> b) = pe_code img"
    "(case ce_rdata img of None \<Rightarrow> zbuf_init | Some b \<Rightarrow> b) = pe_consts img"
    "(case Option.bind (Some img) ce_rdata of None \<Rightarrow> zbuf_init | Some b \<Rightarrow> b) = pe_consts img"
    "(if ce_image_base img \<noteq> 0 then ce_image_base img else 0x140000000) = pe_base img"
    "(if ce_section_alignment img \<noteq> 0 then ce_section_alignment img else 0x1000) = pe_sa img"
    "(if ce_file_alignment img \<noteq> 0 then ce_file_alignment img else 0x200) = pe_fa img"
    by (simp_all add: pe_code_def pe_consts_def pe_base_def pe_sa_def pe_fa_def or_default_def)
  have rva: "z_coff_align (size_add (unat (pe_sa img)) (length (zdata (pe_code img)))) (unat (pe_sa img)) = pe_rva img"
    using sz by (simp add: z_coff_align_eq pe_rva_def pe_size_def)
  have hs: "z_coff_align (0x80 + 4 + 20 + 240 + 2 * 40) (unat (pe_fa img)) = pe_hs img" by (simp add: z_coff_align_eq pe_hs_def)
  have crs: "z_coff_align (length (zdata (pe_code img))) (unat (pe_fa img)) = pe_crs img" by (simp add: z_coff_align_eq pe_crs_def)
  have sm: "size_add (pe_rva img) (length (zdata rdata)) = pe_rva img + length (zdata rdata)" using b len sz by (simp add: pe_size_def)
  have un: "unat (of_nat (pe_rva img) :: u32) = pe_rva img" "unat (of_nat (pe_hs img) :: u32) = pe_hs img"
    "unat (of_nat (pe_hs img) + of_nat (pe_crs img) :: u32) = pe_hs img + pe_crs img"
    "unat (of_nat (pe_hs img) + of_nat (pe_crs img) + of_nat (align_up (length (zdata rdata)) (unat (pe_fa img))) :: u32)
      = pe_hs img + pe_crs img + align_up (length (zdata rdata)) (unat (pe_fa img))"
    using u [of "pe_rva img"] u [of "pe_hs img"] u [of "pe_hs img + pe_crs img"]
      u [of "pe_hs img + pe_crs img + align_up (length (zdata rdata)) (unat (pe_fa img))"] b ra len sz
    by (simp_all add: pe_size_def)
  have S: "pe_hs img + pe_crs img + align_up (length (zdata rdata)) (unat (pe_fa img)) + 10000 < SIZE_MAX"
    using b ra len sz by (simp add: pe_size_def SIZE_MAX_def)
  have "returns (z_coff_write_pe64_executable (Some img)) (\<lambda>(out, code', rdata'). code' = code \<and> rdata' = rdata \<and> zdata out = pe_file img (zdata code) (zdata rdata) l)"
    unfolding z_coff_write_pe64_executable_def Let_def option.case dv rva hs crs un imp bind.bind_lunit prod.case c1(1) c2(1)
    unfolding z_coff_align_eq sm un
    using S b(1,2,4,5) ra l2
    apply -
    apply (rule returns_emit0 [OF coff_u8], simp, simp)
    apply (rule returns_emit0 [OF coff_u8], assumption, simp)
    apply (rule returns_emit0 [OF coff_zeros], assumption, simp)
    apply (rule returns_emit0 [OF coff_u32], assumption, simp)
    apply (rule returns_emit [OF coff_pad _ refl], assumption, simp)
    apply (rule returns_emit0 [OF coff_u8], assumption, simp)+
    apply (rule returns_emit0 [OF coff_u16], assumption, simp)+
    apply (rule returns_emit0 [OF coff_u32], assumption, simp)+
    apply (rule returns_emit0 [OF coff_u16], assumption, simp)+
    apply (rule returns_emit0 [OF pe_opt], assumption, simp)
    apply (rule returns_emit0 [OF pe_shdr], assumption, simp)
    apply (rule returns_emit0 [OF pe_shdr], assumption, simp)
    apply (rule returns_emit [OF coff_pad _ refl], assumption, simp)
    apply (rule returns_emit0 [OF coff_bytes_emits], assumption, simp)
    apply (rule returns_emit [OF coff_pad _ refl], assumption, simp)
    apply (rule returns_emit0 [OF coff_bytes_emits], assumption, simp)
    apply (rule returns_emit [OF coff_pad _ refl], assumption, simp)
    apply (simp only: returns_Some prod.case simp_thms)
    apply (simp add: pe_file_def pe_head_def)
    apply (intro arg_cong2 [where f = append] arg_cong2 [where f = replicate] refl; linarith)
    done
  then show ?thesis using cd by (auto simp: returns_def)
qed

definition pe_image_sects :: "ZCoffExecutableImage \<Rightarrow> u8 list \<Rightarrow> u8 list \<Rightarrow> pe_sect list" where
  "pe_image_sects img code rdata =
     [\<lparr>ps_name = map of_char ''.text'', ps_rva = unat (pe_sa img), ps_content = code\<rparr>,
      \<lparr>ps_name = map of_char ''.rdata'', ps_rva = pe_rva img, ps_content = rdata\<rparr>]"

lemma pe_file_reads:
  assumes sz: "pe_size img < 1073741824" and lc: "length code = length (zdata (pe_code img))"
    and lr: "length rdata \<le> length (zdata (pe_consts img)) + 200"
  shows "pe_sects (pe_file img code rdata l) = pe_image_sects img code rdata"
    "pe_entry (pe_file img code rdata l) = unat (pe_sa img)"
    "pe_import_dir (pe_file img code rdata l) = import_directory_rva l"
    "pe_image_base (pe_file img code rdata l) = pe_base img"
proof -
  let ?bs = "pe_file img code rdata l"
  note b = pe_bounds [OF sz]
  have ra: "length rdata \<le> align_up (length rdata) (unat (pe_fa img))"
    using align_up_step [of "length rdata" "unat (pe_fa img)", OF _ refl] lr sz by (simp add: pe_size_def)
  have ch: "chained 472 [(pe_hs img, code), (pe_hs img + pe_crs img, rdata), (pe_hs img + pe_crs img + align_up (length rdata) (unat (pe_fa img)), [])]"
    using b lc ra by simp
  note seg = lay_placed [OF ch length_pe_head, of _ _ _ _ _ _, folded pe_file_def]
  have c: "placed ?bs (pe_hs img) code" "placed ?bs (pe_hs img + pe_crs img) rdata"
    unfolding pe_file_def by (rule lay_placed [OF ch length_pe_head]; simp)+
  have "placed ?bs 0 (take 472 ?bs)" by (simp add: placed_def pe_file_def)
  then have hd: "placed ?bs 0 (pe_head (coff_machine_value (ce_machine img))
       (pe_opt_bytes (of_nat (pe_crs img)) (of_nat (align_up (length rdata) (unat (pe_fa img)))) (pe_sa img) (pe_base img) (pe_sa img) (pe_fa img)
          (of_nat (align_up (pe_rva img + length rdata) (unat (pe_sa img)))) (of_nat (pe_hs img)) l)
       (pe_shdr_bytes ''.text'' (of_nat (length code)) (pe_sa img) (of_nat (pe_crs img)) (of_nat (pe_hs img)) 0x60000020)
       (pe_shdr_bytes ''.rdata'' (of_nat (length rdata)) (of_nat (pe_rva img)) (of_nat (align_up (length rdata) (unat (pe_fa img))))
          (of_nat (pe_hs img + pe_crs img)) 0x40000040))"
    by (simp add: pe_file_def placed_append [where xs = "pe_head a b c d" for a b c d])
  note f = pe_header_fields [OF hd length_pe_opt length_pe_shdr length_pe_shdr]
  note op = pe_opt_fields [OF f(4)]
  have nm: "NUL \<notin> set ''.text''" "NUL \<notin> set ''.rdata''" by (simp_all add: NUL_def)
  note s1 = pe_sect_fields [OF f(5) _ nm(1)] and s2 = pe_sect_fields [OF f(6) _ nm(2)]
  have u: "unat (of_nat k :: u32) = k" if "k < 4294967296" for k using that by (simp add: unat_of_nat)
  have un: "unat (of_nat (pe_hs img) :: u32) = pe_hs img" "unat (of_nat (pe_rva img) :: u32) = pe_rva img"
    "unat (of_nat (length code) :: u32) = length code" "unat (of_nat (length rdata) :: u32) = length rdata"
    "unat (of_nat (pe_hs img + pe_crs img) :: u32) = pe_hs img + pe_crs img"
    by (rule u, use b lc lr sz in \<open>simp add: pe_size_def\<close>)+
  have "pe_sect_at ?bs 0 = \<lparr>ps_name = map of_char ''.text'', ps_rva = unat (pe_sa img), ps_content = code\<rparr>"
    using s1 f(1,3) un placed_take [OF c(1)] by (simp add: pe_sect_at_def)
  moreover have "pe_sect_at ?bs (Suc 0) = \<lparr>ps_name = map of_char ''.rdata'', ps_rva = pe_rva img, ps_content = rdata\<rparr>"
    using s2 f(1,3) un placed_take [OF c(2)] by (simp add: pe_sect_at_def)
  moreover have "[0..<2] = [0, Suc 0]" by (simp add: upt_rec)
  ultimately show "pe_sects ?bs = pe_image_sects img code rdata"
    using f(1,2) by (simp add: pe_sects_def pe_image_sects_def)
  show "pe_entry ?bs = unat (pe_sa img)" "pe_import_dir ?bs = import_directory_rva l" "pe_image_base ?bs = pe_base img"
    using op f(1) by (simp_all add: pe_entry_def pe_import_dir_def pe_image_base_def)
qed

lemma import_rel_target:
  assumes p: "placed code off (le32 (ucast (import_rel (base + ucast r) (base + ucast t) offs p)))" "off = cip_patch_offset p"
    and i: "unat r < 1073700000" "unat t < 1073700000" "cip_patch_offset p < 1073700000" "unat (offs ! unat (cip_import_index p)) < 1073700000"
  shows "rip_target code (base + ucast t) off = base + ucast r + ucast (offs ! unat (cip_import_index p))"
proof -
  let ?d = "import_rel (base + ucast r) (base + ucast t) offs p"
  let ?o = "offs ! unat (cip_import_index p)"
  obtain v where v: "v = int (unat r) + int (unat ?o) - int (unat t) - int off - 4" by simp
  have "?d = (word_of_int v :: u64)"
    by (simp add: import_rel_def p(2) v)
  moreover have "sint (word_of_int v :: u64) = signed_take_bit 63 v" by (simp add: sint_sbintrunc')
  moreover have vb: "- 2147483648 \<le> v \<and> v < 2147483648" 
  proof -
    have "- 2147483648 \<le> int a + int b - int c - int d - 4 \<and> int a + int b - int c - int d - 4 < 2147483648"
      if "a < 1073700000" "b < 1073700000" "c < 1073700000" "d < 1073700000" for a b c d
      using that by (intro conjI; linarith)
    with i p(2) show ?thesis unfolding v by blast
  qed
  moreover have "signed_take_bit 63 v = v" using vb by (intro signed_take_bit_int_eq_self) simp_all
  ultimately have "sint ?d = v" by simp
  then have "scast (ucast ?d :: u32) = ?d" using vb by (intro scast_low_word) simp_all
  then have "rip_target code (base + ucast t) off = base + ucast t + of_nat off + 4 + ?d"
    by (simp only: rip_target_def placed_read32 [OF p(1)])
  then show ?thesis by (simp add: import_rel_def p(2))
qed


text \<open>
  C16. The PE executable that \<open>z_coff_write_pe64_executable\<close> writes loads as its image: the two
  sections with their code and constants (followed by the import table) at section-aligned
  addresses that do not overlap, the entry point at the code, the import directory at the table.
  In the code, every call site bound to an import calls through the slot of the address table the
  loader fills for it, and every address site holds the mapped address of its constant.
\<close>

theorem coff_executable_loads:
  assumes size: "pe_size img < 1073000000" and ok: "zbuf_ok (pe_consts img)"
    and places: "places_ok (length (zdata (pe_code img))) (pe_places img)"
  shows "\<exists>out code rdata l. z_coff_write_pe64_executable (Some img) = Some (out, code, rdata)
    \<and> coff_append_import_table (pe_consts img) (of_nat (pe_rva img)) = Some (rdata, l)
    \<and> pe_sects (zdata out) = pe_image_sects img (zdata code) (zdata rdata)
    \<and> unat (pe_sa img) + length (zdata code) \<le> pe_rva img \<and> aligned (pe_rva img) (unat (pe_sa img))
    \<and> pe_entry (zdata out) = unat (pe_sa img) \<and> pe_image_base (zdata out) = pe_base img
    \<and> pe_import_dir (zdata out) = import_directory_rva l
    \<and> (\<forall>p \<in> set (live_imports (ce_import_patches img)).
         rip_target (zdata code) (pe_base img + ucast (pe_sa img)) (cip_patch_offset p)
         = pe_base img + of_nat (pe_rva img) + ucast (iat_offsets l ! unat (cip_import_index p)))
    \<and> (\<forall>p \<in> set (ce_rodata_patches img). read64 (zdata code) (cdp_patch_offset p)
         = pe_base img + of_nat (pe_rva img) + ucast (cdp_data_offset p - ce_rodata_base_offset img))"
proof -
  let ?n = "length (zdata (pe_consts img))"
  have sz: "pe_size img < 1073741824" using size by simp
  note b = pe_bounds [OF sz]
  have n: "?n < 4294966000" using sz by (simp add: pe_size_def)
  note im = imp_offsets [OF n]
  obtain rdata l where imp: "coff_append_import_table (pe_consts img) (of_nat (pe_rva img)) = Some (rdata, l)"
    and rd: "zdata rdata = patch_all (import_raw (zdata (pe_consts img))) (import_patches (of_nat (pe_rva img)) ?n)"
    and off: "iat_offsets l = map (\<lambda>k. of_nat (imp_int ?n + 32 + 8 * k)) [0..<3]"
    using import_table_returns [OF ok n, where R = "of_nat (pe_rva img)" and Q = "\<lambda>(rdata, l).
      zdata rdata = patch_all (import_raw (zdata (pe_consts img))) (import_patches (of_nat (pe_rva img)) ?n)
      \<and> iat_offsets l = map (\<lambda>k. of_nat (imp_int ?n + 32 + 8 * k)) [0..<3]"]
    unfolding returns_def by auto
  have lr: "length (zdata rdata) \<le> ?n + 200"
    using rd length_patch_all [OF import_patches_ok [OF n length_import_raw [OF n]]] length_import_raw [OF n] im by simp
  have pk: "patches_ok (length (zdata (pe_code img))) (pe_code_patches img l)"
    unfolding patches_ok_places using places by (simp add: pe_code_patches_def pe_places_def o_def case_prod_unfold)
  obtain out code where w: "z_coff_write_pe64_executable (Some img) = Some (out, code, rdata)"
    "zdata code = patch_all (zdata (pe_code img)) (pe_code_patches img l)" "zdata out = pe_file img (zdata code) (zdata rdata) l"
    using pe_write [OF sz imp lr pk] by blast
  have lc: "length (zdata code) = length (zdata (pe_code img))" by (simp add: w(2) length_patch_all [OF pk])
  note rds = pe_file_reads [OF sz lc lr, where l = l, folded w(3)]
  have cp: "placed (zdata code) o1 xs" if "(o1, xs) \<in> set (pe_code_patches img l)" for o1 xs
    unfolding w(2) by (rule patch_all_placed [OF pk that])
  have small: "unat (of_nat (pe_rva img) :: u32) < 1073700000" "unat (pe_sa img) < 1073700000"
    using b size by (simp_all add: unat_of_nat pe_size_def)
  have uc: "(ucast (of_nat (pe_rva img) :: u32) :: u64) = of_nat (pe_rva img)"
  proof -
    have "unat (of_nat (pe_rva img) :: u32) = pe_rva img" using b sz by (simp add: unat_of_nat pe_size_def)
    then show ?thesis by (metis of_nat_unat)
  qed
  have "rip_target (zdata code) (pe_base img + ucast (pe_sa img)) (cip_patch_offset p)
         = pe_base img + of_nat (pe_rva img) + ucast (iat_offsets l ! unat (cip_import_index p))"
    if p: "p \<in> set (live_imports (ce_import_patches img))" for p
  proof -
    have pl: "placed (zdata code) (cip_patch_offset p) (le32 (ucast (import_rel (pe_base img + ucast (of_nat (pe_rva img) :: u32)) (pe_base img + ucast (pe_sa img)) (iat_offsets l) p)))"
      using p by (intro cp) (simp add: pe_code_patches_def)
    have i3: "unat (cip_import_index p) < 3" using p by (simp add: live_imports_def)
    then have "unat (iat_offsets l ! unat (cip_import_index p)) < 1073700000"
      using im size by (simp add: off pe_size_def unat_of_nat del: of_nat_add)
    moreover have "cip_patch_offset p < 1073700000" using pl lc size by (simp add: placed_def pe_size_def)
    ultimately show ?thesis using import_rel_target [OF pl refl small] by (simp add: uc)
  qed
  moreover have "read64 (zdata code) (cdp_patch_offset p)
         = pe_base img + of_nat (pe_rva img) + ucast (cdp_data_offset p - ce_rodata_base_offset img)"
    if p: "p \<in> set (ce_rodata_patches img)" for p
    using p uc by (intro placed_read64 cp) (simp add: pe_code_patches_def)
  ultimately show ?thesis using w(1) imp rds b(6,8) lc by auto
qed

definition demo_pe :: ZCoffExecutableImage where
  "demo_pe = \<lparr>ce_machine = Z_COFF_MACHINE_AMD64, ce_image_base = 0, ce_section_alignment = 0, ce_file_alignment = 0,
     ce_text = Some \<lparr>zdata = replicate 20 0, zcap = 64\<rparr>, ce_rdata = Some \<lparr>zdata = [1, 2, 3], zcap = 64\<rparr>,
     ce_rodata_base_offset = 0, ce_rodata_patches = [\<lparr>cdp_patch_offset = 8, cdp_data_offset = 1\<rparr>],
     ce_import_patches = [\<lparr>cip_patch_offset = 2, cip_import_index = 2\<rparr>]\<rparr>"

lemma coff_executable_loads_witness:
  "\<exists>out code rdata. z_coff_write_pe64_executable (Some demo_pe) = Some (out, code, rdata)
    \<and> read64 (zdata code) 8 = 0x140002001 \<and> pe_entry (zdata out) = 4096"
proof -
  have v: "pe_sa demo_pe = 0x1000" "pe_fa demo_pe = 0x200" "pe_base demo_pe = 0x140000000"
    "pe_code demo_pe = \<lparr>zdata = replicate 20 0, zcap = 64\<rparr>" "pe_consts demo_pe = \<lparr>zdata = [1, 2, 3], zcap = 64\<rparr>"
    by (simp_all add: demo_pe_def pe_sa_def pe_fa_def pe_base_def pe_code_def pe_consts_def or_default_def)
  have r: "pe_rva demo_pe = 8192" by (simp add: pe_rva_def v align_up_eq)
  have "pe_size demo_pe < 1073000000" by (simp add: pe_size_def v)
  moreover have "zbuf_ok (pe_consts demo_pe)" by (simp add: v zbuf_ok_def SIZE_MAX_def)
  moreover have "places_ok (length (zdata (pe_code demo_pe))) (pe_places demo_pe)"
    by (simp add: v(4)) (simp add: pe_places_def demo_pe_def live_imports_def)
  ultimately obtain out code rdata where w: "z_coff_write_pe64_executable (Some demo_pe) = Some (out, code, rdata)"
    "pe_entry (zdata out) = unat (pe_sa demo_pe)"
    "\<forall>p \<in> set (ce_rodata_patches demo_pe). read64 (zdata code) (cdp_patch_offset p)
         = pe_base demo_pe + of_nat (pe_rva demo_pe) + ucast (cdp_data_offset p - ce_rodata_base_offset demo_pe)"
    using coff_executable_loads [of demo_pe] by blast
  have "read64 (zdata code) 8 = 0x140002001" using w(3) unfolding v r by (simp add: demo_pe_def)
  with w(1,2) show ?thesis unfolding v by auto
qed

end
