(* ===== verification/MirTypes.thy ===== *)
theory MirTypes
  imports Prelude
begin

text \<open>
  The MIR of \<open>native/zerox-c/include/zerox.h\<close> (\<open>IrTypeKind\<close> to \<open>IrProgram\<close>): types, values,
  instructions, locals, functions and programs, as far as lowering's layout and the verifier read them. Pointers that
  may be NULL are options; \<open>unsigned\<close> and \<open>size_t\<close> fields are \<open>nat\<close>. The verifier computes with them only
  behind guards that keep the result in range, so nothing wraps.
\<close>

section \<open>Enumerations\<close>

datatype (plugins only: size) IrTypeKind =
        IR_TYPE_UNSUPPORTED | IR_TYPE_VOID | IR_TYPE_BOOL | IR_TYPE_U8 | IR_TYPE_U16
    | IR_TYPE_USIZE | IR_TYPE_I32 | IR_TYPE_U32 | IR_TYPE_I64 | IR_TYPE_U64 | IR_TYPE_F32
    | IR_TYPE_F64 | IR_TYPE_BYTE_VIEW | IR_TYPE_ALLOC | IR_TYPE_VEC | IR_TYPE_MAYBE_BYTE_VIEW
    | IR_TYPE_MAYBE_SCALAR | IR_TYPE_RECORD

datatype (plugins only: size) IrValueKind =
        IR_VALUE_INT | IR_VALUE_BOOL | IR_VALUE_LOCAL | IR_VALUE_CAST | IR_VALUE_BINARY
    | IR_VALUE_COMPARE | IR_VALUE_CALL | IR_VALUE_INDEX_LOAD | IR_VALUE_STRING_LITERAL
    | IR_VALUE_ARRAY_BYTE_VIEW | IR_VALUE_BYTE_SLICE | IR_VALUE_BYTE_VIEW_LEN
    | IR_VALUE_BYTE_VIEW_INDEX_LOAD | IR_VALUE_BYTE_VIEW_EQ | IR_VALUE_BYTE_COPY
    | IR_VALUE_BYTE_FILL | IR_VALUE_CRC32_BYTES | IR_VALUE_FIXED_BUF_ALLOC | IR_VALUE_VEC_INIT
    | IR_VALUE_VEC_PUSH | IR_VALUE_VEC_LEN | IR_VALUE_VEC_CAPACITY | IR_VALUE_ALLOC_BYTES
    | IR_VALUE_MAYBE_HAS | IR_VALUE_MAYBE_VALUE | IR_VALUE_MAYBE_SCALAR_LITERAL | IR_VALUE_ARGS_LEN
    | IR_VALUE_ARGS_GET | IR_VALUE_ENV_GET | IR_VALUE_TIME_WALL_SECONDS | IR_VALUE_TIME_MONOTONIC
    | IR_VALUE_TIME_AS_MS | IR_VALUE_RAND_NEXT_U32 | IR_VALUE_RAND_ENTROPY_U32 | IR_VALUE_FS_HOST
    | IR_VALUE_FS_OPEN | IR_VALUE_FS_CREATE | IR_VALUE_FS_READ_PATH | IR_VALUE_FS_WRITE_PATH
    | IR_VALUE_FS_READ_BYTES_PATH | IR_VALUE_FS_WRITE_BYTES_PATH | IR_VALUE_FS_READ_ALL
    | IR_VALUE_FS_READ_FILE | IR_VALUE_FS_WRITE_ALL_FILE | IR_VALUE_FS_CLOSE_FILE
    | IR_VALUE_FS_EXISTS | IR_VALUE_FS_REMOVE | IR_VALUE_FS_RENAME | IR_VALUE_FS_FILE_LEN
    | IR_VALUE_FS_MAKE_DIR | IR_VALUE_FS_REMOVE_DIR | IR_VALUE_FS_IS_DIR
    | IR_VALUE_FS_DIR_ENTRY_COUNT | IR_VALUE_FS_TEMP_NAME | IR_VALUE_FS_ATOMIC_WRITE
    | IR_VALUE_JSON_PARSE_BYTES | IR_VALUE_JSON_VALIDATE_BYTES | IR_VALUE_JSON_STREAM_TOKENS_BYTES
    | IR_VALUE_HTTP_FETCH | IR_VALUE_HTTP_RESULT_OK | IR_VALUE_HTTP_RESULT_STATUS
    | IR_VALUE_HTTP_RESULT_BODY_LEN | IR_VALUE_HTTP_RESULT_ERROR | IR_VALUE_HTTP_RESPONSE_LEN
    | IR_VALUE_HTTP_RESPONSE_HEADERS_LEN | IR_VALUE_HTTP_RESPONSE_BODY_OFFSET
    | IR_VALUE_HTTP_HEADER_VALUE | IR_VALUE_HTTP_HEADER_FOUND | IR_VALUE_HTTP_HEADER_OFFSET
    | IR_VALUE_HTTP_HEADER_LEN | IR_VALUE_FIELD_LOAD | IR_VALUE_CHECK | IR_VALUE_RESCUE
    | IR_VALUE_CRYPTO_HELPER

datatype (plugins only: size) IrBinaryOp =
      IR_BIN_ADD | IR_BIN_SUB | IR_BIN_MUL | IR_BIN_DIV | IR_BIN_MOD | IR_BIN_AND | IR_BIN_OR | IR_BIN_XOR
    | IR_BIN_SHL | IR_BIN_SHR | IR_BIN_ROL | IR_BIN_ROR | IR_BIN_FADD | IR_BIN_FSUB | IR_BIN_FMUL | IR_BIN_FDIV | IR_BIN_FMOD

datatype (plugins only: size) IrCompareOp =
    IR_CMP_EQ | IR_CMP_NE | IR_CMP_LT | IR_CMP_LE | IR_CMP_GT | IR_CMP_GE

datatype (plugins only: size) IrInstrKind =
      IR_INSTR_LOCAL_SET | IR_INSTR_INDEX_STORE | IR_INSTR_FIELD_STORE | IR_INSTR_WORLD_WRITE | IR_INSTR_RAISE
    | IR_INSTR_EXPR | IR_INSTR_RETURN | IR_INSTR_IF | IR_INSTR_WHILE

text \<open>The number of a kind, as \<open>(int)value->kind\<close> gives it in a diagnostic.\<close>

definition ir_value_kinds :: "IrValueKind list" where
  "ir_value_kinds =
     [IR_VALUE_INT , IR_VALUE_BOOL , IR_VALUE_LOCAL , IR_VALUE_CAST , IR_VALUE_BINARY
     , IR_VALUE_COMPARE , IR_VALUE_CALL , IR_VALUE_INDEX_LOAD , IR_VALUE_STRING_LITERAL
     , IR_VALUE_ARRAY_BYTE_VIEW , IR_VALUE_BYTE_SLICE , IR_VALUE_BYTE_VIEW_LEN
     , IR_VALUE_BYTE_VIEW_INDEX_LOAD , IR_VALUE_BYTE_VIEW_EQ , IR_VALUE_BYTE_COPY
     , IR_VALUE_BYTE_FILL , IR_VALUE_CRC32_BYTES , IR_VALUE_FIXED_BUF_ALLOC , IR_VALUE_VEC_INIT
     , IR_VALUE_VEC_PUSH , IR_VALUE_VEC_LEN , IR_VALUE_VEC_CAPACITY , IR_VALUE_ALLOC_BYTES
     , IR_VALUE_MAYBE_HAS , IR_VALUE_MAYBE_VALUE , IR_VALUE_MAYBE_SCALAR_LITERAL
     , IR_VALUE_ARGS_LEN , IR_VALUE_ARGS_GET , IR_VALUE_ENV_GET , IR_VALUE_TIME_WALL_SECONDS
     , IR_VALUE_TIME_MONOTONIC , IR_VALUE_TIME_AS_MS , IR_VALUE_RAND_NEXT_U32
     , IR_VALUE_RAND_ENTROPY_U32 , IR_VALUE_FS_HOST , IR_VALUE_FS_OPEN , IR_VALUE_FS_CREATE
     , IR_VALUE_FS_READ_PATH , IR_VALUE_FS_WRITE_PATH , IR_VALUE_FS_READ_BYTES_PATH
     , IR_VALUE_FS_WRITE_BYTES_PATH , IR_VALUE_FS_READ_ALL , IR_VALUE_FS_READ_FILE
     , IR_VALUE_FS_WRITE_ALL_FILE , IR_VALUE_FS_CLOSE_FILE , IR_VALUE_FS_EXISTS
     , IR_VALUE_FS_REMOVE , IR_VALUE_FS_RENAME , IR_VALUE_FS_FILE_LEN , IR_VALUE_FS_MAKE_DIR
     , IR_VALUE_FS_REMOVE_DIR , IR_VALUE_FS_IS_DIR , IR_VALUE_FS_DIR_ENTRY_COUNT
     , IR_VALUE_FS_TEMP_NAME , IR_VALUE_FS_ATOMIC_WRITE , IR_VALUE_JSON_PARSE_BYTES
     , IR_VALUE_JSON_VALIDATE_BYTES , IR_VALUE_JSON_STREAM_TOKENS_BYTES , IR_VALUE_HTTP_FETCH
     , IR_VALUE_HTTP_RESULT_OK , IR_VALUE_HTTP_RESULT_STATUS , IR_VALUE_HTTP_RESULT_BODY_LEN
     , IR_VALUE_HTTP_RESULT_ERROR , IR_VALUE_HTTP_RESPONSE_LEN , IR_VALUE_HTTP_RESPONSE_HEADERS_LEN
     , IR_VALUE_HTTP_RESPONSE_BODY_OFFSET , IR_VALUE_HTTP_HEADER_VALUE , IR_VALUE_HTTP_HEADER_FOUND
     , IR_VALUE_HTTP_HEADER_OFFSET , IR_VALUE_HTTP_HEADER_LEN , IR_VALUE_FIELD_LOAD
     , IR_VALUE_CHECK , IR_VALUE_RESCUE , IR_VALUE_CRYPTO_HELPER]"

fun position :: "'a \<Rightarrow> 'a list \<Rightarrow> nat" where
  "position x [] = 0"
| "position x (y # ys) = (if x = y then 0 else Suc (position x ys))"

section \<open>Values and instructions\<close>

record ir_value_fields =
  vf_kind :: IrValueKind
  vf_type :: IrTypeKind
  vf_int_value :: u64
  vf_local_index :: nat
  vf_callee_index :: nat
  vf_array_index :: nat
  vf_field_offset :: nat
  vf_data_offset :: nat
  vf_data_len :: nat
  vf_element_type :: IrTypeKind
  vf_error_code :: nat
  vf_binary_op :: IrBinaryOp
  vf_compare_op :: IrCompareOp
  vf_line :: int
  vf_column :: int

datatype (plugins only: size) IrValue =
  IrValue (v_fields: ir_value_fields) (v_args: "IrValue option list") (v_index: "IrValue option")
    (v_left: "IrValue option") (v_right: "IrValue option")

abbreviation v_kind :: "IrValue \<Rightarrow> IrValueKind" where "v_kind v \<equiv> vf_kind (v_fields v)"
abbreviation v_type :: "IrValue \<Rightarrow> IrTypeKind" where "v_type v \<equiv> vf_type (v_fields v)"
abbreviation v_elem :: "IrValue \<Rightarrow> IrTypeKind" where "v_elem v \<equiv> vf_element_type (v_fields v)"
abbreviation v_local :: "IrValue \<Rightarrow> nat" where "v_local v \<equiv> vf_local_index (v_fields v)"
abbreviation v_array :: "IrValue \<Rightarrow> nat" where "v_array v \<equiv> vf_array_index (v_fields v)"
abbreviation v_callee :: "IrValue \<Rightarrow> nat" where "v_callee v \<equiv> vf_callee_index (v_fields v)"
abbreviation v_line :: "IrValue \<Rightarrow> int" where "v_line v \<equiv> vf_line (v_fields v)"
abbreviation v_column :: "IrValue \<Rightarrow> int" where "v_column v \<equiv> vf_column (v_fields v)"

record ir_instr_fields =
  if_kind :: IrInstrKind
  if_local_index :: nat
  if_array_index :: nat
  if_field_offset :: nat
  if_error_code :: nat
  if_line :: int
  if_column :: int

datatype (plugins only: size) IrInstr =
  IrInstr (i_fields: ir_instr_fields) (i_value: "IrValue option") (i_index: "IrValue option")
    (i_then: "IrInstr list") (i_else: "IrInstr list")

abbreviation i_kind :: "IrInstr \<Rightarrow> IrInstrKind" where "i_kind i \<equiv> if_kind (i_fields i)"
abbreviation i_local :: "IrInstr \<Rightarrow> nat" where "i_local i \<equiv> if_local_index (i_fields i)"
abbreviation i_line :: "IrInstr \<Rightarrow> int" where "i_line i \<equiv> if_line (i_fields i)"
abbreviation i_column :: "IrInstr \<Rightarrow> int" where "i_column i \<equiv> if_column (i_fields i)"

section \<open>Functions and programs\<close>

record IrLocal =
  l_name :: "string option"
  l_type :: IrTypeKind
  l_element_type :: IrTypeKind
  l_index :: nat
  l_frame_offset :: nat
  l_array_len :: nat
  l_byte_size :: nat
  l_alignment :: nat
  l_is_param :: bool
  l_is_array :: bool
  l_is_record :: bool
  l_is_mutable :: bool
  l_shape_name :: "string option"
  l_line :: int
  l_column :: int

record IrFunction =
  f_name :: "string option"
  f_stable_id :: string
  f_world_param_name :: "string option"
  f_return_type :: IrTypeKind
  f_value_return_type :: IrTypeKind
  f_locals :: "IrLocal list"
  f_param_count :: nat
  f_instrs :: "IrInstr list"
  f_frame_bytes :: nat
  f_is_exported :: bool
  f_raises :: bool
  f_line :: int
  f_column :: int

record ZBackendBlocker =
  bb_present :: bool
  bb_target :: string
  bb_object_format :: string
  bb_backend :: string
  bb_stage :: string
  bb_unsupported_feature :: string

text \<open>The \<open>mir_*\<close> fields of \<open>IrProgram\<close> that a diagnostic fills in.\<close>

record mir_diag =
  mir_valid :: bool
  mir_expected :: string
  mir_actual :: string
  mir_message :: string
  mir_help :: string
  mir_blocker :: ZBackendBlocker
  mir_line :: int
  mir_column :: int

record IrProgram =
  ir_functions :: "IrFunction list"
  ir_diag :: mir_diag
  ir_allocator_helper_count :: nat
  ir_buffer_helper_count :: nat
  ir_runtime_helper_count :: nat
  ir_host_runtime_import_count :: nat
  ir_http_runtime_import_count :: nat

end
