(* ===== verification/MirVerify.thy ===== *)
theory MirVerify
  imports MirTypes
begin

text \<open>
  The value contracts of \<open>native/zerox-c/src/mir_verify.c\<close>: the type tables, the function
  contract, and the contract of every value kind. A check takes the verifier's state (the
  diagnostic of the program, the helper counts required so far, and the dataflow state of the
  locals) and returns whether it holds, with the state it leaves; \<open>None\<close> is the dereference of a
  NULL argument. \<open>m_and\<close> is the C idiom \<open>if (!first) return false; second\<close>.
\<close>

section \<open>Type tables\<close>

fun mir_type_kind_name :: "IrTypeKind \<Rightarrow> string" where
  "mir_type_kind_name IR_TYPE_VOID = ''Void''"
| "mir_type_kind_name IR_TYPE_BOOL = ''Bool''"
| "mir_type_kind_name IR_TYPE_U8 = ''u8''"
| "mir_type_kind_name IR_TYPE_U16 = ''u16''"
| "mir_type_kind_name IR_TYPE_USIZE = ''usize''"
| "mir_type_kind_name IR_TYPE_I32 = ''i32''"
| "mir_type_kind_name IR_TYPE_U32 = ''u32''"
| "mir_type_kind_name IR_TYPE_I64 = ''i64''"
| "mir_type_kind_name IR_TYPE_U64 = ''u64''"
| "mir_type_kind_name IR_TYPE_BYTE_VIEW = ''ByteView''"
| "mir_type_kind_name IR_TYPE_ALLOC = ''Alloc''"
| "mir_type_kind_name IR_TYPE_VEC = ''Vec''"
| "mir_type_kind_name IR_TYPE_MAYBE_BYTE_VIEW = ''Maybe<ByteView>''"
| "mir_type_kind_name IR_TYPE_F32 = ''f32''"
| "mir_type_kind_name IR_TYPE_F64 = ''f64''"
| "mir_type_kind_name IR_TYPE_MAYBE_SCALAR = ''Maybe<scalar>''"
| "mir_type_kind_name IR_TYPE_RECORD = ''record''"
| "mir_type_kind_name IR_TYPE_UNSUPPORTED = ''unsupported''"

definition mir_type_is_value :: "IrTypeKind \<Rightarrow> bool" where
  "mir_type_is_value ty \<longleftrightarrow>
     ty = IR_TYPE_U8 \<or> ty = IR_TYPE_U16 \<or> ty = IR_TYPE_USIZE \<or> ty = IR_TYPE_I32 \<or> ty = IR_TYPE_U32 \<or> ty = IR_TYPE_I64
     \<or> ty = IR_TYPE_U64 \<or> ty = IR_TYPE_F32 \<or> ty = IR_TYPE_F64"

definition mir_type_is_direct_abi :: "IrTypeKind \<Rightarrow> bool" where
  "mir_type_is_direct_abi ty \<longleftrightarrow> ty = IR_TYPE_BOOL \<or> mir_type_is_value ty"

definition mir_type_is_direct_fallible_value :: "IrTypeKind \<Rightarrow> bool" where
  "mir_type_is_direct_fallible_value ty \<longleftrightarrow>
     ty = IR_TYPE_VOID \<or> ty = IR_TYPE_BOOL \<or> ty = IR_TYPE_U8 \<or> ty = IR_TYPE_U16 \<or> ty = IR_TYPE_USIZE \<or> ty = IR_TYPE_I32
     \<or> ty = IR_TYPE_U32"

definition mir_type_is_integer_value :: "IrTypeKind \<Rightarrow> bool" where
  "mir_type_is_integer_value ty \<longleftrightarrow>
     ty = IR_TYPE_U8 \<or> ty = IR_TYPE_U16 \<or> ty = IR_TYPE_USIZE \<or> ty = IR_TYPE_I32 \<or> ty = IR_TYPE_U32 \<or> ty = IR_TYPE_I64
     \<or> ty = IR_TYPE_U64"

definition mir_type_byte_size :: "IrTypeKind \<Rightarrow> nat" where
  "mir_type_byte_size ty = (case ty of
       IR_TYPE_BOOL \<Rightarrow> 1 | IR_TYPE_U8 \<Rightarrow> 1 | IR_TYPE_U16 \<Rightarrow> 2
     | IR_TYPE_F32 \<Rightarrow> 4 | IR_TYPE_I32 \<Rightarrow> 4 | IR_TYPE_USIZE \<Rightarrow> 4 | IR_TYPE_U32 \<Rightarrow> 4
     | IR_TYPE_F64 \<Rightarrow> 8 | IR_TYPE_I64 \<Rightarrow> 8 | IR_TYPE_U64 \<Rightarrow> 8
     | _ \<Rightarrow> 0)"

definition mir_type_local_slot_min_byte_size :: "IrTypeKind \<Rightarrow> nat" where
  "mir_type_local_slot_min_byte_size ty =
     (let byte_size = mir_type_byte_size ty in if 0 < byte_size \<and> byte_size < 4 then 4 else byte_size)"

definition mir_type_storage_min_byte_size :: "IrLocal \<Rightarrow> nat" where
  "mir_type_storage_min_byte_size l =
     (if l_is_array l then
        (let element_size = mir_type_byte_size (l_element_type l)
         in if element_size = 0 \<or> l_array_len l = 0 then 0
            else if UINT_MAX div element_size < l_array_len l then 0
            else element_size * l_array_len l)
      else if l_is_record l then 1
      else (case l_type l of
         IR_TYPE_BYTE_VIEW \<Rightarrow> 16 | IR_TYPE_ALLOC \<Rightarrow> 16 | IR_TYPE_VEC \<Rightarrow> 16 | IR_TYPE_MAYBE_SCALAR \<Rightarrow> 16
       | IR_TYPE_MAYBE_BYTE_VIEW \<Rightarrow> 24
       | _ \<Rightarrow> mir_type_local_slot_min_byte_size (l_type l)))"

section \<open>The verifier's state\<close>

record MirCountRequirement =
  rc_count :: nat
  rc_line :: int
  rc_column :: int
  rc_reason :: "string option"

record MirHelperRequirements =
  allocator_helpers :: MirCountRequirement
  buffer_helpers :: MirCountRequirement
  runtime_helpers :: MirCountRequirement
  host_runtime_imports :: MirCountRequirement
  http_runtime_imports :: MirCountRequirement

record mir_st =
  st_diag :: mir_diag
  st_req :: MirHelperRequirements
  st_flow :: "bool list"

type_synonym mcheck = "mir_st \<Rightarrow> (bool \<times> mir_st) option"

definition z_backend_blocker_set :: "string option \<Rightarrow> string option \<Rightarrow> string option \<Rightarrow> string option \<Rightarrow> string option \<Rightarrow> ZBackendBlocker" where
  "z_backend_blocker_set target object_format backend stage unsupported_feature =
     \<lparr>bb_present = True, bb_target = snprintf 64 (str_or target []), bb_object_format = snprintf 32 (str_or object_format []),
      bb_backend = snprintf 64 (str_or backend []), bb_stage = snprintf 32 (str_or stage []),
      bb_unsupported_feature = snprintf 128 (str_or unsupported_feature [])\<rparr>"

definition mir_verify_mark_unsupported :: "mir_diag \<Rightarrow> string \<Rightarrow> int \<Rightarrow> int \<Rightarrow> string \<Rightarrow> mir_diag" where
  "mir_verify_mark_unsupported d message line column actual =
     (if \<not> mir_valid d then d
      else \<lparr>mir_valid = False,
            mir_expected = snprintf 128 ''direct backend MIR contract'',
            mir_actual = snprintf 128 actual,
            mir_message = snprintf 256 message,
            mir_help = snprintf 256 ''report this compiler bug with the source program that produced it'',
            mir_blocker = z_backend_blocker_set None None None (Some ''lower'') (Some (snprintf 128 actual)),
            mir_line = (if 0 < line then line else 1), mir_column = (if 0 < column then column else 1)\<rparr>)"

definition m_true :: mcheck where "m_true s = Some (True, s)"
definition m_false :: mcheck where "m_false s = Some (False, s)"

definition m_and :: "mcheck \<Rightarrow> mcheck \<Rightarrow> mcheck" where
  "m_and first second s = do { (ok, s) \<leftarrow> first s; if ok then second s else Some (False, s) }"

text \<open>\<open>if (!ir->mir_valid) return false;\<close>\<close>

definition m_valid :: "mcheck \<Rightarrow> mcheck" where
  "m_valid c s = (if mir_valid (st_diag s) then c s else Some (False, s))"

text \<open>\<open>mir_verify_mark_unsupported(...); return false;\<close>\<close>

definition m_fail :: "string \<Rightarrow> int \<Rightarrow> int \<Rightarrow> string \<Rightarrow> mcheck" where
  "m_fail message line column actual s =
     Some (False, s\<lparr>st_diag := mir_verify_mark_unsupported (st_diag s) message line column actual\<rparr>)"

text \<open>\<open>if (c) return true; mark; return false;\<close>\<close>

definition m_require :: "bool \<Rightarrow> string \<Rightarrow> int \<Rightarrow> int \<Rightarrow> string \<Rightarrow> mcheck" where
  "m_require c message line column actual = (if c then m_true else m_fail message line column actual)"

definition mir_require_count :: "MirCountRequirement \<Rightarrow> nat \<Rightarrow> int \<Rightarrow> int \<Rightarrow> string \<Rightarrow> MirCountRequirement" where
  "mir_require_count req count line column reason =
     (if count \<le> rc_count req then req
      else \<lparr>rc_count = count, rc_line = line, rc_column = column, rc_reason = Some reason\<rparr>)"

definition need_allocator :: "nat \<Rightarrow> int \<Rightarrow> int \<Rightarrow> string \<Rightarrow> mcheck" where
  "need_allocator n line col reason s =
     Some (True, s\<lparr>st_req := (st_req s)\<lparr>allocator_helpers := mir_require_count (allocator_helpers (st_req s)) n line col reason\<rparr>\<rparr>)"

definition need_buffer :: "nat \<Rightarrow> int \<Rightarrow> int \<Rightarrow> string \<Rightarrow> mcheck" where
  "need_buffer n line col reason s =
     Some (True, s\<lparr>st_req := (st_req s)\<lparr>buffer_helpers := mir_require_count (buffer_helpers (st_req s)) n line col reason\<rparr>\<rparr>)"

definition need_runtime :: "nat \<Rightarrow> int \<Rightarrow> int \<Rightarrow> string \<Rightarrow> mcheck" where
  "need_runtime n line col reason s =
     Some (True, s\<lparr>st_req := (st_req s)\<lparr>runtime_helpers := mir_require_count (runtime_helpers (st_req s)) n line col reason\<rparr>\<rparr>)"

definition need_host :: "nat \<Rightarrow> int \<Rightarrow> int \<Rightarrow> string \<Rightarrow> mcheck" where
  "need_host n line col reason s =
     Some (True, s\<lparr>st_req := (st_req s)\<lparr>host_runtime_imports := mir_require_count (host_runtime_imports (st_req s)) n line col reason\<rparr>\<rparr>)"

definition need_http :: "nat \<Rightarrow> int \<Rightarrow> int \<Rightarrow> string \<Rightarrow> mcheck" where
  "need_http n line col reason s =
     Some (True, s\<lparr>st_req := (st_req s)\<lparr>http_runtime_imports := mir_require_count (http_runtime_imports (st_req s)) n line col reason\<rparr>\<rparr>)"

section \<open>Texts of the diagnostics\<close>

definition lname :: "IrLocal \<Rightarrow> string" where "lname l = str_or (l_name l) ''<unnamed>''"
definition fname :: "IrFunction \<Rightarrow> string" where "fname f = str_or (f_name f) ''<unnamed>''"

text \<open>\<open>value ? mir_type_kind_name(value->type) : "missing"\<close>, \<open>value ? value->line : 1\<close>.\<close>

definition vtype_name :: "IrValue option \<Rightarrow> string" where
  "vtype_name v = (case v of None \<Rightarrow> ''missing'' | Some v \<Rightarrow> mir_type_kind_name (v_type v))"
definition vline :: "IrValue option \<Rightarrow> int" where
  "vline v = (case v of None \<Rightarrow> 1 | Some v \<Rightarrow> v_line v)"
definition vcolumn :: "IrValue option \<Rightarrow> int" where
  "vcolumn v = (case v of None \<Rightarrow> 1 | Some v \<Rightarrow> v_column v)"

section \<open>Locals\<close>

definition mir_verify_local_index :: "IrFunction \<Rightarrow> nat \<Rightarrow> int \<Rightarrow> int \<Rightarrow> string \<Rightarrow> mcheck" where
  "mir_verify_local_index fn index line column message =
     m_valid (m_require (index < length (f_locals fn)) message line column
       (snprintf 160 (''local index '' @ dec index @ '' with '' @ dec (length (f_locals fn)) @ '' local(s) on '' @ fname fn)))"

definition mir_value_can_initialize_local :: "IrLocal \<Rightarrow> IrValue \<Rightarrow> bool" where
  "mir_value_can_initialize_local l v \<longleftrightarrow>
     v_type v = l_type l \<or> (l_type l = IR_TYPE_MAYBE_SCALAR \<and> v_type v = IR_TYPE_I64)"

definition mir_verify_local_initializer_kind :: "IrLocal \<Rightarrow> IrValue \<Rightarrow> int \<Rightarrow> int \<Rightarrow> mcheck" where
  "mir_verify_local_initializer_kind l v line column =
     m_valid (m_require
       (case l_type l of
          IR_TYPE_ALLOC \<Rightarrow> v_kind v = IR_VALUE_FIXED_BUF_ALLOC
        | IR_TYPE_VEC \<Rightarrow> v_kind v = IR_VALUE_VEC_INIT
        | IR_TYPE_MAYBE_BYTE_VIEW \<Rightarrow> v_kind v = IR_VALUE_ALLOC_BYTES \<or> v_kind v = IR_VALUE_ARGS_GET
            \<or> v_kind v = IR_VALUE_ENV_GET \<or> v_kind v = IR_VALUE_FS_READ_ALL \<or> v_kind v = IR_VALUE_FS_TEMP_NAME
        | _ \<Rightarrow> True)
       ''MIR verifier found invalid local initializer'' line column
       (snprintf 192 (''local '' @ lname l @ '' has '' @ mir_type_kind_name (l_type l) @ '' initializer kind ''
          @ dec (position (v_kind v) ir_value_kinds))))"

section \<open>The function contract\<close>

fun mir_verify_params :: "IrFunction \<Rightarrow> nat \<Rightarrow> nat \<Rightarrow> mcheck" where
  "mir_verify_params fn i 0 = m_true"
| "mir_verify_params fn i (Suc k) =
     (let l = f_locals fn ! i
      in m_and (m_require (l_is_param l \<and> l_index l = i) ''MIR verifier found invalid parameter local layout'' (l_line l) (l_column l)
             (snprintf 160 (''parameter slot '' @ dec i @ '' maps to local index '' @ dec (l_index l))))
        (m_and (m_require (mir_type_is_direct_abi (l_type l)) ''MIR verifier found non-ABI parameter type'' (l_line l) (l_column l)
             (snprintf 160 (''parameter '' @ lname l @ '' has '' @ mir_type_kind_name (l_type l))))
          (mir_verify_params fn (Suc i) k)))"

fun mir_verify_locals :: "IrFunction \<Rightarrow> nat \<Rightarrow> IrLocal option \<Rightarrow> IrLocal list \<Rightarrow> mcheck" where
  "mir_verify_locals fn i prev [] = m_true"
| "mir_verify_locals fn i prev (l # ls) =
     (let min_byte_size = mir_type_storage_min_byte_size l;
          frame_start = l_frame_offset l - l_byte_size l
      in m_and (m_require (l_index l = i) ''MIR verifier found local table index mismatch'' (l_line l) (l_column l)
             (snprintf 160 (''local '' @ lname l @ '' has index '' @ dec (l_index l) @ '' at slot '' @ dec i)))
        (m_and (m_require (\<not> (l_byte_size l = 0 \<or> l_alignment l = 0)) ''MIR verifier found invalid local storage layout'' (l_line l) (l_column l)
             (snprintf 160 (''local '' @ lname l @ '' has size '' @ dec (l_byte_size l) @ '' alignment '' @ dec (l_alignment l))))
        (m_and (m_require (\<not> (min_byte_size = 0 \<or> l_byte_size l < min_byte_size)) ''MIR verifier found invalid local storage layout'' (l_line l) (l_column l)
             (snprintf 192 (''local '' @ lname l @ '' has size '' @ dec (l_byte_size l) @ '' but needs at least '' @ dec min_byte_size)))
        (m_and (m_require (\<not> (l_frame_offset l < l_byte_size l \<or> f_frame_bytes fn < l_frame_offset l)) ''MIR verifier found local outside the stack frame'' (l_line l) (l_column l)
             (snprintf 192 (''local '' @ lname l @ '' offset '' @ dec (l_frame_offset l) @ '' size '' @ dec (l_byte_size l) @ '' frame '' @ dec (f_frame_bytes fn))))
        (m_and (m_require (frame_start mod l_alignment l = 0) ''MIR verifier found misaligned local storage'' (l_line l) (l_column l)
             (snprintf 192 (''local '' @ lname l @ '' starts at '' @ dec frame_start @ '' with alignment '' @ dec (l_alignment l))))
        (m_and (case prev of None \<Rightarrow> m_true
                | Some p \<Rightarrow> m_require (\<not> frame_start < l_frame_offset p) ''MIR verifier found overlapping local storage'' (l_line l) (l_column l)
                    (snprintf 192 (''local '' @ lname l @ '' starts at '' @ dec frame_start @ '' before previous local ends at '' @ dec (l_frame_offset p))))
          (mir_verify_locals fn (Suc i) (Some l) ls)))))))"

definition mir_verify_returns :: "IrFunction \<Rightarrow> mcheck" where
  "mir_verify_returns fn =
     (if f_raises fn then
        m_require (f_return_type fn = IR_TYPE_I64 \<and> mir_type_is_direct_fallible_value (f_value_return_type fn))
          ''MIR verifier found invalid fallible return representation'' (f_line fn) (f_column fn)
          (snprintf 160 (''fallible return '' @ mir_type_kind_name (f_return_type fn) @ '' value '' @ mir_type_kind_name (f_value_return_type fn)))
      else m_require (f_return_type fn = IR_TYPE_VOID \<or> mir_type_is_direct_abi (f_return_type fn))
          ''MIR verifier found non-ABI return type'' (f_line fn) (f_column fn)
          (snprintf 128 (''return '' @ mir_type_kind_name (f_return_type fn))))"

definition mir_verify_direct_function_contract :: "IrFunction \<Rightarrow> mcheck" where
  "mir_verify_direct_function_contract fn =
     m_valid
      (m_and (m_require (\<not> length (f_locals fn) < f_param_count fn) ''MIR verifier found parameter count outside the local table'' (f_line fn) (f_column fn)
             (snprintf 128 (dec (f_param_count fn) @ '' parameter(s) with '' @ dec (length (f_locals fn)) @ '' local(s)'')))
      (m_and (mir_verify_params fn 0 (f_param_count fn))
      (m_and (mir_verify_locals fn 0 None (f_locals fn))
        (mir_verify_returns fn))))"

section \<open>Calls\<close>

fun mir_verify_call_args :: "IrFunction \<Rightarrow> nat \<Rightarrow> IrValue \<Rightarrow> IrValue option list \<Rightarrow> mcheck" where
  "mir_verify_call_args callee i v [] = m_true"
| "mir_verify_call_args callee i v (arg # args) =
     (case arg of
        None \<Rightarrow> m_fail ''MIR verifier found null direct call argument'' (v_line v) (v_column v)
                  (snprintf 128 (''missing argument '' @ dec i @ '' for '' @ fname callee))
      | Some a \<Rightarrow>
          (let param = f_locals callee ! i
           in m_and (m_require (l_is_param param \<and> v_type a = l_type param) ''MIR verifier found direct call argument ABI mismatch'' (v_line a) (v_column a)
                (snprintf 192 (''argument '' @ dec i @ '' has '' @ mir_type_kind_name (v_type a) @ '' but parameter has '' @ mir_type_kind_name (l_type param))))
              (mir_verify_call_args callee (Suc i) v args)))"

definition mir_verify_direct_call_contract :: "IrFunction list \<Rightarrow> IrValue \<Rightarrow> mcheck" where
  "mir_verify_direct_call_contract fns v =
     (if v_kind v \<noteq> IR_VALUE_CALL then m_valid m_true
      else m_valid
        (if length fns \<le> v_callee v then
           m_fail ''MIR verifier found direct call target outside the function table'' (v_line v) (v_column v)
             (snprintf 128 (''callee index '' @ dec (v_callee v) @ '' with '' @ dec (length fns) @ '' MIR function(s)''))
         else
           (let callee = fns ! v_callee v;
                expected_call_type = (if f_raises callee then IR_TYPE_I64 else f_return_type callee)
            in m_and (m_require (length (v_args v) = f_param_count callee) ''MIR verifier found direct call arity mismatch'' (v_line v) (v_column v)
                 (snprintf 160 (dec (length (v_args v)) @ '' argument(s) for '' @ dec (f_param_count callee) @ '' parameter(s) on '' @ fname callee)))
               (m_and (m_require (v_type v = expected_call_type \<and> v_elem v = f_value_return_type callee) ''MIR verifier found direct call return mismatch'' (v_line v) (v_column v)
                 (snprintf 192 (''call returns '' @ mir_type_kind_name (v_type v) @ '' value '' @ mir_type_kind_name (v_elem v) @ '' but callee returns ''
                    @ mir_type_kind_name expected_call_type @ '' value '' @ mir_type_kind_name (f_value_return_type callee))))
                 (mir_verify_call_args callee 0 v (v_args v))))))"

section \<open>Type requirements\<close>

definition mir_verify_value_type :: "IrValue option \<Rightarrow> IrTypeKind \<Rightarrow> string \<Rightarrow> string \<Rightarrow> mcheck" where
  "mir_verify_value_type v expected message role =
     m_valid (m_require (case v of None \<Rightarrow> False | Some v \<Rightarrow> v_type v = expected) message (vline v) (vcolumn v)
       (snprintf 160 (role @ '' is '' @ vtype_name v @ '' but expected '' @ mir_type_kind_name expected)))"

definition mir_verify_helper_result_type :: "IrValue \<Rightarrow> IrTypeKind \<Rightarrow> string \<Rightarrow> mcheck" where
  "mir_verify_helper_result_type v expected role =
     mir_verify_value_type (Some v) expected ''MIR verifier found helper result type mismatch'' role"

definition mir_verify_value_is_integer :: "IrValue option \<Rightarrow> string \<Rightarrow> string \<Rightarrow> mcheck" where
  "mir_verify_value_is_integer v message role =
     m_valid (m_require (case v of None \<Rightarrow> False | Some v \<Rightarrow> mir_type_is_integer_value (v_type v)) message (vline v) (vcolumn v)
       (snprintf 160 (role @ '' is '' @ vtype_name v)))"

definition mir_verify_byte_view_len_result :: "IrValue \<Rightarrow> mcheck" where
  "mir_verify_byte_view_len_result v =
     m_valid (m_require (v_type v = IR_TYPE_USIZE \<or> v_type v = IR_TYPE_U32)
       ''MIR verifier found byte-view length result type mismatch'' (v_line v) (v_column v)
       (snprintf 160 (''byte-view length is '' @ mir_type_kind_name (v_type v) @ '' but expected usize or u32'')))"

definition mir_verify_local_value_kind :: "IrFunction \<Rightarrow> nat \<Rightarrow> IrTypeKind \<Rightarrow> int \<Rightarrow> int \<Rightarrow> string \<Rightarrow> string \<Rightarrow> mcheck" where
  "mir_verify_local_value_kind fn index expected line column message role =
     m_and (mir_verify_local_index fn index line column message)
       (let l = f_locals fn ! index
        in m_require (l_type l = expected) message line column
          (snprintf 192 (role @ '' local '' @ lname l @ '' has '' @ mir_type_kind_name (l_type l) @ '' but expected '' @ mir_type_kind_name expected)))"

definition mir_verify_mutable_local_value_kind :: "IrFunction \<Rightarrow> nat \<Rightarrow> IrTypeKind \<Rightarrow> int \<Rightarrow> int \<Rightarrow> string \<Rightarrow> string \<Rightarrow> mcheck" where
  "mir_verify_mutable_local_value_kind fn index expected line column message role =
     m_and (mir_verify_local_value_kind fn index expected line column message role)
       (let l = f_locals fn ! index
        in m_require (l_is_mutable l) message line column
          (snprintf 192 (role @ '' local '' @ lname l @ '' has '' @ mir_type_kind_name (l_type l) @ '' and is immutable'')))"

definition mir_verify_record_field_span :: "IrLocal \<Rightarrow> nat \<Rightarrow> IrTypeKind \<Rightarrow> int \<Rightarrow> int \<Rightarrow> string \<Rightarrow> mcheck" where
  "mir_verify_record_field_span l field_offset ty line column message =
     m_valid (let byte_size = mir_type_byte_size ty
       in m_require (0 < byte_size \<and> field_offset \<le> l_byte_size l \<and> byte_size \<le> l_byte_size l - field_offset) message line column
         (snprintf 192 (''field offset '' @ dec field_offset @ '' width '' @ dec byte_size @ '' in local size '' @ dec (l_byte_size l))))"

definition mir_value_produces_mutable_byte_payload :: "IrValue option \<Rightarrow> bool" where
  "mir_value_produces_mutable_byte_payload v = (case v of None \<Rightarrow> False
     | Some v \<Rightarrow> v_type v = IR_TYPE_MAYBE_BYTE_VIEW \<and>
         (v_kind v = IR_VALUE_ALLOC_BYTES \<or> v_kind v = IR_VALUE_FS_READ_ALL \<or> v_kind v = IR_VALUE_FS_TEMP_NAME))"

definition mir_state_has_mutable_maybe_byte_payload :: "bool list \<Rightarrow> nat \<Rightarrow> bool" where
  "mir_state_has_mutable_maybe_byte_payload flow local_index \<longleftrightarrow> local_index < length flow \<and> flow ! local_index"

text \<open>The byte view that is written to must be backed by storage that may be written.\<close>

definition mir_verify_mutable_byte_storage :: "IrFunction \<Rightarrow> IrValue option \<Rightarrow> string \<Rightarrow> string \<Rightarrow> mcheck" where
  "mir_verify_mutable_byte_storage fn value message role =
     m_and (mir_verify_value_type value IR_TYPE_BYTE_VIEW message role)
       (case value of None \<Rightarrow> m_false
        | Some v \<Rightarrow>
          (if v_kind v = IR_VALUE_LOCAL then
             m_and (mir_verify_local_index fn (v_local v) (v_line v) (v_column v) message)
               (let l = f_locals fn ! v_local v
                in m_require (l_type l = IR_TYPE_BYTE_VIEW \<and> l_is_mutable l) message (v_line v) (v_column v)
                  (snprintf 192 (role @ '' local '' @ lname l @ '' has '' @ mir_type_kind_name (l_type l) @ '' and is ''
                     @ (if l_is_mutable l then ''mutable'' else ''immutable''))))
           else if v_kind v = IR_VALUE_ARRAY_BYTE_VIEW then
             m_and (mir_verify_local_index fn (v_array v) (v_line v) (v_column v) message)
               (let l = f_locals fn ! v_array v
                in m_require (l_is_array l \<and> l_element_type l = IR_TYPE_U8 \<and> l_is_mutable l) message (v_line v) (v_column v)
                  (snprintf 192 (role @ '' local '' @ lname l @ '' is '' @ (if l_is_array l \<and> l_element_type l = IR_TYPE_U8 then ''a'' else ''not a'')
                     @ '' byte array and is '' @ (if l_is_mutable l then ''mutable'' else ''immutable''))))
           else if v_kind v = IR_VALUE_MAYBE_VALUE then
             m_and (mir_verify_local_index fn (v_local v) (v_line v) (v_column v) message)
               (let l = f_locals fn ! v_local v
                in (\<lambda>s. m_require (l_type l = IR_TYPE_MAYBE_BYTE_VIEW \<and> mir_state_has_mutable_maybe_byte_payload (st_flow s) (v_local v))
                     message (v_line v) (v_column v)
                     (snprintf 192 (role @ '' Maybe local '' @ lname l @ '' has '' @ mir_type_kind_name (l_type l) @ '' and is not known mutable storage'')) s))
           else m_fail message (v_line v) (v_column v)
                  (snprintf 160 (role @ '' is not backed by mutable local byte storage''))))"

end
