(* ===== verification/MirValue.thy ===== *)
theory MirValue
  imports MirVerify
begin

text \<open>
  The contracts of the value kinds of \<open>mir_verify.c\<close>, the dispatch on the kind
  (\<open>mir_verify_direct_value_kind_contract\<close>) and the walk over a value tree
  (\<open>mir_verify_direct_value\<close>).
\<close>

section \<open>Helpers of the standard library\<close>

text \<open>
  The names of the crypto operations, by code. The local \<open>expected\<close> of the source is set and never
  read.
\<close>

definition crypto_name :: "nat \<Rightarrow> string" where
  "crypto_name code =
     (if code = 1 then ''std.crypto.hash.sha256'' else if code = 2 then ''std.crypto.hash.hmacSha256''
      else if code = 3 then ''std.crypto.aes.encrypt'' else if code = 4 then ''std.crypto.aes.decrypt''
      else if code = 5 then ''std.crypto.chacha.chacha20'' else if code = 6 then ''std.crypto.key.derive''
      else if code = 7 then ''std.crypto.key.randomBytes'' else if code = 35 then ''std.crypto.hash.sha384''
      else if code = 36 then ''std.crypto.hash.sha3_256'' else if code = 37 then ''std.crypto.hash.sha3_512''
      else if code = 38 then ''std.crypto.hash.blake2b'' else if code = 39 then ''std.crypto.hash.blake2s''
      else if code = 41 then ''std.crypto.hash.sha3_384'' else if code = 42 then ''std.crypto.hash.shake128''
      else if code = 43 then ''std.crypto.hash.shake256'' else if code = 44 then ''std.crypto.hash.hmacSha512''
      else if code = 45 then ''std.crypto.ecc.ed25519GenerateKeyPair'' else if code = 46 then ''std.crypto.ecc.x25519Ecdh''
      else if code = 47 then ''std.crypto.aes.encryptGcm'' else if code = 48 then ''std.crypto.aes.decryptGcm''
      else if code = 49 then ''std.crypto.ecc.x25519GenerateKeyPair'' else if code = 40 then ''std.crypto.hash.hmacSha384''
      else ''std.crypto'')"

text \<open>A NULL argument is dereferenced: \<open>None\<close>.\<close>

fun mir_verify_crypto_args :: "IrValue \<Rightarrow> IrValue option list \<Rightarrow> mcheck" where
  "mir_verify_crypto_args v [] = m_true"
| "mir_verify_crypto_args v (None # args) = (\<lambda>s. None)"
| "mir_verify_crypto_args v (Some a # args) =
     (if v_type a \<noteq> IR_TYPE_BYTE_VIEW \<and> v_type a \<noteq> IR_TYPE_MAYBE_BYTE_VIEW \<and> \<not> mir_type_is_value (v_type a)
      then m_fail ''MIR verifier found invalid crypto helper arg type'' (v_line v) (v_column v) ''non-byte-view, non-value arg''
      else mir_verify_crypto_args v args)"

definition mir_verify_http_result :: "IrTypeKind \<Rightarrow> IrValue \<Rightarrow> mcheck" where
  "mir_verify_http_result expected v =
     m_and (need_runtime 1 (v_line v) (v_column v) ''std.http result helper'')
     (m_and (need_host 1 (v_line v) (v_column v) ''std.http result helper'')
     (m_and (mir_verify_helper_result_type v expected ''HTTP result helper result'')
       (mir_verify_value_type (v_left v) IR_TYPE_U64 ''MIR verifier found invalid HTTP result helper input'' ''HTTP result'')))"

definition mir_verify_http_response :: "IrValue \<Rightarrow> mcheck" where
  "mir_verify_http_response v =
     m_and (need_runtime 1 (v_line v) (v_column v) ''std.http response helper'')
     (m_and (need_host 1 (v_line v) (v_column v) ''std.http response helper'')
     (m_and (mir_verify_helper_result_type v IR_TYPE_USIZE ''HTTP response helper result'')
       (mir_verify_value_type (v_left v) IR_TYPE_BYTE_VIEW ''MIR verifier found invalid HTTP response helper input'' ''HTTP response'')))"

definition mir_verify_http_header :: "IrTypeKind \<Rightarrow> IrValue \<Rightarrow> mcheck" where
  "mir_verify_http_header expected v =
     m_and (need_runtime 1 (v_line v) (v_column v) ''std.http header result helper'')
     (m_and (need_host 1 (v_line v) (v_column v) ''std.http header result helper'')
     (m_and (mir_verify_helper_result_type v expected ''HTTP header result helper result'')
       (mir_verify_value_type (v_left v) IR_TYPE_U64 ''MIR verifier found invalid HTTP header result helper input'' ''HTTP header result'')))"

definition mir_verify_direct_helper_value_contract :: "IrFunction \<Rightarrow> IrValue \<Rightarrow> mcheck" where
  "mir_verify_direct_helper_value_contract fn v = m_valid (case v_kind v of
     IR_VALUE_FIXED_BUF_ALLOC \<Rightarrow>
       m_and (need_allocator 1 (v_line v) (v_column v) ''std.mem.fixedBufAlloc'')
       (m_and (mir_verify_helper_result_type v IR_TYPE_ALLOC ''FixedBufAlloc result'')
         (mir_verify_mutable_byte_storage fn (v_left v) ''MIR verifier found invalid FixedBufAlloc helper value'' ''allocator storage''))
   | IR_VALUE_ALLOC_BYTES \<Rightarrow>
       m_and (need_allocator 2 (v_line v) (v_column v) ''std.mem.allocBytes'')
       (m_and (mir_verify_helper_result_type v IR_TYPE_MAYBE_BYTE_VIEW ''allocation result'')
       (m_and (mir_verify_mutable_local_value_kind fn (v_local v) IR_TYPE_ALLOC (v_line v) (v_column v) ''MIR verifier found invalid allocation helper target'' ''allocator'')
         (mir_verify_value_is_integer (v_left v) ''MIR verifier found invalid allocation helper length'' ''allocation length'')))
   | IR_VALUE_VEC_INIT \<Rightarrow>
       m_and (need_buffer 1 (v_line v) (v_column v) ''std.mem.vec'')
       (m_and (mir_verify_helper_result_type v IR_TYPE_VEC ''Vec result'')
         (mir_verify_mutable_byte_storage fn (v_left v) ''MIR verifier found invalid Vec helper value'' ''Vec storage''))
   | IR_VALUE_VEC_PUSH \<Rightarrow>
       m_and (need_buffer 2 (v_line v) (v_column v) ''std.mem.vecPush'')
       (m_and (mir_verify_helper_result_type v IR_TYPE_BOOL ''Vec push result'')
       (m_and (mir_verify_mutable_local_value_kind fn (v_local v) IR_TYPE_VEC (v_line v) (v_column v) ''MIR verifier found invalid Vec helper target'' ''Vec'')
         (mir_verify_value_type (v_left v) IR_TYPE_U8 ''MIR verifier found invalid Vec push value'' ''Vec item'')))
   | IR_VALUE_VEC_LEN \<Rightarrow>
       m_and (need_buffer 3 (v_line v) (v_column v) ''std.mem.vecLen'')
       (m_and (mir_verify_helper_result_type v IR_TYPE_USIZE ''Vec length result'')
         (mir_verify_local_value_kind fn (v_local v) IR_TYPE_VEC (v_line v) (v_column v) ''MIR verifier found invalid Vec helper target'' ''Vec''))
   | IR_VALUE_VEC_CAPACITY \<Rightarrow>
       m_and (need_buffer 3 (v_line v) (v_column v) ''std.mem.vecCapacity'')
       (m_and (mir_verify_helper_result_type v IR_TYPE_USIZE ''Vec capacity result'')
         (mir_verify_local_value_kind fn (v_local v) IR_TYPE_VEC (v_line v) (v_column v) ''MIR verifier found invalid Vec helper target'' ''Vec''))
   | IR_VALUE_JSON_PARSE_BYTES \<Rightarrow>
       m_and (need_allocator 2 (v_line v) (v_column v) ''std.json.parseBytes'')
       (m_and (need_runtime 1 (v_line v) (v_column v) ''std.json.parseBytes'')
       (m_and (need_host 1 (v_line v) (v_column v) ''std.json.parseBytes'')
       (m_and (mir_verify_helper_result_type v IR_TYPE_I64 ''JSON parse result'')
       (m_and (mir_verify_mutable_local_value_kind fn (v_local v) IR_TYPE_ALLOC (v_line v) (v_column v) ''MIR verifier found invalid JSON parse allocator'' ''allocator'')
         (mir_verify_value_type (v_left v) IR_TYPE_BYTE_VIEW ''MIR verifier found invalid JSON runtime helper input'' ''JSON bytes'')))))
   | IR_VALUE_JSON_VALIDATE_BYTES \<Rightarrow>
       m_and (need_runtime 1 (v_line v) (v_column v) ''std.json.validateBytes'')
       (m_and (need_host 1 (v_line v) (v_column v) ''std.json.validateBytes'')
       (m_and (mir_verify_helper_result_type v IR_TYPE_BOOL ''JSON validate result'')
         (mir_verify_value_type (v_left v) IR_TYPE_BYTE_VIEW ''MIR verifier found invalid JSON runtime helper input'' ''JSON bytes'')))
   | IR_VALUE_JSON_STREAM_TOKENS_BYTES \<Rightarrow>
       m_and (need_runtime 1 (v_line v) (v_column v) ''std.json.streamTokensBytes'')
       (m_and (need_host 1 (v_line v) (v_column v) ''std.json.streamTokensBytes'')
       (m_and (mir_verify_helper_result_type v IR_TYPE_USIZE ''JSON token count result'')
         (mir_verify_value_type (v_left v) IR_TYPE_BYTE_VIEW ''MIR verifier found invalid JSON runtime helper input'' ''JSON bytes'')))
   | IR_VALUE_HTTP_FETCH \<Rightarrow>
       m_and (need_runtime 2 (v_line v) (v_column v) ''std.http.fetch'')
       (m_and (need_host 2 (v_line v) (v_column v) ''std.http.fetch'')
       (m_and (need_http 1 (v_line v) (v_column v) ''std.http.fetch'')
       (m_and (mir_verify_helper_result_type v IR_TYPE_U64 ''HTTP fetch result'')
       (m_and (mir_verify_value_type (v_left v) IR_TYPE_BYTE_VIEW ''MIR verifier found invalid HTTP fetch request'' ''HTTP request'')
       (m_and (mir_verify_mutable_byte_storage fn (v_right v) ''MIR verifier found invalid HTTP fetch response buffer'' ''HTTP response buffer'')
         (mir_verify_value_type (v_index v) IR_TYPE_I64 ''MIR verifier found invalid HTTP fetch timeout'' ''HTTP timeout''))))))
   | IR_VALUE_HTTP_RESULT_OK \<Rightarrow> mir_verify_http_result IR_TYPE_BOOL v
   | IR_VALUE_HTTP_RESULT_STATUS \<Rightarrow> mir_verify_http_result IR_TYPE_U16 v
   | IR_VALUE_HTTP_RESULT_BODY_LEN \<Rightarrow> mir_verify_http_result IR_TYPE_USIZE v
   | IR_VALUE_HTTP_RESULT_ERROR \<Rightarrow> mir_verify_http_result IR_TYPE_U32 v
   | IR_VALUE_HTTP_RESPONSE_LEN \<Rightarrow> mir_verify_http_response v
   | IR_VALUE_HTTP_RESPONSE_HEADERS_LEN \<Rightarrow> mir_verify_http_response v
   | IR_VALUE_HTTP_RESPONSE_BODY_OFFSET \<Rightarrow> mir_verify_http_response v
   | IR_VALUE_HTTP_HEADER_VALUE \<Rightarrow>
       m_and (need_runtime 1 (v_line v) (v_column v) ''std.http.headerValue'')
       (m_and (need_host 1 (v_line v) (v_column v) ''std.http.headerValue'')
       (m_and (mir_verify_helper_result_type v IR_TYPE_U64 ''HTTP header value result'')
       (m_and (mir_verify_value_type (v_left v) IR_TYPE_BYTE_VIEW ''MIR verifier found invalid HTTP header helper input'' ''HTTP headers'')
         (mir_verify_value_type (v_right v) IR_TYPE_BYTE_VIEW ''MIR verifier found invalid HTTP header helper input'' ''HTTP header name''))))
   | IR_VALUE_HTTP_HEADER_FOUND \<Rightarrow> mir_verify_http_header IR_TYPE_BOOL v
   | IR_VALUE_HTTP_HEADER_OFFSET \<Rightarrow> mir_verify_http_header IR_TYPE_USIZE v
   | IR_VALUE_HTTP_HEADER_LEN \<Rightarrow> mir_verify_http_header IR_TYPE_USIZE v
   | IR_VALUE_CRYPTO_HELPER \<Rightarrow>
       m_and (need_runtime 1 (v_line v) (v_column v) (crypto_name (vf_error_code (v_fields v))))
       (m_and (mir_verify_helper_result_type v IR_TYPE_U32 ''Crypto helper result'')
         (mir_verify_crypto_args v (v_args v)))
   | _ \<Rightarrow> m_true)"

section \<open>Arrays, byte views and Maybe values\<close>

definition mir_verify_array_load_contract :: "IrFunction \<Rightarrow> IrValue \<Rightarrow> mcheck" where
  "mir_verify_array_load_contract fn v =
     m_and (mir_verify_local_index fn (v_array v) (v_line v) (v_column v) ''MIR verifier found array load outside the local table'')
       (let l = f_locals fn ! v_array v
        in m_and (m_require (l_is_array l) ''MIR verifier found array load from a non-array local'' (v_line v) (v_column v)
               (snprintf 160 (''local '' @ lname l @ '' is '' @ mir_type_kind_name (l_type l))))
          (m_and (mir_verify_value_is_integer (v_index v) ''MIR verifier found invalid array load index'' ''array index'')
            (m_require (v_type v = l_element_type l) ''MIR verifier found array load type mismatch'' (v_line v) (v_column v)
               (snprintf 160 (''array load has '' @ mir_type_kind_name (v_type v) @ '' but element is '' @ mir_type_kind_name (l_element_type l))))))"

definition mir_verify_array_byte_view_contract :: "IrFunction \<Rightarrow> IrValue \<Rightarrow> mcheck" where
  "mir_verify_array_byte_view_contract fn v =
     m_and (mir_verify_value_type (Some v) IR_TYPE_BYTE_VIEW ''MIR verifier found byte-view result type mismatch'' ''array byte view result'')
     (m_and (mir_verify_local_index fn (v_array v) (v_line v) (v_column v) ''MIR verifier found array byte view outside the local table'')
       (let l = f_locals fn ! v_array v
        in m_and (m_require (l_is_array l \<and> l_element_type l = IR_TYPE_U8) ''MIR verifier found array byte view from a non-byte array local'' (v_line v) (v_column v)
               (snprintf 160 (''local '' @ lname l @ '' is '' @ (if l_is_array l then ''an'' else ''not an'') @ '' array element '' @ mir_type_kind_name (l_element_type l))))
            (m_require (vf_data_len (v_fields v) = l_array_len l) ''MIR verifier found array byte view length mismatch'' (v_line v) (v_column v)
               (snprintf 128 (''byte view length '' @ dec (vf_data_len (v_fields v)) @ '' but array length is '' @ dec (l_array_len l))))))"

definition mir_verify_maybe_value_contract :: "IrFunction \<Rightarrow> IrValue \<Rightarrow> mcheck" where
  "mir_verify_maybe_value_contract fn v =
     m_and (mir_verify_local_index fn (v_local v) (v_line v) (v_column v) ''MIR verifier found maybe helper outside the local table'')
       (let l = f_locals fn ! v_local v;
            mismatch = m_fail ''MIR verifier found maybe helper for a non-Maybe local'' (v_line v) (v_column v)
              (snprintf 160 (''local '' @ lname l @ '' has '' @ mir_type_kind_name (l_type l)))
        in if v_kind v = IR_VALUE_MAYBE_HAS then
             m_and (m_require (v_type v = IR_TYPE_BOOL) ''MIR verifier found maybe helper result type mismatch'' (v_line v) (v_column v)
                 (snprintf 128 (''Maybe.has result is '' @ mir_type_kind_name (v_type v))))
               (if l_type l = IR_TYPE_MAYBE_BYTE_VIEW \<or> l_type l = IR_TYPE_MAYBE_SCALAR then m_true else mismatch)
           else if v_kind v = IR_VALUE_MAYBE_VALUE then
             (if l_type l = IR_TYPE_MAYBE_BYTE_VIEW then
                mir_verify_value_type (Some v) IR_TYPE_BYTE_VIEW ''MIR verifier found maybe value type mismatch'' ''Maybe byte-view value''
              else if l_type l = IR_TYPE_MAYBE_SCALAR then
                mir_verify_value_is_integer (Some v) ''MIR verifier found maybe scalar value type mismatch'' ''Maybe scalar value''
              else mismatch)
           else mismatch)"

definition mir_verify_byte_view_value_contract :: "IrValue \<Rightarrow> mcheck" where
  "mir_verify_byte_view_value_contract v =
     m_and (mir_verify_value_type (Some v) IR_TYPE_BYTE_VIEW ''MIR verifier found byte-view result type mismatch'' ''byte-view result'')
       (if v_kind v = IR_VALUE_BYTE_SLICE then
          m_and (mir_verify_value_type (v_left v) IR_TYPE_BYTE_VIEW ''MIR verifier found invalid byte slice base'' ''slice base'')
          (m_and (if v_index v \<noteq> None then mir_verify_value_is_integer (v_index v) ''MIR verifier found invalid byte slice start'' ''slice start'' else m_true)
            (if v_right v \<noteq> None then mir_verify_value_is_integer (v_right v) ''MIR verifier found invalid byte slice end'' ''slice end'' else m_true))
        else m_true)"

definition mir_verify_byte_mutation_value_contract :: "IrFunction \<Rightarrow> IrValue \<Rightarrow> mcheck" where
  "mir_verify_byte_mutation_value_contract fn v =
     m_valid
      (m_and (mir_verify_helper_result_type v IR_TYPE_USIZE (if v_kind v = IR_VALUE_BYTE_COPY then ''byte copy result'' else ''byte fill result''))
        (if v_kind v = IR_VALUE_BYTE_COPY then
           m_and (mir_verify_value_type (v_left v) IR_TYPE_BYTE_VIEW ''MIR verifier found invalid byte copy source'' ''byte copy source'')
             (mir_verify_mutable_byte_storage fn (v_right v) ''MIR verifier found invalid byte copy destination'' ''byte copy destination'')
         else if v_kind v = IR_VALUE_BYTE_FILL then
           m_and (mir_verify_value_type (v_left v) IR_TYPE_U8 ''MIR verifier found invalid byte fill value'' ''byte fill value'')
             (mir_verify_mutable_byte_storage fn (v_right v) ''MIR verifier found invalid byte fill destination'' ''byte fill destination'')
         else m_true))"

section \<open>Fallible values\<close>

definition mir_verify_fallible_flow_value_contract :: "IrFunction \<Rightarrow> IrValue \<Rightarrow> mcheck" where
  "mir_verify_fallible_flow_value_contract fn v =
     m_valid
      (if v_kind v = IR_VALUE_CHECK then
         (case v_left v of
            None \<Rightarrow> m_fail ''MIR verifier found invalid check input'' (v_line v) (v_column v) (snprintf 160 (''check input is '' @ vtype_name (v_left v)))
          | Some a \<Rightarrow>
            m_and (m_require (v_type a = IR_TYPE_I64) ''MIR verifier found invalid check input'' (v_line v) (v_column v)
                (snprintf 160 (''check input is '' @ vtype_name (v_left v))))
            (m_and (m_require (v_type v = v_elem a) ''MIR verifier found check result type mismatch'' (v_line v) (v_column v)
                (snprintf 160 (''check result is '' @ mir_type_kind_name (v_type v) @ '' but fallible value carries '' @ mir_type_kind_name (v_elem a))))
              (m_require (f_raises fn \<or> f_world_param_name fn \<noteq> None) ''MIR verifier found check in a non-fallible function'' (v_line v) (v_column v) (fname fn))))
       else if v_kind v = IR_VALUE_RESCUE then
         (case (v_left v, v_right v) of
            (Some a, Some b) \<Rightarrow>
              m_and (m_require (v_type a = IR_TYPE_I64) ''MIR verifier found invalid rescue input'' (v_line v) (v_column v)
                  (snprintf 160 (''rescue input is '' @ vtype_name (v_left v) @ '' and fallback is '' @ vtype_name (v_right v))))
                (m_require (v_type v = v_elem a \<and> v_type b = v_type v) ''MIR verifier found rescue type mismatch'' (v_line v) (v_column v)
                  (snprintf 192 (''rescue result '' @ mir_type_kind_name (v_type v) @ '', fallible value '' @ mir_type_kind_name (v_elem a)
                     @ '', fallback '' @ mir_type_kind_name (v_type b))))
          | _ \<Rightarrow> m_fail ''MIR verifier found invalid rescue input'' (v_line v) (v_column v)
                  (snprintf 160 (''rescue input is '' @ vtype_name (v_left v) @ '' and fallback is '' @ vtype_name (v_right v))))
       else m_true)"

section \<open>Arithmetic\<close>

definition mir_is_primitive :: "IrTypeKind \<Rightarrow> bool" where
  "mir_is_primitive ty \<longleftrightarrow> ty = IR_TYPE_BOOL \<or> mir_type_is_integer_value ty \<or> ty = IR_TYPE_F32 \<or> ty = IR_TYPE_F64"

definition mir_verify_direct_primitive_value :: "IrValue option \<Rightarrow> string \<Rightarrow> string \<Rightarrow> mcheck" where
  "mir_verify_direct_primitive_value v message role =
     m_valid (m_require (case v of None \<Rightarrow> False | Some v \<Rightarrow> mir_is_primitive (v_type v)) message (vline v) (vcolumn v)
       (snprintf 160 (role @ '' is '' @ vtype_name v)))"

definition mir_verify_same_type_operands :: "IrValue \<Rightarrow> string \<Rightarrow> string \<Rightarrow> mcheck" where
  "mir_verify_same_type_operands v message role =
     m_valid (m_require
       (case (v_left v, v_right v) of (Some a, Some b) \<Rightarrow> v_type a = v_type v \<and> v_type b = v_type v | _ \<Rightarrow> False)
       message (v_line v) (v_column v)
       (snprintf 192 (role @ '' result '' @ mir_type_kind_name (v_type v) @ '' left '' @ vtype_name (v_left v) @ '' right '' @ vtype_name (v_right v))))"

definition mir_verify_cast_value_contract :: "IrValue \<Rightarrow> mcheck" where
  "mir_verify_cast_value_contract v =
     m_and (mir_verify_direct_primitive_value (Some v) ''MIR verifier found cast result type mismatch'' ''cast result'')
       (mir_verify_direct_primitive_value (v_left v) ''MIR verifier found cast input type mismatch'' ''cast input'')"

definition mir_verify_binary_value_contract :: "IrValue \<Rightarrow> mcheck" where
  "mir_verify_binary_value_contract v =
     m_and (mir_verify_direct_primitive_value (Some v) ''MIR verifier found binary result type mismatch'' ''binary result'')
     (m_and (let opn = vf_binary_op (v_fields v)
        in m_require (\<not> ((opn = IR_BIN_ADD \<or> opn = IR_BIN_SUB \<or> opn = IR_BIN_MUL \<or> opn = IR_BIN_DIV \<or> opn = IR_BIN_MOD
              \<or> opn = IR_BIN_XOR \<or> opn = IR_BIN_SHL \<or> opn = IR_BIN_SHR \<or> opn = IR_BIN_ROL \<or> opn = IR_BIN_ROR)
              \<and> v_type v = IR_TYPE_BOOL))
            ''MIR verifier found invalid boolean arithmetic'' (v_line v) (v_column v) ''arithmetic result is Bool'')
       (mir_verify_same_type_operands v ''MIR verifier found binary operand type mismatch'' ''binary''))"

definition mir_verify_compare_value_contract :: "IrValue \<Rightarrow> mcheck" where
  "mir_verify_compare_value_contract v =
     m_and (mir_verify_value_type (Some v) IR_TYPE_BOOL ''MIR verifier found compare result type mismatch'' ''compare result'')
       (m_require (case (v_left v, v_right v) of (Some a, Some b) \<Rightarrow> v_type a = v_type b \<and> mir_is_primitive (v_type a) | _ \<Rightarrow> False)
          ''MIR verifier found compare operand type mismatch'' (v_line v) (v_column v)
          (snprintf 192 (''compare left '' @ vtype_name (v_left v) @ '' right '' @ vtype_name (v_right v))))"

end
