(* ===== verification/MirFlow.thy ===== *)
theory MirFlow
  imports MirValue
begin

text \<open>
  The rest of \<open>mir_verify.c\<close>: filesystem and platform values, the dispatch on the value kind, the
  walk over values and instructions with the dataflow of the mutable Maybe payloads, and
  \<open>z_mir_verify_direct_contracts\<close>. Allocation of a dataflow state is assumed to succeed.
\<close>

section \<open>Filesystem values\<close>

definition mir_verify_maybe_scalar_result :: "IrValue \<Rightarrow> IrTypeKind \<Rightarrow> string \<Rightarrow> string \<Rightarrow> mcheck" where
  "mir_verify_maybe_scalar_result v element_type message role =
     m_valid (m_require (v_type v = IR_TYPE_MAYBE_SCALAR \<and> v_elem v = element_type) message (v_line v) (v_column v)
       (snprintf 192 (role @ '' result '' @ mir_type_kind_name (v_type v) @ '' value '' @ mir_type_kind_name (v_elem v)
          @ '' but expected Maybe<'' @ mir_type_kind_name element_type @ ''>'')))"

definition mir_verify_maybe_scalar_or_fallible_result :: "IrValue \<Rightarrow> IrTypeKind \<Rightarrow> string \<Rightarrow> string \<Rightarrow> mcheck" where
  "mir_verify_maybe_scalar_or_fallible_result v element_type message role =
     m_valid (m_require ((v_type v = IR_TYPE_MAYBE_SCALAR \<or> v_type v = IR_TYPE_I64) \<and> v_elem v = element_type) message (v_line v) (v_column v)
       (snprintf 192 (role @ '' result '' @ mir_type_kind_name (v_type v) @ '' value '' @ mir_type_kind_name (v_elem v)
          @ '' but expected Maybe<'' @ mir_type_kind_name element_type @ ''> or fallible '' @ mir_type_kind_name element_type)))"

definition mir_verify_file_local :: "IrFunction \<Rightarrow> IrValue \<Rightarrow> string \<Rightarrow> string \<Rightarrow> mcheck" where
  "mir_verify_file_local fn v message role =
     mir_verify_local_value_kind fn (v_local v) IR_TYPE_I32 (v_line v) (v_column v) message role"

definition mir_verify_byte_view_pair :: "IrValue \<Rightarrow> string \<Rightarrow> string \<Rightarrow> string \<Rightarrow> mcheck" where
  "mir_verify_byte_view_pair v message left_role right_role =
     m_and (mir_verify_value_type (v_left v) IR_TYPE_BYTE_VIEW message left_role)
       (mir_verify_value_type (v_right v) IR_TYPE_BYTE_VIEW message right_role)"

definition mir_verify_fs_path_bool :: "IrValue \<Rightarrow> mcheck" where
  "mir_verify_fs_path_bool v =
     m_and (mir_verify_helper_result_type v IR_TYPE_BOOL ''filesystem boolean result'')
       (mir_verify_value_type (v_left v) IR_TYPE_BYTE_VIEW ''MIR verifier found invalid filesystem path'' ''filesystem path'')"

definition mir_verify_fs_open :: "IrValue \<Rightarrow> mcheck" where
  "mir_verify_fs_open v =
     m_and (mir_verify_maybe_scalar_or_fallible_result v IR_TYPE_I32 ''MIR verifier found filesystem open result type mismatch'' ''filesystem open'')
       (mir_verify_value_type (v_left v) IR_TYPE_BYTE_VIEW ''MIR verifier found invalid filesystem path'' ''filesystem path'')"

definition mir_verify_fs_value_contract :: "IrFunction \<Rightarrow> IrValue \<Rightarrow> mcheck" where
  "mir_verify_fs_value_contract fn v = m_valid (case v_kind v of
     IR_VALUE_FS_HOST \<Rightarrow> mir_verify_helper_result_type v IR_TYPE_I32 ''filesystem host result''
   | IR_VALUE_FS_OPEN \<Rightarrow> mir_verify_fs_open v
   | IR_VALUE_FS_CREATE \<Rightarrow> mir_verify_fs_open v
   | IR_VALUE_FS_READ_PATH \<Rightarrow>
       m_and (mir_verify_helper_result_type v IR_TYPE_USIZE ''filesystem read result'')
       (m_and (mir_verify_value_type (v_left v) IR_TYPE_BYTE_VIEW ''MIR verifier found invalid filesystem read path'' ''filesystem read path'')
         (mir_verify_mutable_byte_storage fn (v_right v) ''MIR verifier found invalid filesystem read buffer'' ''filesystem read buffer''))
   | IR_VALUE_FS_READ_BYTES_PATH \<Rightarrow>
       m_and (mir_verify_maybe_scalar_result v IR_TYPE_USIZE ''MIR verifier found filesystem read result type mismatch'' ''filesystem read bytes'')
       (m_and (mir_verify_value_type (v_left v) IR_TYPE_BYTE_VIEW ''MIR verifier found invalid filesystem read path'' ''filesystem read path'')
         (mir_verify_mutable_byte_storage fn (v_right v) ''MIR verifier found invalid filesystem read buffer'' ''filesystem read buffer''))
   | IR_VALUE_FS_WRITE_PATH \<Rightarrow>
       m_and (mir_verify_helper_result_type v IR_TYPE_USIZE ''filesystem write result'')
         (mir_verify_byte_view_pair v ''MIR verifier found invalid filesystem write input'' ''filesystem write path'' ''filesystem write bytes'')
   | IR_VALUE_FS_WRITE_BYTES_PATH \<Rightarrow>
       m_and (mir_verify_maybe_scalar_result v IR_TYPE_USIZE ''MIR verifier found filesystem write result type mismatch'' ''filesystem write bytes'')
         (mir_verify_byte_view_pair v ''MIR verifier found invalid filesystem write input'' ''filesystem write path'' ''filesystem write bytes'')
   | IR_VALUE_FS_READ_ALL \<Rightarrow>
       m_and (if v_type v = IR_TYPE_MAYBE_BYTE_VIEW then mir_verify_helper_result_type v IR_TYPE_MAYBE_BYTE_VIEW ''filesystem readAll result''
              else m_require (v_type v = IR_TYPE_I64 \<and> v_elem v = IR_TYPE_BYTE_VIEW) ''MIR verifier found filesystem readAll result type mismatch'' (v_line v) (v_column v)
                 (snprintf 160 (''readAll result '' @ mir_type_kind_name (v_type v) @ '' value '' @ mir_type_kind_name (v_elem v))))
       (m_and (mir_verify_mutable_local_value_kind fn (v_local v) IR_TYPE_ALLOC (v_line v) (v_column v) ''MIR verifier found invalid filesystem readAll allocator'' ''allocator'')
       (m_and (mir_verify_value_type (v_left v) IR_TYPE_BYTE_VIEW ''MIR verifier found invalid filesystem readAll path'' ''filesystem readAll path'')
         (mir_verify_value_is_integer (v_right v) ''MIR verifier found invalid filesystem readAll limit'' ''filesystem readAll limit'')))
   | IR_VALUE_FS_READ_FILE \<Rightarrow>
       m_and (mir_verify_maybe_scalar_or_fallible_result v IR_TYPE_USIZE ''MIR verifier found filesystem file read result type mismatch'' ''filesystem file read'')
       (m_and (mir_verify_file_local fn v ''MIR verifier found invalid filesystem file read target'' ''File'')
         (mir_verify_mutable_byte_storage fn (v_left v) ''MIR verifier found invalid filesystem file read buffer'' ''filesystem file read buffer''))
   | IR_VALUE_FS_WRITE_ALL_FILE \<Rightarrow>
       m_and (if v_type v = IR_TYPE_BOOL then
                m_require (v_elem v = IR_TYPE_VOID) ''MIR verifier found filesystem file write result type mismatch'' (v_line v) (v_column v)
                  ''writeAll Bool result carries non-Void value''
              else m_require (v_type v = IR_TYPE_I64 \<and> v_elem v = IR_TYPE_VOID) ''MIR verifier found filesystem file write result type mismatch'' (v_line v) (v_column v)
                  (snprintf 160 (''writeAll result '' @ mir_type_kind_name (v_type v) @ '' value '' @ mir_type_kind_name (v_elem v))))
       (m_and (mir_verify_file_local fn v ''MIR verifier found invalid filesystem file write target'' ''File'')
         (mir_verify_value_type (v_left v) IR_TYPE_BYTE_VIEW ''MIR verifier found invalid filesystem file write bytes'' ''filesystem file write bytes''))
   | IR_VALUE_FS_CLOSE_FILE \<Rightarrow>
       m_and (mir_verify_helper_result_type v IR_TYPE_VOID ''filesystem close result'')
         (mir_verify_file_local fn v ''MIR verifier found invalid filesystem close target'' ''File'')
   | IR_VALUE_FS_EXISTS \<Rightarrow> mir_verify_fs_path_bool v
   | IR_VALUE_FS_REMOVE \<Rightarrow> mir_verify_fs_path_bool v
   | IR_VALUE_FS_MAKE_DIR \<Rightarrow> mir_verify_fs_path_bool v
   | IR_VALUE_FS_REMOVE_DIR \<Rightarrow> mir_verify_fs_path_bool v
   | IR_VALUE_FS_IS_DIR \<Rightarrow> mir_verify_fs_path_bool v
   | IR_VALUE_FS_RENAME \<Rightarrow>
       m_and (mir_verify_helper_result_type v IR_TYPE_BOOL ''filesystem rename result'')
         (mir_verify_byte_view_pair v ''MIR verifier found invalid filesystem rename input'' ''filesystem rename source'' ''filesystem rename destination'')
   | IR_VALUE_FS_FILE_LEN \<Rightarrow>
       m_and (mir_verify_maybe_scalar_or_fallible_result v IR_TYPE_USIZE ''MIR verifier found filesystem file length result type mismatch'' ''filesystem file length'')
         (mir_verify_file_local fn v ''MIR verifier found invalid filesystem file length target'' ''File'')
   | IR_VALUE_FS_DIR_ENTRY_COUNT \<Rightarrow>
       m_and (mir_verify_maybe_scalar_result v IR_TYPE_USIZE ''MIR verifier found filesystem directory count result type mismatch'' ''filesystem directory count'')
         (mir_verify_value_type (v_left v) IR_TYPE_BYTE_VIEW ''MIR verifier found invalid filesystem directory path'' ''filesystem directory path'')
   | IR_VALUE_FS_TEMP_NAME \<Rightarrow>
       m_and (mir_verify_helper_result_type v IR_TYPE_MAYBE_BYTE_VIEW ''filesystem temp name result'')
       (m_and (mir_verify_mutable_byte_storage fn (v_left v) ''MIR verifier found invalid filesystem temp buffer'' ''filesystem temp buffer'')
         (mir_verify_value_type (v_right v) IR_TYPE_BYTE_VIEW ''MIR verifier found invalid filesystem temp prefix'' ''filesystem temp prefix''))
   | IR_VALUE_FS_ATOMIC_WRITE \<Rightarrow>
       m_and (mir_verify_helper_result_type v IR_TYPE_BOOL ''filesystem atomic write result'')
       (m_and (mir_verify_byte_view_pair v ''MIR verifier found invalid filesystem atomic write input'' ''filesystem atomic write path'' ''filesystem atomic write temp path'')
         (mir_verify_value_type (v_index v) IR_TYPE_BYTE_VIEW ''MIR verifier found invalid filesystem atomic write bytes'' ''filesystem atomic write bytes''))
   | _ \<Rightarrow> m_true)"

section \<open>Platform values\<close>

definition mir_verify_platform_value_contract :: "IrFunction \<Rightarrow> IrValue \<Rightarrow> mcheck" where
  "mir_verify_platform_value_contract fn v = m_valid (case v_kind v of
     IR_VALUE_ARGS_LEN \<Rightarrow> mir_verify_helper_result_type v IR_TYPE_USIZE ''args length result''
   | IR_VALUE_ARGS_GET \<Rightarrow>
       m_and (mir_verify_helper_result_type v IR_TYPE_MAYBE_BYTE_VIEW ''args get result'')
         (mir_verify_value_is_integer (v_left v) ''MIR verifier found invalid args index'' ''args index'')
   | IR_VALUE_ENV_GET \<Rightarrow>
       m_and (mir_verify_helper_result_type v IR_TYPE_MAYBE_BYTE_VIEW ''environment get result'')
         (mir_verify_value_type (v_left v) IR_TYPE_BYTE_VIEW ''MIR verifier found invalid environment key'' ''environment key'')
   | IR_VALUE_TIME_WALL_SECONDS \<Rightarrow> mir_verify_helper_result_type v IR_TYPE_I64 ''wall time result''
   | IR_VALUE_TIME_MONOTONIC \<Rightarrow> mir_verify_helper_result_type v IR_TYPE_I64 ''monotonic time result''
   | IR_VALUE_TIME_AS_MS \<Rightarrow>
       m_and (mir_verify_helper_result_type v IR_TYPE_I32 ''duration milliseconds result'')
         (mir_verify_value_type (v_left v) IR_TYPE_I64 ''MIR verifier found invalid duration conversion input'' ''duration value'')
   | IR_VALUE_RAND_NEXT_U32 \<Rightarrow>
       m_and (mir_verify_helper_result_type v IR_TYPE_U32 ''random next result'')
       (m_and (mir_verify_local_value_kind fn (v_local v) IR_TYPE_U32 (v_line v) (v_column v) ''MIR verifier found invalid random source'' ''random source'')
         (m_require (l_is_mutable (f_locals fn ! v_local v)) ''MIR verifier found immutable random source'' (v_line v) (v_column v)
            (lname (f_locals fn ! v_local v))))
   | IR_VALUE_RAND_ENTROPY_U32 \<Rightarrow> mir_verify_helper_result_type v IR_TYPE_U32 ''entropy result''
   | _ \<Rightarrow> m_true)"

section \<open>The dispatch on the value kind\<close>

definition mir_verify_local_value :: "IrFunction \<Rightarrow> IrValue \<Rightarrow> mcheck" where
  "mir_verify_local_value fn v =
     m_and (mir_verify_local_index fn (v_local v) (v_line v) (v_column v) ''MIR verifier found local value outside the local table'')
       (let l = f_locals fn ! v_local v
        in m_require (v_type v = l_type l) ''MIR verifier found local value type mismatch'' (v_line v) (v_column v)
          (snprintf 192 (''local value '' @ dec (v_local v) @ '' has '' @ mir_type_kind_name (v_type v) @ '' but local '' @ lname l @ '' has ''
             @ mir_type_kind_name (l_type l))))"

definition mir_verify_field_load :: "IrFunction \<Rightarrow> IrValue \<Rightarrow> mcheck" where
  "mir_verify_field_load fn v =
     m_and (mir_verify_local_index fn (v_local v) (v_line v) (v_column v) ''MIR verifier found field load outside the local table'')
       (let l = f_locals fn ! v_local v
        in m_and (m_require (l_is_record l) ''MIR verifier found field load from a non-record local'' (v_line v) (v_column v)
             (snprintf 160 (''local '' @ lname l @ '' is '' @ mir_type_kind_name (l_type l))))
           (mir_verify_record_field_span l (vf_field_offset (v_fields v)) (v_type v) (v_line v) (v_column v) ''MIR verifier found field load outside the local storage''))"

definition mir_verify_direct_value_kind_contract :: "IrFunction list \<Rightarrow> IrFunction \<Rightarrow> IrValue \<Rightarrow> mcheck" where
  "mir_verify_direct_value_kind_contract fns fn v = m_valid (case v_kind v of
     IR_VALUE_INT \<Rightarrow>
       if v_type v = IR_TYPE_F32 \<or> v_type v = IR_TYPE_F64 then m_true
       else mir_verify_value_is_integer (Some v) ''MIR verifier found integer literal type mismatch'' ''integer literal''
   | IR_VALUE_BOOL \<Rightarrow> mir_verify_value_type (Some v) IR_TYPE_BOOL ''MIR verifier found boolean literal type mismatch'' ''boolean literal''
   | IR_VALUE_LOCAL \<Rightarrow> mir_verify_local_value fn v
   | IR_VALUE_CAST \<Rightarrow> mir_verify_cast_value_contract v
   | IR_VALUE_BINARY \<Rightarrow> mir_verify_binary_value_contract v
   | IR_VALUE_COMPARE \<Rightarrow> mir_verify_compare_value_contract v
   | IR_VALUE_CALL \<Rightarrow> mir_verify_direct_call_contract fns v
   | IR_VALUE_INDEX_LOAD \<Rightarrow> mir_verify_array_load_contract fn v
   | IR_VALUE_STRING_LITERAL \<Rightarrow> mir_verify_value_type (Some v) IR_TYPE_BYTE_VIEW ''MIR verifier found string literal type mismatch'' ''string literal''
   | IR_VALUE_ARRAY_BYTE_VIEW \<Rightarrow> mir_verify_array_byte_view_contract fn v
   | IR_VALUE_BYTE_SLICE \<Rightarrow> mir_verify_byte_view_value_contract v
   | IR_VALUE_BYTE_VIEW_LEN \<Rightarrow>
       m_and (mir_verify_byte_view_len_result v)
         (mir_verify_value_type (v_left v) IR_TYPE_BYTE_VIEW ''MIR verifier found invalid byte-view length input'' ''byte-view length input'')
   | IR_VALUE_BYTE_VIEW_INDEX_LOAD \<Rightarrow>
       m_and (mir_verify_value_type (Some v) IR_TYPE_U8 ''MIR verifier found byte-view index load result type mismatch'' ''byte-view index load'')
       (m_and (mir_verify_value_type (v_left v) IR_TYPE_BYTE_VIEW ''MIR verifier found invalid byte-view index load input'' ''byte-view index load input'')
         (mir_verify_value_is_integer (v_index v) ''MIR verifier found invalid byte-view index load index'' ''byte-view index''))
   | IR_VALUE_BYTE_VIEW_EQ \<Rightarrow>
       m_and (mir_verify_value_type (Some v) IR_TYPE_BOOL ''MIR verifier found byte-view equality result type mismatch'' ''byte-view equality result'')
         (mir_verify_byte_view_pair v ''MIR verifier found invalid byte-view equality input'' ''byte-view equality left'' ''byte-view equality right'')
   | IR_VALUE_BYTE_COPY \<Rightarrow> mir_verify_byte_mutation_value_contract fn v
   | IR_VALUE_BYTE_FILL \<Rightarrow> mir_verify_byte_mutation_value_contract fn v
   | IR_VALUE_CRC32_BYTES \<Rightarrow>
       m_and (mir_verify_helper_result_type v IR_TYPE_U32 ''CRC32 result'')
         (mir_verify_value_type (v_left v) IR_TYPE_BYTE_VIEW ''MIR verifier found invalid CRC32 input'' ''CRC32 bytes'')
   | IR_VALUE_FIXED_BUF_ALLOC \<Rightarrow> mir_verify_direct_helper_value_contract fn v
   | IR_VALUE_VEC_INIT \<Rightarrow> mir_verify_direct_helper_value_contract fn v
   | IR_VALUE_VEC_PUSH \<Rightarrow> mir_verify_direct_helper_value_contract fn v
   | IR_VALUE_VEC_LEN \<Rightarrow> mir_verify_direct_helper_value_contract fn v
   | IR_VALUE_VEC_CAPACITY \<Rightarrow> mir_verify_direct_helper_value_contract fn v
   | IR_VALUE_ALLOC_BYTES \<Rightarrow> mir_verify_direct_helper_value_contract fn v
   | IR_VALUE_JSON_PARSE_BYTES \<Rightarrow> mir_verify_direct_helper_value_contract fn v
   | IR_VALUE_JSON_VALIDATE_BYTES \<Rightarrow> mir_verify_direct_helper_value_contract fn v
   | IR_VALUE_JSON_STREAM_TOKENS_BYTES \<Rightarrow> mir_verify_direct_helper_value_contract fn v
   | IR_VALUE_HTTP_FETCH \<Rightarrow> mir_verify_direct_helper_value_contract fn v
   | IR_VALUE_HTTP_RESULT_OK \<Rightarrow> mir_verify_direct_helper_value_contract fn v
   | IR_VALUE_HTTP_RESULT_STATUS \<Rightarrow> mir_verify_direct_helper_value_contract fn v
   | IR_VALUE_HTTP_RESULT_BODY_LEN \<Rightarrow> mir_verify_direct_helper_value_contract fn v
   | IR_VALUE_HTTP_RESULT_ERROR \<Rightarrow> mir_verify_direct_helper_value_contract fn v
   | IR_VALUE_HTTP_RESPONSE_LEN \<Rightarrow> mir_verify_direct_helper_value_contract fn v
   | IR_VALUE_HTTP_RESPONSE_HEADERS_LEN \<Rightarrow> mir_verify_direct_helper_value_contract fn v
   | IR_VALUE_HTTP_RESPONSE_BODY_OFFSET \<Rightarrow> mir_verify_direct_helper_value_contract fn v
   | IR_VALUE_HTTP_HEADER_VALUE \<Rightarrow> mir_verify_direct_helper_value_contract fn v
   | IR_VALUE_HTTP_HEADER_FOUND \<Rightarrow> mir_verify_direct_helper_value_contract fn v
   | IR_VALUE_HTTP_HEADER_OFFSET \<Rightarrow> mir_verify_direct_helper_value_contract fn v
   | IR_VALUE_HTTP_HEADER_LEN \<Rightarrow> mir_verify_direct_helper_value_contract fn v
   | IR_VALUE_CRYPTO_HELPER \<Rightarrow> mir_verify_direct_helper_value_contract fn v
   | IR_VALUE_MAYBE_HAS \<Rightarrow> mir_verify_maybe_value_contract fn v
   | IR_VALUE_MAYBE_VALUE \<Rightarrow> mir_verify_maybe_value_contract fn v
   | IR_VALUE_MAYBE_SCALAR_LITERAL \<Rightarrow>
       m_and (mir_verify_helper_result_type v IR_TYPE_MAYBE_SCALAR ''Maybe scalar literal'')
         (m_require (\<not> (\<not> mir_type_is_integer_value (v_elem v) \<or> 1 < vf_data_len (v_fields v))) ''MIR verifier found invalid Maybe scalar literal'' (v_line v) (v_column v)
            (snprintf 160 (''Maybe scalar literal value '' @ mir_type_kind_name (v_elem v) @ '' has flag '' @ dec (vf_data_len (v_fields v)))))
   | IR_VALUE_ARGS_LEN \<Rightarrow> mir_verify_platform_value_contract fn v
   | IR_VALUE_ARGS_GET \<Rightarrow> mir_verify_platform_value_contract fn v
   | IR_VALUE_ENV_GET \<Rightarrow> mir_verify_platform_value_contract fn v
   | IR_VALUE_TIME_WALL_SECONDS \<Rightarrow> mir_verify_platform_value_contract fn v
   | IR_VALUE_TIME_MONOTONIC \<Rightarrow> mir_verify_platform_value_contract fn v
   | IR_VALUE_TIME_AS_MS \<Rightarrow> mir_verify_platform_value_contract fn v
   | IR_VALUE_RAND_NEXT_U32 \<Rightarrow> mir_verify_platform_value_contract fn v
   | IR_VALUE_RAND_ENTROPY_U32 \<Rightarrow> mir_verify_platform_value_contract fn v
   | IR_VALUE_FS_HOST \<Rightarrow> mir_verify_fs_value_contract fn v
   | IR_VALUE_FS_OPEN \<Rightarrow> mir_verify_fs_value_contract fn v
   | IR_VALUE_FS_CREATE \<Rightarrow> mir_verify_fs_value_contract fn v
   | IR_VALUE_FS_READ_PATH \<Rightarrow> mir_verify_fs_value_contract fn v
   | IR_VALUE_FS_WRITE_PATH \<Rightarrow> mir_verify_fs_value_contract fn v
   | IR_VALUE_FS_READ_BYTES_PATH \<Rightarrow> mir_verify_fs_value_contract fn v
   | IR_VALUE_FS_WRITE_BYTES_PATH \<Rightarrow> mir_verify_fs_value_contract fn v
   | IR_VALUE_FS_READ_ALL \<Rightarrow> mir_verify_fs_value_contract fn v
   | IR_VALUE_FS_READ_FILE \<Rightarrow> mir_verify_fs_value_contract fn v
   | IR_VALUE_FS_WRITE_ALL_FILE \<Rightarrow> mir_verify_fs_value_contract fn v
   | IR_VALUE_FS_CLOSE_FILE \<Rightarrow> mir_verify_fs_value_contract fn v
   | IR_VALUE_FS_EXISTS \<Rightarrow> mir_verify_fs_value_contract fn v
   | IR_VALUE_FS_REMOVE \<Rightarrow> mir_verify_fs_value_contract fn v
   | IR_VALUE_FS_RENAME \<Rightarrow> mir_verify_fs_value_contract fn v
   | IR_VALUE_FS_FILE_LEN \<Rightarrow> mir_verify_fs_value_contract fn v
   | IR_VALUE_FS_MAKE_DIR \<Rightarrow> mir_verify_fs_value_contract fn v
   | IR_VALUE_FS_REMOVE_DIR \<Rightarrow> mir_verify_fs_value_contract fn v
   | IR_VALUE_FS_IS_DIR \<Rightarrow> mir_verify_fs_value_contract fn v
   | IR_VALUE_FS_DIR_ENTRY_COUNT \<Rightarrow> mir_verify_fs_value_contract fn v
   | IR_VALUE_FS_TEMP_NAME \<Rightarrow> mir_verify_fs_value_contract fn v
   | IR_VALUE_FS_ATOMIC_WRITE \<Rightarrow> mir_verify_fs_value_contract fn v
   | IR_VALUE_FIELD_LOAD \<Rightarrow> mir_verify_field_load fn v
   | IR_VALUE_CHECK \<Rightarrow> mir_verify_fallible_flow_value_contract fn v
   | IR_VALUE_RESCUE \<Rightarrow> mir_verify_fallible_flow_value_contract fn v)"

text \<open>The walk: the value itself, then its arguments, index, left and right operand.\<close>

fun mir_verify_direct_value :: "IrFunction list \<Rightarrow> IrFunction \<Rightarrow> IrValue option \<Rightarrow> mcheck"
  and mir_verify_direct_args :: "IrFunction list \<Rightarrow> IrFunction \<Rightarrow> IrValue option list \<Rightarrow> mcheck" where
  "mir_verify_direct_value fns fn None = m_valid m_true"
| "mir_verify_direct_value fns fn (Some (IrValue vf args ix lf rt)) =
     m_valid
      (m_and (mir_verify_direct_value_kind_contract fns fn (IrValue vf args ix lf rt))
      (m_and (mir_verify_direct_args fns fn args)
      (m_and (mir_verify_direct_value fns fn ix)
      (m_and (mir_verify_direct_value fns fn lf)
        (mir_verify_direct_value fns fn rt)))))"
| "mir_verify_direct_args fns fn [] = m_true"
| "mir_verify_direct_args fns fn (a # args) =
     m_and (mir_verify_direct_value fns fn a) (mir_verify_direct_args fns fn args)"

section \<open>Instructions\<close>

definition mir_verify_direct_return_instr :: "IrFunction \<Rightarrow> IrInstr \<Rightarrow> mcheck" where
  "mir_verify_direct_return_instr fn instr =
     m_valid
      (let value = i_value instr;
           fail = m_fail ''MIR verifier found return value mismatch'' (i_line instr) (i_column instr)
       in if f_raises fn then
            (if f_value_return_type fn = IR_TYPE_VOID then
               (case value of None \<Rightarrow> m_true | Some v \<Rightarrow> fail (snprintf 160 (''fallible Void return carries '' @ mir_type_kind_name (v_type v))))
             else if (case value of None \<Rightarrow> False | Some v \<Rightarrow> v_type v = f_value_return_type fn) then m_true
             else fail (snprintf 160 (''fallible return has '' @ vtype_name value @ '' but function value return is '' @ mir_type_kind_name (f_value_return_type fn))))
          else if f_return_type fn = IR_TYPE_VOID then
            (case value of None \<Rightarrow> m_true | Some v \<Rightarrow> fail (snprintf 160 (''Void return carries '' @ mir_type_kind_name (v_type v))))
          else if (case value of None \<Rightarrow> False | Some v \<Rightarrow> v_type v = f_return_type fn) then m_true
          else fail (snprintf 160 (''return has '' @ vtype_name value @ '' but function returns '' @ mir_type_kind_name (f_return_type fn))))"

definition mir_verify_local_set :: "IrFunction \<Rightarrow> IrInstr \<Rightarrow> mcheck" where
  "mir_verify_local_set fn instr =
     m_and (mir_verify_local_index fn (i_local instr) (i_line instr) (i_column instr) ''MIR verifier found local write outside the local table'')
       (case i_value instr of
          None \<Rightarrow> m_fail ''MIR verifier found local write without a value'' (i_line instr) (i_column instr) ''missing local initializer''
        | Some v \<Rightarrow>
           (let l = f_locals fn ! i_local instr
            in m_and (m_require (mir_value_can_initialize_local l v) ''MIR verifier found local write type mismatch'' (i_line instr) (i_column instr)
                 (snprintf 192 (''local '' @ lname l @ '' has '' @ mir_type_kind_name (l_type l) @ '' but value has '' @ mir_type_kind_name (v_type v))))
               (mir_verify_local_initializer_kind l v (i_line instr) (i_column instr))))"

definition mir_verify_index_store :: "IrFunction \<Rightarrow> IrInstr \<Rightarrow> mcheck" where
  "mir_verify_index_store fn instr =
     m_and (mir_verify_local_index fn (if_array_index (i_fields instr)) (i_line instr) (i_column instr) ''MIR verifier found array write outside the local table'')
       (let l = f_locals fn ! if_array_index (i_fields instr)
        in m_and (m_require (l_is_array l) ''MIR verifier found array write to a non-array local'' (i_line instr) (i_column instr)
               (snprintf 160 (''local '' @ lname l @ '' is '' @ mir_type_kind_name (l_type l))))
          (m_and (m_require (case i_index instr of None \<Rightarrow> False | Some ix \<Rightarrow> mir_type_is_integer_value (v_type ix)) ''MIR verifier found invalid array write index'' (i_line instr) (i_column instr)
               (snprintf 128 (''array index is '' @ vtype_name (i_index instr))))
            (m_require (case i_value instr of None \<Rightarrow> False | Some v \<Rightarrow> v_type v = l_element_type l) ''MIR verifier found array write type mismatch'' (i_line instr) (i_column instr)
               (snprintf 160 (''array write has '' @ vtype_name (i_value instr) @ '' but element is '' @ mir_type_kind_name (l_element_type l))))))"

definition mir_verify_field_store :: "IrFunction \<Rightarrow> IrInstr \<Rightarrow> mcheck" where
  "mir_verify_field_store fn instr =
     m_and (mir_verify_local_index fn (i_local instr) (i_line instr) (i_column instr) ''MIR verifier found field write outside the local table'')
       (let l = f_locals fn ! i_local instr
        in m_and (m_require (l_is_record l) ''MIR verifier found field write to a non-record local'' (i_line instr) (i_column instr)
             (snprintf 160 (''local '' @ lname l @ '' is '' @ mir_type_kind_name (l_type l))))
           (case i_value instr of
              None \<Rightarrow> m_fail ''MIR verifier found field write without a value'' (i_line instr) (i_column instr) ''missing field value''
            | Some v \<Rightarrow> mir_verify_record_field_span l (if_field_offset (i_fields instr)) (v_type v) (i_line instr) (i_column instr)
                ''MIR verifier found field write outside the local storage''))"

definition mir_verify_world_write :: "IrInstr \<Rightarrow> mcheck" where
  "mir_verify_world_write instr =
     m_and (need_runtime 1 (i_line instr) (i_column instr) ''world.write'')
     (m_and (m_require (case i_value instr of None \<Rightarrow> False | Some v \<Rightarrow> v_type v = IR_TYPE_BYTE_VIEW) ''MIR verifier found invalid world write value'' (i_line instr) (i_column instr)
          (snprintf 128 (''world write value is '' @ vtype_name (i_value instr))))
       (m_require (\<not> (if_field_offset (i_fields instr) \<noteq> 1 \<and> if_field_offset (i_fields instr) \<noteq> 2)) ''MIR verifier found invalid world write stream'' (i_line instr) (i_column instr)
          (snprintf 128 (''world write stream id '' @ dec (if_field_offset (i_fields instr))))))"

definition mir_verify_condition :: "IrInstr \<Rightarrow> mcheck" where
  "mir_verify_condition instr =
     m_require (case i_value instr of None \<Rightarrow> False | Some v \<Rightarrow> v_type v = IR_TYPE_BOOL) ''MIR verifier found invalid branch condition'' (i_line instr) (i_column instr)
       (snprintf 128 (''branch condition is '' @ vtype_name (i_value instr)))"

definition mir_verify_direct_instr_contract :: "IrFunction \<Rightarrow> IrInstr \<Rightarrow> mcheck" where
  "mir_verify_direct_instr_contract fn instr = m_valid (case i_kind instr of
     IR_INSTR_LOCAL_SET \<Rightarrow> mir_verify_local_set fn instr
   | IR_INSTR_INDEX_STORE \<Rightarrow> mir_verify_index_store fn instr
   | IR_INSTR_FIELD_STORE \<Rightarrow> mir_verify_field_store fn instr
   | IR_INSTR_WORLD_WRITE \<Rightarrow> mir_verify_world_write instr
   | IR_INSTR_RETURN \<Rightarrow> mir_verify_direct_return_instr fn instr
   | IR_INSTR_IF \<Rightarrow> mir_verify_condition instr
   | IR_INSTR_WHILE \<Rightarrow> mir_verify_condition instr
   | IR_INSTR_RAISE \<Rightarrow> m_require (f_raises fn \<or> f_world_param_name fn \<noteq> None) ''MIR verifier found raise in a non-fallible function'' (i_line instr) (i_column instr) (fname fn)
   | IR_INSTR_EXPR \<Rightarrow> m_true)"

section \<open>The dataflow\<close>

definition mir_apply_instr_state_effect :: "IrFunction \<Rightarrow> IrInstr \<Rightarrow> bool list \<Rightarrow> bool list" where
  "mir_apply_instr_state_effect fn instr flow =
     (if i_kind instr \<noteq> IR_INSTR_LOCAL_SET then flow
      else if length (f_locals fn) \<le> i_local instr \<or> length flow \<le> i_local instr then flow
      else if l_type (f_locals fn ! i_local instr) \<noteq> IR_TYPE_MAYBE_BYTE_VIEW then flow
      else flow[i_local instr := mir_value_produces_mutable_byte_payload (i_value instr)])"

definition mir_state_intersect_from :: "bool list \<Rightarrow> bool list \<Rightarrow> bool list" where
  "mir_state_intersect_from l r = map (\<lambda>i. l ! i \<and> r ! i) [0..<length l]"

lemma intersect_fewer:
  "mir_state_intersect_from l r \<noteq> l \<Longrightarrow>
   length (filter id (mir_state_intersect_from l r)) < length (filter id l)"
proof -
  assume ne: "mir_state_intersect_from l r \<noteq> l"
  have m: "mir_state_intersect_from l r = map (\<lambda>i. l ! i \<and> r ! i) [0..<length l]"
    by (simp add: mir_state_intersect_from_def)
  have c1: "length (filter id (mir_state_intersect_from l r)) = card {i. i < length l \<and> l ! i \<and> r ! i}"
    unfolding m length_filter_conv_card by (rule arg_cong [where f = card]) auto
  have c2: "length (filter id l) = card {i. i < length l \<and> l ! i}"
    unfolding length_filter_conv_card by simp
  have "\<exists>i < length l. l ! i \<and> \<not> r ! i"
  proof (rule ccontr)
    assume "\<not> (\<exists>i < length l. l ! i \<and> \<not> r ! i)"
    then have "map (\<lambda>i. l ! i \<and> r ! i) [0..<length l] = l" by (intro nth_equalityI) auto
    with ne m show False by simp
  qed
  then obtain i where i: "i < length l" "l ! i" "\<not> r ! i" by blast
  have "{i. i < length l \<and> l ! i \<and> r ! i} \<subset> {i. i < length l \<and> l ! i}"
    using i by auto
  then show ?thesis unfolding c1 c2 by (intro psubset_card_mono) auto
qed

text \<open>
  The \<open>do ... while (changed)\<close> of \<open>mir_verify_loop_instrs\<close>, over any verifier of the body: an entry
  that is still true is only ever cleared, so the number of true entries bounds the rounds.
\<close>

function mir_loop :: "mcheck \<Rightarrow> mcheck" where
  "mir_loop body s =
     (let entry = st_flow s in
      do { (ok, s) \<leftarrow> body s;
           if \<not> ok then Some (False, s)
           else let nxt = mir_state_intersect_from entry (st_flow s)
                in if nxt \<noteq> entry then mir_loop body (s\<lparr>st_flow := nxt\<rparr>)
                   else Some (True, s\<lparr>st_flow := entry\<rparr>) })"
  by pat_completeness auto

termination
proof (relation "measure (\<lambda>(body, s). length (filter id (st_flow s)))")
  show "wf (measure (\<lambda>(body, s). length (filter id (st_flow (s :: mir_st)))))" by simp
next
  fix body :: mcheck and s :: mir_st and entry x ok and s1 :: mir_st and nxt
  assume "entry = st_flow s" "nxt = mir_state_intersect_from entry (st_flow s1)" "nxt \<noteq> entry"
  then have "length (filter id nxt) < length (filter id (st_flow s))" using intersect_fewer by blast
  then show "((body, s1\<lparr>st_flow := nxt\<rparr>), body, s) \<in> measure (\<lambda>(body, s). length (filter id (st_flow s)))"
    by simp
qed

declare mir_loop.simps [simp del]

lemma mir_loop_cong [fundef_cong]:
  assumes "\<And>s. b s = b' s" "s = s'"
  shows "mir_loop b s = mir_loop b' s'"
proof -
  have "b = b'" by (rule ext) (rule assms(1))
  with assms(2) show ?thesis by simp
qed

lemma m_and_cong [fundef_cong]:
  assumes "\<And>s. a s = a' s" "\<And>s. b s = b' s" "s = s'"
  shows "m_and a b s = m_and a' b' s'"
proof -
  have "a = a'" "b = b'" using assms(1,2) by auto
  with assms(3) show ?thesis by simp
qed

text \<open>Both branches start from a copy of the state; afterwards what holds in both holds.\<close>

definition mir_branch :: "mcheck \<Rightarrow> mcheck \<Rightarrow> mcheck" where
  "mir_branch then_check else_check s =
     do { (ok, s1) \<leftarrow> then_check s;
          if \<not> ok then Some (False, s1\<lparr>st_flow := st_flow s\<rparr>)
          else do { (ok, s2) \<leftarrow> else_check (s1\<lparr>st_flow := st_flow s\<rparr>);
                    if \<not> ok then Some (False, s2\<lparr>st_flow := st_flow s\<rparr>)
                    else Some (True, s2\<lparr>st_flow := mir_state_intersect_from (st_flow s1) (st_flow s2)\<rparr>) } }"

lemma i_size_less:
  "size_list size (i_then instr) < Suc (size instr + n)" "size_list size (i_else instr) < Suc (size instr + n)"
  by (cases instr; simp)+

function mir_verify_direct_instrs :: "IrFunction list \<Rightarrow> IrFunction \<Rightarrow> IrInstr list \<Rightarrow> mcheck" where
  "mir_verify_direct_instrs fns fn instrs =
     m_valid (case instrs of
        [] \<Rightarrow> m_true
      | instr # rest \<Rightarrow>
         m_and (mir_verify_direct_value fns fn (i_value instr))
         (m_and (mir_verify_direct_value fns fn (i_index instr))
         (m_and (mir_verify_direct_instr_contract fn instr)
           (if i_kind instr = IR_INSTR_IF then
              m_and (mir_branch (mir_verify_direct_instrs fns fn (i_then instr)) (mir_verify_direct_instrs fns fn (i_else instr)))
                (mir_verify_direct_instrs fns fn rest)
            else if i_kind instr = IR_INSTR_WHILE then
              m_and (mir_loop (mir_verify_direct_instrs fns fn (i_then instr))) (mir_verify_direct_instrs fns fn rest)
            else m_and (\<lambda>s. Some (True, s\<lparr>st_flow := mir_apply_instr_state_effect fn instr (st_flow s)\<rparr>))
                (mir_verify_direct_instrs fns fn rest)))))"
  by pat_completeness auto
termination
  by (relation "measure (\<lambda>(fns, fn, instrs). size_list size instrs)") (auto simp: i_size_less)

declare mir_verify_direct_instrs.simps [simp del]

end
