(* ===== verification/MirProgram.thy ===== *)
theory MirProgram
  imports MirFlow
begin

text \<open>
  The entry point of the verifier, \<open>z_mir_verify_direct_contracts\<close>: the contracts of all functions,
  then their instructions, then the helper counts the program declares.
\<close>

section \<open>Helper counts\<close>

definition mir_verify_count_satisfies :: "MirCountRequirement \<Rightarrow> nat \<Rightarrow> string \<Rightarrow> string \<Rightarrow> mcheck" where
  "mir_verify_count_satisfies req actual name message =
     m_valid (m_require (rc_count req \<le> actual) message (rc_line req) (rc_column req)
       (snprintf 192 (name @ '' count '' @ dec actual @ '' but MIR requires at least '' @ dec (rc_count req) @ '' for ''
          @ str_or (rc_reason req) ''helper use'')))"

definition mir_verify_direct_helper_requirements :: "IrProgram \<Rightarrow> mcheck" where
  "mir_verify_direct_helper_requirements ir s =
     (let req = st_req s in m_valid
      (m_and (mir_verify_count_satisfies (allocator_helpers req) (ir_allocator_helper_count ir) ''allocator helper'' ''MIR verifier found missing allocator helper contract'')
      (m_and (mir_verify_count_satisfies (buffer_helpers req) (ir_buffer_helper_count ir) ''buffer helper'' ''MIR verifier found missing buffer helper contract'')
      (m_and (mir_verify_count_satisfies (runtime_helpers req) (ir_runtime_helper_count ir) ''runtime helper'' ''MIR verifier found missing runtime helper contract'')
      (m_and (mir_verify_count_satisfies (host_runtime_imports req) (ir_host_runtime_import_count ir) ''host runtime import'' ''MIR verifier found missing host runtime import contract'')
        (mir_verify_count_satisfies (http_runtime_imports req) (ir_http_runtime_import_count ir) ''HTTP runtime import'' ''MIR verifier found missing HTTP runtime import contract''))))) s)"

section \<open>The program\<close>

fun mir_verify_functions :: "IrFunction list \<Rightarrow> mcheck" where
  "mir_verify_functions [] = m_true"
| "mir_verify_functions (f # fs) = m_and (mir_verify_direct_function_contract f) (mir_verify_functions fs)"

definition mir_verify_body :: "IrFunction list \<Rightarrow> IrFunction \<Rightarrow> mcheck" where
  "mir_verify_body fns f s =
     mir_verify_direct_instrs fns f (f_instrs f) (s\<lparr>st_flow := replicate (length (f_locals f)) False\<rparr>)"

fun mir_verify_bodies :: "IrFunction list \<Rightarrow> IrFunction list \<Rightarrow> mcheck" where
  "mir_verify_bodies fns [] = m_true"
| "mir_verify_bodies fns (f # fs) = m_and (mir_verify_body fns f) (mir_verify_bodies fns fs)"

definition zero_count :: MirCountRequirement where
  "zero_count = \<lparr>rc_count = 0, rc_line = 0, rc_column = 0, rc_reason = None\<rparr>"

definition zero_requirements :: MirHelperRequirements where
  "zero_requirements = \<lparr>allocator_helpers = zero_count, buffer_helpers = zero_count, runtime_helpers = zero_count,
     host_runtime_imports = zero_count, http_runtime_imports = zero_count\<rparr>"

definition z_mir_verify_direct_contracts :: "IrProgram \<Rightarrow> (bool \<times> IrProgram) option" where
  "z_mir_verify_direct_contracts ir =
     do { (ok, s) \<leftarrow> m_valid
            (m_and (mir_verify_functions (ir_functions ir))
            (m_and (mir_verify_bodies (ir_functions ir) (ir_functions ir))
              (mir_verify_direct_helper_requirements ir)))
            \<lparr>st_diag = ir_diag ir, st_req = zero_requirements, st_flow = []\<rparr>;
          Some (ok, ir\<lparr>ir_diag := st_diag s\<rparr>) }"

end
