(* ===== verification/MirChecks.thy ===== *)
theory MirChecks
  imports MirProgram
begin

text \<open>
  What holds of every check of the verifier: when it accepts (\<open>accept_simps\<close>), and the laws all of
  them obey because they are put together from a few steps (\<open>check_law\<close>).
\<close>


named_theorems law_intros \<open>checks that obey the laws\<close>
named_theorems accept_simps \<open>what it means that a check accepts\<close>

section \<open>Acceptance\<close>

definition accepts :: "mcheck \<Rightarrow> mir_st \<Rightarrow> mir_st \<Rightarrow> bool" where
  "accepts c s s' \<longleftrightarrow> c s = Some (True, s')"

lemma accepts_true [accept_simps]: "accepts m_true s s' \<longleftrightarrow> s' = s"
  by (auto simp: accepts_def m_true_def)

lemma accepts_false [accept_simps]: "\<not> accepts m_false s s'"
  by (simp add: accepts_def m_false_def)

lemma accepts_fail [accept_simps]: "\<not> accepts (m_fail m l c a) s s'"
  by (simp add: accepts_def m_fail_def)

lemma accepts_none [accept_simps]: "\<not> accepts (\<lambda>s. None) s s'"
  by (simp add: accepts_def)

lemma accepts_and [accept_simps]: "accepts (m_and a b) s s' \<longleftrightarrow> (\<exists>s1. accepts a s s1 \<and> accepts b s1 s')"
  by (auto simp: accepts_def m_and_def bind_eq_Some_conv split: prod.splits if_splits)

lemma accepts_valid [accept_simps]: "accepts (m_valid c) s s' \<longleftrightarrow> mir_valid (st_diag s) \<and> accepts c s s'"
  by (simp add: accepts_def m_valid_def)

lemma accepts_require [accept_simps]: "accepts (m_require c m l k a) s s' \<longleftrightarrow> c \<and> s' = s"
  by (simp add: m_require_def accept_simps)

lemma accepts_if [accept_simps]: "accepts (if c then a else b) s s' = (if c then accepts a s s' else accepts b s s')"
  by simp

lemma accepts_need [accept_simps]:
  "accepts (need_allocator n l k r) s s' \<longleftrightarrow> s' = s\<lparr>st_req := (st_req s)\<lparr>allocator_helpers := mir_require_count (allocator_helpers (st_req s)) n l k r\<rparr>\<rparr>"
  "accepts (need_buffer n l k r) s s' \<longleftrightarrow> s' = s\<lparr>st_req := (st_req s)\<lparr>buffer_helpers := mir_require_count (buffer_helpers (st_req s)) n l k r\<rparr>\<rparr>"
  "accepts (need_runtime n l k r) s s' \<longleftrightarrow> s' = s\<lparr>st_req := (st_req s)\<lparr>runtime_helpers := mir_require_count (runtime_helpers (st_req s)) n l k r\<rparr>\<rparr>"
  "accepts (need_host n l k r) s s' \<longleftrightarrow> s' = s\<lparr>st_req := (st_req s)\<lparr>host_runtime_imports := mir_require_count (host_runtime_imports (st_req s)) n l k r\<rparr>\<rparr>"
  "accepts (need_http n l k r) s s' \<longleftrightarrow> s' = s\<lparr>st_req := (st_req s)\<lparr>http_runtime_imports := mir_require_count (http_runtime_imports (st_req s)) n l k r\<rparr>\<rparr>"
  by (auto simp: accepts_def need_allocator_def need_buffer_def need_runtime_def need_host_def need_http_def)

section \<open>Laws of checks\<close>

text \<open>
  A relation between the state a check starts from and its outcome that every primitive step
  satisfies and that composes: all checks of values, calls and functions satisfy it.
\<close>

definition lawful :: "(mir_st \<Rightarrow> bool \<times> mir_st \<Rightarrow> bool) \<Rightarrow> mcheck \<Rightarrow> bool" where
  "lawful R c \<longleftrightarrow> (\<forall>s r. c s = Some r \<longrightarrow> R s r)"

lemma lawfulD: "lawful R c \<Longrightarrow> c s = Some r \<Longrightarrow> R s r"
  unfolding lawful_def by blast

lemma lawfulI: "(\<And>s ok s'. c s = Some (ok, s') \<Longrightarrow> R s (ok, s')) \<Longrightarrow> lawful R c"
  unfolding lawful_def by (metis surj_pair)

lemma lawful_none [law_intros]: "lawful R (\<lambda>s. None)"
  by (simp add: lawful_def)

lemma lawful_if [law_intros]: "lawful R a \<Longrightarrow> lawful R b \<Longrightarrow> lawful R (if c then a else b)"
  by simp

lemma lawful_opt [law_intros]: "lawful R a \<Longrightarrow> (\<And>x. lawful R (b x)) \<Longrightarrow> lawful R (case o1 of None \<Rightarrow> a | Some x \<Rightarrow> b x)"
  by (cases o1) auto

locale check_law =
  fixes R :: "mir_st \<Rightarrow> bool \<times> mir_st \<Rightarrow> bool"
  assumes accept: "R s (True, s)"
    and invalid: "\<not> mir_valid (st_diag s) \<Longrightarrow> R s (False, s)"
    and reject: "R s (False, s\<lparr>st_diag := mir_verify_mark_unsupported (st_diag s) m l k a\<rparr>)"
    and compose: "R s (True, s1) \<Longrightarrow> R s1 r \<Longrightarrow> R s r"
    and allocator: "R s (True, s\<lparr>st_req := (st_req s)\<lparr>allocator_helpers := mir_require_count (allocator_helpers (st_req s)) n l k t\<rparr>\<rparr>)"
    and buffer: "R s (True, s\<lparr>st_req := (st_req s)\<lparr>buffer_helpers := mir_require_count (buffer_helpers (st_req s)) n l k t\<rparr>\<rparr>)"
    and runtime: "R s (True, s\<lparr>st_req := (st_req s)\<lparr>runtime_helpers := mir_require_count (runtime_helpers (st_req s)) n l k t\<rparr>\<rparr>)"
    and host: "R s (True, s\<lparr>st_req := (st_req s)\<lparr>host_runtime_imports := mir_require_count (host_runtime_imports (st_req s)) n l k t\<rparr>\<rparr>)"
    and http: "R s (True, s\<lparr>st_req := (st_req s)\<lparr>http_runtime_imports := mir_require_count (http_runtime_imports (st_req s)) n l k t\<rparr>\<rparr>)"
begin

lemma l_true [law_intros]: "lawful R m_true"
  by (simp add: lawful_def m_true_def accept)

lemma l_fail [law_intros]: "lawful R (m_fail m l c a)"
  by (simp add: lawful_def m_fail_def reject)

lemma l_and [law_intros]: "lawful R a \<Longrightarrow> lawful R b \<Longrightarrow> lawful R (m_and a b)"
  by (rule lawfulI) (auto simp: m_and_def bind_eq_Some_conv dest!: lawfulD split: if_splits intro: compose)

lemma l_valid [law_intros]: "lawful R c \<Longrightarrow> lawful R (m_valid c)"
  by (auto simp: lawful_def m_valid_def intro: invalid)

lemma l_require [law_intros]: "lawful R (m_require c m l k a)"
  by (simp add: m_require_def l_true l_fail)

lemma l_state_require [law_intros]: "lawful R (\<lambda>s. m_require (p s) m l k a s)"
  by (auto simp: lawful_def m_require_def m_true_def m_fail_def accept reject)

lemma l_need [law_intros]:
  "lawful R (need_allocator n l k r)" "lawful R (need_buffer n l k r)" "lawful R (need_runtime n l k r)"
  "lawful R (need_host n l k r)" "lawful R (need_http n l k r)"
  by (auto simp: lawful_def need_allocator_def need_buffer_def need_runtime_def need_host_def need_http_def
      intro: allocator buffer runtime host http)

lemma h_local_index [law_intros]: "lawful R (mir_verify_local_index fn i l k m)"
  unfolding mir_verify_local_index_def by (intro law_intros)

lemma h_init_kind [law_intros]: "lawful R (mir_verify_local_initializer_kind l v a b)"
  unfolding mir_verify_local_initializer_kind_def by (intro law_intros)

lemma h_params [law_intros]: "lawful R (mir_verify_params fn i k)"
  by (induction fn i k rule: mir_verify_params.induct) (auto simp: Let_def intro!: law_intros)

lemma h_locals [law_intros]: "lawful R (mir_verify_locals fn i p ls)"
  by (induction fn i p ls rule: mir_verify_locals.induct) (auto simp: Let_def intro!: law_intros)

lemma h_returns [law_intros]: "lawful R (mir_verify_returns fn)"
  unfolding mir_verify_returns_def by (intro law_intros)

lemma h_function [law_intros]: "lawful R (mir_verify_direct_function_contract fn)"
  unfolding mir_verify_direct_function_contract_def by (intro law_intros)

lemma h_call_args [law_intros]: "lawful R (mir_verify_call_args f i v args)"
  by (induction f i v args rule: mir_verify_call_args.induct) (auto simp: Let_def intro!: law_intros split: option.split)

lemma h_call [law_intros]: "lawful R (mir_verify_direct_call_contract fns v)"
  unfolding mir_verify_direct_call_contract_def Let_def by (intro law_intros)

lemma h_type [law_intros]: "lawful R (mir_verify_value_type v e m r)" "lawful R (mir_verify_helper_result_type w e r)"
  "lawful R (mir_verify_value_is_integer v m r)" "lawful R (mir_verify_byte_view_len_result w)"
  "lawful R (mir_verify_direct_primitive_value v m r)" "lawful R (mir_verify_same_type_operands w m r)"
  "lawful R (mir_verify_maybe_scalar_result w e m r)" "lawful R (mir_verify_maybe_scalar_or_fallible_result w e m r)"
  unfolding mir_verify_value_type_def mir_verify_helper_result_type_def mir_verify_value_is_integer_def
    mir_verify_byte_view_len_result_def mir_verify_direct_primitive_value_def mir_verify_same_type_operands_def
    mir_verify_maybe_scalar_result_def mir_verify_maybe_scalar_or_fallible_result_def
  by (intro law_intros)+

lemma h_local_kind [law_intros]: "lawful R (mir_verify_local_value_kind fn i e l k m r)"
  "lawful R (mir_verify_mutable_local_value_kind fn i e l k m r)" "lawful R (mir_verify_record_field_span lo i e l k m)"
  unfolding mir_verify_local_value_kind_def mir_verify_mutable_local_value_kind_def mir_verify_record_field_span_def Let_def
  by (intro law_intros)+

lemma h_storage [law_intros]: "lawful R (mir_verify_mutable_byte_storage fn v m r)"
proof (cases v)
  case None
  have "\<not> accepts (mir_verify_value_type None IR_TYPE_BYTE_VIEW m r) s s'" for s s'
    by (simp add: mir_verify_value_type_def accept_simps)
  then have "mir_verify_mutable_byte_storage fn None m r = mir_verify_value_type None IR_TYPE_BYTE_VIEW m r"
    unfolding mir_verify_mutable_byte_storage_def m_and_def accepts_def
    by (intro ext) (auto split: Option.bind_splits prod.splits)
  with None show ?thesis by (simp add: law_intros)
next
  case (Some w)
  show ?thesis unfolding Some mir_verify_mutable_byte_storage_def Let_def option.case by (intro law_intros)
qed

lemma h_crypto [law_intros]: "lawful R (mir_verify_crypto_args v args)"
  by (induction v args rule: mir_verify_crypto_args.induct) (auto intro!: law_intros)

lemma h_http [law_intros]: "lawful R (mir_verify_http_result e v)" "lawful R (mir_verify_http_response v)" "lawful R (mir_verify_http_header e v)"
  unfolding mir_verify_http_result_def mir_verify_http_response_def mir_verify_http_header_def by (intro law_intros)+

lemma h_helper [law_intros]: "lawful R (mir_verify_direct_helper_value_contract fn v)"
  unfolding mir_verify_direct_helper_value_contract_def
  by (rule l_valid) (cases "v_kind v"; simp only: IrValueKind.case; intro law_intros)

lemma h_arrays [law_intros]: "lawful R (mir_verify_array_load_contract fn v)" "lawful R (mir_verify_array_byte_view_contract fn v)"
  "lawful R (mir_verify_maybe_value_contract fn v)" "lawful R (mir_verify_byte_view_value_contract v)"
  "lawful R (mir_verify_byte_mutation_value_contract fn v)"
  unfolding mir_verify_array_load_contract_def mir_verify_array_byte_view_contract_def mir_verify_maybe_value_contract_def
    mir_verify_byte_view_value_contract_def mir_verify_byte_mutation_value_contract_def Let_def
  by (intro law_intros)+

lemma h_fallible [law_intros]: "lawful R (mir_verify_fallible_flow_value_contract fn v)"
  unfolding mir_verify_fallible_flow_value_contract_def prod.case by (intro law_intros)

lemma h_arith [law_intros]: "lawful R (mir_verify_cast_value_contract v)" "lawful R (mir_verify_binary_value_contract v)"
  "lawful R (mir_verify_compare_value_contract v)" "lawful R (mir_verify_byte_view_pair v m l r)" "lawful R (mir_verify_file_local fn v m r)"
  "lawful R (mir_verify_fs_path_bool v)" "lawful R (mir_verify_fs_open v)"
  unfolding mir_verify_cast_value_contract_def mir_verify_binary_value_contract_def mir_verify_compare_value_contract_def
    mir_verify_byte_view_pair_def mir_verify_file_local_def mir_verify_fs_path_bool_def mir_verify_fs_open_def Let_def
  by (intro law_intros)+

lemma h_fs [law_intros]: "lawful R (mir_verify_fs_value_contract fn v)"
  unfolding mir_verify_fs_value_contract_def
  by (rule l_valid) (cases "v_kind v"; simp only: IrValueKind.case; intro law_intros)

lemma h_platform [law_intros]: "lawful R (mir_verify_platform_value_contract fn v)"
  unfolding mir_verify_platform_value_contract_def
  by (rule l_valid) (cases "v_kind v"; simp only: IrValueKind.case; intro law_intros)

lemma h_local_value [law_intros]: "lawful R (mir_verify_local_value fn v)" "lawful R (mir_verify_field_load fn v)"
  unfolding mir_verify_local_value_def mir_verify_field_load_def Let_def by (intro law_intros)+

lemma h_kind [law_intros]: "lawful R (mir_verify_direct_value_kind_contract fns fn v)"
  unfolding mir_verify_direct_value_kind_contract_def
  by (rule l_valid) (cases "v_kind v"; simp only: IrValueKind.case; intro law_intros)

lemma h_value [law_intros]: "lawful R (mir_verify_direct_value fns fn v)"
  and h_args [law_intros]: "lawful R (mir_verify_direct_args fns fn args)"
  by (induction fns fn v and fns fn args rule: mir_verify_direct_value_mir_verify_direct_args.induct)
    (simp_all only: mir_verify_direct_value.simps mir_verify_direct_args.simps, (intro law_intros; assumption)+)

lemma h_return [law_intros]: "lawful R (mir_verify_direct_return_instr fn i)"
  unfolding mir_verify_direct_return_instr_def Let_def by (intro law_intros)

lemma h_instr_kinds [law_intros]: "lawful R (mir_verify_local_set fn i)" "lawful R (mir_verify_index_store fn i)"
  "lawful R (mir_verify_field_store fn i)" "lawful R (mir_verify_world_write i)" "lawful R (mir_verify_condition i)"
  unfolding mir_verify_local_set_def mir_verify_index_store_def mir_verify_field_store_def mir_verify_world_write_def
    mir_verify_condition_def Let_def
  by (intro law_intros)+

lemma h_instr [law_intros]: "lawful R (mir_verify_direct_instr_contract fn i)"
  unfolding mir_verify_direct_instr_contract_def
  by (rule l_valid) (cases "i_kind i"; simp only: IrInstrKind.case; intro law_intros)

lemma h_functions [law_intros]: "lawful R (mir_verify_functions fs)"
  by (induction fs) (auto intro!: law_intros)

end

section \<open>The walk over instructions\<close>

lemma instr_induct [case_names Nil If While Other]:
  assumes nil: "P []"
    and br: "\<And>i r. i_kind i = IR_INSTR_IF \<Longrightarrow> P (i_then i) \<Longrightarrow> P (i_else i) \<Longrightarrow> P r \<Longrightarrow> P (i # r)"
    and lp: "\<And>i r. i_kind i = IR_INSTR_WHILE \<Longrightarrow> P (i_then i) \<Longrightarrow> P r \<Longrightarrow> P (i # r)"
    and ot: "\<And>i r. i_kind i \<noteq> IR_INSTR_IF \<Longrightarrow> i_kind i \<noteq> IR_INSTR_WHILE \<Longrightarrow> P r \<Longrightarrow> P (i # r)"
  shows "P instrs"
proof (induction "size_list size instrs" arbitrary: instrs rule: less_induct)
  case less
  show ?case
  proof (cases instrs)
    case Nil
    with nil show ?thesis by simp
  next
    case (Cons i r)
    have sub: "P (i_then i)" "P (i_else i)" "P r"
      using less [of "i_then i"] less [of "i_else i"] less [of r] Cons by (simp_all add: i_size_less)
    show ?thesis unfolding Cons using sub br [of i r] lp [of i r] ot [of i r] by blast
  qed
qed

lemma verify_instrs_nil: "mir_verify_direct_instrs fns fn [] = m_valid m_true"
  by (subst mir_verify_direct_instrs.simps) simp

lemma verify_instrs_cons:
  "mir_verify_direct_instrs fns fn (instr # rest) =
     m_valid (m_and (mir_verify_direct_value fns fn (i_value instr))
         (m_and (mir_verify_direct_value fns fn (i_index instr))
         (m_and (mir_verify_direct_instr_contract fn instr)
           (if i_kind instr = IR_INSTR_IF then
              m_and (mir_branch (mir_verify_direct_instrs fns fn (i_then instr)) (mir_verify_direct_instrs fns fn (i_else instr)))
                (mir_verify_direct_instrs fns fn rest)
            else if i_kind instr = IR_INSTR_WHILE then
              m_and (mir_loop (mir_verify_direct_instrs fns fn (i_then instr))) (mir_verify_direct_instrs fns fn rest)
            else m_and (\<lambda>s. Some (True, s\<lparr>st_flow := mir_apply_instr_state_effect fn instr (st_flow s)\<rparr>))
                (mir_verify_direct_instrs fns fn rest)))))"
  by (subst mir_verify_direct_instrs.simps) simp

text \<open>
  A law that does not look at the dataflow state: the walk over instructions obeys it as well.
\<close>

locale check_flow_law = check_law +
  assumes flow_before: "R (s\<lparr>st_flow := x\<rparr>) r \<Longrightarrow> R s r"
    and flow_after: "R s (ok, s') \<Longrightarrow> R s (ok, s'\<lparr>st_flow := y\<rparr>)"
begin

lemma l_flow [law_intros]: "lawful R (\<lambda>s. Some (True, s\<lparr>st_flow := f s\<rparr>))"
  by (simp add: lawful_def flow_after accept)

lemma l_branch [law_intros]:
  assumes a: "lawful R a" and b: "lawful R b"
  shows "lawful R (mir_branch a b)"
proof (rule lawfulI)
  fix s ok s' assume r: "mir_branch a b s = Some (ok, s')"
  obtain ok1 s1 where s1: "a s = Some (ok1, s1)" using r by (cases "a s") (auto simp: mir_branch_def)
  note h1 = lawfulD [OF a s1]
  show "R s (ok, s')"
  proof (cases ok1)
    case True
    obtain ok2 s2 where s2: "b (s1\<lparr>st_flow := st_flow s\<rparr>) = Some (ok2, s2)"
      using r s1 True by (cases "b (s1\<lparr>st_flow := st_flow s\<rparr>)") (auto simp: mir_branch_def)
    have h2: "R s (ok2, s2)" 
      by (rule compose [of s s1]) (use h1 True in simp, rule flow_before [OF lawfulD [OF b s2]])
    then show ?thesis using r s1 s2 True by (auto simp: mir_branch_def split: if_splits intro: flow_after)
  qed (use h1 r s1 in \<open>auto simp: mir_branch_def intro: flow_after\<close>)
qed

lemma l_loop [law_intros]:
  assumes "lawful R body"
  shows "lawful R (mir_loop body)"
proof -
  have "mir_loop body s = Some r \<Longrightarrow> R s r" for s r
    using assms
  proof (induction body s arbitrary: r rule: mir_loop.induct)
    case (1 body s)
    obtain ok1 s1 where s1: "body s = Some (ok1, s1)"
      using 1(2) by (subst (asm) mir_loop.simps) (auto simp: Let_def bind_eq_Some_conv)
    note h1 = lawfulD [OF 1(3) s1]
    let ?n = "mir_state_intersect_from (st_flow s) (st_flow s1)"
    show ?case
    proof (cases "ok1 \<and> ?n \<noteq> st_flow s")
      case True
      have "mir_loop body (s1\<lparr>st_flow := ?n\<rparr>) = Some r"
        using 1(2) s1 True by (subst (asm) mir_loop.simps) (simp add: Let_def)
      from 1(1) [OF refl s1 refl _ refl _ this 1(3)] True
      have "R (s1\<lparr>st_flow := ?n\<rparr>) r" by simp
      from compose [of s s1, OF _ flow_before [OF this]] h1 True show ?thesis by simp
    next
      case False
      then show ?thesis using 1(2) s1 h1 by (subst (asm) mir_loop.simps) (auto simp: Let_def intro: flow_after split: if_splits)
    qed
  qed
  then show ?thesis by (simp add: lawful_def)
qed

lemma h_instrs [law_intros]: "lawful R (mir_verify_direct_instrs fns fn instrs)"
proof (induction instrs rule: instr_induct)
  case Nil
  show ?case unfolding verify_instrs_nil by (intro law_intros)
next
  case (If i r)
  show ?case unfolding verify_instrs_cons if_P [OF If(1)] by (intro law_intros If)
next
  case (While i r)
  have ne: "i_kind i \<noteq> IR_INSTR_IF" using While(1) by simp
  show ?case unfolding verify_instrs_cons if_not_P [OF ne] if_P [OF While(1)] by (intro law_intros While)
next
  case (Other i r)
  show ?case unfolding verify_instrs_cons if_not_P [OF Other(1)] if_not_P [OF Other(2)] by (intro law_intros Other)
qed

lemma h_bodies [law_intros]: "lawful R (mir_verify_bodies fns fs)"
proof (induction fs)
  case (Cons f fs)
  have "lawful R (mir_verify_body fns f)"
  proof (rule lawfulI)
    fix s ok s' assume "mir_verify_body fns f s = Some (ok, s')"
    from lawfulD [OF h_instrs this [unfolded mir_verify_body_def]] show "R s (ok, s')" by (rule flow_before)
  qed
  with Cons show ?case by (simp add: law_intros)
qed (simp add: law_intros)

lemma h_requirements [law_intros]: "lawful R (mir_verify_direct_helper_requirements ir)"
proof (rule lawfulI)
  have c: "lawful R (mir_verify_count_satisfies q n a b)" for q n a b
    unfolding mir_verify_count_satisfies_def by (intro law_intros)
  fix s ok s' assume r: "mir_verify_direct_helper_requirements ir s = Some (ok, s')"
  have "lawful R (m_valid
      (m_and (mir_verify_count_satisfies (allocator_helpers (st_req s)) (ir_allocator_helper_count ir) ''allocator helper'' ''MIR verifier found missing allocator helper contract'')
      (m_and (mir_verify_count_satisfies (buffer_helpers (st_req s)) (ir_buffer_helper_count ir) ''buffer helper'' ''MIR verifier found missing buffer helper contract'')
      (m_and (mir_verify_count_satisfies (runtime_helpers (st_req s)) (ir_runtime_helper_count ir) ''runtime helper'' ''MIR verifier found missing runtime helper contract'')
      (m_and (mir_verify_count_satisfies (host_runtime_imports (st_req s)) (ir_host_runtime_import_count ir) ''host runtime import'' ''MIR verifier found missing host runtime import contract'')
        (mir_verify_count_satisfies (http_runtime_imports (st_req s)) (ir_http_runtime_import_count ir) ''HTTP runtime import'' ''MIR verifier found missing HTTP runtime import contract''))))))"
    by (intro law_intros c)
  from lawfulD [OF this] r show "R s (ok, s')"
    by (simp add: mir_verify_direct_helper_requirements_def Let_def)
qed

end

section \<open>The laws\<close>

text \<open>Honesty: an accepting check leaves the diagnostic alone, a rejecting one has filled one in.\<close>

definition reported :: "mir_diag \<Rightarrow> bool" where
  "reported d \<longleftrightarrow> \<not> mir_valid d \<and> 0 < mir_line d \<and> 0 < mir_column d
     \<and> mir_expected d = ''direct backend MIR contract'' \<and> bb_present (mir_blocker d) \<and> bb_stage (mir_blocker d) = ''lower''
     \<and> length (mir_message d) < 256 \<and> length (mir_actual d) < 128 \<and> bb_unsupported_feature (mir_blocker d) = mir_actual d"

definition honest :: "mir_st \<Rightarrow> bool \<times> mir_st \<Rightarrow> bool" where
  "honest s r \<longleftrightarrow> mir_valid (st_diag s) \<longrightarrow> (if fst r then st_diag (snd r) = st_diag s else reported (st_diag (snd r)))"

lemma mark_reported: "mir_valid d \<Longrightarrow> reported (mir_verify_mark_unsupported d m l c a)"
  by (auto simp: reported_def mir_verify_mark_unsupported_def z_backend_blocker_set_def snprintf_def)

interpretation honesty: check_flow_law honest
  by unfold_locales (auto simp: honest_def mark_reported split: if_splits)

text \<open>Helper counts only grow.\<close>

definition req_le :: "MirHelperRequirements \<Rightarrow> MirHelperRequirements \<Rightarrow> bool" where
  "req_le p q \<longleftrightarrow> rc_count (allocator_helpers p) \<le> rc_count (allocator_helpers q)
     \<and> rc_count (buffer_helpers p) \<le> rc_count (buffer_helpers q) \<and> rc_count (runtime_helpers p) \<le> rc_count (runtime_helpers q)
     \<and> rc_count (host_runtime_imports p) \<le> rc_count (host_runtime_imports q)
     \<and> rc_count (http_runtime_imports p) \<le> rc_count (http_runtime_imports q)"

definition grows :: "mir_st \<Rightarrow> bool \<times> mir_st \<Rightarrow> bool" where
  "grows s r \<longleftrightarrow> req_le (st_req s) (st_req (snd r))"

interpretation growth: check_flow_law grows
  by unfold_locales (auto simp: grows_def req_le_def mir_require_count_def)

text \<open>Checks of values leave the dataflow state alone.\<close>

definition same_flow :: "mir_st \<Rightarrow> bool \<times> mir_st \<Rightarrow> bool" where
  "same_flow s r \<longleftrightarrow> st_flow (snd r) = st_flow s"

interpretation still: check_law same_flow
  by unfold_locales (auto simp: same_flow_def)

end
