(* ===== verification/MirWalk.thy ===== *)
theory MirWalk
  imports MirChecks
begin

text \<open>
  What acceptance of a program means for its parts: every function satisfies its contract, and every
  value and instruction that control can reach has been checked, at helper counts the program covers.
\<close>

section \<open>The parts of a function\<close>

fun values_of :: "IrValue option \<Rightarrow> IrValue list"
  and args_values :: "IrValue option list \<Rightarrow> IrValue list" where
  "values_of None = []"
| "values_of (Some (IrValue vf args ix lf rt)) =
     IrValue vf args ix lf rt # args_values args @ values_of ix @ values_of lf @ values_of rt"
| "args_values [] = []"
| "args_values (a # args) = values_of a @ args_values args"

text \<open>Control reaches the branches of an IF and the body of a WHILE, nothing else inside an instruction.\<close>

function instrs_of :: "IrInstr list \<Rightarrow> IrInstr list" where
  "instrs_of [] = []"
| "instrs_of (i # r) = i #
     (if i_kind i = IR_INSTR_IF then instrs_of (i_then i) @ instrs_of (i_else i)
      else if i_kind i = IR_INSTR_WHILE then instrs_of (i_then i) else []) @ instrs_of r"
  by pat_completeness auto
termination
  by (relation "measure (size_list size)") (auto simp: i_size_less)

definition function_instrs :: "IrFunction \<Rightarrow> IrInstr list" where
  "function_instrs f = instrs_of (f_instrs f)"

definition function_values :: "IrFunction \<Rightarrow> IrValue list" where
  "function_values f = concat (map (\<lambda>i. values_of (i_value i) @ values_of (i_index i)) (function_instrs f))"

section \<open>Acceptance of the parts\<close>

lemma accepts_grows: "lawful grows c \<Longrightarrow> accepts c s s' \<Longrightarrow> req_le (st_req s) (st_req s')"
  by (auto simp: accepts_def grows_def dest: lawfulD)

lemma accepts_still: "lawful same_flow c \<Longrightarrow> accepts c s s' \<Longrightarrow> st_flow s' = st_flow s"
  by (auto simp: accepts_def same_flow_def dest: lawfulD)

lemma req_le_refl [simp]: "req_le p p"
  by (simp add: req_le_def)

lemma req_le_trans: "req_le p q \<Longrightarrow> req_le q r \<Longrightarrow> req_le p r"
  by (auto simp: req_le_def)

lemma accepts_value:
  "accepts (mir_verify_direct_value fns f ov) s s' \<Longrightarrow> v \<in> set (values_of ov) \<Longrightarrow>
     \<exists>a b. accepts (mir_verify_direct_value_kind_contract fns f v) a b \<and> st_flow a = st_flow s \<and> req_le (st_req b) (st_req s')"
  "accepts (mir_verify_direct_args fns f args) s s' \<Longrightarrow> v \<in> set (args_values args) \<Longrightarrow>
     \<exists>a b. accepts (mir_verify_direct_value_kind_contract fns f v) a b \<and> st_flow a = st_flow s \<and> req_le (st_req b) (st_req s')"
proof (induction ov and args arbitrary: s s' and s s' rule: values_of_args_values.induct)
  case (2 vf args ix lf rt)
  obtain s1 s2 s3 s4 where c: "accepts (mir_verify_direct_value_kind_contract fns f (IrValue vf args ix lf rt)) s s1"
    "accepts (mir_verify_direct_args fns f args) s1 s2" "accepts (mir_verify_direct_value fns f ix) s2 s3"
    "accepts (mir_verify_direct_value fns f lf) s3 s4" "accepts (mir_verify_direct_value fns f rt) s4 s'"
    using 2(5) by (auto simp: accept_simps)
  have g: "req_le (st_req s1) (st_req s2)" "req_le (st_req s2) (st_req s3)" "req_le (st_req s3) (st_req s4)" "req_le (st_req s4) (st_req s')"
    using c(2-5) by (auto intro: accepts_grows growth.h_value growth.h_args)
  have e: "st_flow s1 = st_flow s" "st_flow s2 = st_flow s1" "st_flow s3 = st_flow s2" "st_flow s4 = st_flow s3"
    using c(1-4) by (auto intro: accepts_still still.h_kind still.h_value still.h_args)
  note gt = g req_le_trans [OF g(3) g(4)] req_le_trans [OF g(2) req_le_trans [OF g(3) g(4)]]
    req_le_trans [OF g(1) req_le_trans [OF g(2) req_le_trans [OF g(3) g(4)]]]
  consider "v = IrValue vf args ix lf rt" | "v \<in> set (args_values args)" | "v \<in> set (values_of ix)"
    | "v \<in> set (values_of lf)" | "v \<in> set (values_of rt)"
    using 2(6) by auto
  then show ?case
  proof cases
    case 1
    with c(1) gt show ?thesis by blast
  next
    case a: 2
    from 2(1) [OF c(2) a] show ?thesis unfolding e by (blast intro: req_le_trans gt)
  next
    case 3
    from 2(2) [OF c(3) 3] show ?thesis unfolding e by (blast intro: req_le_trans gt)
  next
    case 4
    from 2(3) [OF c(4) 4] show ?thesis unfolding e by (blast intro: req_le_trans gt)
  next
    case 5
    from 2(4) [OF c(5) 5] show ?thesis unfolding e by (blast intro: req_le_trans gt)
  qed
next
  case (4 a args)
  obtain s1 where c: "accepts (mir_verify_direct_value fns f a) s s1" "accepts (mir_verify_direct_args fns f args) s1 s'"
    using 4(3) by (auto simp: accept_simps)
  have e: "st_flow s1 = st_flow s" using c(1) by (auto intro: accepts_still still.h_value)
  have g: "req_le (st_req s1) (st_req s')" using c(2) by (auto intro: accepts_grows growth.h_args)
  from 4(4) show ?case
    using 4(1) [OF c(1)] 4(2) [OF c(2)] e by (auto intro: req_le_trans [OF _ g])
qed auto

section \<open>Acceptance of branches and loops\<close>

definition below :: "bool list \<Rightarrow> bool list \<Rightarrow> bool" where
  "below l r \<longleftrightarrow> length l = length r \<and> (\<forall>i<length l. l ! i \<longrightarrow> r ! i)"

lemma below_refl [simp]: "below l l"
  by (simp add: below_def)

lemma below_trans: "below l m \<Longrightarrow> below m r \<Longrightarrow> below l r"
  by (auto simp: below_def)

lemma below_intersect: "below (mir_state_intersect_from l r) l"
  by (simp add: below_def mir_state_intersect_from_def)

lemma length_intersect [simp]: "length (mir_state_intersect_from l r) = length l"
  by (simp add: mir_state_intersect_from_def)

lemma nth_intersect [simp]: "i < length l \<Longrightarrow> mir_state_intersect_from l r ! i \<longleftrightarrow> l ! i \<and> r ! i"
  by (simp add: mir_state_intersect_from_def)

lemma accepts_branch [accept_simps]:
  "accepts (mir_branch a b) s s' \<longleftrightarrow> (\<exists>s1 s2. accepts a s s1 \<and> accepts b (s1\<lparr>st_flow := st_flow s\<rparr>) s2
     \<and> s' = s2\<lparr>st_flow := mir_state_intersect_from (st_flow s1) (st_flow s2)\<rparr>)"
  by (auto simp: accepts_def mir_branch_def bind_eq_Some_conv split: if_splits)

lemma accepts_loop:
  assumes "lawful grows body" "accepts (mir_loop body) s s'"
  shows "\<exists>s1 s2. accepts body s1 s2 \<and> st_flow s1 = st_flow s' \<and> req_le (st_req s2) (st_req s')
     \<and> below (st_flow s') (st_flow s) \<and> mir_state_intersect_from (st_flow s') (st_flow s2) = st_flow s'"
  using assms
proof (induction body s arbitrary: s' rule: mir_loop.induct)
  case (1 body s)
  let ?n = "\<lambda>s1. mir_state_intersect_from (st_flow s) (st_flow s1)"
  obtain s1 where s1: "body s = Some (True, s1)"
    using 1(3) by (auto simp: accepts_def mir_loop.simps [of body s] Let_def bind_eq_Some_conv split: if_splits)
  show ?case
  proof (cases "?n s1 = st_flow s")
    case True
    then have s': "s' = s1\<lparr>st_flow := st_flow s\<rparr>"
      using 1(3) s1 by (simp add: accepts_def mir_loop.simps [of body s] Let_def)
    then show ?thesis using s1 True by (intro exI [of _ s] exI [of _ s1]) (simp add: accepts_def)
  next
    case False
    have r: "accepts (mir_loop body) (s1\<lparr>st_flow := ?n s1\<rparr>) s'"
      using 1(3) s1 False by (simp add: accepts_def mir_loop.simps [of body s] Let_def)
    from 1(1) [OF refl s1 refl _ refl False 1(2) r]
    obtain t1 t2 where t: "accepts body t1 t2" "st_flow t1 = st_flow s'" "req_le (st_req t2) (st_req s')"
      "below (st_flow s') (?n s1)" "mir_state_intersect_from (st_flow s') (st_flow t2) = st_flow s'" by auto
    from t(4) below_intersect have "below (st_flow s') (st_flow s)" by (rule below_trans)
    with t show ?thesis by blast
  qed
qed

lemma accepts_instrs_nil [accept_simps]: "accepts (mir_verify_direct_instrs fns f []) s s' \<longleftrightarrow> mir_valid (st_diag s) \<and> s' = s"
  by (simp add: verify_instrs_nil accept_simps)

lemma accepts_flow: "accepts (\<lambda>s. Some (True, g s)) s s' \<longleftrightarrow> s' = g s"
  by (auto simp: accepts_def)

lemma accepts_instrs_cons:
  "accepts (mir_verify_direct_instrs fns f (i # r)) s s' \<longleftrightarrow> mir_valid (st_diag s) \<and>
    (\<exists>a b c d. accepts (mir_verify_direct_value fns f (i_value i)) s a \<and> accepts (mir_verify_direct_value fns f (i_index i)) a b
       \<and> accepts (mir_verify_direct_instr_contract f i) b c
       \<and> accepts (if i_kind i = IR_INSTR_IF then mir_branch (mir_verify_direct_instrs fns f (i_then i)) (mir_verify_direct_instrs fns f (i_else i))
            else if i_kind i = IR_INSTR_WHILE then mir_loop (mir_verify_direct_instrs fns f (i_then i))
            else (\<lambda>s. Some (True, s\<lparr>st_flow := mir_apply_instr_state_effect f i (st_flow s)\<rparr>))) c d
       \<and> accepts (mir_verify_direct_instrs fns f r) d s')"
  by (cases "i_kind i = IR_INSTR_IF"; cases "i_kind i = IR_INSTR_WHILE"; simp only: verify_instrs_cons accepts_valid accepts_and simp_thms if_True if_False; blast)

lemma instrs_grow: "accepts (mir_verify_direct_instrs fns f is) s s' \<Longrightarrow> req_le (st_req s) (st_req s')"
  by (rule accepts_grows [OF growth.h_instrs])

lemma accepts_instr:
  "accepts (mir_verify_direct_instrs fns f is) s s' \<Longrightarrow> i \<in> set (instrs_of is) \<Longrightarrow>
     \<exists>a b c d. accepts (mir_verify_direct_value fns f (i_value i)) a b \<and> accepts (mir_verify_direct_value fns f (i_index i)) b c
       \<and> accepts (mir_verify_direct_instr_contract f i) c d \<and> req_le (st_req d) (st_req s')"
proof (induction "is" arbitrary: s s' rule: instr_induct)
  case (If j r)
  obtain a b c s1 s2 x where j: "accepts (mir_verify_direct_value fns f (i_value j)) s a" "accepts (mir_verify_direct_value fns f (i_index j)) a b"
    "accepts (mir_verify_direct_instr_contract f j) b c" "accepts (mir_verify_direct_instrs fns f (i_then j)) c s1"
    "accepts (mir_verify_direct_instrs fns f (i_else j)) (s1\<lparr>st_flow := st_flow c\<rparr>) s2"
    "accepts (mir_verify_direct_instrs fns f r) (s2\<lparr>st_flow := x\<rparr>) s'"
    using If(5) If(1) by (auto simp: accepts_instrs_cons accepts_branch)
  note g = instrs_grow [OF j(4)] instrs_grow [OF j(5), simplified] instrs_grow [OF j(6), simplified]
  from If(6) consider "i = j" | "i \<in> set (instrs_of (i_then j))" | "i \<in> set (instrs_of (i_else j))" | "i \<in> set (instrs_of r)"
    by (auto simp: If(1))
  then show ?case
  proof cases
    case 1
    have "req_le (st_req c) (st_req s')" by (rule req_le_trans [OF g(1) req_le_trans [OF g(2) g(3)]])
    with j 1 show ?thesis by blast
  next
    case 2
    have "req_le (st_req s1) (st_req s')" by (rule req_le_trans [OF g(2) g(3)])
    with If(2) [OF j(4) 2] show ?thesis by (blast intro: req_le_trans)
  next
    case 3
    with If(3) [OF j(5) 3] g(3) show ?thesis by (blast intro: req_le_trans)
  next
    case 4
    from If(4) [OF j(6) 4] show ?thesis .
  qed
next
  case (While j r)
  obtain a b c d where j: "accepts (mir_verify_direct_value fns f (i_value j)) s a" "accepts (mir_verify_direct_value fns f (i_index j)) a b"
    "accepts (mir_verify_direct_instr_contract f j) b c" "accepts (mir_loop (mir_verify_direct_instrs fns f (i_then j))) c d"
    "accepts (mir_verify_direct_instrs fns f r) d s'"
    using While(4) While(1) by (auto simp: accepts_instrs_cons)
  note g = accepts_grows [OF growth.l_loop [OF growth.h_instrs] j(4)] instrs_grow [OF j(5)]
  obtain s1 s2 where l: "accepts (mir_verify_direct_instrs fns f (i_then j)) s1 s2" "req_le (st_req s2) (st_req d)"
    using accepts_loop [OF growth.h_instrs j(4)] by blast
  from While(5) consider "i = j" | "i \<in> set (instrs_of (i_then j))" | "i \<in> set (instrs_of r)"
    by (auto simp: While(1))
  then show ?case
  proof cases
    case 1
    with j req_le_trans [OF g] show ?thesis by blast
  next
    case 2
    from While(2) [OF l(1) 2] req_le_trans [OF l(2) g(2)] show ?thesis by (blast intro: req_le_trans)
  next
    case 3
    from While(3) [OF j(5) 3] show ?thesis .
  qed
next
  case (Other j r)
  obtain a b c x where j: "accepts (mir_verify_direct_value fns f (i_value j)) s a" "accepts (mir_verify_direct_value fns f (i_index j)) a b"
    "accepts (mir_verify_direct_instr_contract f j) b c" "accepts (mir_verify_direct_instrs fns f r) (c\<lparr>st_flow := x\<rparr>) s'"
    using Other(4) Other(1,2) by (auto simp: accepts_instrs_cons accepts_flow)
  from Other(5) consider "i = j" | "i \<in> set (instrs_of r)"
    by (auto simp: Other(1,2))
  then show ?case
  proof cases
    case 1
    with j instrs_grow [OF j(4), simplified] show ?thesis by blast
  next
    case 2
    from Other(3) [OF j(4) 2] show ?thesis .
  qed
qed simp

section \<open>Acceptance of a program\<close>

lemma accepts_functions: "accepts (mir_verify_functions fs) s s' \<Longrightarrow> f \<in> set fs \<Longrightarrow> \<exists>a b. accepts (mir_verify_direct_function_contract f) a b"
  by (induction fs arbitrary: s) (auto simp: accept_simps)

lemma accepts_bodies:
  "accepts (mir_verify_bodies fns fs) s s' \<Longrightarrow> f \<in> set fs \<Longrightarrow> \<exists>a b. accepts (mir_verify_body fns f) a b \<and> req_le (st_req b) (st_req s')"
proof (induction fs arbitrary: s)
  case (Cons g gs)
  obtain s1 where s1: "accepts (mir_verify_body fns g) s s1" "accepts (mir_verify_bodies fns gs) s1 s'"
    using Cons(2) by (auto simp: accept_simps)
  have "req_le (st_req s1) (st_req s')" by (rule accepts_grows [OF growth.h_bodies s1(2)])
  with Cons(1) [OF s1(2)] s1(1) Cons(3) show ?case by auto
qed simp

definition counts_cover :: "IrProgram \<Rightarrow> MirHelperRequirements \<Rightarrow> bool" where
  "counts_cover ir q \<longleftrightarrow> rc_count (allocator_helpers q) \<le> ir_allocator_helper_count ir
     \<and> rc_count (buffer_helpers q) \<le> ir_buffer_helper_count ir \<and> rc_count (runtime_helpers q) \<le> ir_runtime_helper_count ir
     \<and> rc_count (host_runtime_imports q) \<le> ir_host_runtime_import_count ir
     \<and> rc_count (http_runtime_imports q) \<le> ir_http_runtime_import_count ir"

lemma counts_cover_le: "counts_cover ir q \<Longrightarrow> req_le p q \<Longrightarrow> counts_cover ir p"
  by (auto simp: counts_cover_def req_le_def)

lemma accepts_requirements:
  assumes "accepts (mir_verify_direct_helper_requirements ir) s s'"
  shows "counts_cover ir (st_req s)"
  using assms [unfolded accepts_def mir_verify_direct_helper_requirements_def Let_def, folded accepts_def]
  by (simp add: mir_verify_count_satisfies_def accepts_valid accepts_and accepts_require counts_cover_def)

lemma accepts_program:
  assumes "z_mir_verify_direct_contracts ir = Some (True, ir')" "f \<in> set (ir_functions ir)"
  shows "\<exists>a b. accepts (mir_verify_direct_function_contract f) a b"
    "\<exists>a b. accepts (mir_verify_body (ir_functions ir) f) a b \<and> counts_cover ir (st_req b)"
proof -
  obtain s s1 s2 where s: "accepts (mir_verify_functions (ir_functions ir)) s s1"
    "accepts (mir_verify_bodies (ir_functions ir) (ir_functions ir)) s1 s2" "counts_cover ir (st_req s2)"
    using assms(1) [unfolded z_mir_verify_direct_contracts_def] accepts_requirements
    by (auto simp: bind_eq_Some_conv accepts_valid accepts_and simp flip: accepts_def)
  from accepts_functions [OF s(1) assms(2)] show "\<exists>a b. accepts (mir_verify_direct_function_contract f) a b" .
  from accepts_bodies [OF s(2) assms(2)] counts_cover_le [OF s(3)]
  show "\<exists>a b. accepts (mir_verify_body (ir_functions ir) f) a b \<and> counts_cover ir (st_req b)" by blast
qed

lemma accepted_instr:
  assumes "z_mir_verify_direct_contracts ir = Some (True, ir')" "f \<in> set (ir_functions ir)" "i \<in> set (function_instrs f)"
  shows "\<exists>a b. accepts (mir_verify_direct_instr_contract f i) a b \<and> counts_cover ir (st_req b)"
proof -
  obtain a b where r: "accepts (mir_verify_body (ir_functions ir) f) a b" and c: "counts_cover ir (st_req b)"
    using accepts_program(2) [OF assms(1,2)] by blast
  from accepts_instr [OF r [unfolded accepts_def mir_verify_body_def, folded accepts_def] assms(3) [unfolded function_instrs_def]]
    counts_cover_le [OF c] show ?thesis by blast
qed

lemma accepted_value:
  assumes "z_mir_verify_direct_contracts ir = Some (True, ir')" "f \<in> set (ir_functions ir)" "v \<in> set (function_values f)"
  shows "\<exists>a b. accepts (mir_verify_direct_value_kind_contract (ir_functions ir) f v) a b \<and> counts_cover ir (st_req b)"
proof -
  obtain a b where r: "accepts (mir_verify_body (ir_functions ir) f) a b" and c: "counts_cover ir (st_req b)"
    using accepts_program(2) [OF assms(1,2)] by blast
  obtain i where i: "i \<in> set (instrs_of (f_instrs f))" "v \<in> set (values_of (i_value i)) \<or> v \<in> set (values_of (i_index i))"
    using assms(3) by (auto simp: function_values_def function_instrs_def)
  obtain p q t u where p: "accepts (mir_verify_direct_value (ir_functions ir) f (i_value i)) p q"
    "accepts (mir_verify_direct_value (ir_functions ir) f (i_index i)) q t"
    "accepts (mir_verify_direct_instr_contract f i) t u" "req_le (st_req u) (st_req b)"
    using accepts_instr [OF r [unfolded accepts_def mir_verify_body_def, folded accepts_def] i(1)] by blast
  have t: "counts_cover ir (st_req t)"
    by (rule counts_cover_le [OF c req_le_trans [OF accepts_grows [OF growth.h_instr p(3)] p(4)]])
  have q: "counts_cover ir (st_req q)"
    by (rule counts_cover_le [OF t accepts_grows [OF growth.h_value p(2)]])
  show ?thesis using i(2) accepts_value(1) [OF p(1)] accepts_value(1) [OF p(2)] counts_cover_le [OF t] counts_cover_le [OF q] by blast
qed

section \<open>Contracts of the instructions\<close>

lemma loop_accepts:
  "accepts body s s1 \<Longrightarrow> mir_state_intersect_from (st_flow s) (st_flow s1) = st_flow s \<Longrightarrow> accepts (mir_loop body) s (s1\<lparr>st_flow := st_flow s\<rparr>)"
  by (subst accepts_def, subst mir_loop.simps) (simp add: accepts_def Let_def)

lemma accepts_state_require [accept_simps]: "accepts (\<lambda>s. m_require (p s) m l k a s) s s' \<longleftrightarrow> p s \<and> s' = s"
  by (auto simp: accepts_def m_require_def m_true_def m_fail_def)

definition local_set_ok :: "IrLocal \<Rightarrow> IrValue \<Rightarrow> bool" where
  "local_set_ok l v \<longleftrightarrow> mir_value_can_initialize_local l v \<and> (case l_type l of
          IR_TYPE_ALLOC \<Rightarrow> v_kind v = IR_VALUE_FIXED_BUF_ALLOC
        | IR_TYPE_VEC \<Rightarrow> v_kind v = IR_VALUE_VEC_INIT
        | IR_TYPE_MAYBE_BYTE_VIEW \<Rightarrow> v_kind v = IR_VALUE_ALLOC_BYTES \<or> v_kind v = IR_VALUE_ARGS_GET
            \<or> v_kind v = IR_VALUE_ENV_GET \<or> v_kind v = IR_VALUE_FS_READ_ALL \<or> v_kind v = IR_VALUE_FS_TEMP_NAME
        | _ \<Rightarrow> True)"

lemma accepts_local_set:
  "i_kind i = IR_INSTR_LOCAL_SET \<Longrightarrow> accepts (mir_verify_direct_instr_contract f i) s s' \<longleftrightarrow> mir_valid (st_diag s) \<and> s' = s
     \<and> i_local i < length (f_locals f) \<and> (\<exists>v. i_value i = Some v \<and> local_set_ok (f_locals f ! i_local i) v)"
  by (cases "i_value i")
    (auto simp: mir_verify_direct_instr_contract_def mir_verify_local_set_def mir_verify_local_index_def local_set_ok_def
      mir_verify_local_initializer_kind_def Let_def accept_simps)

lemma accepts_index_store:
  "i_kind i = IR_INSTR_INDEX_STORE \<Longrightarrow> accepts (mir_verify_direct_instr_contract f i) s s' \<longleftrightarrow> mir_valid (st_diag s) \<and> s' = s
     \<and> if_array_index (i_fields i) < length (f_locals f) \<and> l_is_array (f_locals f ! if_array_index (i_fields i))
     \<and> (\<exists>ix v. i_index i = Some ix \<and> mir_type_is_integer_value (v_type ix) \<and> i_value i = Some v
          \<and> v_type v = l_element_type (f_locals f ! if_array_index (i_fields i)))"
  by (cases "i_value i"; cases "i_index i")
    (auto simp: mir_verify_direct_instr_contract_def mir_verify_index_store_def mir_verify_local_index_def Let_def accept_simps)

definition field_inside :: "IrLocal \<Rightarrow> nat \<Rightarrow> IrTypeKind \<Rightarrow> bool" where
  "field_inside l offset ty \<longleftrightarrow> l_is_record l \<and> 0 < mir_type_byte_size ty \<and> offset + mir_type_byte_size ty \<le> l_byte_size l"

lemma accepts_field_store:
  "i_kind i = IR_INSTR_FIELD_STORE \<Longrightarrow> accepts (mir_verify_direct_instr_contract f i) s s' \<longleftrightarrow> mir_valid (st_diag s) \<and> s' = s
     \<and> i_local i < length (f_locals f) \<and> (\<exists>v. i_value i = Some v \<and> field_inside (f_locals f ! i_local i) (if_field_offset (i_fields i)) (v_type v))"
  by (cases "i_value i")
    (auto simp: mir_verify_direct_instr_contract_def mir_verify_field_store_def mir_verify_local_index_def field_inside_def
      mir_verify_record_field_span_def Let_def accept_simps)

lemma accepts_condition:
  "i_kind i = IR_INSTR_IF \<or> i_kind i = IR_INSTR_WHILE \<Longrightarrow> accepts (mir_verify_direct_instr_contract f i) s s' \<longleftrightarrow> mir_valid (st_diag s) \<and> s' = s
     \<and> (\<exists>v. i_value i = Some v \<and> v_type v = IR_TYPE_BOOL)"
  by (cases "i_value i") (auto simp: mir_verify_direct_instr_contract_def mir_verify_condition_def accept_simps)

lemma accepts_expr:
  "i_kind i = IR_INSTR_EXPR \<Longrightarrow> accepts (mir_verify_direct_instr_contract f i) s s' \<longleftrightarrow> mir_valid (st_diag s) \<and> s' = s"
  by (auto simp: mir_verify_direct_instr_contract_def accept_simps)

lemma accepts_return:
  "i_kind i = IR_INSTR_RETURN \<Longrightarrow> accepts (mir_verify_direct_instr_contract f i) s s' \<longleftrightarrow> mir_valid (st_diag s) \<and> s' = s
     \<and> map_option v_type (i_value i) = (let t = if f_raises f then f_value_return_type f else f_return_type f
          in if t = IR_TYPE_VOID then None else Some t)"
  by (cases "i_value i")
    (auto simp: mir_verify_direct_instr_contract_def mir_verify_direct_return_instr_def Let_def accept_simps)

end
