(* ===== verification/MirSample.thy ===== *)
theory MirSample
  imports MirWalk
begin

text \<open>
  Two programs for the witnesses: one the verifier accepts, that uses every kind of storage, and one it
  rejects.
\<close>

text \<open>
  \<open>fn f(x: u32) -> u32\<close> with a byte array, a record and a Maybe local; it counts \<open>x\<close> up, stores it
  in the array and in a field, and returns a field.
\<close>

definition mk_fields :: "IrValueKind \<Rightarrow> IrTypeKind \<Rightarrow> nat \<Rightarrow> nat \<Rightarrow> nat \<Rightarrow> ir_value_fields" where
  "mk_fields k t l a off = \<lparr>vf_kind = k, vf_type = t, vf_int_value = 1, vf_local_index = l, vf_callee_index = 0,
     vf_array_index = a, vf_field_offset = off, vf_data_offset = 0, vf_data_len = 8, vf_element_type = IR_TYPE_U32,
     vf_error_code = 0, vf_binary_op = IR_BIN_ADD, vf_compare_op = IR_CMP_LT, vf_line = 3, vf_column = 5\<rparr>"

definition v_leaf :: "IrValueKind \<Rightarrow> IrTypeKind \<Rightarrow> nat \<Rightarrow> IrValue" where
  "v_leaf k t l = IrValue (mk_fields k t l l 4) [] None None None"

definition v_two :: "IrValueKind \<Rightarrow> IrTypeKind \<Rightarrow> nat \<Rightarrow> IrValue \<Rightarrow> IrValue \<Rightarrow> IrValue" where
  "v_two k t l a b = IrValue (mk_fields k t l l 4) [] None (Some a) (Some b)"

definition v_one :: "IrValueKind \<Rightarrow> IrTypeKind \<Rightarrow> nat \<Rightarrow> IrValue \<Rightarrow> IrValue" where
  "v_one k t l a = IrValue (mk_fields k t l l 4) [] None (Some a) None"

definition mk_instr :: "IrInstrKind \<Rightarrow> nat \<Rightarrow> IrValue option \<Rightarrow> IrValue option \<Rightarrow> IrInstr list \<Rightarrow> IrInstr list \<Rightarrow> IrInstr" where
  "mk_instr k l v ix t e = IrInstr \<lparr>if_kind = k, if_local_index = l, if_array_index = l, if_field_offset = 4,
     if_error_code = 0, if_line = 3, if_column = 5\<rparr> v ix t e"

definition mk_local :: "nat \<Rightarrow> IrTypeKind \<Rightarrow> nat \<Rightarrow> nat \<Rightarrow> nat \<Rightarrow> IrLocal" where
  "mk_local i t off sz al = \<lparr>l_name = Some ''x'', l_type = t, l_element_type = IR_TYPE_U8, l_index = i, l_frame_offset = off,
     l_array_len = 8, l_byte_size = sz, l_alignment = al, l_is_param = (i = 0), l_is_array = (i = 1), l_is_record = (i = 2),
     l_is_mutable = True, l_shape_name = None, l_line = 2, l_column = 1\<rparr>"

definition sample_locals :: "IrLocal list" where
  "sample_locals = [mk_local 0 IR_TYPE_U32 8 8 8, mk_local 1 IR_TYPE_UNSUPPORTED 16 8 1, mk_local 2 IR_TYPE_RECORD 24 8 4,
     mk_local 3 IR_TYPE_MAYBE_BYTE_VIEW 48 24 8, mk_local 4 IR_TYPE_ALLOC 64 16 8]"

definition sample_function :: "IrInstr list \<Rightarrow> IrFunction" where
  "sample_function body = \<lparr>f_name = Some ''f'', f_stable_id = ''f'', f_world_param_name = None, f_return_type = IR_TYPE_U32,
     f_value_return_type = IR_TYPE_U32, f_locals = sample_locals, f_param_count = 1, f_instrs = body, f_frame_bytes = 64,
     f_is_exported = True, f_raises = False, f_line = 1, f_column = 1\<rparr>"

definition sample_program :: "IrInstr list \<Rightarrow> IrProgram" where
  "sample_program body = \<lparr>ir_functions = [sample_function body],
     ir_diag = \<lparr>mir_valid = True, mir_expected = [], mir_actual = [], mir_message = [], mir_help = [],
       mir_blocker = \<lparr>bb_present = False, bb_target = [], bb_object_format = [], bb_backend = [], bb_stage = [], bb_unsupported_feature = []\<rparr>,
       mir_line = 0, mir_column = 0\<rparr>,
     ir_allocator_helper_count = 2, ir_buffer_helper_count = 0, ir_runtime_helper_count = 0,
     ir_host_runtime_import_count = 0, ir_http_runtime_import_count = 0\<rparr>"

definition v_x :: IrValue where "v_x = v_leaf IR_VALUE_LOCAL IR_TYPE_U32 0"
definition v_num :: IrValue where "v_num = v_leaf IR_VALUE_INT IR_TYPE_U32 0"
definition v_buf :: IrValue where "v_buf = v_leaf IR_VALUE_ARRAY_BYTE_VIEW IR_TYPE_BYTE_VIEW 1"

definition v_call :: IrValue where
  "v_call = IrValue (mk_fields IR_VALUE_CALL IR_TYPE_U32 0 0 0) [Some v_x] None None None"

definition sample_body :: "IrInstr list" where
  "sample_body =
     [mk_instr IR_INSTR_LOCAL_SET 4 (Some (v_one IR_VALUE_FIXED_BUF_ALLOC IR_TYPE_ALLOC 1 v_buf)) None [] [],
      mk_instr IR_INSTR_LOCAL_SET 3 (Some (v_one IR_VALUE_ALLOC_BYTES IR_TYPE_MAYBE_BYTE_VIEW 4 v_x)) None [] [],
      mk_instr IR_INSTR_WHILE 0 (Some (v_two IR_VALUE_COMPARE IR_TYPE_BOOL 0 v_x v_num)) None
        [mk_instr IR_INSTR_LOCAL_SET 0 (Some (v_two IR_VALUE_BINARY IR_TYPE_U32 0 v_x v_num)) None [] [],
         mk_instr IR_INSTR_INDEX_STORE 1 (Some (v_one IR_VALUE_CAST IR_TYPE_U8 0 v_x)) (Some v_num) [] []] [],
      mk_instr IR_INSTR_IF 0 (Some (v_leaf IR_VALUE_MAYBE_HAS IR_TYPE_BOOL 3)) None
        [mk_instr IR_INSTR_EXPR 0 (Some (v_two IR_VALUE_BYTE_FILL IR_TYPE_USIZE 0 (v_one IR_VALUE_CAST IR_TYPE_U8 0 v_x)
           (v_leaf IR_VALUE_MAYBE_VALUE IR_TYPE_BYTE_VIEW 3))) None [] []] [],
      mk_instr IR_INSTR_EXPR 0 (Some v_call) None [] [],
      mk_instr IR_INSTR_FIELD_STORE 2 (Some v_x) None [] [],
      mk_instr IR_INSTR_RETURN 0 (Some (v_leaf IR_VALUE_FIELD_LOAD IR_TYPE_U32 2)) None [] []]"

lemmas sample_defs = sample_program_def sample_function_def sample_locals_def mk_local_def mk_instr_def mk_fields_def v_leaf_def
  v_one_def v_two_def v_x_def v_num_def v_buf_def

lemmas run_function = mir_verify_direct_function_contract_def mir_verify_returns_def mir_type_storage_min_byte_size_def
  mir_type_local_slot_min_byte_size_def mir_type_byte_size_def mir_type_is_direct_abi_def mir_type_is_value_def
  mir_type_is_integer_value_def UINT_MAX_def

lemmas run_values = mir_verify_direct_value_kind_contract_def mir_verify_direct_helper_value_contract_def
  mir_verify_helper_result_type_def mir_verify_value_type_def mir_verify_mutable_byte_storage_def mir_verify_local_index_def
  mir_verify_array_byte_view_contract_def mir_verify_mutable_local_value_kind_def mir_verify_local_value_kind_def
  mir_verify_value_is_integer_def mir_verify_local_value_def mir_verify_compare_value_contract_def mir_is_primitive_def
  mir_verify_binary_value_contract_def mir_verify_direct_primitive_value_def mir_verify_same_type_operands_def
  mir_verify_cast_value_contract_def mir_verify_maybe_value_contract_def mir_verify_byte_mutation_value_contract_def
  mir_verify_field_load_def mir_verify_record_field_span_def mir_state_has_mutable_maybe_byte_payload_def

lemmas run_instrs = verify_instrs_nil verify_instrs_cons mir_verify_direct_instr_contract_def mir_verify_local_set_def
  mir_value_can_initialize_local_def mir_verify_local_initializer_kind_def mir_verify_index_store_def mir_verify_field_store_def
  mir_verify_direct_return_instr_def mir_verify_condition_def mir_apply_instr_state_effect_def mir_branch_def
  mir_state_intersect_from_def mir_value_produces_mutable_byte_payload_def

lemmas run_program = z_mir_verify_direct_contracts_def mir_verify_body_def mir_verify_direct_helper_requirements_def
  mir_verify_count_satisfies_def zero_requirements_def zero_count_def mir_require_count_def

lemma sample_function_accepted:
  "accepts (mir_verify_direct_function_contract (sample_function body)) s s' \<longleftrightarrow> mir_valid (st_diag s) \<and> s' = s"
  by (auto simp: sample_defs accept_simps run_function Let_def)

definition bad_return :: "IrInstr list" where
  "bad_return = [mk_instr IR_INSTR_RETURN 0 None None [] []]"

lemma bad_return_rejected:
  "\<exists>ir'. z_mir_verify_direct_contracts (sample_program bad_return) = Some (False, ir')"
proof -
  let ?s = "\<lparr>st_diag = ir_diag (sample_program bad_return), st_req = zero_requirements, st_flow = []\<rparr>"
  have f: "mir_verify_functions (ir_functions (sample_program bad_return)) ?s = Some (True, ?s)"
    using sample_function_accepted [of bad_return ?s ?s] by (simp add: accepts_def sample_program_def m_and_def m_true_def)
  have "\<exists>d. mir_verify_body [sample_function bad_return] (sample_function bad_return) ?s = Some (False, d)"
    by (simp add: mir_verify_body_def bad_return_def run_instrs m_and_def m_valid_def m_true_def m_fail_def sample_function_def
        mk_instr_def sample_program_def)
  then show ?thesis
    using f by (auto simp: z_mir_verify_direct_contracts_def m_valid_def m_and_def sample_program_def)
qed

definition sfun :: IrFunction where
  "sfun = sample_function sample_body"

lemmas sample_run = sfun_def sample_defs accept_simps run_values Let_def mir_type_is_integer_value_def mir_type_byte_size_def


lemma val1: "accepts (mir_verify_direct_value fns sfun (Some (v_one IR_VALUE_FIXED_BUF_ALLOC IR_TYPE_ALLOC 1 v_buf))) s s' \<longleftrightarrow>
   mir_valid (st_diag s) \<and> accepts (need_allocator 1 3 5 ''std.mem.fixedBufAlloc'') s s'"
  by (auto simp: sample_run)

lemma val2: "accepts (mir_verify_direct_value fns sfun (Some (v_one IR_VALUE_ALLOC_BYTES IR_TYPE_MAYBE_BYTE_VIEW 4 v_x))) s s' \<longleftrightarrow>
   mir_valid (st_diag s) \<and> accepts (need_allocator 2 3 5 ''std.mem.allocBytes'') s s'"
  by (auto simp: sample_run)

lemma val3: "accepts (mir_verify_direct_value fns sfun (Some (v_two IR_VALUE_COMPARE IR_TYPE_BOOL 0 v_x v_num))) s s' \<longleftrightarrow> mir_valid (st_diag s) \<and> s' = s"
  "accepts (mir_verify_direct_value fns sfun (Some (v_two IR_VALUE_BINARY IR_TYPE_U32 0 v_x v_num))) s s' \<longleftrightarrow> mir_valid (st_diag s) \<and> s' = s"
  "accepts (mir_verify_direct_value fns sfun (Some (v_one IR_VALUE_CAST IR_TYPE_U8 0 v_x))) s s' \<longleftrightarrow> mir_valid (st_diag s) \<and> s' = s"
  "accepts (mir_verify_direct_value fns sfun (Some v_num)) s s' \<longleftrightarrow> mir_valid (st_diag s) \<and> s' = s"
  by (auto simp: sample_run)

lemma val4: "accepts (mir_verify_direct_value fns sfun (Some (v_two IR_VALUE_BYTE_FILL IR_TYPE_USIZE 0 (v_one IR_VALUE_CAST IR_TYPE_U8 0 v_x)
           (v_leaf IR_VALUE_MAYBE_VALUE IR_TYPE_BYTE_VIEW 3)))) s s' \<longleftrightarrow> mir_valid (st_diag s) \<and> 3 < length (st_flow s) \<and> st_flow s ! 3 \<and> s' = s"
  by (auto simp: sample_run)

lemma mk_instr_sel: "i_kind (mk_instr k l v ix t e) = k" "i_value (mk_instr k l v ix t e) = v" "i_index (mk_instr k l v ix t e) = ix"
  "i_then (mk_instr k l v ix t e) = t" "i_else (mk_instr k l v ix t e) = e" "i_local (mk_instr k l v ix t e) = l"
  "if_array_index (i_fields (mk_instr k l v ix t e)) = l" "if_field_offset (i_fields (mk_instr k l v ix t e)) = 4"
  by (simp_all add: mk_instr_def)

lemma v_sel: "v_kind (v_one k t l a) = k" "v_type (v_one k t l a) = t" "v_kind (v_two k t l a b) = k" "v_type (v_two k t l a b) = t"
  "v_kind (v_leaf k t l) = k" "v_type (v_leaf k t l) = t"
  "v_type v_num = IR_TYPE_U32" "v_type v_x = IR_TYPE_U32"
  by (simp_all add: v_one_def v_two_def v_leaf_def mk_fields_def v_num_def v_x_def)

lemma sfun_locals: "f_locals sfun = sample_locals" "f_return_type sfun = IR_TYPE_U32" "\<not> f_raises sfun"
  by (simp_all add: sfun_def sample_function_def)

lemmas contract_simps = accepts_local_set accepts_index_store accepts_field_store accepts_condition accepts_expr accepts_return
  mk_instr_sel v_sel sfun_locals

lemmas step_simps = accepts_instrs_cons accepts_instrs_nil contract_simps accepts_flow mir_apply_instr_state_effect_def
  val1 val2 val3 val4

lemma sample_loop:
  assumes "mir_valid (st_diag s)" "length (st_flow s) = 5"
  shows "accepts (mir_loop (mir_verify_direct_instrs fns sfun
     [mk_instr IR_INSTR_LOCAL_SET 0 (Some (v_two IR_VALUE_BINARY IR_TYPE_U32 0 v_x v_num)) None [] [],
      mk_instr IR_INSTR_INDEX_STORE 1 (Some (v_one IR_VALUE_CAST IR_TYPE_U8 0 v_x)) (Some v_num) [] []])) s s" (is "accepts (mir_loop ?b) s s")
proof -
  have b: "accepts ?b s s"
    using assms by (simp add: step_simps accepts_true accepts_valid local_set_ok_def mir_value_can_initialize_local_def
        sample_locals_def mk_local_def mir_type_is_integer_value_def)
  have "mir_state_intersect_from (st_flow s) (st_flow s) = st_flow s"
    by (rule nth_equalityI) simp_all
  from loop_accepts [OF b this] show ?thesis by simp
qed

lemma val5:
  "accepts (mir_verify_direct_value fns sfun (Some (v_leaf IR_VALUE_MAYBE_HAS IR_TYPE_BOOL 3))) s s' \<longleftrightarrow> mir_valid (st_diag s) \<and> s' = s"
  "accepts (mir_verify_direct_value fns sfun (Some v_x)) s s' \<longleftrightarrow> mir_valid (st_diag s) \<and> s' = s"
  "accepts (mir_verify_direct_value fns sfun (Some (v_leaf IR_VALUE_FIELD_LOAD IR_TYPE_U32 2))) s s' \<longleftrightarrow> mir_valid (st_diag s) \<and> s' = s"
  by (auto simp: sample_run)

lemma val6: "accepts (mir_verify_direct_value [sfun] sfun (Some v_call)) s s' \<longleftrightarrow> mir_valid (st_diag s) \<and> s' = s"
  by (auto simp: sample_run v_call_def mir_verify_direct_call_contract_def)

lemma produces_sample:
  "mir_value_produces_mutable_byte_payload (Some (v_one IR_VALUE_ALLOC_BYTES IR_TYPE_MAYBE_BYTE_VIEW l a))"
  "\<not> mir_value_produces_mutable_byte_payload (Some (v_one IR_VALUE_FIXED_BUF_ALLOC t l a))"
  by (simp_all add: mir_value_produces_mutable_byte_payload_def v_sel)

definition sample_after :: "mir_st \<Rightarrow> mir_st" where
  "sample_after s = s\<lparr>st_req := (st_req s)\<lparr>allocator_helpers :=
     mir_require_count (mir_require_count (allocator_helpers (st_req s)) 1 3 5 ''std.mem.fixedBufAlloc'') 2 3 5 ''std.mem.allocBytes''\<rparr>,
     st_flow := (st_flow s)[3 := True]\<rparr>"

lemma sample_body_accepted:
  assumes "mir_valid (st_diag s)" "length (st_flow s) = 5"
  shows "accepts (mir_verify_direct_instrs [sfun] sfun sample_body) s (sample_after s)"
proof -
  let ?s = "sample_after s"
  have v: "mir_valid (st_diag ?s)" "length (st_flow ?s) = 5" "st_flow ?s ! 3"
    using assms by (simp_all add: sample_after_def)
  have i: "mir_state_intersect_from (st_flow ?s) (st_flow ?s) = st_flow ?s"
    by (rule nth_equalityI) simp_all
  let ?t = "[mk_instr IR_INSTR_EXPR 0 (Some (v_two IR_VALUE_BYTE_FILL IR_TYPE_USIZE 0 (v_one IR_VALUE_CAST IR_TYPE_U8 0 v_x)
           (v_leaf IR_VALUE_MAYBE_VALUE IR_TYPE_BYTE_VIEW 3))) None [] []]"
  have b: "accepts (mir_branch (mir_verify_direct_instrs [sfun] sfun ?t) (mir_verify_direct_instrs [sfun] sfun [])) ?s ?s"
    using v i by (simp add: accepts_branch step_simps val5 val6 accepts_true accepts_valid)
  have rest: "accepts (mir_verify_direct_instrs [sfun] sfun (drop 2 sample_body)) ?s ?s"
    using v b sample_loop [OF v(1,2)]
    by (auto simp del: One_nat_def simp: sample_body_def step_simps val5 val6 accepts_true accepts_valid field_inside_def sample_locals_def mk_local_def
        mir_type_byte_size_def)
  show ?thesis
    using rest assms
    by (auto simp del: One_nat_def simp: sample_body_def step_simps val5 val6 accepts_true accepts_valid accepts_need local_set_ok_def
        mir_value_can_initialize_local_def sample_locals_def mk_local_def produces_sample sample_after_def
        mir_type_byte_size_def)
qed

lemma sample_accepted: "\<exists>ir'. z_mir_verify_direct_contracts (sample_program sample_body) = Some (True, ir')"
proof -
  let ?s = "\<lparr>st_diag = ir_diag (sample_program sample_body), st_req = zero_requirements, st_flow = []\<rparr>"
  let ?t = "sample_after (?s\<lparr>st_flow := replicate 5 False\<rparr>)"
  have v: "mir_valid (st_diag ?s)" by (simp add: sample_program_def)
  have l: "length (f_locals sfun) = 5" "f_instrs sfun = sample_body" by (simp_all add: sfun_def sample_function_def sample_locals_def)
  have "mir_verify_body [sfun] sfun ?s = Some (True, ?t)"
    unfolding mir_verify_body_def l using sample_body_accepted [of "?s\<lparr>st_flow := replicate 5 False\<rparr>"] v
    by (simp only: accepts_def) (simp add: mir_st.defs)
  then have b: "accepts (mir_verify_bodies [sfun] [sfun]) ?s ?t"
    by (simp add: accepts_def m_and_def m_true_def)
  have f: "accepts (mir_verify_functions [sfun]) ?s ?s"
    using v by (simp add: accepts_and accepts_true sample_function_accepted sfun_def)
  have r: "accepts (mir_verify_direct_helper_requirements (sample_program sample_body)) ?t ?t"
    unfolding accepts_def mir_verify_direct_helper_requirements_def Let_def
    using v by (auto simp: mir_verify_count_satisfies_def sample_after_def sample_program_def zero_requirements_def zero_count_def
        mir_require_count_def m_valid_def m_and_def m_require_def m_true_def)
  from b f r v have "accepts (m_valid (m_and (mir_verify_functions [sfun]) (m_and (mir_verify_bodies [sfun] [sfun])
      (mir_verify_direct_helper_requirements (sample_program sample_body))))) ?s ?t"
    by (auto simp: accepts_valid accepts_and)
  then show ?thesis by (simp add: z_mir_verify_direct_contracts_def accepts_def sample_program_def sfun_def)
qed

lemma sample_parts: "ir_functions (sample_program sample_body) = [sfun]" "f_instrs sfun = sample_body"
  by (simp_all add: sample_program_def sfun_def sample_function_def)

end
