(* ===== verification/MirProps.thy ===== *)
theory MirProps
  imports MirSample
begin

text \<open>
  What \<open>z_mir_verify_direct_contracts\<close> guarantees about the programs it accepts and how it reports the
  ones it rejects.
\<close>

section \<open>Reports\<close>

text \<open>
  C26. The verifier never rejects silently and never complains about what it accepts: from a valid
  program it either returns true and leaves the program as it is, or returns false with exactly one
  diagnostic, positioned at line and column at least 1 and within the buffers of the program.
\<close>

theorem mir_verifier_reports:
  assumes "mir_valid (ir_diag ir)" "z_mir_verify_direct_contracts ir = Some (ok, ir')"
  shows "if ok then ir' = ir else reported (ir_diag ir') \<and> ir' = ir\<lparr>ir_diag := ir_diag ir'\<rparr>"
proof -
  let ?c = "m_valid (m_and (mir_verify_functions (ir_functions ir))
            (m_and (mir_verify_bodies (ir_functions ir) (ir_functions ir)) (mir_verify_direct_helper_requirements ir)))"
  let ?s = "\<lparr>st_diag = ir_diag ir, st_req = zero_requirements, st_flow = []\<rparr>"
  have h: "lawful honest ?c" by (intro law_intros)
  obtain s where s: "?c ?s = Some (ok, s)" "ir' = ir\<lparr>ir_diag := st_diag s\<rparr>"
    using assms(2) by (auto simp: z_mir_verify_direct_contracts_def bind_eq_Some_conv)
  from lawfulD [OF h s(1)] assms(1) s(2) show ?thesis by (cases ok) (simp_all add: honest_def)
qed

theorem mir_verifier_reports_witness:
  "\<exists>ir'. z_mir_verify_direct_contracts (sample_program bad_return) = Some (False, ir') \<and> reported (ir_diag ir')
     \<and> ir_functions ir' = ir_functions (sample_program bad_return)"
proof -
  obtain ir' where r: "z_mir_verify_direct_contracts (sample_program bad_return) = Some (False, ir')"
    using bad_return_rejected by blast
  have v: "mir_valid (ir_diag (sample_program bad_return))" by (simp add: sample_program_def)
  have h: "reported (ir_diag ir')" "ir' = (sample_program bad_return)\<lparr>ir_diag := ir_diag ir'\<rparr>"
    using mir_verifier_reports [OF v r] by simp_all
  have "ir_functions ir' = ir_functions ((sample_program bad_return)\<lparr>ir_diag := ir_diag ir'\<rparr>)"
    by (rule arg_cong [where f = ir_functions, OF h(2)])
  then have "ir_functions ir' = ir_functions (sample_program bad_return)"
    using IrProgram.update_convs by (cases "sample_program bad_return") simp
  with r h(1) show ?thesis by blast
qed

section \<open>Frames\<close>

definition slot_start :: "IrLocal \<Rightarrow> nat" where
  "slot_start l = l_frame_offset l - l_byte_size l"

text \<open>The bytes of a local, as distances from the frame pointer: the frame grows down.\<close>

definition region :: "IrLocal \<Rightarrow> int set" where
  "region l = {- int (l_frame_offset l) ..< - int (l_frame_offset l) + int (l_byte_size l)}"

definition local_ok :: "IrFunction \<Rightarrow> nat \<Rightarrow> IrLocal \<Rightarrow> bool" where
  "local_ok f i l \<longleftrightarrow> l_index l = i \<and> 0 < l_byte_size l \<and> 0 < l_alignment l \<and> 0 < mir_type_storage_min_byte_size l
     \<and> mir_type_storage_min_byte_size l \<le> l_byte_size l \<and> l_byte_size l \<le> l_frame_offset l
     \<and> l_frame_offset l \<le> f_frame_bytes f \<and> slot_start l mod l_alignment l = 0"

fun chain_from :: "nat \<Rightarrow> IrLocal list \<Rightarrow> bool" where
  "chain_from e [] = True"
| "chain_from e (l # ls) = (e \<le> slot_start l \<and> chain_from (l_frame_offset l) ls)"

lemma accepts_local:
  "accepts (mir_verify_locals f i p (l # ls)) s s' \<longleftrightarrow> local_ok f i l
     \<and> (case p of None \<Rightarrow> 0 | Some q \<Rightarrow> l_frame_offset q) \<le> slot_start l \<and> accepts (mir_verify_locals f (Suc i) (Some l) ls) s s'"
  by (cases p) (auto simp: Let_def accept_simps local_ok_def slot_start_def)

lemma accepts_locals:
  "accepts (mir_verify_locals f i p ls) s s' \<longleftrightarrow> s' = s \<and> (\<forall>k<length ls. local_ok f (i + k) (ls ! k))
     \<and> chain_from (case p of None \<Rightarrow> 0 | Some q \<Rightarrow> l_frame_offset q) ls"
proof (induction ls arbitrary: i p)
  case (Cons l ls)
  have "(\<forall>k<Suc (length ls). local_ok f (i + k) ((l # ls) ! k)) \<longleftrightarrow> local_ok f i l \<and> (\<forall>k<length ls. local_ok f (Suc i + k) (ls ! k))"
    by (simp add: All_less_Suc2)
  then show ?case by (simp only: accepts_local Cons length_Cons chain_from.simps option.case) blast
qed (simp add: accept_simps)

lemma chain_order:
  assumes "chain_from e ls" "\<forall>k<length ls. slot_start (ls ! k) \<le> l_frame_offset (ls ! k)" "k < length ls"
  shows "e \<le> slot_start (ls ! k) \<and> (\<forall>j<k. l_frame_offset (ls ! j) \<le> slot_start (ls ! k))"
  using assms
proof (induction ls arbitrary: e k)
  case (Cons l ls)
  have t: "\<forall>k<length ls. slot_start (ls ! k) \<le> l_frame_offset (ls ! k)" and h: "slot_start l \<le> l_frame_offset l"
    using Cons(3) by auto
  show ?case
  proof (cases k)
    case (Suc m)
    have "l_frame_offset l \<le> slot_start (ls ! m) \<and> (\<forall>j<m. l_frame_offset (ls ! j) \<le> slot_start (ls ! m))"
      using Cons(1) [of "l_frame_offset l" m] Cons(2,4) t Suc by simp
    with Cons(2) h Suc show ?thesis by (auto simp: less_Suc_eq_0_disj)
  qed (use Cons(2) in simp)
qed simp

lemma accepts_params:
  "accepts (mir_verify_params f i k) s s' \<longleftrightarrow> s' = s \<and>
     (\<forall>j. i \<le> j \<and> j < i + k \<longrightarrow> l_is_param (f_locals f ! j) \<and> l_index (f_locals f ! j) = j \<and> mir_type_is_direct_abi (l_type (f_locals f ! j)))"
proof (induction k arbitrary: i)
  case (Suc k)
  have "i \<le> j \<and> j < i + Suc k \<longleftrightarrow> j = i \<or> (Suc i \<le> j \<and> j < Suc i + k)" for j by auto
  then show ?case by (auto simp: Let_def accept_simps Suc)
qed (auto simp: accept_simps)

definition frame_ok :: "IrFunction \<Rightarrow> bool" where
  "frame_ok f \<longleftrightarrow> (\<forall>k<length (f_locals f). local_ok f k (f_locals f ! k))
     \<and> (\<forall>k<length (f_locals f). \<forall>j<k. l_frame_offset (f_locals f ! j) \<le> slot_start (f_locals f ! k))
     \<and> f_param_count f \<le> length (f_locals f)
     \<and> (\<forall>j<f_param_count f. l_is_param (f_locals f ! j) \<and> mir_type_is_direct_abi (l_type (f_locals f ! j)))"

lemma accepts_function:
  assumes "accepts (mir_verify_direct_function_contract f) s s'"
  shows "frame_ok f"
proof -
  have l: "\<forall>k<length (f_locals f). local_ok f k (f_locals f ! k)" "chain_from 0 (f_locals f)"
    and p: "f_param_count f \<le> length (f_locals f)"
      "\<forall>j<f_param_count f. l_is_param (f_locals f ! j) \<and> mir_type_is_direct_abi (l_type (f_locals f ! j))"
    using assms by (auto simp: mir_verify_direct_function_contract_def accept_simps accepts_locals accepts_params)
  have o: "\<forall>k<length (f_locals f). slot_start (f_locals f ! k) \<le> l_frame_offset (f_locals f ! k)"
    by (simp add: slot_start_def)
  show ?thesis using l(1) p chain_order [OF l(2) o] unfolding frame_ok_def by blast
qed

lemma region_slot: "local_ok f k l \<Longrightarrow> region l = {- int (l_frame_offset l) ..< - int (slot_start l)}"
  by (auto simp: region_def local_ok_def slot_start_def of_nat_diff)

lemma region_inside: "local_ok f k l \<Longrightarrow> region l \<subseteq> {- int (f_frame_bytes f) ..< 0}"
  by (auto simp: region_def local_ok_def)

lemma regions_disjoint:
  assumes "frame_ok f" "i < length (f_locals f)" "j < length (f_locals f)" "i \<noteq> j"
  shows "region (f_locals f ! i) \<inter> region (f_locals f ! j) = {}"
  using assms
proof (induction i j rule: linorder_wlog)
  case (le a b)
  then have "l_frame_offset (f_locals f ! a) \<le> slot_start (f_locals f ! b)" "local_ok f a (f_locals f ! a)" "local_ok f b (f_locals f ! b)"
    by (auto simp: frame_ok_def)
  then show ?case by (auto simp: region_slot)
qed blast

text \<open>
  C3. In every function of an accepted program the locals have pairwise disjoint storage inside the
  frame, each aligned, at its own index and large enough for its type; the parameters come first and
  have types the calling convention passes in registers.
\<close>

theorem mir_frames_disjoint:
  assumes "z_mir_verify_direct_contracts ir = Some (True, ir')" "f \<in> set (ir_functions ir)"
    and "i < length (f_locals f)"
  shows "l_index (f_locals f ! i) = i \<and> region (f_locals f ! i) \<subseteq> {- int (f_frame_bytes f) ..< 0}
    \<and> (\<forall>j<length (f_locals f). j \<noteq> i \<longrightarrow> region (f_locals f ! i) \<inter> region (f_locals f ! j) = {})
    \<and> mir_type_storage_min_byte_size (f_locals f ! i) \<le> card (region (f_locals f ! i))
    \<and> (l_frame_offset (f_locals f ! i) - l_byte_size (f_locals f ! i)) mod l_alignment (f_locals f ! i) = 0
    \<and> (i < f_param_count f \<longrightarrow> l_is_param (f_locals f ! i) \<and> mir_type_is_direct_abi (l_type (f_locals f ! i)))"
proof -
  have fr: "frame_ok f" using accepts_program(1) [OF assms(1,2)] accepts_function by blast
  then have l: "local_ok f i (f_locals f ! i)" using assms(3) by (simp add: frame_ok_def)
  then have "mir_type_storage_min_byte_size (f_locals f ! i) \<le> card (region (f_locals f ! i))"
    by (simp add: local_ok_def region_def)
  with l region_inside [OF l] regions_disjoint [OF fr assms(3)] fr show ?thesis
    unfolding local_ok_def frame_ok_def slot_start_def by auto
qed

lemma mir_frames_disjoint_witness:
  "region (sample_locals ! 1) \<subseteq> {- 64 ..< 0} \<and> region (sample_locals ! 1) \<inter> region (sample_locals ! 2) = {}
     \<and> mir_type_storage_min_byte_size (sample_locals ! 1) \<le> card (region (sample_locals ! 1))"
proof -
  obtain ir' where a: "z_mir_verify_direct_contracts (sample_program sample_body) = Some (True, ir')"
    using sample_accepted by blast
  have f: "sfun \<in> set (ir_functions (sample_program sample_body))" by (simp add: sample_parts)
  have n: "1 < length (f_locals sfun)" "2 < length (f_locals sfun)" "(2 :: nat) \<noteq> 1" by (simp_all add: sfun_locals sample_locals_def)
  show ?thesis
    using mir_frames_disjoint [OF a f n(1)] n(2,3) by (simp add: sfun_locals) (simp add: sfun_def sample_function_def)
qed

section \<open>Storage\<close>










lemma accepted_frame:
  "z_mir_verify_direct_contracts ir = Some (True, ir') \<Longrightarrow> f \<in> set (ir_functions ir) \<Longrightarrow> frame_ok f"
  using accepts_program(1) accepts_function by blast



section \<open>Calls\<close>

definition call_ok :: "IrFunction list \<Rightarrow> IrValue \<Rightarrow> bool" where
  "call_ok fns v \<longleftrightarrow> v_callee v < length fns
     \<and> map (map_option v_type) (v_args v) = map (\<lambda>l. Some (l_type l)) (take (f_param_count (fns ! v_callee v)) (f_locals (fns ! v_callee v)))
     \<and> v_type v = (if f_raises (fns ! v_callee v) then IR_TYPE_I64 else f_return_type (fns ! v_callee v))
     \<and> v_elem v = f_value_return_type (fns ! v_callee v)"

lemma accepts_call_args:
  "accepts (mir_verify_call_args g i v args) s s' \<longleftrightarrow> s' = s \<and>
     (\<forall>k<length args. \<exists>a. args ! k = Some a \<and> l_is_param (f_locals g ! (i + k)) \<and> v_type a = l_type (f_locals g ! (i + k)))"
proof (induction args arbitrary: i)
  case (Cons a args)
  show ?case
    by (cases a) (auto simp: Let_def accept_simps Cons All_less_Suc2)
qed (simp add: accept_simps)

lemma accepts_call:
  assumes "accepts (mir_verify_direct_value_kind_contract fns f v) s s'" "v_kind v = IR_VALUE_CALL" "\<forall>g \<in> set fns. frame_ok g"
  shows "call_ok fns v"
proof -
  let ?g = "fns ! v_callee v"
  have c: "v_callee v < length fns" "length (v_args v) = f_param_count ?g"
    "v_type v = (if f_raises ?g then IR_TYPE_I64 else f_return_type ?g)" "v_elem v = f_value_return_type ?g"
    "\<forall>k<length (v_args v). \<exists>a. v_args v ! k = Some a \<and> l_is_param (f_locals ?g ! k) \<and> v_type a = l_type (f_locals ?g ! k)"
    using assms(1,2)
    by (auto simp: mir_verify_direct_value_kind_contract_def mir_verify_direct_call_contract_def Let_def accept_simps accepts_call_args
        split: if_splits)
  have "f_param_count ?g \<le> length (f_locals ?g)" using assms(3) c(1) by (simp add: frame_ok_def)
  with c have "map (map_option v_type) (v_args v) = map (\<lambda>l. Some (l_type l)) (take (f_param_count ?g) (f_locals ?g))"
    by (intro nth_equalityI) fastforce+
  with c show ?thesis by (simp add: call_ok_def)
qed

section \<open>Helper counts\<close>

text \<open>
  What a value of a kind needs of the allocator, the buffer helpers, the runtime object, the host
  runtime imports and the HTTP imports.
\<close>

definition helper_needs :: "IrValueKind \<Rightarrow> nat \<times> nat \<times> nat \<times> nat \<times> nat" where
  "helper_needs k =
     (if k = IR_VALUE_FIXED_BUF_ALLOC then (1, 0, 0, 0, 0)
      else if k = IR_VALUE_ALLOC_BYTES then (2, 0, 0, 0, 0)
      else if k = IR_VALUE_VEC_INIT then (0, 1, 0, 0, 0)
      else if k = IR_VALUE_VEC_PUSH then (0, 2, 0, 0, 0)
      else if k \<in> {IR_VALUE_VEC_LEN, IR_VALUE_VEC_CAPACITY} then (0, 3, 0, 0, 0)
      else if k = IR_VALUE_JSON_PARSE_BYTES then (2, 0, 1, 1, 0)
      else if k = IR_VALUE_HTTP_FETCH then (0, 0, 2, 2, 1)
      else if k \<in> {IR_VALUE_JSON_VALIDATE_BYTES, IR_VALUE_JSON_STREAM_TOKENS_BYTES, IR_VALUE_HTTP_RESULT_OK, IR_VALUE_HTTP_RESULT_STATUS,
        IR_VALUE_HTTP_RESULT_BODY_LEN, IR_VALUE_HTTP_RESULT_ERROR, IR_VALUE_HTTP_RESPONSE_LEN, IR_VALUE_HTTP_RESPONSE_HEADERS_LEN,
        IR_VALUE_HTTP_RESPONSE_BODY_OFFSET, IR_VALUE_HTTP_HEADER_VALUE, IR_VALUE_HTTP_HEADER_FOUND, IR_VALUE_HTTP_HEADER_OFFSET,
        IR_VALUE_HTTP_HEADER_LEN} then (0, 0, 1, 1, 0)
      else if k = IR_VALUE_CRYPTO_HELPER then (0, 0, 1, 0, 0)
      else (0, 0, 0, 0, 0))"

definition needs_met :: "nat \<times> nat \<times> nat \<times> nat \<times> nat \<Rightarrow> IrProgram \<Rightarrow> bool" where
  "needs_met n ir \<longleftrightarrow> fst n \<le> ir_allocator_helper_count ir \<and> fst (snd n) \<le> ir_buffer_helper_count ir
     \<and> fst (snd (snd n)) \<le> ir_runtime_helper_count ir \<and> fst (snd (snd (snd n))) \<le> ir_host_runtime_import_count ir
     \<and> snd (snd (snd (snd n))) \<le> ir_http_runtime_import_count ir"

definition req_has :: "nat \<times> nat \<times> nat \<times> nat \<times> nat \<Rightarrow> MirHelperRequirements \<Rightarrow> bool" where
  "req_has n q \<longleftrightarrow> fst n \<le> rc_count (allocator_helpers q) \<and> fst (snd n) \<le> rc_count (buffer_helpers q)
     \<and> fst (snd (snd n)) \<le> rc_count (runtime_helpers q) \<and> fst (snd (snd (snd n))) \<le> rc_count (host_runtime_imports q)
     \<and> snd (snd (snd (snd n))) \<le> rc_count (http_runtime_imports q)"

lemma req_has_le: "req_has n p \<Longrightarrow> req_le p q \<Longrightarrow> req_has n q"
  by (auto simp: req_has_def req_le_def)

lemma req_has_met: "req_has n q \<Longrightarrow> counts_cover ir q \<Longrightarrow> needs_met n ir"
  by (auto simp: req_has_def counts_cover_def needs_met_def)

lemma require_count_ge: "n \<le> rc_count (mir_require_count q n l k r)" "rc_count q \<le> rc_count (mir_require_count q n l k r)"
  by (auto simp: mir_require_count_def)

lemma grows_after:
  "accepts c s s' \<Longrightarrow> lawful grows c \<Longrightarrow> req_has n (st_req s) \<Longrightarrow> req_has n (st_req s')"
  by (blast intro: req_has_le accepts_grows)

lemma accepts_needs:
  assumes "accepts (mir_verify_direct_value_kind_contract fns f v) s s'"
  shows "req_has (helper_needs (v_kind v)) (st_req s')"
proof (cases "helper_needs (v_kind v) = (0, 0, 0, 0, 0)")
  case True
  then show ?thesis by (simp add: req_has_def)
next
  case False
  have g: "accepts c a b \<Longrightarrow> lawful grows c \<Longrightarrow> req_le (st_req a) (st_req b)" for c a b
    by (rule accepts_grows)
  have gr: "accepts (mir_verify_helper_result_type w e r) a b \<Longrightarrow> b = a"
    "accepts (mir_verify_value_type x e m r) a b \<Longrightarrow> b = a"
    "accepts (mir_verify_value_is_integer x m r) a b \<Longrightarrow> b = a"
    "accepts (mir_verify_local_value_kind f k e l c m r) a b \<Longrightarrow> b = a"
    "accepts (mir_verify_mutable_local_value_kind f k e l c m r) a b \<Longrightarrow> b = a" for w e r x m a b k l c
    by (auto simp: mir_verify_helper_result_type_def mir_verify_value_type_def mir_verify_value_is_integer_def
        mir_verify_mutable_local_value_kind_def mir_verify_local_value_kind_def mir_verify_local_index_def Let_def accept_simps)
  show ?thesis
    using False assms
    by (cases "v_kind v"; simp add: helper_needs_def)
      (auto simp: mir_verify_direct_value_kind_contract_def mir_verify_direct_helper_value_contract_def mir_verify_http_result_def
        mir_verify_http_response_def mir_verify_http_header_def accepts_valid accepts_and accepts_need req_has_def
        dest!: gr g [OF _ growth.h_storage] g [OF _ growth.h_crypto] simp: req_le_def intro: require_count_ge order_trans [OF require_count_ge(1)])
qed

text \<open>
  C12. Every call an accepted program can reach names a function of the program, passes one argument of
  the parameter's type for each of its parameters, and has the type the callee returns.
\<close>

theorem mir_calls_typed:
  assumes "z_mir_verify_direct_contracts ir = Some (True, ir')" "f \<in> set (ir_functions ir)"
    and "v \<in> set (function_values f)" "v_kind v = IR_VALUE_CALL"
  shows "call_ok (ir_functions ir) v"
  using accepted_value [OF assms(1-3)] accepts_call [OF _ assms(4)] accepted_frame [OF assms(1)] by blast

lemma mir_calls_typed_witness: "call_ok [sfun] v_call"
proof -
  obtain ir' where a: "z_mir_verify_direct_contracts (sample_program sample_body) = Some (True, ir')"
    using sample_accepted by blast
  have r: "mk_instr IR_INSTR_EXPR 0 (Some v_call) None [] [] \<in> set (function_instrs sfun)"
    by (simp add: function_instrs_def sample_parts sample_body_def mk_instr_sel)
  have v: "v_call \<in> set (function_values sfun)"
    unfolding function_values_def using r by (force simp: mk_instr_sel v_call_def)
  have k: "v_kind v_call = IR_VALUE_CALL" by (simp add: v_call_def mk_fields_def)
  show ?thesis using mir_calls_typed [OF a _ v k] by (simp add: sample_parts)
qed

text \<open>
  C13. The helper and import counts an accepted program declares cover what every value of every function
  needs, and a program that writes to the world declares a runtime helper.
\<close>

theorem mir_helper_counts_cover:
  assumes "z_mir_verify_direct_contracts ir = Some (True, ir')" "f \<in> set (ir_functions ir)"
  shows "(\<forall>v \<in> set (function_values f). needs_met (helper_needs (v_kind v)) ir)
     \<and> (\<forall>i \<in> set (function_instrs f). i_kind i = IR_INSTR_WORLD_WRITE \<longrightarrow> 1 \<le> ir_runtime_helper_count ir)"
proof (intro conjI ballI impI)
  fix v assume "v \<in> set (function_values f)"
  from accepted_value [OF assms this] accepts_needs req_has_met show "needs_met (helper_needs (v_kind v)) ir" by blast
next
  fix i assume "i \<in> set (function_instrs f)" and k: "i_kind i = IR_INSTR_WORLD_WRITE"
  from accepted_instr [OF assms this(1)] obtain a b
    where b: "accepts (mir_verify_direct_instr_contract f i) a b" "counts_cover ir (st_req b)" by blast
  have "1 \<le> rc_count (runtime_helpers (st_req b))"
    using b(1) k by (auto simp: mir_verify_direct_instr_contract_def mir_verify_world_write_def accept_simps mir_require_count_def)
  with b(2) show "1 \<le> ir_runtime_helper_count ir" by (simp add: counts_cover_def)
qed

lemma mir_helper_counts_cover_witness:
  "needs_met (helper_needs IR_VALUE_ALLOC_BYTES) (sample_program sample_body)"
proof -
  obtain ir' where a: "z_mir_verify_direct_contracts (sample_program sample_body) = Some (True, ir')"
    using sample_accepted by blast
  have f: "sfun \<in> set (ir_functions (sample_program sample_body))" by (simp add: sample_parts)
  let ?v = "v_one IR_VALUE_ALLOC_BYTES IR_TYPE_MAYBE_BYTE_VIEW 4 v_x"
  have r: "mk_instr IR_INSTR_LOCAL_SET 3 (Some ?v) None [] [] \<in> set (function_instrs sfun)"
    by (simp add: function_instrs_def sample_parts sample_body_def mk_instr_sel)
  have "?v \<in> set (function_values sfun)"
    unfolding function_values_def using r by (force simp: mk_instr_sel v_one_def)
  with mir_helper_counts_cover [OF a f] have "needs_met (helper_needs (v_kind ?v)) (sample_program sample_body)" by blast
  then show ?thesis by (simp add: v_sel)
qed

end
