(* ===== verification/MirPayload.thy ===== *)
theory MirPayload
  imports MirProps
begin

text \<open>
  The dataflow of the verifier against the executions it describes: what is written to through a Maybe
  payload may be written, on every path; and the one place where it is not checked, the condition of a
  WHILE.
\<close>

section \<open>Writable storage\<close>

text \<open>The byte view that a value writes through.\<close>

definition mutable_dest :: "IrValue \<Rightarrow> IrValue option" where
  "mutable_dest v =
     (if v_kind v \<in> {IR_VALUE_FIXED_BUF_ALLOC, IR_VALUE_VEC_INIT, IR_VALUE_FS_READ_FILE, IR_VALUE_FS_TEMP_NAME} then v_left v
      else if v_kind v \<in> {IR_VALUE_BYTE_COPY, IR_VALUE_BYTE_FILL, IR_VALUE_HTTP_FETCH, IR_VALUE_FS_READ_PATH, IR_VALUE_FS_READ_BYTES_PATH} then v_right v
      else None)"

text \<open>Whether it is backed by storage that may be written, when the Maybe payloads \<open>\<sigma>\<close> holds of may.\<close>

definition writable :: "IrFunction \<Rightarrow> (nat \<Rightarrow> bool) \<Rightarrow> IrValue \<Rightarrow> bool" where
  "writable f \<sigma> d \<longleftrightarrow> v_type d = IR_TYPE_BYTE_VIEW \<and>
     (v_kind d = IR_VALUE_LOCAL \<and> v_local d < length (f_locals f) \<and> l_type (f_locals f ! v_local d) = IR_TYPE_BYTE_VIEW
        \<and> l_is_mutable (f_locals f ! v_local d)
      \<or> v_kind d = IR_VALUE_ARRAY_BYTE_VIEW \<and> v_array d < length (f_locals f) \<and> l_is_array (f_locals f ! v_array d)
        \<and> l_element_type (f_locals f ! v_array d) = IR_TYPE_U8 \<and> l_is_mutable (f_locals f ! v_array d)
      \<or> v_kind d = IR_VALUE_MAYBE_VALUE \<and> v_local d < length (f_locals f) \<and> l_type (f_locals f ! v_local d) = IR_TYPE_MAYBE_BYTE_VIEW
        \<and> \<sigma> (v_local d))"




section \<open>Execution\<close>

text \<open>
  The control flow of an instruction list, over which Maybe locals hold storage that may be written:
  \<open>allocBytes\<close>, \<open>readAll\<close> and \<open>tempName\<close> hand out storage of the program's own, arguments and
  environment values belong to the process. Branches go either way.
\<close>

definition payload_writable :: "IrValue \<Rightarrow> bool" where
  "payload_writable v \<longleftrightarrow> v_kind v = IR_VALUE_ALLOC_BYTES \<or> v_kind v = IR_VALUE_FS_READ_ALL \<or> v_kind v = IR_VALUE_FS_TEMP_NAME"

definition assigns :: "IrFunction \<Rightarrow> IrInstr \<Rightarrow> (nat \<Rightarrow> bool) \<Rightarrow> nat \<Rightarrow> bool" where
  "assigns f i \<sigma> =
     (case i_value i of
        Some v \<Rightarrow> if i_kind i = IR_INSTR_LOCAL_SET \<and> l_type (f_locals f ! i_local i) = IR_TYPE_MAYBE_BYTE_VIEW
                  then \<sigma>(i_local i := payload_writable v) else \<sigma>
      | None \<Rightarrow> \<sigma>)"

inductive runs :: "IrFunction \<Rightarrow> IrInstr list \<Rightarrow> (nat \<Rightarrow> bool) \<Rightarrow> (nat \<Rightarrow> bool) \<Rightarrow> bool"
  and loops :: "IrFunction \<Rightarrow> IrInstr list \<Rightarrow> (nat \<Rightarrow> bool) \<Rightarrow> (nat \<Rightarrow> bool) \<Rightarrow> bool" for f where
  runs_done: "runs f [] \<sigma> \<sigma>"
| runs_step: "i_kind i \<noteq> IR_INSTR_IF \<Longrightarrow> i_kind i \<noteq> IR_INSTR_WHILE \<Longrightarrow> runs f r (assigns f i \<sigma>) \<sigma>' \<Longrightarrow> runs f (i # r) \<sigma> \<sigma>'"
| runs_then: "i_kind i = IR_INSTR_IF \<Longrightarrow> runs f (i_then i) \<sigma> \<sigma>1 \<Longrightarrow> runs f r \<sigma>1 \<sigma>' \<Longrightarrow> runs f (i # r) \<sigma> \<sigma>'"
| runs_else: "i_kind i = IR_INSTR_IF \<Longrightarrow> runs f (i_else i) \<sigma> \<sigma>1 \<Longrightarrow> runs f r \<sigma>1 \<sigma>' \<Longrightarrow> runs f (i # r) \<sigma> \<sigma>'"
| runs_while: "i_kind i = IR_INSTR_WHILE \<Longrightarrow> loops f (i_then i) \<sigma> \<sigma>1 \<Longrightarrow> runs f r \<sigma>1 \<sigma>' \<Longrightarrow> runs f (i # r) \<sigma> \<sigma>'"
| loops_exit: "loops f body \<sigma> \<sigma>"
| loops_again: "runs f body \<sigma> \<sigma>1 \<Longrightarrow> loops f body \<sigma>1 \<sigma>' \<Longrightarrow> loops f body \<sigma> \<sigma>'"

text \<open>
  Control comes to an instruction, the payloads being \<open>\<sigma>'\<close> when its operands are evaluated;
  \<open>comes_back\<close> is the evaluation of the condition of a WHILE after one or more rounds.
\<close>

inductive comes_to :: "IrFunction \<Rightarrow> IrInstr list \<Rightarrow> (nat \<Rightarrow> bool) \<Rightarrow> IrInstr \<Rightarrow> (nat \<Rightarrow> bool) \<Rightarrow> bool" for f where
  here: "comes_to f (i # r) \<sigma> i \<sigma>"
| past: "runs f [i] \<sigma> \<sigma>1 \<Longrightarrow> comes_to f r \<sigma>1 j \<sigma>' \<Longrightarrow> comes_to f (i # r) \<sigma> j \<sigma>'"
| inside_then: "i_kind i = IR_INSTR_IF \<Longrightarrow> comes_to f (i_then i) \<sigma> j \<sigma>' \<Longrightarrow> comes_to f (i # r) \<sigma> j \<sigma>'"
| inside_else: "i_kind i = IR_INSTR_IF \<Longrightarrow> comes_to f (i_else i) \<sigma> j \<sigma>' \<Longrightarrow> comes_to f (i # r) \<sigma> j \<sigma>'"
| inside_while: "i_kind i = IR_INSTR_WHILE \<Longrightarrow> loops f (i_then i) \<sigma> \<sigma>1 \<Longrightarrow> comes_to f (i_then i) \<sigma>1 j \<sigma>' \<Longrightarrow> comes_to f (i # r) \<sigma> j \<sigma>'"

definition comes_back :: "IrFunction \<Rightarrow> IrInstr list \<Rightarrow> (nat \<Rightarrow> bool) \<Rightarrow> IrInstr \<Rightarrow> (nat \<Rightarrow> bool) \<Rightarrow> bool" where
  "comes_back f is \<sigma> i \<sigma>' \<longleftrightarrow> i_kind i = IR_INSTR_WHILE \<and> (\<exists>\<sigma>1 \<sigma>2. comes_to f is \<sigma> i \<sigma>1 \<and> runs f (i_then i) \<sigma>1 \<sigma>2 \<and> loops f (i_then i) \<sigma>2 \<sigma>')"

section \<open>The dataflow describes the payloads\<close>













section \<open>What is written to may be written\<close>



section \<open>The condition of a loop\<close>

text \<open>
  The condition of a WHILE is verified once, with what is known before the loop; the rounds of
  \<open>mir_verify_loop_instrs\<close> verify the body alone. This program writes to a Maybe payload in its
  condition and replaces the payload by an argument of the process in its body.
\<close>

definition loop_fill :: IrValue where
  "loop_fill = v_two IR_VALUE_BYTE_FILL IR_TYPE_USIZE 0 (v_one IR_VALUE_CAST IR_TYPE_U8 0 v_x) (v_leaf IR_VALUE_MAYBE_VALUE IR_TYPE_BYTE_VIEW 3)"

definition loop_rounds :: "IrInstr list" where
  "loop_rounds = [mk_instr IR_INSTR_LOCAL_SET 3 (Some (v_one IR_VALUE_ARGS_GET IR_TYPE_MAYBE_BYTE_VIEW 0 v_x)) None [] []]"

definition loop_while :: IrInstr where
  "loop_while = mk_instr IR_INSTR_WHILE 0 (Some (v_two IR_VALUE_COMPARE IR_TYPE_BOOL 0 loop_fill (v_leaf IR_VALUE_INT IR_TYPE_USIZE 0))) None loop_rounds []"

definition loop_body :: "IrInstr list" where
  "loop_body = take 2 sample_body @ [loop_while]"

definition lfun :: IrFunction where
  "lfun = sample_function loop_body"

lemma loop_again:
  "accepts body s s1 \<Longrightarrow> mir_state_intersect_from (st_flow s) (st_flow s1) \<noteq> st_flow s \<Longrightarrow>
     accepts (mir_loop body) (s1\<lparr>st_flow := mir_state_intersect_from (st_flow s) (st_flow s1)\<rparr>) s' \<Longrightarrow> accepts (mir_loop body) s s'"
  by (subst accepts_def, subst mir_loop.simps) (simp add: accepts_def Let_def)

lemma lfun_locals: "f_locals lfun = sample_locals" "f_instrs lfun = loop_body" "ir_functions (sample_program loop_body) = [lfun]"
  by (simp_all add: lfun_def sample_function_def sample_program_def)

lemmas loop_run = lfun_def sample_defs accept_simps run_values Let_def mir_type_is_integer_value_def mir_type_byte_size_def

lemma loop_vals:
  "accepts (mir_verify_direct_value fns lfun (Some (v_one IR_VALUE_FIXED_BUF_ALLOC IR_TYPE_ALLOC 1 v_buf))) s s' \<longleftrightarrow>
   mir_valid (st_diag s) \<and> accepts (need_allocator 1 3 5 ''std.mem.fixedBufAlloc'') s s'"
  "accepts (mir_verify_direct_value fns lfun (Some (v_one IR_VALUE_ALLOC_BYTES IR_TYPE_MAYBE_BYTE_VIEW 4 v_x))) s s' \<longleftrightarrow>
   mir_valid (st_diag s) \<and> accepts (need_allocator 2 3 5 ''std.mem.allocBytes'') s s'"
  "accepts (mir_verify_direct_value fns lfun (Some (v_one IR_VALUE_ARGS_GET IR_TYPE_MAYBE_BYTE_VIEW 0 v_x))) s s' \<longleftrightarrow> mir_valid (st_diag s) \<and> s' = s"
  "accepts (mir_verify_direct_value fns lfun (Some (v_two IR_VALUE_COMPARE IR_TYPE_BOOL 0 loop_fill (v_leaf IR_VALUE_INT IR_TYPE_USIZE 0)))) s s' \<longleftrightarrow>
   mir_valid (st_diag s) \<and> 3 < length (st_flow s) \<and> st_flow s ! 3 \<and> s' = s"
  by (auto simp: loop_run mir_verify_platform_value_contract_def loop_fill_def)

lemma loop_rounds_accepted:
  assumes "mir_valid (st_diag s)" "length (st_flow s) = 5"
  shows "accepts (mir_verify_direct_instrs fns lfun loop_rounds) s (s\<lparr>st_flow := (st_flow s)[3 := False]\<rparr>)"
  using assms
  by (simp add: loop_rounds_def accepts_instrs_cons accepts_instrs_nil accepts_valid accepts_true contract_simps accepts_flow loop_vals lfun_locals
      mir_apply_instr_state_effect_def local_set_ok_def mir_value_can_initialize_local_def sample_locals_def mk_local_def
      mir_value_produces_mutable_byte_payload_def)

lemma loop_accepted:
  assumes "mir_valid (st_diag s)" "length (st_flow s) = 5" "st_flow s ! 3"
  shows "accepts (mir_loop (mir_verify_direct_instrs fns lfun loop_rounds)) s (s\<lparr>st_flow := (st_flow s)[3 := False]\<rparr>)"
proof -
  let ?m = "s\<lparr>st_flow := (st_flow s)[3 := False]\<rparr>"
  have i: "mir_state_intersect_from (st_flow s) ((st_flow s)[3 := False]) = (st_flow s)[3 := False]"
    using assms(2) by (intro nth_equalityI) (auto simp: nth_list_update)
  have "\<not> (st_flow s)[3 := False] ! 3" using assms(2) by simp
  with assms(3) have ne: "(st_flow s)[3 := False] \<noteq> st_flow s" by auto
  have m: "accepts (mir_verify_direct_instrs fns lfun loop_rounds) ?m ?m"
    using loop_rounds_accepted [of ?m] assms by simp
  have "mir_state_intersect_from (st_flow ?m) (st_flow ?m) = st_flow ?m" by (intro nth_equalityI) auto
  from loop_accepts [OF m this] have "accepts (mir_loop (mir_verify_direct_instrs fns lfun loop_rounds)) ?m ?m" by simp
  with loop_again [OF loop_rounds_accepted [OF assms(1,2)]] i ne show ?thesis by simp
qed

lemma local_set_step:
  assumes "mir_valid (st_diag s)" "accepts (mir_verify_direct_value fns f (Some v)) s a" "mir_valid (st_diag a)"
    "k < length (f_locals f)" "local_set_ok (f_locals f ! k) v"
    "accepts (mir_verify_direct_instrs fns f r)
       (a\<lparr>st_flow := mir_apply_instr_state_effect f (mk_instr IR_INSTR_LOCAL_SET k (Some v) None [] []) (st_flow a)\<rparr>) s'"
  shows "accepts (mir_verify_direct_instrs fns f (mk_instr IR_INSTR_LOCAL_SET k (Some v) None [] [] # r)) s s'"
proof -
  let ?i = "mk_instr IR_INSTR_LOCAL_SET k (Some v) None [] []"
  have c: "accepts (mir_verify_direct_instr_contract f ?i) a a"
    using assms(3-5) by (simp add: accepts_local_set mk_instr_sel)
  have n: "accepts (mir_verify_direct_value fns f None) a a" using assms(3) by (simp add: accept_simps)
  show ?thesis
    unfolding accepts_instrs_cons using assms(1,2,6) c n by (auto simp: mk_instr_sel accepts_flow)
qed

lemma loop_start_accepted:
  assumes "mir_valid (st_diag s)" "length (st_flow s) = 5" "accepts (mir_verify_direct_instrs fns lfun r) (sample_after s) s'"
  shows "accepts (mir_verify_direct_instrs fns lfun (take 2 sample_body @ r)) s s'"
proof -
  have t: "take 2 sample_body @ r = mk_instr IR_INSTR_LOCAL_SET 4 (Some (v_one IR_VALUE_FIXED_BUF_ALLOC IR_TYPE_ALLOC 1 v_buf)) None [] []
      # mk_instr IR_INSTR_LOCAL_SET 3 (Some (v_one IR_VALUE_ALLOC_BYTES IR_TYPE_MAYBE_BYTE_VIEW 4 v_x)) None [] [] # r"
    by (simp add: sample_body_def)
  let ?a = "\<lambda>s n t. s\<lparr>st_req := (st_req s)\<lparr>allocator_helpers := mir_require_count (allocator_helpers (st_req s)) n 3 5 t\<rparr>\<rparr>"
  let ?s1 = "?a s 1 ''std.mem.fixedBufAlloc''"
  have k: "4 < length (f_locals lfun)" "3 < length (f_locals lfun)" by (simp_all add: lfun_locals sample_locals_def)
  have l: "local_set_ok (f_locals lfun ! 4) (v_one IR_VALUE_FIXED_BUF_ALLOC IR_TYPE_ALLOC 1 v_buf)"
    "local_set_ok (f_locals lfun ! 3) (v_one IR_VALUE_ALLOC_BYTES IR_TYPE_MAYBE_BYTE_VIEW 4 v_x)"
    by (simp_all add: lfun_locals sample_locals_def mk_local_def local_set_ok_def mir_value_can_initialize_local_def v_sel)
  have f: "mir_apply_instr_state_effect lfun (mk_instr IR_INSTR_LOCAL_SET 4 (Some v) None [] []) flow = flow"
    "length flow = 5 \<Longrightarrow> mir_apply_instr_state_effect lfun (mk_instr IR_INSTR_LOCAL_SET 3 (Some v) None [] []) flow
       = flow[3 := mir_value_produces_mutable_byte_payload (Some v)]" for v flow
    by (simp_all add: mir_apply_instr_state_effect_def mk_instr_sel lfun_locals sample_locals_def mk_local_def)
  have e: "(?a ?s1 2 ''std.mem.allocBytes'')\<lparr>st_flow := (st_flow s)[3 := True]\<rparr> = sample_after s"
    by (simp add: sample_after_def)
  have 2: "accepts (mir_verify_direct_instrs fns lfun (mk_instr IR_INSTR_LOCAL_SET 3 (Some (v_one IR_VALUE_ALLOC_BYTES IR_TYPE_MAYBE_BYTE_VIEW 4 v_x)) None [] [] # r)) ?s1 s'"
  proof (rule local_set_step [where a = "?a ?s1 2 ''std.mem.allocBytes''"])
    show "accepts (mir_verify_direct_value fns lfun (Some (v_one IR_VALUE_ALLOC_BYTES IR_TYPE_MAYBE_BYTE_VIEW 4 v_x))) ?s1 (?a ?s1 2 ''std.mem.allocBytes'')"
      using assms(1) by (simp only: loop_vals accepts_need) simp
    show "accepts (mir_verify_direct_instrs fns lfun r) ((?a ?s1 2 ''std.mem.allocBytes'')\<lparr>st_flow := mir_apply_instr_state_effect lfun
        (mk_instr IR_INSTR_LOCAL_SET 3 (Some (v_one IR_VALUE_ALLOC_BYTES IR_TYPE_MAYBE_BYTE_VIEW 4 v_x)) None [] []) (st_flow (?a ?s1 2 ''std.mem.allocBytes''))\<rparr>) s'"
      using assms(2,3) e by (simp add: f produces_sample)
  qed (use assms(1) k l in simp_all)
  show ?thesis
    unfolding t
  proof (rule local_set_step [where a = ?s1])
    show "accepts (mir_verify_direct_value fns lfun (Some (v_one IR_VALUE_FIXED_BUF_ALLOC IR_TYPE_ALLOC 1 v_buf))) s ?s1"
      using assms(1) by (simp only: loop_vals accepts_need simp_thms)
  qed (use assms(1) k l 2 in \<open>simp_all add: f\<close>)
qed

lemma loop_body_accepted:
  assumes "mir_valid (st_diag s)" "length (st_flow s) = 5"
  shows "\<exists>s'. accepts (mir_verify_direct_instrs [lfun] lfun loop_body) s s' \<and> mir_valid (st_diag s')
     \<and> st_req s' = st_req (sample_after s)"
proof -
  let ?s = "sample_after s"
  have v: "mir_valid (st_diag ?s)" "length (st_flow ?s) = 5" "st_flow ?s ! 3"
    using assms by (simp_all add: sample_after_def)
  have w: "accepts (mir_verify_direct_instrs [lfun] lfun [loop_while]) ?s (?s\<lparr>st_flow := (st_flow ?s)[3 := False]\<rparr>)"
    using v loop_accepted [OF v]
    by (auto simp: loop_while_def accepts_instrs_cons accepts_instrs_nil accepts_valid accepts_true contract_simps loop_vals)
  have "accepts (mir_verify_direct_instrs [lfun] lfun loop_body) s (?s\<lparr>st_flow := (st_flow ?s)[3 := False]\<rparr>)"
    unfolding loop_body_def by (rule loop_start_accepted [OF assms w])
  with v show ?thesis by (intro exI [of _ "?s\<lparr>st_flow := (st_flow ?s)[3 := False]\<rparr>"]) simp
qed

lemma loop_program_accepted: "\<exists>ir'. z_mir_verify_direct_contracts (sample_program loop_body) = Some (True, ir')"
proof -
  let ?s = "\<lparr>st_diag = ir_diag (sample_program loop_body), st_req = zero_requirements, st_flow = []\<rparr>"
  let ?u = "?s\<lparr>st_flow := replicate (length (f_locals lfun)) False\<rparr>"
  have v: "mir_valid (st_diag ?s)" by (simp add: sample_program_def)
  then have u: "mir_valid (st_diag ?u)" "length (st_flow ?u) = 5"
    by (simp_all add: lfun_locals sample_locals_def)
  obtain t where t: "accepts (mir_verify_direct_instrs [lfun] lfun loop_body) ?u t" "mir_valid (st_diag t)" "st_req t = st_req (sample_after ?u)"
    using loop_body_accepted [OF u] by blast
  have "accepts (mir_verify_body [lfun] lfun) ?s t"
    using t(1) unfolding accepts_def mir_verify_body_def lfun_locals(2) .
  then have b: "accepts (mir_verify_bodies [lfun] [lfun]) ?s t" by (simp add: accepts_and accepts_true)
  have f: "accepts (mir_verify_functions [lfun]) ?s ?s"
    using v by (simp add: accepts_and accepts_true sample_function_accepted lfun_def)
  have r: "accepts (mir_verify_direct_helper_requirements (sample_program loop_body)) t t"
    unfolding accepts_def mir_verify_direct_helper_requirements_def Let_def t(3)
    using t(2) by (auto simp: mir_verify_count_satisfies_def sample_after_def sample_program_def zero_requirements_def zero_count_def
        mir_require_count_def m_valid_def m_and_def m_require_def m_true_def)
  from b f r v have "accepts (m_valid (m_and (mir_verify_functions [lfun]) (m_and (mir_verify_bodies [lfun] [lfun])
      (mir_verify_direct_helper_requirements (sample_program loop_body))))) ?s t"
    by (auto simp: accepts_valid accepts_and)
  then show ?thesis by (simp add: z_mir_verify_direct_contracts_def accepts_def lfun_locals)
qed

text \<open>
  C39. The verifier accepts a program whose WHILE condition, when it is evaluated again after a round,
  writes to a byte view that belongs to the process: the condition is checked against the state before
  the loop, never against the state the rounds converge to.
\<close>

theorem mir_while_condition_unchecked:
  "\<exists>ir ir' f i \<sigma> v d. z_mir_verify_direct_contracts ir = Some (True, ir') \<and> f \<in> set (ir_functions ir)
     \<and> comes_back f (f_instrs f) (\<lambda>_. False) i \<sigma> \<and> v \<in> set (values_of (i_value i)) \<and> mutable_dest v = Some d \<and> \<not> writable f \<sigma> d"
proof -
  obtain ir' where a: "z_mir_verify_direct_contracts (sample_program loop_body) = Some (True, ir')"
    using loop_program_accepted by blast
  let ?on = "(\<lambda>_ :: nat. False)(3 := True)" and ?d = "v_leaf IR_VALUE_MAYBE_VALUE IR_TYPE_BYTE_VIEW 3"
  have s: "runs lfun [mk_instr IR_INSTR_LOCAL_SET 4 (Some (v_one IR_VALUE_FIXED_BUF_ALLOC IR_TYPE_ALLOC 1 v_buf)) None [] []] (\<lambda>_. False) (\<lambda>_. False)"
    "runs lfun [mk_instr IR_INSTR_LOCAL_SET 3 (Some (v_one IR_VALUE_ALLOC_BYTES IR_TYPE_MAYBE_BYTE_VIEW 4 v_x)) None [] []] (\<lambda>_. False) ?on"
    "runs lfun loop_rounds ?on (\<lambda>_. False)"
    using runs_done [of lfun]
    by (auto intro!: runs_step simp: loop_rounds_def mk_instr_sel assigns_def lfun_locals sample_locals_def mk_local_def payload_writable_def v_sel
        fun_upd_idem)
  have "comes_to lfun loop_body (\<lambda>_. False) loop_while ?on"
    unfolding loop_body_def sample_body_def by (simp del: One_nat_def) (rule past [OF s(1)], rule past [OF s(2)], rule here)
  moreover have "i_then loop_while = loop_rounds" "i_kind loop_while = IR_INSTR_WHILE"
    by (simp_all add: loop_while_def mk_instr_sel)
  ultimately have c: "comes_back lfun (f_instrs lfun) (\<lambda>_. False) loop_while (\<lambda>_. False)"
    unfolding comes_back_def lfun_locals using s(3) loops_exit [of lfun loop_rounds] by metis
  have v: "loop_fill \<in> set (values_of (i_value loop_while))"
    by (simp add: loop_while_def mk_instr_sel v_two_def loop_fill_def)
  have d: "mutable_dest loop_fill = Some ?d" by (simp add: loop_fill_def mutable_dest_def v_two_def mk_fields_def)
  have "\<not> writable lfun (\<lambda>_. False) ?d" by (simp add: writable_def v_leaf_def mk_fields_def)
  with a c v d show ?thesis using lfun_locals(3) by (metis list.set_intros(1))
qed

end
