(* ===== verification/Targets.thy ===== *)
theory Targets
  imports MirTypes
begin

text \<open>
  The table of direct back ends, \<open>native/zerox-c/src/target_backend.c\<close>: which back end serves a target,
  and the names of its emitters, linker flavor and artifacts.
\<close>

record ZTargetInfo =
  t_name :: "string option"
  t_aliases :: "string option"
  t_os :: "string option"
  t_arch :: "string option"
  t_abi :: "string option"
  t_libc :: "string option"
  t_libc_mode :: "string option"
  t_exe_suffix :: "string option"
  t_zig_target :: "string option"
  t_object_format :: "string option"
  t_linker :: "string option"
  t_capabilities :: "string option"

datatype ZDirectBackend =
    Z_DIRECT_BACKEND_NONE | Z_DIRECT_BACKEND_ELF64 | Z_DIRECT_BACKEND_ELF_AARCH64 | Z_DIRECT_BACKEND_VOID64 | Z_DIRECT_BACKEND_COFF_X64

record ZDirectBackendDescriptor =
  dd_backend :: ZDirectBackend
  dd_object_emitter :: string
  dd_exe_emitter :: string
  dd_linker_flavor :: string
  dd_object_artifact_path :: string
  dd_exe_artifact_path :: string
  dd_runtime_object_supported :: bool

record ZDirectBackendRule =
  dr_object_format :: "string option"
  dr_os :: "string option"
  dr_arch :: "string option"
  dr_abi :: "string option"
  dr_backend :: ZDirectBackend
  dr_object_supported :: bool
  dr_exe_supported :: bool

definition mk_descriptor :: "ZDirectBackend \<Rightarrow> string \<Rightarrow> string \<Rightarrow> string \<Rightarrow> string \<Rightarrow> string \<Rightarrow> bool \<Rightarrow> ZDirectBackendDescriptor" where
  "mk_descriptor b obj exe flavor obj_path exe_path rt =
     \<lparr>dd_backend = b, dd_object_emitter = obj, dd_exe_emitter = exe, dd_linker_flavor = flavor,
      dd_object_artifact_path = obj_path, dd_exe_artifact_path = exe_path, dd_runtime_object_supported = rt\<rparr>"

definition mk_rule :: "string \<Rightarrow> string \<Rightarrow> string \<Rightarrow> string \<Rightarrow> ZDirectBackend \<Rightarrow> ZDirectBackendRule" where
  "mk_rule fmt os arch abi b = \<lparr>dr_object_format = Some fmt, dr_os = Some os, dr_arch = Some arch, dr_abi = Some abi,
     dr_backend = b, dr_object_supported = True, dr_exe_supported = True\<rparr>"

definition direct_backend_descriptors :: "ZDirectBackendDescriptor list" where
  "direct_backend_descriptors =
     [mk_descriptor Z_DIRECT_BACKEND_ELF64 ''zerox-elf64'' ''zerox-elf64-exe'' ''elf64'' ''direct-elf64-object'' ''direct-elf64-exe'' True,
      mk_descriptor Z_DIRECT_BACKEND_ELF_AARCH64 ''zerox-elf-aarch64'' ''zerox-elf-aarch64-exe'' ''elf64'' ''direct-elf-aarch64-object'' ''direct-elf-aarch64-exe'' False,
      mk_descriptor Z_DIRECT_BACKEND_VOID64 ''zerox-Void64'' ''zerox-Void64-exe'' ''Void64'' ''direct-Void64-object'' ''direct-Void64-exe'' True,
      mk_descriptor Z_DIRECT_BACKEND_COFF_X64 ''zerox-coff-x64'' ''zerox-coff-x64-exe'' ''coff'' ''direct-coff-x64-object'' ''direct-coff-x64-exe'' False]"

definition direct_backend_rules :: "ZDirectBackendRule list" where
  "direct_backend_rules =
     [mk_rule ''elf'' ''linux'' ''x86_64'' ''gnu'' Z_DIRECT_BACKEND_ELF64,
      mk_rule ''elf'' ''linux'' ''x86_64'' ''musl'' Z_DIRECT_BACKEND_ELF64,
      mk_rule ''elf'' ''linux'' ''aarch64'' ''gnu'' Z_DIRECT_BACKEND_ELF_AARCH64,
      mk_rule ''elf'' ''linux'' ''aarch64'' ''musl'' Z_DIRECT_BACKEND_ELF_AARCH64,
      mk_rule ''macho'' ''macos'' ''aarch64'' ''darwin'' Z_DIRECT_BACKEND_VOID64,
      mk_rule ''coff'' ''windows'' ''x86_64'' ''msvc'' Z_DIRECT_BACKEND_COFF_X64]"

definition direct_backend_descriptor :: "ZDirectBackend \<Rightarrow> ZDirectBackendDescriptor option" where
  "direct_backend_descriptor backend = find (\<lambda>d. dd_backend d = backend) direct_backend_descriptors"

definition target_field_matches :: "string option \<Rightarrow> string option \<Rightarrow> bool" where
  "target_field_matches actual expected \<longleftrightarrow> expected = None \<or> (actual \<noteq> None \<and> actual = expected)"

definition rule_matches :: "ZTargetInfo \<Rightarrow> bool \<Rightarrow> ZDirectBackendRule \<Rightarrow> bool" where
  "rule_matches target executable r \<longleftrightarrow> (if executable then dr_exe_supported r else dr_object_supported r)
     \<and> target_field_matches (t_object_format target) (dr_object_format r) \<and> target_field_matches (t_os target) (dr_os r)
     \<and> target_field_matches (t_arch target) (dr_arch r) \<and> target_field_matches (t_abi target) (dr_abi r)"

definition direct_backend_for_target :: "ZTargetInfo option \<Rightarrow> bool \<Rightarrow> ZDirectBackend" where
  "direct_backend_for_target target executable =
     (case target of None \<Rightarrow> Z_DIRECT_BACKEND_NONE
      | Some t \<Rightarrow> (case find (rule_matches t executable) direct_backend_rules of
                    None \<Rightarrow> Z_DIRECT_BACKEND_NONE | Some r \<Rightarrow> dr_backend r))"

definition z_direct_object_backend :: "ZTargetInfo option \<Rightarrow> ZDirectBackend" where
  "z_direct_object_backend target = direct_backend_for_target target False"

definition z_direct_exe_backend :: "ZTargetInfo option \<Rightarrow> ZDirectBackend" where
  "z_direct_exe_backend target = direct_backend_for_target target True"

definition z_direct_backend_object_emitter :: "ZDirectBackend \<Rightarrow> string" where
  "z_direct_backend_object_emitter backend = (case direct_backend_descriptor backend of None \<Rightarrow> ''none'' | Some d \<Rightarrow> dd_object_emitter d)"

definition z_direct_backend_exe_emitter :: "ZDirectBackend \<Rightarrow> string" where
  "z_direct_backend_exe_emitter backend = (case direct_backend_descriptor backend of None \<Rightarrow> ''none'' | Some d \<Rightarrow> dd_exe_emitter d)"

definition z_direct_backend_from_emitter :: "string option \<Rightarrow> ZDirectBackend" where
  "z_direct_backend_from_emitter emitter =
     (case emitter of None \<Rightarrow> Z_DIRECT_BACKEND_NONE
      | Some e \<Rightarrow> (case find (\<lambda>d. e = dd_object_emitter d \<or> e = dd_exe_emitter d) direct_backend_descriptors of
                    None \<Rightarrow> Z_DIRECT_BACKEND_NONE | Some d \<Rightarrow> dd_backend d))"

definition z_direct_backend_linker_flavor :: "ZDirectBackend \<Rightarrow> string" where
  "z_direct_backend_linker_flavor backend = (case direct_backend_descriptor backend of None \<Rightarrow> ''none'' | Some d \<Rightarrow> dd_linker_flavor d)"

definition z_direct_backend_artifact_path :: "ZDirectBackend \<Rightarrow> bool \<Rightarrow> string" where
  "z_direct_backend_artifact_path backend executable =
     (case direct_backend_descriptor backend of None \<Rightarrow> ''unsupported''
      | Some d \<Rightarrow> if executable then dd_exe_artifact_path d else dd_object_artifact_path d)"

definition z_direct_backend_supports_runtime_object :: "ZDirectBackend \<Rightarrow> bool" where
  "z_direct_backend_supports_runtime_object backend =
     (case direct_backend_descriptor backend of None \<Rightarrow> False | Some d \<Rightarrow> dd_runtime_object_supported d)"

definition z_direct_backend_emitter_is_executable :: "string option \<Rightarrow> bool" where
  "z_direct_backend_emitter_is_executable emitter =
     (case emitter of None \<Rightarrow> False | Some e \<Rightarrow> list_ex (\<lambda>d. e = dd_exe_emitter d) direct_backend_descriptors)"

definition z_direct_backend_is_request_name :: "string option \<Rightarrow> bool" where
  "z_direct_backend_is_request_name requested_backend =
     (case requested_backend of None \<Rightarrow> False
      | Some r \<Rightarrow> r \<noteq> [] \<and> list_ex (\<lambda>d. r = dd_object_emitter d) direct_backend_descriptors)"

definition z_direct_requested_backend_matches :: "string option \<Rightarrow> ZDirectBackend \<Rightarrow> bool" where
  "z_direct_requested_backend_matches requested_backend backend =
     (case requested_backend of None \<Rightarrow> True
      | Some r \<Rightarrow> r = [] \<or> (case direct_backend_descriptor backend of None \<Rightarrow> False | Some d \<Rightarrow> r = dd_object_emitter d))"

definition z_direct_object_emitter :: "ZTargetInfo option \<Rightarrow> string" where
  "z_direct_object_emitter target = z_direct_backend_object_emitter (z_direct_object_backend target)"

definition z_direct_exe_emitter :: "ZTargetInfo option \<Rightarrow> string" where
  "z_direct_exe_emitter target = z_direct_backend_exe_emitter (z_direct_exe_backend target)"

definition z_direct_backend_status :: "ZTargetInfo option \<Rightarrow> string" where
  "z_direct_backend_status target =
     (if target = None then ''known-unimplemented''
      else if z_direct_exe_backend target \<noteq> Z_DIRECT_BACKEND_NONE then ''native-exe''
      else if z_direct_object_backend target \<noteq> Z_DIRECT_BACKEND_NONE then ''native-object''
      else ''known-unimplemented'')"

definition z_direct_backend_reason :: "ZTargetInfo option \<Rightarrow> string" where
  "z_direct_backend_reason target =
     (case target of None \<Rightarrow> ''unknown target''
      | Some t \<Rightarrow>
         (let format = str_or (t_object_format t) ''unknown''; arch = str_or (t_arch t) ''unknown''
          in if z_direct_object_backend target \<noteq> Z_DIRECT_BACKEND_NONE then
               (if z_direct_exe_backend target \<noteq> Z_DIRECT_BACKEND_NONE then ''direct object and executable backend available''
                else ''direct object backend available; direct executable linker is not implemented for this target'')
             else if format = ''elf'' \<and> arch = ''aarch64'' then ''AArch64 ELF machine-code backend is not implemented yet''
             else if format = ''coff'' \<and> arch = ''aarch64'' then ''AArch64 COFF machine-code backend is not implemented yet''
             else ''direct backend is not implemented for this target format/architecture pair''))"

text \<open>
  The emitter names identify the back ends: looking up the object or the executable emitter of a back
  end gives that back end again, only the latter counts as executable, only the former can be requested,
  and a request matches a back end exactly when it names it.
\<close>

lemma backend_emitter_names:
  "z_direct_backend_from_emitter (Some (z_direct_backend_object_emitter b)) = b
     \<and> z_direct_backend_from_emitter (Some (z_direct_backend_exe_emitter b)) = b
     \<and> (z_direct_backend_emitter_is_executable (Some (z_direct_backend_exe_emitter b)) \<longleftrightarrow> b \<noteq> Z_DIRECT_BACKEND_NONE)
     \<and> \<not> z_direct_backend_emitter_is_executable (Some (z_direct_backend_object_emitter b))
     \<and> (z_direct_backend_is_request_name (Some (z_direct_backend_object_emitter b)) \<longleftrightarrow> b \<noteq> Z_DIRECT_BACKEND_NONE)
     \<and> (z_direct_requested_backend_matches (Some (z_direct_backend_object_emitter b)) c \<longleftrightarrow> b = c \<and> b \<noteq> Z_DIRECT_BACKEND_NONE)"
  by (cases b; cases c; simp add: z_direct_backend_from_emitter_def z_direct_backend_object_emitter_def z_direct_backend_exe_emitter_def
      direct_backend_descriptor_def direct_backend_descriptors_def mk_descriptor_def z_direct_backend_emitter_is_executable_def
      z_direct_backend_is_request_name_def z_direct_requested_backend_matches_def)

end
