(* ===== verification/BuildContext.thy ===== *)
theory BuildContext
  imports Targets MirVerify
begin

text \<open>
  The context of the buildability check, \<open>native/zerox-c/src/buildability_context.c\<close>: the names it
  reports, the scalar classes, the diagnostic it writes and the selection of the back end.
  A check takes the caller's \<open>ZDiag\<close>, which may be NULL, and returns its verdict with the diagnostic it
  leaves. Of \<open>ZDiag\<close> the borrow traces, which only the checker fills in, are left out.
\<close>

section \<open>Diagnostics\<close>

record ZDiag =
  d_code :: int
  d_code_text :: string
  d_message :: string
  d_expected :: string
  d_actual :: string
  d_help :: string
  d_backend_blocker :: ZBackendBlocker
  d_path :: "string option"
  d_line :: int
  d_column :: int
  d_length :: int

definition no_blocker :: ZBackendBlocker where
  "no_blocker = \<lparr>bb_present = False, bb_target = [], bb_object_format = [], bb_backend = [], bb_stage = [], bb_unsupported_feature = []\<rparr>"

definition zero_diag :: ZDiag where
  "zero_diag = \<lparr>d_code = 0, d_code_text = [], d_message = [], d_expected = [], d_actual = [], d_help = [],
     d_backend_blocker = no_blocker, d_path = None, d_line = 0, d_column = 0, d_length = 0\<rparr>"

definition z_diag_set_backend_blocker :: "ZDiag \<Rightarrow> ZBackendBlocker \<Rightarrow> ZDiag" where
  "z_diag_set_backend_blocker diag blocker =
     (if bb_present blocker then diag\<lparr>d_backend_blocker := blocker\<rparr> else diag)"

type_synonym dcheck = "ZDiag option \<Rightarrow> bool \<times> ZDiag option"

definition d_true :: dcheck where
  "d_true diag = (True, diag)"

text \<open>\<open>if (!a) return false; b\<close>, and \<open>if (c && !a) return false;\<close>.\<close>

definition d_and :: "dcheck \<Rightarrow> dcheck \<Rightarrow> dcheck" where
  "d_and a b diag = (case a diag of (ok, diag') \<Rightarrow> if ok then b diag' else (False, diag'))"

definition d_when :: "bool \<Rightarrow> dcheck \<Rightarrow> dcheck" where
  "d_when c a = (if c then a else d_true)"

section \<open>Names\<close>

primrec z_build_type_name :: "IrTypeKind \<Rightarrow> string" where
  "z_build_type_name IR_TYPE_VOID = ''Void''"
| "z_build_type_name IR_TYPE_BOOL = ''Bool''"
| "z_build_type_name IR_TYPE_U8 = ''u8''"
| "z_build_type_name IR_TYPE_U16 = ''u16''"
| "z_build_type_name IR_TYPE_USIZE = ''usize''"
| "z_build_type_name IR_TYPE_I32 = ''i32''"
| "z_build_type_name IR_TYPE_U32 = ''u32''"
| "z_build_type_name IR_TYPE_I64 = ''i64''"
| "z_build_type_name IR_TYPE_U64 = ''u64''"
| "z_build_type_name IR_TYPE_F32 = ''f32''"
| "z_build_type_name IR_TYPE_F64 = ''f64''"
| "z_build_type_name IR_TYPE_BYTE_VIEW = ''Span<u8>''"
| "z_build_type_name IR_TYPE_ALLOC = ''FixedBufAlloc''"
| "z_build_type_name IR_TYPE_VEC = ''Vec''"
| "z_build_type_name IR_TYPE_MAYBE_BYTE_VIEW = ''Maybe<MutSpan<u8>>''"
| "z_build_type_name IR_TYPE_MAYBE_SCALAR = ''Maybe<usize>''"
| "z_build_type_name IR_TYPE_RECORD = ''record''"
| "z_build_type_name IR_TYPE_UNSUPPORTED = ''unsupported''"

primrec z_build_value_kind_name :: "IrValueKind \<Rightarrow> string" where
  "z_build_value_kind_name IR_VALUE_INT = ''IR_VALUE_INT''"
| "z_build_value_kind_name IR_VALUE_BOOL = ''IR_VALUE_BOOL''"
| "z_build_value_kind_name IR_VALUE_LOCAL = ''IR_VALUE_LOCAL''"
| "z_build_value_kind_name IR_VALUE_CAST = ''IR_VALUE_CAST''"
| "z_build_value_kind_name IR_VALUE_BINARY = ''IR_VALUE_BINARY''"
| "z_build_value_kind_name IR_VALUE_COMPARE = ''IR_VALUE_COMPARE''"
| "z_build_value_kind_name IR_VALUE_CALL = ''IR_VALUE_CALL''"
| "z_build_value_kind_name IR_VALUE_INDEX_LOAD = ''IR_VALUE_INDEX_LOAD''"
| "z_build_value_kind_name IR_VALUE_STRING_LITERAL = ''IR_VALUE_STRING_LITERAL''"
| "z_build_value_kind_name IR_VALUE_ARRAY_BYTE_VIEW = ''IR_VALUE_ARRAY_BYTE_VIEW''"
| "z_build_value_kind_name IR_VALUE_BYTE_SLICE = ''IR_VALUE_BYTE_SLICE''"
| "z_build_value_kind_name IR_VALUE_BYTE_VIEW_LEN = ''IR_VALUE_BYTE_VIEW_LEN''"
| "z_build_value_kind_name IR_VALUE_BYTE_VIEW_INDEX_LOAD = ''IR_VALUE_BYTE_VIEW_INDEX_LOAD''"
| "z_build_value_kind_name IR_VALUE_BYTE_VIEW_EQ = ''IR_VALUE_BYTE_VIEW_EQ''"
| "z_build_value_kind_name IR_VALUE_BYTE_COPY = ''IR_VALUE_BYTE_COPY''"
| "z_build_value_kind_name IR_VALUE_BYTE_FILL = ''IR_VALUE_BYTE_FILL''"
| "z_build_value_kind_name IR_VALUE_CRC32_BYTES = ''IR_VALUE_CRC32_BYTES''"
| "z_build_value_kind_name IR_VALUE_FIXED_BUF_ALLOC = ''IR_VALUE_FIXED_BUF_ALLOC''"
| "z_build_value_kind_name IR_VALUE_VEC_INIT = ''IR_VALUE_VEC_INIT''"
| "z_build_value_kind_name IR_VALUE_VEC_PUSH = ''IR_VALUE_VEC_PUSH''"
| "z_build_value_kind_name IR_VALUE_VEC_LEN = ''IR_VALUE_VEC_LEN''"
| "z_build_value_kind_name IR_VALUE_VEC_CAPACITY = ''IR_VALUE_VEC_CAPACITY''"
| "z_build_value_kind_name IR_VALUE_ALLOC_BYTES = ''IR_VALUE_ALLOC_BYTES''"
| "z_build_value_kind_name IR_VALUE_MAYBE_HAS = ''IR_VALUE_MAYBE_HAS''"
| "z_build_value_kind_name IR_VALUE_MAYBE_VALUE = ''IR_VALUE_MAYBE_VALUE''"
| "z_build_value_kind_name IR_VALUE_MAYBE_SCALAR_LITERAL = ''IR_VALUE_MAYBE_SCALAR_LITERAL''"
| "z_build_value_kind_name IR_VALUE_ARGS_LEN = ''IR_VALUE_ARGS_LEN''"
| "z_build_value_kind_name IR_VALUE_ARGS_GET = ''IR_VALUE_ARGS_GET''"
| "z_build_value_kind_name IR_VALUE_ENV_GET = ''IR_VALUE_ENV_GET''"
| "z_build_value_kind_name IR_VALUE_TIME_WALL_SECONDS = ''IR_VALUE_TIME_WALL_SECONDS''"
| "z_build_value_kind_name IR_VALUE_TIME_MONOTONIC = ''IR_VALUE_TIME_MONOTONIC''"
| "z_build_value_kind_name IR_VALUE_TIME_AS_MS = ''IR_VALUE_TIME_AS_MS''"
| "z_build_value_kind_name IR_VALUE_RAND_NEXT_U32 = ''IR_VALUE_RAND_NEXT_U32''"
| "z_build_value_kind_name IR_VALUE_RAND_ENTROPY_U32 = ''IR_VALUE_RAND_ENTROPY_U32''"
| "z_build_value_kind_name IR_VALUE_FS_HOST = ''IR_VALUE_FS_HOST''"
| "z_build_value_kind_name IR_VALUE_FS_OPEN = ''IR_VALUE_FS_OPEN''"
| "z_build_value_kind_name IR_VALUE_FS_CREATE = ''IR_VALUE_FS_CREATE''"
| "z_build_value_kind_name IR_VALUE_FS_READ_PATH = ''IR_VALUE_FS_READ_PATH''"
| "z_build_value_kind_name IR_VALUE_FS_WRITE_PATH = ''IR_VALUE_FS_WRITE_PATH''"
| "z_build_value_kind_name IR_VALUE_FS_READ_BYTES_PATH = ''IR_VALUE_FS_READ_BYTES_PATH''"
| "z_build_value_kind_name IR_VALUE_FS_WRITE_BYTES_PATH = ''IR_VALUE_FS_WRITE_BYTES_PATH''"
| "z_build_value_kind_name IR_VALUE_FS_READ_ALL = ''IR_VALUE_FS_READ_ALL''"
| "z_build_value_kind_name IR_VALUE_FS_READ_FILE = ''IR_VALUE_FS_READ_FILE''"
| "z_build_value_kind_name IR_VALUE_FS_WRITE_ALL_FILE = ''IR_VALUE_FS_WRITE_ALL_FILE''"
| "z_build_value_kind_name IR_VALUE_FS_CLOSE_FILE = ''IR_VALUE_FS_CLOSE_FILE''"
| "z_build_value_kind_name IR_VALUE_FS_EXISTS = ''IR_VALUE_FS_EXISTS''"
| "z_build_value_kind_name IR_VALUE_FS_REMOVE = ''IR_VALUE_FS_REMOVE''"
| "z_build_value_kind_name IR_VALUE_FS_RENAME = ''IR_VALUE_FS_RENAME''"
| "z_build_value_kind_name IR_VALUE_FS_FILE_LEN = ''IR_VALUE_FS_FILE_LEN''"
| "z_build_value_kind_name IR_VALUE_FS_MAKE_DIR = ''IR_VALUE_FS_MAKE_DIR''"
| "z_build_value_kind_name IR_VALUE_FS_REMOVE_DIR = ''IR_VALUE_FS_REMOVE_DIR''"
| "z_build_value_kind_name IR_VALUE_FS_IS_DIR = ''IR_VALUE_FS_IS_DIR''"
| "z_build_value_kind_name IR_VALUE_FS_DIR_ENTRY_COUNT = ''IR_VALUE_FS_DIR_ENTRY_COUNT''"
| "z_build_value_kind_name IR_VALUE_FS_TEMP_NAME = ''IR_VALUE_FS_TEMP_NAME''"
| "z_build_value_kind_name IR_VALUE_FS_ATOMIC_WRITE = ''IR_VALUE_FS_ATOMIC_WRITE''"
| "z_build_value_kind_name IR_VALUE_JSON_PARSE_BYTES = ''IR_VALUE_JSON_PARSE_BYTES''"
| "z_build_value_kind_name IR_VALUE_JSON_VALIDATE_BYTES = ''IR_VALUE_JSON_VALIDATE_BYTES''"
| "z_build_value_kind_name IR_VALUE_JSON_STREAM_TOKENS_BYTES = ''IR_VALUE_JSON_STREAM_TOKENS_BYTES''"
| "z_build_value_kind_name IR_VALUE_HTTP_FETCH = ''IR_VALUE_HTTP_FETCH''"
| "z_build_value_kind_name IR_VALUE_HTTP_RESULT_OK = ''IR_VALUE_HTTP_RESULT_OK''"
| "z_build_value_kind_name IR_VALUE_HTTP_RESULT_STATUS = ''IR_VALUE_HTTP_RESULT_STATUS''"
| "z_build_value_kind_name IR_VALUE_HTTP_RESULT_BODY_LEN = ''IR_VALUE_HTTP_RESULT_BODY_LEN''"
| "z_build_value_kind_name IR_VALUE_HTTP_RESULT_ERROR = ''IR_VALUE_HTTP_RESULT_ERROR''"
| "z_build_value_kind_name IR_VALUE_HTTP_RESPONSE_LEN = ''IR_VALUE_HTTP_RESPONSE_LEN''"
| "z_build_value_kind_name IR_VALUE_HTTP_RESPONSE_HEADERS_LEN = ''IR_VALUE_HTTP_RESPONSE_HEADERS_LEN''"
| "z_build_value_kind_name IR_VALUE_HTTP_RESPONSE_BODY_OFFSET = ''IR_VALUE_HTTP_RESPONSE_BODY_OFFSET''"
| "z_build_value_kind_name IR_VALUE_HTTP_HEADER_VALUE = ''IR_VALUE_HTTP_HEADER_VALUE''"
| "z_build_value_kind_name IR_VALUE_HTTP_HEADER_FOUND = ''IR_VALUE_HTTP_HEADER_FOUND''"
| "z_build_value_kind_name IR_VALUE_HTTP_HEADER_OFFSET = ''IR_VALUE_HTTP_HEADER_OFFSET''"
| "z_build_value_kind_name IR_VALUE_HTTP_HEADER_LEN = ''IR_VALUE_HTTP_HEADER_LEN''"
| "z_build_value_kind_name IR_VALUE_CRYPTO_HELPER = ''IR_VALUE_CRYPTO_HELPER''"
| "z_build_value_kind_name IR_VALUE_FIELD_LOAD = ''IR_VALUE_FIELD_LOAD''"
| "z_build_value_kind_name IR_VALUE_CHECK = ''IR_VALUE_CHECK''"
| "z_build_value_kind_name IR_VALUE_RESCUE = ''IR_VALUE_RESCUE''"

definition z_build_is_elf_scalar :: "IrTypeKind \<Rightarrow> bool" where
  "z_build_is_elf_scalar ty \<longleftrightarrow>
     ty = IR_TYPE_BOOL \<or> ty = IR_TYPE_U8 \<or> ty = IR_TYPE_U16 \<or> ty = IR_TYPE_USIZE \<or> ty = IR_TYPE_I32 \<or> ty = IR_TYPE_U32
     \<or> ty = IR_TYPE_I64 \<or> ty = IR_TYPE_U64 \<or> ty = IR_TYPE_F32 \<or> ty = IR_TYPE_F64"

definition z_build_is_scalar32 :: "IrTypeKind \<Rightarrow> bool" where
  "z_build_is_scalar32 ty \<longleftrightarrow>
     ty = IR_TYPE_BOOL \<or> ty = IR_TYPE_U8 \<or> ty = IR_TYPE_U16 \<or> ty = IR_TYPE_USIZE \<or> ty = IR_TYPE_I32 \<or> ty = IR_TYPE_U32
     \<or> ty = IR_TYPE_F32 \<or> ty = IR_TYPE_F64"

section \<open>The context\<close>

record ZBuildability =
  bc_target :: "ZTargetInfo option"
  bc_emit_kind :: "string option"
  bc_backend_name :: "string option"
  bc_expected :: "string option"
  bc_help :: "string option"
  bc_backend :: ZDirectBackend

definition build_target_field :: "ZBuildability \<Rightarrow> (ZTargetInfo \<Rightarrow> string option) \<Rightarrow> string" where
  "build_target_field ctx field =
     (case bc_target ctx of None \<Rightarrow> ''unknown'' | Some target \<Rightarrow> str_or (field target) ''unknown'')"

definition build_diag_of :: "ZBuildability \<Rightarrow> string \<Rightarrow> int \<Rightarrow> int \<Rightarrow> string option \<Rightarrow> ZDiag" where
  "build_diag_of ctx message line column actual =
     (let actual' = snprintf 128 (case actual of Some (c # cs) \<Rightarrow> c # cs | _ \<Rightarrow> ''unsupported construct'')
      in z_diag_set_backend_blocker
           (zero_diag\<lparr>d_code := 2004, d_line := (if line > 0 then line else 1), d_column := (if column > 0 then column else 1),
              d_length := 1, d_message := snprintf 256 message,
              d_expected := snprintf 128 (str_or (bc_expected ctx) ''direct backend buildability subset''),
              d_actual := actual',
              d_help := snprintf 256 (str_or (bc_help ctx) ''choose a supported direct target or simplify the program for this backend'')\<rparr>)
           (z_backend_blocker_set (Some (build_target_field ctx t_name)) (Some (build_target_field ctx t_object_format))
              (Some (str_or (bc_backend_name ctx) ''unknown'')) (Some ''buildability'') (Some actual')))"

definition z_build_diag :: "ZBuildability \<Rightarrow> string \<Rightarrow> int \<Rightarrow> int \<Rightarrow> string option \<Rightarrow> dcheck" where
  "z_build_diag ctx message line column actual diag =
     (False, map_option (\<lambda>_. build_diag_of ctx message line column actual) diag)"

definition build_expected_for_backend :: "ZDirectBackend \<Rightarrow> bool \<Rightarrow> string" where
  "build_expected_for_backend backend executable = (case backend of
       Z_DIRECT_BACKEND_ELF64 \<Rightarrow> if executable then ''direct ELF64 executable buildability subset'' else ''direct ELF64 object buildability subset''
     | Z_DIRECT_BACKEND_ELF_AARCH64 \<Rightarrow> if executable then ''direct AArch64 ELF executable MVP subset'' else ''direct AArch64 ELF object MVP subset''
     | Z_DIRECT_BACKEND_VOID64 \<Rightarrow> if executable then ''direct AArch64 Mach-O executable buildability subset'' else ''direct AArch64 Mach-O object buildability subset''
     | Z_DIRECT_BACKEND_COFF_X64 \<Rightarrow> if executable then ''direct COFF x64 executable buildability subset'' else ''direct COFF x64 object buildability subset''
     | Z_DIRECT_BACKEND_NONE \<Rightarrow> ''direct backend buildability subset'')"

definition build_help_for_backend :: "ZDirectBackend \<Rightarrow> string" where
  "build_help_for_backend backend = (case backend of
       Z_DIRECT_BACKEND_ELF_AARCH64 \<Rightarrow> ''choose a supported direct target or restrict this program to exported functions returning small integer literals''
     | Z_DIRECT_BACKEND_COFF_X64 \<Rightarrow> ''reduce the program to primitive direct-backend constructs or choose a supported direct target''
     | Z_DIRECT_BACKEND_VOID64 \<Rightarrow> ''choose a supported direct target or reduce the program to Mach-O supported direct-backend constructs''
     | _ \<Rightarrow> ''choose a supported direct target or restrict this program to the ELF64 direct-backend subset'')"

definition build_context :: "ZTargetInfo option \<Rightarrow> bool \<Rightarrow> ZBuildability" where
  "build_context target executable =
     (let backend = (if executable then z_direct_exe_backend target else z_direct_object_backend target)
      in \<lparr>bc_target = target, bc_emit_kind = Some (if executable then ''exe'' else ''obj''),
          bc_backend_name = Some (if executable then z_direct_backend_exe_emitter backend else z_direct_backend_object_emitter backend),
          bc_expected = Some (build_expected_for_backend backend executable), bc_help = Some (build_help_for_backend backend),
          bc_backend = backend\<rparr>)"

text \<open>The context is filled in also when the selection fails.\<close>

definition z_build_select :: "IrProgram option \<Rightarrow> ZTargetInfo option \<Rightarrow> string option \<Rightarrow> ZDiag option \<Rightarrow> ZBuildability \<times> bool \<times> ZDiag option" where
  "z_build_select ir target emit_kind diag =
     (let ctx = build_context target (emit_kind = Some ''exe'')
      in (ctx,
          if ir = None then z_build_diag ctx ''direct backend buildability requires MIR'' 1 1 (Some ''missing MIR'') diag
          else if bc_backend ctx = Z_DIRECT_BACKEND_NONE then
            z_build_diag ctx ''direct backend does not support this target and artifact kind'' 1 1
              (Some (case target of None \<Rightarrow> ''unknown target'' | Some t \<Rightarrow> str_or (t_name t) ''unknown target'')) diag
          else d_true diag))"

end
