(* ===== verification/BuildViews.thy ===== *)
theory BuildViews
  imports BuildContext
begin

text \<open>
  The per-target shape checks, \<open>native/zerox-c/src/buildability_targets.c\<close>: the byte views the COFF and the
  Mach-O emitters can address and measure, and the literal-returning functions of the AArch64 ELF emitter.
\<close>

definition BUILD_AARCH64_IMM12_MAX :: nat where
  "BUILD_AARCH64_IMM12_MAX = 4095"

definition build_const_u32_value :: "IrValue option \<Rightarrow> nat option" where
  "build_const_u32_value value =
     (case value of None \<Rightarrow> None
      | Some v \<Rightarrow> if v_kind v \<noteq> IR_VALUE_INT \<or> unat (vf_int_value (v_fields v)) > UINT_MAX then None
                  else Some (unat (vf_int_value (v_fields v))))"

text \<open>\<open>fun && view->local_index < fun->local_len && fun->locals[view->local_index].type == type\<close>\<close>

definition build_local_has_type :: "IrFunction \<Rightarrow> IrValue \<Rightarrow> IrTypeKind \<Rightarrow> bool" where
  "build_local_has_type fn view ty \<longleftrightarrow> v_local view < length (f_locals fn) \<and> l_type (f_locals fn ! v_local view) = ty"

definition build_view_local :: "IrFunction \<Rightarrow> IrValue \<Rightarrow> bool" where
  "build_view_local fn view \<longleftrightarrow>
     (v_kind view = IR_VALUE_LOCAL \<and> build_local_has_type fn view IR_TYPE_BYTE_VIEW)
     \<or> (v_kind view = IR_VALUE_MAYBE_VALUE \<and> build_local_has_type fn view IR_TYPE_MAYBE_BYTE_VIEW)"

definition build_byte_array :: "IrLocal \<Rightarrow> bool" where
  "build_byte_array l \<longleftrightarrow> l_is_array l \<and> l_element_type l = IR_TYPE_U8"

section \<open>COFF\<close>

fun build_coff_byte_view_const_len :: "IrValue option \<Rightarrow> nat option" where
  "build_coff_byte_view_const_len None = None"
| "build_coff_byte_view_const_len (Some (IrValue vf args ix lf rt)) =
     (if vf_kind vf = IR_VALUE_STRING_LITERAL \<or> vf_kind vf = IR_VALUE_ARRAY_BYTE_VIEW then Some (vf_data_len vf)
      else if vf_kind vf = IR_VALUE_BYTE_SLICE then
        do { base_len \<leftarrow> build_coff_byte_view_const_len lf;
             start \<leftarrow> (if ix = None then Some 0 else build_const_u32_value ix);
             stop \<leftarrow> (if rt = None then Some base_len else build_const_u32_value rt);
             if start > stop \<or> stop > base_len then None else Some (stop - start) }
      else None)"

fun build_check_coff_byte_view_ptr :: "ZBuildability \<Rightarrow> IrFunction \<Rightarrow> IrValue option \<Rightarrow> dcheck" where
  "build_check_coff_byte_view_ptr ctx fn None = z_build_diag ctx ''direct COFF byte view is missing'' 1 1 (Some ''missing byte view'')"
| "build_check_coff_byte_view_ptr ctx fn (Some (IrValue vf args ix lf rt)) =
     (let view = IrValue vf args ix lf rt
      in if build_view_local fn view then d_true
         else if vf_kind vf = IR_VALUE_ARRAY_BYTE_VIEW \<and> vf_array_index vf < length (f_locals fn) then
           (if \<not> build_byte_array (f_locals fn ! vf_array_index vf) then
              z_build_diag ctx ''direct COFF byte-view array requires [N]u8'' (vf_line vf) (vf_column vf) (Some ''unsupported array view'')
            else d_true)
         else if vf_kind vf = IR_VALUE_STRING_LITERAL then d_true
         else if vf_kind vf = IR_VALUE_BYTE_SLICE then
           (if build_const_u32_value ix = None then
              z_build_diag ctx ''direct COFF byte slice currently requires a constant start'' (vf_line vf) (vf_column vf) (Some ''unsupported byte slice'')
            else build_check_coff_byte_view_ptr ctx fn lf)
         else z_build_diag ctx ''direct COFF value is not a supported byte view'' (vf_line vf) (vf_column vf) (Some ''unsupported byte view''))"

definition build_slice_bounds_const :: "IrValue \<Rightarrow> bool" where
  "build_slice_bounds_const view \<longleftrightarrow>
     (case build_const_u32_value (v_index view) of None \<Rightarrow> False
      | Some start \<Rightarrow> (case build_const_u32_value (v_right view) of None \<Rightarrow> False | Some stop \<Rightarrow> start \<le> stop))"

definition z_build_check_coff_byte_view_len :: "ZBuildability \<Rightarrow> IrFunction \<Rightarrow> IrValue option \<Rightarrow> dcheck" where
  "z_build_check_coff_byte_view_len ctx fn view =
     (let fail = (\<lambda>line column. z_build_diag ctx ''direct COFF byte-view length currently requires a literal, constant slice, or byte-view local'' line column
                    (Some ''unsupported byte view length''))
      in if build_coff_byte_view_const_len view \<noteq> None then d_true
         else case view of None \<Rightarrow> fail 1 1
         | Some v \<Rightarrow>
             if build_view_local fn v then d_true
             else if v_kind v = IR_VALUE_BYTE_SLICE \<and> v_index v \<noteq> None \<and> v_right v \<noteq> None \<and> build_slice_bounds_const v then d_true
             else fail (v_line v) (v_column v))"

definition z_build_check_coff_byte_view :: "ZBuildability \<Rightarrow> IrFunction \<Rightarrow> IrValue option \<Rightarrow> dcheck" where
  "z_build_check_coff_byte_view ctx fn view =
     d_and (build_check_coff_byte_view_ptr ctx fn view) (z_build_check_coff_byte_view_len ctx fn view)"

section \<open>Mach-O\<close>

fun build_check_void_byte_view_ptr :: "ZBuildability \<Rightarrow> IrFunction \<Rightarrow> IrValue option \<Rightarrow> dcheck" where
  "build_check_void_byte_view_ptr ctx fn None =
     z_build_diag ctx ''direct AArch64 Mach-O byte view is missing'' 1 1 (Some ''missing byte view'')"
| "build_check_void_byte_view_ptr ctx fn (Some (IrValue vf args ix lf rt)) =
     (let view = IrValue vf args ix lf rt
      in if build_view_local fn view then d_true
         else if vf_kind vf = IR_VALUE_ARRAY_BYTE_VIEW \<and> vf_array_index vf < length (f_locals fn) then
           (if \<not> build_byte_array (f_locals fn ! vf_array_index vf) then
              z_build_diag ctx ''direct AArch64 Mach-O byte-view array requires [N]u8'' (vf_line vf) (vf_column vf) (Some ''unsupported array view'')
            else d_true)
         else if vf_kind vf = IR_VALUE_STRING_LITERAL then d_true
         else if vf_kind vf = IR_VALUE_BYTE_SLICE then
           d_and (build_check_void_byte_view_ptr ctx fn lf)
             (case build_const_u32_value ix of
                Some start \<Rightarrow> if start > BUILD_AARCH64_IMM12_MAX then
                    z_build_diag ctx ''direct AArch64 Mach-O byte slice constant start is too large'' (vf_line vf) (vf_column vf) (Some ''unsupported byte slice'')
                  else d_true
              | None \<Rightarrow> d_true)
         else z_build_diag ctx ''direct AArch64 Mach-O value is not a supported byte view'' (vf_line vf) (vf_column vf) (Some ''unsupported byte view''))"

definition build_check_void_slice_len :: "ZBuildability \<Rightarrow> IrValue \<Rightarrow> dcheck \<Rightarrow> dcheck" where
  "build_check_void_slice_len ctx v otherwise =
     (let start = (if v_index v = None then Some 0 else build_const_u32_value (v_index v));
          stop = build_const_u32_value (v_right v)
      in if (case (start, stop) of (Some a, Some b) \<Rightarrow> b \<ge> a \<and> b - a \<le> 65535 | _ \<Rightarrow> False) then d_true
         else case start of
           Some a \<Rightarrow> if v_right v \<noteq> None then
               (if a > BUILD_AARCH64_IMM12_MAX then
                  z_build_diag ctx ''direct AArch64 Mach-O byte slice constant start is too large'' (v_line v) (v_column v) (Some ''unsupported byte view length'')
                else d_true)
             else otherwise
         | None \<Rightarrow> if v_index v \<noteq> None \<and> v_right v \<noteq> None then d_true else otherwise)"

definition z_build_check_void_byte_view_len :: "ZBuildability \<Rightarrow> IrFunction \<Rightarrow> IrValue option \<Rightarrow> dcheck" where
  "z_build_check_void_byte_view_len ctx fn view =
     (case view of None \<Rightarrow> z_build_diag ctx ''direct AArch64 Mach-O byte view is missing'' 1 1 (Some ''missing byte view'')
      | Some v \<Rightarrow>
         (let fail = z_build_diag ctx ''direct AArch64 Mach-O byte-view length currently requires a literal, constant slice, or byte-view local''
                       (v_line v) (v_column v) (Some ''unsupported byte view length'')
          in if v_kind v = IR_VALUE_STRING_LITERAL \<or> v_kind v = IR_VALUE_ARRAY_BYTE_VIEW then
               (if vf_data_len (v_fields v) > 65535 then
                  z_build_diag ctx ''direct AArch64 Mach-O byte-view length is too large for the current MVP'' (v_line v) (v_column v) (Some ''large byte view'')
                else d_true)
             else if build_view_local fn v then d_true
             else if v_kind v = IR_VALUE_BYTE_SLICE then build_check_void_slice_len ctx v fail
             else fail))"

definition z_build_check_void_byte_view :: "ZBuildability \<Rightarrow> IrFunction \<Rightarrow> IrValue option \<Rightarrow> dcheck" where
  "z_build_check_void_byte_view ctx fn view =
     d_and (build_check_void_byte_view_ptr ctx fn view) (z_build_check_void_byte_view_len ctx fn view)"

section \<open>AArch64 ELF\<close>

definition build_aarch64_return_type_ok :: "IrTypeKind \<Rightarrow> bool" where
  "build_aarch64_return_type_ok ty \<longleftrightarrow>
     ty = IR_TYPE_VOID \<or> ty = IR_TYPE_U8 \<or> ty = IR_TYPE_I32 \<or> ty = IR_TYPE_U32 \<or> ty = IR_TYPE_USIZE"

text \<open>\<open>instr_len == 1 && instrs[0].kind == IR_INSTR_RETURN && !instrs[0].value\<close>, and the return of a small literal.\<close>

definition returns_nothing :: "IrInstr list \<Rightarrow> bool" where
  "returns_nothing instrs \<longleftrightarrow> (case instrs of [i] \<Rightarrow> i_kind i = IR_INSTR_RETURN \<and> i_value i = None | _ \<Rightarrow> False)"

definition returns_literal :: "IrInstr list \<Rightarrow> nat option" where
  "returns_literal instrs =
     (case instrs of [i] \<Rightarrow>
        (case i_value i of None \<Rightarrow> None
         | Some v \<Rightarrow> if i_kind i = IR_INSTR_RETURN \<and> v_kind v = IR_VALUE_INT \<and> unat (vf_int_value (v_fields v)) \<le> 65535
                     then Some (unat (vf_int_value (v_fields v))) else None)
      | _ \<Rightarrow> None)"

definition z_build_check_aarch64_literal_shape :: "ZBuildability \<Rightarrow> IrFunction \<Rightarrow> dcheck" where
  "z_build_check_aarch64_literal_shape ctx fn =
     (if f_param_count fn \<noteq> 0 then
        z_build_diag ctx ''direct AArch64 ELF buildability currently supports functions without parameters'' (f_line fn) (f_column fn) (f_name fn)
      else if \<not> build_aarch64_return_type_ok (f_return_type fn) then
        z_build_diag ctx ''direct AArch64 ELF buildability currently supports primitive 32-bit-or-smaller integer returns''
          (f_line fn) (f_column fn) (Some (z_build_type_name (f_return_type fn)))
      else if f_return_type fn = IR_TYPE_VOID then
        (if f_instrs fn = [] then d_true
         else if returns_nothing (f_instrs fn) then d_true
         else z_build_diag ctx ''direct AArch64 ELF buildability currently supports only empty Void functions or small integer literal returns''
                (f_line fn) (f_column fn) (f_name fn))
      else if returns_literal (f_instrs fn) = None then
        z_build_diag ctx ''direct AArch64 ELF buildability currently requires a small integer literal return'' (f_line fn) (f_column fn) (f_name fn)
      else d_true)"

end
