(* ===== verification/Buildability.thy ===== *)
theory Buildability
  imports BuildViews
begin

text \<open>
  The buildability check, \<open>native/zerox-c/src/buildability.c\<close>: what of the MIR the selected back end can emit.
  It runs before any emitter and reports the first construct outside the subset.
\<close>

section \<open>Values\<close>

text \<open>The \<open>switch\<close> of \<open>build_value_supported\<close>.\<close>

primrec build_kind_supported :: "ZDirectBackend \<Rightarrow> IrTypeKind \<Rightarrow> bool \<Rightarrow> IrValueKind \<Rightarrow> bool" where
  "build_kind_supported b ty local_set_value IR_VALUE_INT \<longleftrightarrow> True"
| "build_kind_supported b ty local_set_value IR_VALUE_BOOL \<longleftrightarrow> True"
| "build_kind_supported b ty local_set_value IR_VALUE_LOCAL \<longleftrightarrow> True"
| "build_kind_supported b ty local_set_value IR_VALUE_CAST \<longleftrightarrow> True"
| "build_kind_supported b ty local_set_value IR_VALUE_BINARY \<longleftrightarrow> True"
| "build_kind_supported b ty local_set_value IR_VALUE_COMPARE \<longleftrightarrow> True"
| "build_kind_supported b ty local_set_value IR_VALUE_CALL \<longleftrightarrow> True"
| "build_kind_supported b ty local_set_value IR_VALUE_STRING_LITERAL \<longleftrightarrow> True"
| "build_kind_supported b ty local_set_value IR_VALUE_ARRAY_BYTE_VIEW \<longleftrightarrow> True"
| "build_kind_supported b ty local_set_value IR_VALUE_BYTE_SLICE \<longleftrightarrow> True"
| "build_kind_supported b ty local_set_value IR_VALUE_BYTE_VIEW_LEN \<longleftrightarrow> True"
| "build_kind_supported b ty local_set_value IR_VALUE_BYTE_VIEW_INDEX_LOAD \<longleftrightarrow> True"
| "build_kind_supported b ty local_set_value IR_VALUE_INDEX_LOAD \<longleftrightarrow> True"
| "build_kind_supported b ty local_set_value IR_VALUE_FIELD_LOAD \<longleftrightarrow> True"
| "build_kind_supported b ty local_set_value IR_VALUE_FIXED_BUF_ALLOC \<longleftrightarrow> local_set_value"
| "build_kind_supported b ty local_set_value IR_VALUE_VEC_INIT \<longleftrightarrow> local_set_value"
| "build_kind_supported b ty local_set_value IR_VALUE_ALLOC_BYTES \<longleftrightarrow> local_set_value"
| "build_kind_supported b ty local_set_value IR_VALUE_MAYBE_SCALAR_LITERAL \<longleftrightarrow> local_set_value"
| "build_kind_supported b ty local_set_value IR_VALUE_VEC_PUSH \<longleftrightarrow> True"
| "build_kind_supported b ty local_set_value IR_VALUE_VEC_LEN \<longleftrightarrow> True"
| "build_kind_supported b ty local_set_value IR_VALUE_VEC_CAPACITY \<longleftrightarrow> True"
| "build_kind_supported b ty local_set_value IR_VALUE_MAYBE_HAS \<longleftrightarrow> True"
| "build_kind_supported b ty local_set_value IR_VALUE_ARGS_GET \<longleftrightarrow> (b = Z_DIRECT_BACKEND_ELF64 \<or> b = Z_DIRECT_BACKEND_VOID64) \<and> local_set_value"
| "build_kind_supported b ty local_set_value IR_VALUE_ARGS_LEN \<longleftrightarrow> b = Z_DIRECT_BACKEND_ELF64 \<or> b = Z_DIRECT_BACKEND_VOID64"
| "build_kind_supported b ty local_set_value IR_VALUE_ENV_GET \<longleftrightarrow> b = Z_DIRECT_BACKEND_ELF64 \<and> local_set_value"
| "build_kind_supported b ty local_set_value IR_VALUE_TIME_WALL_SECONDS \<longleftrightarrow> b = Z_DIRECT_BACKEND_ELF64"
| "build_kind_supported b ty local_set_value IR_VALUE_TIME_MONOTONIC \<longleftrightarrow> b = Z_DIRECT_BACKEND_ELF64"
| "build_kind_supported b ty local_set_value IR_VALUE_TIME_AS_MS \<longleftrightarrow> b = Z_DIRECT_BACKEND_ELF64"
| "build_kind_supported b ty local_set_value IR_VALUE_RAND_NEXT_U32 \<longleftrightarrow> b = Z_DIRECT_BACKEND_ELF64"
| "build_kind_supported b ty local_set_value IR_VALUE_RAND_ENTROPY_U32 \<longleftrightarrow> b = Z_DIRECT_BACKEND_ELF64"
| "build_kind_supported b ty local_set_value IR_VALUE_FS_HOST \<longleftrightarrow> b = Z_DIRECT_BACKEND_ELF64"
| "build_kind_supported b ty local_set_value IR_VALUE_FS_OPEN \<longleftrightarrow> b = Z_DIRECT_BACKEND_ELF64"
| "build_kind_supported b ty local_set_value IR_VALUE_FS_CREATE \<longleftrightarrow> b = Z_DIRECT_BACKEND_ELF64"
| "build_kind_supported b ty local_set_value IR_VALUE_FS_READ_PATH \<longleftrightarrow> b = Z_DIRECT_BACKEND_ELF64"
| "build_kind_supported b ty local_set_value IR_VALUE_FS_WRITE_PATH \<longleftrightarrow> b = Z_DIRECT_BACKEND_ELF64"
| "build_kind_supported b ty local_set_value IR_VALUE_FS_READ_BYTES_PATH \<longleftrightarrow> b = Z_DIRECT_BACKEND_ELF64"
| "build_kind_supported b ty local_set_value IR_VALUE_FS_WRITE_BYTES_PATH \<longleftrightarrow> b = Z_DIRECT_BACKEND_ELF64"
| "build_kind_supported b ty local_set_value IR_VALUE_FS_READ_ALL \<longleftrightarrow> b = Z_DIRECT_BACKEND_ELF64"
| "build_kind_supported b ty local_set_value IR_VALUE_FS_READ_FILE \<longleftrightarrow> b = Z_DIRECT_BACKEND_ELF64"
| "build_kind_supported b ty local_set_value IR_VALUE_FS_WRITE_ALL_FILE \<longleftrightarrow> b = Z_DIRECT_BACKEND_ELF64"
| "build_kind_supported b ty local_set_value IR_VALUE_FS_CLOSE_FILE \<longleftrightarrow> b = Z_DIRECT_BACKEND_ELF64"
| "build_kind_supported b ty local_set_value IR_VALUE_FS_EXISTS \<longleftrightarrow> b = Z_DIRECT_BACKEND_ELF64"
| "build_kind_supported b ty local_set_value IR_VALUE_FS_REMOVE \<longleftrightarrow> b = Z_DIRECT_BACKEND_ELF64"
| "build_kind_supported b ty local_set_value IR_VALUE_FS_RENAME \<longleftrightarrow> b = Z_DIRECT_BACKEND_ELF64"
| "build_kind_supported b ty local_set_value IR_VALUE_FS_FILE_LEN \<longleftrightarrow> b = Z_DIRECT_BACKEND_ELF64"
| "build_kind_supported b ty local_set_value IR_VALUE_FS_MAKE_DIR \<longleftrightarrow> b = Z_DIRECT_BACKEND_ELF64"
| "build_kind_supported b ty local_set_value IR_VALUE_FS_REMOVE_DIR \<longleftrightarrow> b = Z_DIRECT_BACKEND_ELF64"
| "build_kind_supported b ty local_set_value IR_VALUE_FS_IS_DIR \<longleftrightarrow> b = Z_DIRECT_BACKEND_ELF64"
| "build_kind_supported b ty local_set_value IR_VALUE_FS_DIR_ENTRY_COUNT \<longleftrightarrow> b = Z_DIRECT_BACKEND_ELF64"
| "build_kind_supported b ty local_set_value IR_VALUE_FS_TEMP_NAME \<longleftrightarrow> b = Z_DIRECT_BACKEND_ELF64"
| "build_kind_supported b ty local_set_value IR_VALUE_FS_ATOMIC_WRITE \<longleftrightarrow> b = Z_DIRECT_BACKEND_ELF64"
| "build_kind_supported b ty local_set_value IR_VALUE_BYTE_COPY \<longleftrightarrow> b = Z_DIRECT_BACKEND_ELF64"
| "build_kind_supported b ty local_set_value IR_VALUE_BYTE_VIEW_EQ \<longleftrightarrow> b = Z_DIRECT_BACKEND_ELF64"
| "build_kind_supported b ty local_set_value IR_VALUE_CRC32_BYTES \<longleftrightarrow> b = Z_DIRECT_BACKEND_ELF64"
| "build_kind_supported b ty local_set_value IR_VALUE_CHECK \<longleftrightarrow> b = Z_DIRECT_BACKEND_ELF64"
| "build_kind_supported b ty local_set_value IR_VALUE_RESCUE \<longleftrightarrow> b = Z_DIRECT_BACKEND_ELF64"
| "build_kind_supported b ty local_set_value IR_VALUE_MAYBE_VALUE \<longleftrightarrow> b = Z_DIRECT_BACKEND_ELF64 \<or> (b = Z_DIRECT_BACKEND_VOID64 \<and> ty = IR_TYPE_BYTE_VIEW)"
| "build_kind_supported b ty local_set_value IR_VALUE_JSON_PARSE_BYTES \<longleftrightarrow> b = Z_DIRECT_BACKEND_ELF64 \<or> b = Z_DIRECT_BACKEND_VOID64"
| "build_kind_supported b ty local_set_value IR_VALUE_JSON_VALIDATE_BYTES \<longleftrightarrow> b = Z_DIRECT_BACKEND_ELF64 \<or> b = Z_DIRECT_BACKEND_VOID64"
| "build_kind_supported b ty local_set_value IR_VALUE_JSON_STREAM_TOKENS_BYTES \<longleftrightarrow> b = Z_DIRECT_BACKEND_ELF64 \<or> b = Z_DIRECT_BACKEND_VOID64"
| "build_kind_supported b ty local_set_value IR_VALUE_HTTP_FETCH \<longleftrightarrow> b = Z_DIRECT_BACKEND_ELF64 \<or> b = Z_DIRECT_BACKEND_VOID64"
| "build_kind_supported b ty local_set_value IR_VALUE_HTTP_RESULT_OK \<longleftrightarrow> b = Z_DIRECT_BACKEND_ELF64 \<or> b = Z_DIRECT_BACKEND_VOID64"
| "build_kind_supported b ty local_set_value IR_VALUE_HTTP_RESULT_STATUS \<longleftrightarrow> b = Z_DIRECT_BACKEND_ELF64 \<or> b = Z_DIRECT_BACKEND_VOID64"
| "build_kind_supported b ty local_set_value IR_VALUE_HTTP_RESULT_BODY_LEN \<longleftrightarrow> b = Z_DIRECT_BACKEND_ELF64 \<or> b = Z_DIRECT_BACKEND_VOID64"
| "build_kind_supported b ty local_set_value IR_VALUE_HTTP_RESULT_ERROR \<longleftrightarrow> b = Z_DIRECT_BACKEND_ELF64 \<or> b = Z_DIRECT_BACKEND_VOID64"
| "build_kind_supported b ty local_set_value IR_VALUE_HTTP_RESPONSE_LEN \<longleftrightarrow> b = Z_DIRECT_BACKEND_ELF64 \<or> b = Z_DIRECT_BACKEND_VOID64"
| "build_kind_supported b ty local_set_value IR_VALUE_HTTP_RESPONSE_HEADERS_LEN \<longleftrightarrow> b = Z_DIRECT_BACKEND_ELF64 \<or> b = Z_DIRECT_BACKEND_VOID64"
| "build_kind_supported b ty local_set_value IR_VALUE_HTTP_RESPONSE_BODY_OFFSET \<longleftrightarrow> b = Z_DIRECT_BACKEND_ELF64 \<or> b = Z_DIRECT_BACKEND_VOID64"
| "build_kind_supported b ty local_set_value IR_VALUE_HTTP_HEADER_VALUE \<longleftrightarrow> b = Z_DIRECT_BACKEND_ELF64 \<or> b = Z_DIRECT_BACKEND_VOID64"
| "build_kind_supported b ty local_set_value IR_VALUE_HTTP_HEADER_FOUND \<longleftrightarrow> b = Z_DIRECT_BACKEND_ELF64 \<or> b = Z_DIRECT_BACKEND_VOID64"
| "build_kind_supported b ty local_set_value IR_VALUE_HTTP_HEADER_OFFSET \<longleftrightarrow> b = Z_DIRECT_BACKEND_ELF64 \<or> b = Z_DIRECT_BACKEND_VOID64"
| "build_kind_supported b ty local_set_value IR_VALUE_HTTP_HEADER_LEN \<longleftrightarrow> b = Z_DIRECT_BACKEND_ELF64 \<or> b = Z_DIRECT_BACKEND_VOID64"
| "build_kind_supported b ty local_set_value IR_VALUE_CRYPTO_HELPER \<longleftrightarrow> b = Z_DIRECT_BACKEND_ELF64 \<or> b = Z_DIRECT_BACKEND_VOID64"
| "build_kind_supported b ty local_set_value IR_VALUE_BYTE_FILL \<longleftrightarrow> False"

definition build_value_supported :: "ZBuildability \<Rightarrow> IrValue \<Rightarrow> bool \<Rightarrow> bool" where
  "build_value_supported ctx value local_set_value \<longleftrightarrow>
     bc_backend ctx = Z_DIRECT_BACKEND_ELF_AARCH64 \<or> build_kind_supported (bc_backend ctx) (v_type value) local_set_value (v_kind value)"

definition BUILD_VOID_SCRATCH_SLOT_COUNT :: nat where
  "BUILD_VOID_SCRATCH_SLOT_COUNT = 32"

definition build_is_float_op :: "IrBinaryOp \<Rightarrow> bool" where
  "build_is_float_op op1 \<longleftrightarrow> op1 = IR_BIN_FADD \<or> op1 = IR_BIN_FSUB \<or> op1 = IR_BIN_FMUL \<or> op1 = IR_BIN_FDIV \<or> op1 = IR_BIN_FMOD"

definition build_op_supported :: "ZDirectBackend \<Rightarrow> IrBinaryOp \<Rightarrow> bool" where
  "build_op_supported b op1 \<longleftrightarrow>
     (if b = Z_DIRECT_BACKEND_COFF_X64 then
        build_is_float_op op1 \<or> op1 = IR_BIN_ADD \<or> op1 = IR_BIN_SUB \<or> op1 = IR_BIN_MUL \<or> op1 = IR_BIN_AND \<or> op1 = IR_BIN_OR \<or> op1 = IR_BIN_XOR
        \<or> op1 = IR_BIN_SHL \<or> op1 = IR_BIN_SHR \<or> op1 = IR_BIN_ROL \<or> op1 = IR_BIN_ROR
      else if b = Z_DIRECT_BACKEND_VOID64 then
        build_is_float_op op1 \<or> op1 = IR_BIN_ADD \<or> op1 = IR_BIN_SUB \<or> op1 = IR_BIN_MUL \<or> op1 = IR_BIN_DIV \<or> op1 = IR_BIN_MOD
        \<or> op1 = IR_BIN_AND \<or> op1 = IR_BIN_OR \<or> op1 = IR_BIN_XOR \<or> op1 = IR_BIN_SHL \<or> op1 = IR_BIN_SHR \<or> op1 = IR_BIN_ROR
      else True)"

text \<open>The binary operators of the Mach-O emitter that keep their left operand in a scratch slot.\<close>

definition build_spills :: "ZDirectBackend \<Rightarrow> IrBinaryOp \<Rightarrow> bool" where
  "build_spills b op1 \<longleftrightarrow> b = Z_DIRECT_BACKEND_VOID64 \<and> op1 \<noteq> IR_BIN_AND \<and> op1 \<noteq> IR_BIN_OR"

definition build_max_args :: "ZDirectBackend \<Rightarrow> nat" where
  "build_max_args b = (if b = Z_DIRECT_BACKEND_COFF_X64 then 4 else if b = Z_DIRECT_BACKEND_ELF64 then 6 else 8)"

definition build_skip_left :: "ZDirectBackend \<Rightarrow> IrValueKind \<Rightarrow> bool" where
  "build_skip_left b k \<longleftrightarrow> b = Z_DIRECT_BACKEND_COFF_X64
     \<and> (k = IR_VALUE_BYTE_VIEW_LEN \<or> k = IR_VALUE_BYTE_VIEW_INDEX_LOAD \<or> k = IR_VALUE_FIXED_BUF_ALLOC \<or> k = IR_VALUE_VEC_INIT)"

text \<open>The byte views of a value, by back end.\<close>

definition build_check_coff_views :: "ZBuildability \<Rightarrow> IrFunction \<Rightarrow> IrValue \<Rightarrow> dcheck" where
  "build_check_coff_views ctx fn value =
     d_and (d_when (v_kind value = IR_VALUE_BYTE_VIEW_LEN) (z_build_check_coff_byte_view_len ctx fn (v_left value)))
     (d_and (d_when (v_kind value = IR_VALUE_BYTE_VIEW_INDEX_LOAD) (z_build_check_coff_byte_view ctx fn (v_left value)))
       (d_when (v_kind value = IR_VALUE_FIXED_BUF_ALLOC \<or> v_kind value = IR_VALUE_VEC_INIT) (z_build_check_coff_byte_view ctx fn (v_left value))))"

definition build_check_void_views :: "ZBuildability \<Rightarrow> IrFunction \<Rightarrow> IrValue \<Rightarrow> dcheck" where
  "build_check_void_views ctx fn value =
     (let k = v_kind value; view = z_build_check_void_byte_view ctx fn
      in d_and (d_when (k = IR_VALUE_BYTE_VIEW_LEN) (z_build_check_void_byte_view_len ctx fn (v_left value)))
        (d_and (d_when (k = IR_VALUE_BYTE_VIEW_INDEX_LOAD) (view (v_left value)))
        (d_and (d_when (k = IR_VALUE_FIXED_BUF_ALLOC \<or> k = IR_VALUE_VEC_INIT) (view (v_left value)))
        (d_and (d_when (k = IR_VALUE_JSON_PARSE_BYTES \<or> k = IR_VALUE_JSON_VALIDATE_BYTES \<or> k = IR_VALUE_JSON_STREAM_TOKENS_BYTES) (view (v_left value)))
        (d_and (d_when (k = IR_VALUE_HTTP_FETCH) (d_and (view (v_left value)) (view (v_right value))))
        (d_and (d_when (k = IR_VALUE_HTTP_RESPONSE_LEN \<or> k = IR_VALUE_HTTP_RESPONSE_HEADERS_LEN \<or> k = IR_VALUE_HTTP_RESPONSE_BODY_OFFSET) (view (v_left value)))
          (d_when (k = IR_VALUE_HTTP_HEADER_VALUE) (d_and (view (v_left value)) (view (v_right value))))))))))"

definition build_check_binary :: "ZBuildability \<Rightarrow> IrValue \<Rightarrow> nat \<Rightarrow> dcheck" where
  "build_check_binary ctx value slot =
     (let op1 = vf_binary_op (v_fields value)
      in if \<not> build_op_supported (bc_backend ctx) op1 then
           z_build_diag ctx ''direct backend buildability does not support this binary operator'' (v_line value) (v_column value) (Some ''unsupported operator'')
         else if build_spills (bc_backend ctx) op1 \<and> slot \<ge> BUILD_VOID_SCRATCH_SLOT_COUNT then
           z_build_diag ctx ''direct AArch64 Mach-O expression nesting exceeds scratch register spill capacity'' (v_line value) (v_column value) (Some ''expression too deep'')
         else d_true)"

definition build_check_call :: "ZBuildability \<Rightarrow> IrValue \<Rightarrow> nat \<Rightarrow> dcheck" where
  "build_check_call ctx value slot =
     (if bc_backend ctx \<noteq> Z_DIRECT_BACKEND_ELF_AARCH64 \<and> length (v_args value) > build_max_args (bc_backend ctx) then
        z_build_diag ctx ''direct backend buildability found a call with too many arguments'' (v_line value) (v_column value)
          (Some (snprintf 80 (dec (length (v_args value)) @ '' argument(s)'')))
      else if bc_backend ctx = Z_DIRECT_BACKEND_VOID64 \<and> slot + length (v_args value) \<ge> BUILD_VOID_SCRATCH_SLOT_COUNT then
        z_build_diag ctx ''direct AArch64 Mach-O call argument nesting exceeds scratch spill capacity'' (v_line value) (v_column value)
          (Some ''too many nested call arguments'')
      else d_true)"

text \<open>What \<open>build_check_value\<close> asks of a value before it turns to the operands.\<close>

definition build_check_node :: "ZBuildability \<Rightarrow> IrFunction \<Rightarrow> IrValue \<Rightarrow> bool \<Rightarrow> nat \<Rightarrow> dcheck" where
  "build_check_node ctx fn value local_set_value slot =
     (if \<not> build_value_supported ctx value local_set_value then
        z_build_diag ctx ''direct backend buildability does not support this MIR value'' (v_line value) (v_column value)
          (Some (z_build_value_kind_name (v_kind value)))
      else
        d_and (d_when (bc_backend ctx = Z_DIRECT_BACKEND_COFF_X64) (build_check_coff_views ctx fn value))
        (d_and (d_when (bc_backend ctx = Z_DIRECT_BACKEND_VOID64) (build_check_void_views ctx fn value))
        (d_and (d_when (v_kind value = IR_VALUE_BINARY) (build_check_binary ctx value slot))
        (d_and (d_when (bc_backend ctx = Z_DIRECT_BACKEND_VOID64 \<and> v_kind value = IR_VALUE_COMPARE \<and> slot \<ge> BUILD_VOID_SCRATCH_SLOT_COUNT)
            (z_build_diag ctx ''direct AArch64 Mach-O expression nesting exceeds scratch register spill capacity'' (v_line value) (v_column value) (Some ''expression too deep'')))
        (d_and (d_when (v_kind value = IR_VALUE_CALL) (build_check_call ctx value slot))
          (d_when (v_kind value = IR_VALUE_LOCAL \<and> v_local value < length (f_locals fn) \<and> l_is_array (f_locals fn ! v_local value))
            (z_build_diag ctx ''direct backend buildability cannot use fixed array locals as scalar values'' (v_line value) (v_column value) (Some ''array local''))))))))"

definition build_right_slot :: "ZBuildability \<Rightarrow> IrValue \<Rightarrow> nat \<Rightarrow> nat" where
  "build_right_slot ctx value slot =
     (if bc_backend ctx = Z_DIRECT_BACKEND_VOID64
         \<and> ((v_kind value = IR_VALUE_BINARY \<and> vf_binary_op (v_fields value) \<noteq> IR_BIN_AND \<and> vf_binary_op (v_fields value) \<noteq> IR_BIN_OR)
            \<or> v_kind value = IR_VALUE_COMPARE)
      then slot + 1 else slot)"

definition build_arg_slot :: "ZBuildability \<Rightarrow> IrValue \<Rightarrow> nat \<Rightarrow> nat" where
  "build_arg_slot ctx value slot =
     (if bc_backend ctx = Z_DIRECT_BACKEND_VOID64 \<and> v_kind value = IR_VALUE_CALL then slot + length (v_args value) else slot)"

fun build_check_value :: "ZBuildability \<Rightarrow> IrFunction \<Rightarrow> IrValue option \<Rightarrow> bool \<Rightarrow> nat \<Rightarrow> dcheck"
  and build_check_args :: "ZBuildability \<Rightarrow> IrFunction \<Rightarrow> IrValue option list \<Rightarrow> nat \<Rightarrow> dcheck" where
  "build_check_value ctx fn None local_set_value slot =
     z_build_diag ctx ''direct backend buildability found a missing expression'' 1 1 (Some ''missing expression'')"
| "build_check_value ctx fn (Some (IrValue vf args ix lf rt)) local_set_value slot =
     (let value = IrValue vf args ix lf rt
      in d_and (build_check_node ctx fn value local_set_value slot)
        (d_and (d_when (ix \<noteq> None) (build_check_value ctx fn ix False slot))
        (d_and (d_when (lf \<noteq> None \<and> \<not> build_skip_left (bc_backend ctx) (vf_kind vf)) (build_check_value ctx fn lf False slot))
        (d_and (d_when (rt \<noteq> None) (build_check_value ctx fn rt False (build_right_slot ctx value slot)))
          (build_check_args ctx fn args (build_arg_slot ctx value slot))))))"
| "build_check_args ctx fn [] slot = d_true"
| "build_check_args ctx fn (a # args) slot = d_and (build_check_value ctx fn a False slot) (build_check_args ctx fn args slot)"

section \<open>Instructions\<close>

definition build_check_opt :: "ZBuildability \<Rightarrow> IrFunction \<Rightarrow> IrValue option \<Rightarrow> bool \<Rightarrow> dcheck" where
  "build_check_opt ctx fn value local_set_value = d_when (value \<noteq> None) (build_check_value ctx fn value local_set_value 0)"

definition build_check_local_set :: "ZBuildability \<Rightarrow> IrFunction \<Rightarrow> IrInstr \<Rightarrow> dcheck" where
  "build_check_local_set ctx fn instr =
     (let view_local = (i_local instr < length (f_locals fn) \<and> l_type (f_locals fn ! i_local instr) = IR_TYPE_BYTE_VIEW)
      in if bc_backend ctx = Z_DIRECT_BACKEND_COFF_X64 \<and> view_local then
           d_when (i_value instr \<noteq> None) (z_build_check_coff_byte_view ctx fn (i_value instr))
         else
           d_and (d_when (bc_backend ctx = Z_DIRECT_BACKEND_VOID64 \<and> view_local)
               (d_when (i_value instr \<noteq> None) (z_build_check_void_byte_view ctx fn (i_value instr))))
             (build_check_opt ctx fn (i_value instr) True))"

definition build_check_world_write :: "ZBuildability \<Rightarrow> IrFunction \<Rightarrow> IrInstr \<Rightarrow> dcheck" where
  "build_check_world_write ctx fn instr =
     d_and (d_when (bc_backend ctx = Z_DIRECT_BACKEND_COFF_X64 \<and> i_value instr \<noteq> None) (z_build_check_coff_byte_view ctx fn (i_value instr)))
     (d_and (d_when (bc_backend ctx = Z_DIRECT_BACKEND_VOID64 \<and> i_value instr \<noteq> None) (z_build_check_void_byte_view ctx fn (i_value instr)))
     (d_and (d_when (bc_backend ctx \<noteq> Z_DIRECT_BACKEND_COFF_X64) (build_check_opt ctx fn (i_value instr) False))
       (build_check_opt ctx fn (i_index instr) False)))"

text \<open>The instructions without a nested block.\<close>

definition build_check_simple_instr :: "ZBuildability \<Rightarrow> IrFunction \<Rightarrow> IrInstr \<Rightarrow> dcheck" where
  "build_check_simple_instr ctx fn instr = (case i_kind instr of
       IR_INSTR_LOCAL_SET \<Rightarrow> build_check_local_set ctx fn instr
     | IR_INSTR_WORLD_WRITE \<Rightarrow> build_check_world_write ctx fn instr
     | IR_INSTR_RAISE \<Rightarrow> (if bc_backend ctx = Z_DIRECT_BACKEND_ELF64 then d_true
         else z_build_diag ctx ''direct backend buildability does not support raise instructions for this emitter'' (i_line instr) (i_column instr) (Some ''IR_INSTR_RAISE''))
     | _ \<Rightarrow> d_and (build_check_opt ctx fn (i_value instr) False) (build_check_opt ctx fn (i_index instr) False))"

fun build_check_instr :: "ZBuildability \<Rightarrow> IrFunction \<Rightarrow> IrInstr \<Rightarrow> dcheck"
  and build_check_instrs :: "ZBuildability \<Rightarrow> IrFunction \<Rightarrow> IrInstr list \<Rightarrow> dcheck" where
  "build_check_instr ctx fn (IrInstr fi val ix th el) =
     (if bc_backend ctx = Z_DIRECT_BACKEND_ELF_AARCH64 then d_true
      else if if_kind fi = IR_INSTR_IF \<or> if_kind fi = IR_INSTR_WHILE then
        d_and (build_check_opt ctx fn val False)
        (d_and (build_check_instrs ctx fn th) (build_check_instrs ctx fn el))
      else build_check_simple_instr ctx fn (IrInstr fi val ix th el))"
| "build_check_instrs ctx fn [] = d_true"
| "build_check_instrs ctx fn (i # is) = d_and (build_check_instr ctx fn i) (build_check_instrs ctx fn is)"

section \<open>Functions\<close>

definition build_array_ok :: "ZDirectBackend \<Rightarrow> IrTypeKind \<Rightarrow> bool" where
  "build_array_ok b ty \<longleftrightarrow>
     ty = IR_TYPE_U8 \<or> ty = IR_TYPE_I32 \<or> ty = IR_TYPE_U32 \<or> ty = IR_TYPE_USIZE
     \<or> (b = Z_DIRECT_BACKEND_ELF64 \<and> (ty = IR_TYPE_I64 \<or> ty = IR_TYPE_U64)) \<or> ty = IR_TYPE_F32 \<or> ty = IR_TYPE_F64"

definition build_wide :: "ZDirectBackend \<Rightarrow> bool" where
  "build_wide b \<longleftrightarrow> b = Z_DIRECT_BACKEND_ELF64 \<or> b = Z_DIRECT_BACKEND_VOID64"

definition build_scalar :: "ZDirectBackend \<Rightarrow> IrTypeKind \<Rightarrow> bool" where
  "build_scalar b ty \<longleftrightarrow> (if build_wide b then z_build_is_elf_scalar ty else z_build_is_scalar32 ty)"

definition build_check_local :: "ZBuildability \<Rightarrow> IrLocal \<Rightarrow> dcheck" where
  "build_check_local ctx l =
     (if l_type l = IR_TYPE_BYTE_VIEW \<and> l_is_param l then
        z_build_diag ctx ''direct backend object buildability does not support byte-view parameters'' (l_line l) (l_column l) (l_name l)
      else if l_is_record l \<or> l_type l = IR_TYPE_BYTE_VIEW \<or> l_type l = IR_TYPE_ALLOC \<or> l_type l = IR_TYPE_VEC \<or> l_type l = IR_TYPE_MAYBE_BYTE_VIEW then d_true
      else if bc_backend ctx \<noteq> Z_DIRECT_BACKEND_COFF_X64 \<and> l_type l = IR_TYPE_MAYBE_SCALAR then d_true
      else if l_is_array l then
        (if \<not> build_array_ok (bc_backend ctx) (l_element_type l) then
           z_build_diag ctx ''direct backend object buildability does not support this fixed-array local'' (l_line l) (l_column l) (Some (z_build_type_name (l_element_type l)))
         else d_true)
      else if \<not> build_scalar (bc_backend ctx) (l_type l) then
        z_build_diag ctx ''direct backend object buildability does not support this local type'' (l_line l) (l_column l) (Some (z_build_type_name (l_type l)))
      else d_true)"

primrec build_check_locals :: "ZBuildability \<Rightarrow> IrLocal list \<Rightarrow> dcheck" where
  "build_check_locals ctx [] = d_true"
| "build_check_locals ctx (l # ls) = d_and (build_check_local ctx l) (build_check_locals ctx ls)"

definition build_check_function_shape :: "ZBuildability \<Rightarrow> IrFunction \<Rightarrow> dcheck" where
  "build_check_function_shape ctx fn =
     (if bc_backend ctx \<noteq> Z_DIRECT_BACKEND_ELF_AARCH64 \<and> f_param_count fn > 8 then
        z_build_diag ctx ''direct backend object buildability supports at most eight parameters'' (f_line fn) (f_column fn) (f_name fn)
      else if bc_backend ctx = Z_DIRECT_BACKEND_ELF_AARCH64 then z_build_check_aarch64_literal_shape ctx fn
      else if \<not> (f_return_type fn = IR_TYPE_VOID \<or> build_scalar (bc_backend ctx) (f_return_type fn)) then
        z_build_diag ctx ''direct backend object buildability does not support this return type'' (f_line fn) (f_column fn) (Some (z_build_type_name (f_return_type fn)))
      else build_check_locals ctx (f_locals fn))"

section \<open>The program\<close>

definition exported_main :: "IrFunction \<Rightarrow> bool" where
  "exported_main fn \<longleftrightarrow> f_is_exported fn \<and> f_name fn = Some ''main''"

text \<open>The loop of \<open>build_find_main\<close>, with the main function found so far.\<close>

primrec build_find_main_loop :: "ZBuildability \<Rightarrow> IrFunction option \<Rightarrow> IrFunction list \<Rightarrow> ZDiag option \<Rightarrow> IrFunction option \<times> ZDiag option" where
  "build_find_main_loop ctx main_fun [] diag =
     (if main_fun = None then
        (None, snd (z_build_diag ctx ''direct executable buildability requires an exported main function'' 1 1 (Some ''missing main'') diag))
      else (main_fun, diag))"
| "build_find_main_loop ctx main_fun (fn # fns) diag =
     (if \<not> exported_main fn then build_find_main_loop ctx main_fun fns diag
      else if main_fun \<noteq> None then
        (None, snd (z_build_diag ctx ''direct executable buildability requires exactly one exported main function'' (f_line fn) (f_column fn) (f_name fn) diag))
      else build_find_main_loop ctx (Some fn) fns diag)"

definition build_find_main :: "ZBuildability \<Rightarrow> IrProgram \<Rightarrow> ZDiag option \<Rightarrow> IrFunction option \<times> ZDiag option" where
  "build_find_main ctx ir = build_find_main_loop ctx None (ir_functions ir)"

definition build_check_main :: "ZBuildability \<Rightarrow> IrFunction \<Rightarrow> dcheck" where
  "build_check_main ctx main_fun =
     (let b = bc_backend ctx; fail = (\<lambda>m. z_build_diag ctx m (f_line main_fun) (f_column main_fun))
      in if b = Z_DIRECT_BACKEND_ELF_AARCH64 then d_true
         else if f_param_count main_fun \<noteq> 0 then
           fail (if b = Z_DIRECT_BACKEND_ELF64 then ''direct ELF64 executable main must not take parameters''
                 else if b = Z_DIRECT_BACKEND_COFF_X64 then ''direct COFF x64 executable main must not take parameters''
                 else ''direct AArch64 Mach-O executable main must not take parameters'') (f_name main_fun)
         else if \<not> (if b = Z_DIRECT_BACKEND_ELF64 then z_build_is_scalar32 (f_return_type main_fun)
                     else f_return_type main_fun = IR_TYPE_VOID \<or> z_build_is_scalar32 (f_return_type main_fun)) then
           fail (if b = Z_DIRECT_BACKEND_ELF64 then ''direct ELF64 executable main must return a 32-bit-or-smaller scalar''
                 else if b = Z_DIRECT_BACKEND_COFF_X64 then ''direct COFF x64 executable main must return Void or a 32-bit-or-smaller scalar''
                 else ''direct AArch64 Mach-O executable main must return Void or a 32-bit-or-smaller scalar'')
             (Some (z_build_type_name (f_return_type main_fun)))
         else d_true)"

definition build_check_executable_shape :: "ZBuildability \<Rightarrow> IrProgram \<Rightarrow> dcheck" where
  "build_check_executable_shape ctx ir diag =
     (case build_find_main ctx ir diag of
        (None, diag') \<Rightarrow> (False, diag')
      | (Some main_fun, diag') \<Rightarrow> build_check_main ctx main_fun diag')"

primrec build_check_functions :: "ZBuildability \<Rightarrow> IrFunction list \<Rightarrow> dcheck" where
  "build_check_functions ctx [] = d_true"
| "build_check_functions ctx (fn # fns) =
     d_and (d_when (\<not> (bc_backend ctx = Z_DIRECT_BACKEND_ELF_AARCH64 \<and> \<not> f_is_exported fn))
         (d_and (build_check_function_shape ctx fn) (build_check_instrs ctx fn (f_instrs fn))))
       (build_check_functions ctx fns)"

definition build_check_program :: "ZBuildability \<Rightarrow> IrProgram \<Rightarrow> dcheck" where
  "build_check_program ctx ir =
     (let d = ir_diag ir
      in if \<not> mir_valid d then
           z_build_diag ctx (if mir_message d \<noteq> [] then mir_message d else ''direct backend lowering failed'') (mir_line d) (mir_column d) (Some (mir_actual d))
         else if ir_functions ir = [] then
           z_build_diag ctx ''direct backend buildability requires at least one exported function'' 1 1 (Some ''empty program'')
         else
           d_and (build_check_functions ctx (ir_functions ir))
           (d_and (d_when (\<not> list_ex f_is_exported (ir_functions ir))
               (z_build_diag ctx ''direct backend buildability requires at least one exported function'' 1 1 (Some ''no exported function'')))
             (d_when (bc_emit_kind ctx = Some ''exe'') (build_check_executable_shape ctx ir))))"

definition z_direct_buildability_check :: "IrProgram option \<Rightarrow> ZTargetInfo option \<Rightarrow> string option \<Rightarrow> dcheck" where
  "z_direct_buildability_check ir target emit_kind diag =
     (case z_build_select ir target emit_kind diag of
        (ctx, ok, diag') \<Rightarrow>
          (case ir of None \<Rightarrow> (False, diag') | Some p \<Rightarrow> if ok then build_check_program ctx p diag' else (False, diag')))"

end
