(* ===== verification/BuildLaws.thy ===== *)
theory BuildLaws
  imports Buildability
begin

text \<open>
  What every check of the buildability pass obeys: its verdict does not depend on the caller's diagnostic, an
  accepting check leaves that alone, and a rejecting one has filled it in.
\<close>

named_theorems settled_intros \<open>checks with a settled verdict\<close>
named_theorems ok_simps \<open>when a check accepts\<close>

section \<open>Settled checks\<close>

definition build_rejected :: "ZBuildability \<Rightarrow> ZDiag \<Rightarrow> bool" where
  "build_rejected ctx e \<longleftrightarrow> d_code e = 2004 \<and> 0 < d_line e \<and> 0 < d_column e \<and> d_length e = 1
     \<and> length (d_message e) < 256 \<and> d_actual e \<noteq> [] \<and> length (d_actual e) < 128
     \<and> d_expected e = snprintf 128 (str_or (bc_expected ctx) ''direct backend buildability subset'')
     \<and> bb_present (d_backend_blocker e) \<and> bb_stage (d_backend_blocker e) = ''buildability''
     \<and> bb_backend (d_backend_blocker e) = snprintf 64 (str_or (bc_backend_name ctx) ''unknown'')
     \<and> bb_unsupported_feature (d_backend_blocker e) = d_actual e"

definition settled :: "ZBuildability \<Rightarrow> dcheck \<Rightarrow> bool" where
  "settled ctx c \<longleftrightarrow> (\<forall>diag. c diag = (True, diag))
     \<or> (\<exists>e. build_rejected ctx e \<and> (\<forall>diag. c diag = (False, map_option (\<lambda>_. e) diag)))"

definition passes :: "dcheck \<Rightarrow> bool" where
  "passes c \<longleftrightarrow> (\<forall>diag. c diag = (True, diag))"

lemma passesD: "passes c \<Longrightarrow> c diag = (True, diag)"
  unfolding passes_def by blast

lemma diag_of_rejected: "build_rejected ctx (build_diag_of ctx m l k a)"
  by (cases a; simp add: build_rejected_def build_diag_of_def Let_def z_diag_set_backend_blocker_def z_backend_blocker_set_def
      snprintf_def take_eq_Nil min_def split: list.split)

lemma settled_fail [settled_intros]: "settled ctx (z_build_diag ctx m l k a)"
  unfolding settled_def z_build_diag_def using diag_of_rejected by blast

lemma settled_true [settled_intros]: "settled ctx d_true"
  by (simp add: settled_def d_true_def)

lemma settled_and [settled_intros]: "settled ctx a \<Longrightarrow> settled ctx b \<Longrightarrow> settled ctx (d_and a b)"
  unfolding settled_def d_and_def by fastforce

lemma settled_when [settled_intros]: "settled ctx a \<Longrightarrow> settled ctx (d_when c a)"
  by (simp add: d_when_def settled_true)

lemma settled_if [settled_intros]: "(c \<Longrightarrow> settled ctx a) \<Longrightarrow> (\<not> c \<Longrightarrow> settled ctx b) \<Longrightarrow> settled ctx (if c then a else b)"
  by simp

lemma settled_option [settled_intros]:
  "settled ctx a \<Longrightarrow> (\<And>x. settled ctx (b x)) \<Longrightarrow> settled ctx (case o1 of None \<Rightarrow> a | Some x \<Rightarrow> b x)"
  by (cases o1) auto

lemma settledI: "(\<And>diag. fst (c diag) \<Longrightarrow> passes c) \<Longrightarrow>
    (\<And>diag. \<not> fst (c diag) \<Longrightarrow> \<exists>e. build_rejected ctx e \<and> (\<forall>diag. c diag = (False, map_option (\<lambda>_. e) diag))) \<Longrightarrow> settled ctx c"
  unfolding settled_def passes_def by blast

section \<open>Acceptance\<close>

lemma passes_true [ok_simps]: "passes d_true"
  by (simp add: passes_def d_true_def)

lemma passes_fail [ok_simps]: "\<not> passes (z_build_diag ctx m l k a)"
  by (simp add: passes_def z_build_diag_def)

lemma passes_and [ok_simps]: "passes (d_and a b) \<longleftrightarrow> passes a \<and> passes b" if "settled ctx a"
  using that unfolding settled_def passes_def d_and_def by fastforce

lemma passes_when [ok_simps]: "passes (d_when c a) \<longleftrightarrow> (c \<longrightarrow> passes a)"
  by (simp add: d_when_def ok_simps)

lemma passes_if [ok_simps]: "passes (if c then a else b) \<longleftrightarrow> (if c then passes a else passes b)"
  by simp

lemma d_and_true: "d_and d_true b = b"
  by (intro ext) (simp add: d_and_def d_true_def)

lemma settled_fst: "settled ctx c \<Longrightarrow> fst (c diag) \<longleftrightarrow> passes c"
  unfolding settled_def passes_def by fastforce

section \<open>The checks are settled\<close>

lemma s_coff_ptr [settled_intros]: "settled ctx (build_check_coff_byte_view_ptr ctx fn v)"
  by (induction ctx fn v rule: build_check_coff_byte_view_ptr.induct) (auto simp: Let_def intro!: settled_intros)

lemma s_void_ptr [settled_intros]: "settled ctx (build_check_void_byte_view_ptr ctx fn v)"
  by (induction ctx fn v rule: build_check_void_byte_view_ptr.induct) (auto simp: Let_def intro!: settled_intros)

lemma s_coff_len [settled_intros]: "settled ctx (z_build_check_coff_byte_view_len ctx fn v)"
  unfolding z_build_check_coff_byte_view_len_def Let_def by (intro settled_intros)

lemma s_slice_len [settled_intros]: "settled ctx c \<Longrightarrow> settled ctx (build_check_void_slice_len ctx v c)"
  unfolding build_check_void_slice_len_def Let_def by (intro settled_intros)

lemma s_void_len [settled_intros]: "settled ctx (z_build_check_void_byte_view_len ctx fn v)"
  unfolding z_build_check_void_byte_view_len_def Let_def by (intro settled_intros)

lemma s_views [settled_intros]: "settled ctx (z_build_check_coff_byte_view ctx fn v)" "settled ctx (z_build_check_void_byte_view ctx fn v)"
  unfolding z_build_check_coff_byte_view_def z_build_check_void_byte_view_def by (intro settled_intros)+

lemma s_shape [settled_intros]: "settled ctx (z_build_check_aarch64_literal_shape ctx fn)"
  unfolding z_build_check_aarch64_literal_shape_def by (intro settled_intros)

lemma s_node_parts [settled_intros]: "settled ctx (build_check_coff_views ctx fn w)" "settled ctx (build_check_void_views ctx fn w)"
  "settled ctx (build_check_binary ctx w s)" "settled ctx (build_check_call ctx w s)"
  unfolding build_check_coff_views_def build_check_void_views_def build_check_binary_def build_check_call_def Let_def
  by (intro settled_intros)+

lemma s_node [settled_intros]: "settled ctx (build_check_node ctx fn w b s)"
  unfolding build_check_node_def by (intro settled_intros)

lemma s_value [settled_intros]: "settled ctx (build_check_value ctx fn v b s)"
  and s_args [settled_intros]: "settled ctx (build_check_args ctx fn args s)"
  by (induction ctx fn v b s and ctx fn args s rule: build_check_value_build_check_args.induct)
    (simp_all only: build_check_value.simps build_check_args.simps Let_def d_when_def, (intro settled_intros; simp)+)

lemma s_opt [settled_intros]: "settled ctx (build_check_opt ctx fn v b)"
  unfolding build_check_opt_def by (intro settled_intros)

lemma s_simple [settled_intros]: "settled ctx (build_check_local_set ctx fn i)" "settled ctx (build_check_world_write ctx fn i)"
  unfolding build_check_local_set_def build_check_world_write_def Let_def by (intro settled_intros)+

lemma s_simple_instr [settled_intros]: "settled ctx (build_check_simple_instr ctx fn i)"
  unfolding build_check_simple_instr_def by (cases "i_kind i"; simp only: IrInstrKind.case; intro settled_intros)

lemma s_instr [settled_intros]: "settled ctx (build_check_instr ctx fn i)"
  and s_instrs [settled_intros]: "settled ctx (build_check_instrs ctx fn is)"
  by (induction ctx fn i and ctx fn "is" rule: build_check_instr_build_check_instrs.induct)
    (simp_all only: build_check_instr.simps build_check_instrs.simps, (intro settled_intros; simp add: settled_intros)+)

lemma s_local [settled_intros]: "settled ctx (build_check_local ctx l)" "settled ctx (build_check_locals ctx ls)"
  subgoal unfolding build_check_local_def by (intro settled_intros)
  subgoal by (induction ls) (simp_all add: build_check_local_def settled_intros)
  done

lemma s_function [settled_intros]: "settled ctx (build_check_function_shape ctx fn)"
  unfolding build_check_function_shape_def by (intro settled_intros)

lemma s_functions [settled_intros]: "settled ctx (build_check_functions ctx fns)"
  by (induction fns) (simp_all add: settled_intros)

lemma s_main [settled_intros]: "settled ctx (build_check_main ctx fn)"
  unfolding build_check_main_def Let_def by (intro settled_intros)

lemma find_main_settled:
  "(\<exists>fn. \<forall>diag. build_find_main_loop ctx acc fns diag = (Some fn, diag))
     \<or> (\<exists>e. build_rejected ctx e \<and> (\<forall>diag. build_find_main_loop ctx acc fns diag = (None, map_option (\<lambda>_. e) diag)))"
proof (induction fns arbitrary: acc)
  case Nil
  show ?case by (cases acc) (auto simp: z_build_diag_def intro!: exI conjI diag_of_rejected)
next
  case (Cons fn fns)
  show ?case
  proof (cases "exported_main fn \<and> acc \<noteq> None")
    case True
    then show ?thesis by (auto simp: z_build_diag_def intro!: exI conjI diag_of_rejected)
  next
    case False
    then have "build_find_main_loop ctx acc (fn # fns) = build_find_main_loop ctx (if exported_main fn then Some fn else acc) fns"
      by (intro ext) simp
    then show ?thesis using Cons by simp
  qed
qed

lemma s_executable [settled_intros]: "settled ctx (build_check_executable_shape ctx ir)"
  using find_main_settled [of ctx None "ir_functions ir"] s_main
  unfolding settled_def build_check_executable_shape_def build_find_main_def by fastforce

lemma s_program [settled_intros]: "settled ctx (build_check_program ctx ir)"
  unfolding build_check_program_def Let_def by (intro settled_intros)

lemma buildability_settled:
  "settled (build_context target (emit_kind = Some ''exe'')) (z_direct_buildability_check ir target emit_kind)"
proof -
  let ?ctx = "build_context target (emit_kind = Some ''exe'')"
  have eq: "z_direct_buildability_check ir target emit_kind =
      (if ir = None then z_build_diag ?ctx ''direct backend buildability requires MIR'' 1 1 (Some ''missing MIR'')
       else if bc_backend ?ctx = Z_DIRECT_BACKEND_NONE then
          z_build_diag ?ctx ''direct backend does not support this target and artifact kind'' 1 1
              (Some (case target of None \<Rightarrow> ''unknown target'' | Some t \<Rightarrow> str_or (t_name t) ''unknown target''))
       else build_check_program ?ctx (the ir))"
    by (intro ext) (auto simp: z_direct_buildability_check_def z_build_select_def Let_def z_build_diag_def d_true_def split: option.split)
  show ?thesis unfolding eq by (intro settled_intros)
qed

lemma buildability_passes:
  "passes (z_direct_buildability_check ir target emit_kind) \<longleftrightarrow>
     (\<exists>p. ir = Some p \<and> bc_backend (build_context target (emit_kind = Some ''exe'')) \<noteq> Z_DIRECT_BACKEND_NONE
        \<and> passes (build_check_program (build_context target (emit_kind = Some ''exe'')) p))"
  by (cases ir) (auto simp: passes_def z_direct_buildability_check_def z_build_select_def Let_def z_build_diag_def d_true_def)

section \<open>What acceptance means\<close>

lemma passes_node:
  "passes (build_check_node ctx fn w b s) \<longleftrightarrow> build_value_supported ctx w b
     \<and> (bc_backend ctx = Z_DIRECT_BACKEND_COFF_X64 \<longrightarrow> passes (build_check_coff_views ctx fn w))
     \<and> (bc_backend ctx = Z_DIRECT_BACKEND_VOID64 \<longrightarrow> passes (build_check_void_views ctx fn w))
     \<and> (v_kind w = IR_VALUE_BINARY \<longrightarrow> passes (build_check_binary ctx w s))
     \<and> (bc_backend ctx = Z_DIRECT_BACKEND_VOID64 \<and> v_kind w = IR_VALUE_COMPARE \<longrightarrow> s < BUILD_VOID_SCRATCH_SLOT_COUNT)
     \<and> (v_kind w = IR_VALUE_CALL \<longrightarrow> passes (build_check_call ctx w s))
     \<and> \<not> (v_kind w = IR_VALUE_LOCAL \<and> v_local w < length (f_locals fn) \<and> l_is_array (f_locals fn ! v_local w))"
proof -
  note a = passes_and [of ctx] settled_intros
  show ?thesis
    unfolding build_check_node_def passes_if
    by (simp only: a passes_when passes_fail) (auto simp: a)
qed

lemma passes_binary:
  "passes (build_check_binary ctx w s) \<longleftrightarrow> build_op_supported (bc_backend ctx) (vf_binary_op (v_fields w))
     \<and> (build_spills (bc_backend ctx) (vf_binary_op (v_fields w)) \<longrightarrow> s < BUILD_VOID_SCRATCH_SLOT_COUNT)"
  by (auto simp add: build_check_binary_def Let_def ok_simps)

lemma passes_call:
  "passes (build_check_call ctx w s) \<longleftrightarrow>
     (bc_backend ctx \<noteq> Z_DIRECT_BACKEND_ELF_AARCH64 \<longrightarrow> length (v_args w) \<le> build_max_args (bc_backend ctx))
     \<and> (bc_backend ctx = Z_DIRECT_BACKEND_VOID64 \<longrightarrow> s + length (v_args w) < BUILD_VOID_SCRATCH_SLOT_COUNT)"
  by (auto simp add: build_check_call_def ok_simps)

lemma passes_value:
  "passes (build_check_value ctx fn (Some (IrValue vf args ix lf rt)) b s) \<longleftrightarrow>
     (let w = IrValue vf args ix lf rt
      in passes (build_check_node ctx fn w b s)
        \<and> (ix \<noteq> None \<longrightarrow> passes (build_check_value ctx fn ix False s))
        \<and> (lf \<noteq> None \<and> \<not> build_skip_left (bc_backend ctx) (vf_kind vf) \<longrightarrow> passes (build_check_value ctx fn lf False s))
        \<and> (rt \<noteq> None \<longrightarrow> passes (build_check_value ctx fn rt False (build_right_slot ctx w s)))
        \<and> passes (build_check_args ctx fn args (build_arg_slot ctx w s)))"
  using passes_and [of ctx] by (simp add: Let_def settled_intros passes_when)

lemma passes_no_value [ok_simps]: "\<not> passes (build_check_value ctx fn None b s)"
  by (simp add: passes_fail)

lemma passes_args:
  "passes (build_check_args ctx fn args s) \<longleftrightarrow> (\<forall>a\<in>set args. passes (build_check_value ctx fn a False s))"
  using passes_and [of ctx] by (induction args) (simp_all add: settled_intros passes_true)

lemma passes_instrs:
  "passes (build_check_instrs ctx fn is) \<longleftrightarrow> (\<forall>i\<in>set is. passes (build_check_instr ctx fn i))"
  using passes_and [of ctx] by (induction "is") (simp_all add: settled_intros passes_true)

lemma passes_functions:
  "passes (build_check_functions ctx fns) \<longleftrightarrow>
     (\<forall>fn\<in>set fns. bc_backend ctx = Z_DIRECT_BACKEND_ELF_AARCH64 \<and> \<not> f_is_exported fn
        \<or> passes (build_check_function_shape ctx fn) \<and> passes (build_check_instrs ctx fn (f_instrs fn)))"
  using passes_and [of ctx] by (induction fns) (auto simp: settled_intros passes_true passes_when)

lemma passes_program:
  "passes (build_check_program ctx ir) \<longleftrightarrow> mir_valid (ir_diag ir) \<and> ir_functions ir \<noteq> []
     \<and> passes (build_check_functions ctx (ir_functions ir)) \<and> list_ex f_is_exported (ir_functions ir)
     \<and> (bc_emit_kind ctx = Some ''exe'' \<longrightarrow> passes (build_check_executable_shape ctx ir))"
  using passes_and [of ctx] by (simp add: build_check_program_def Let_def passes_if passes_fail settled_intros passes_when)

declare build_check_value.simps [simp del] build_check_args.simps [simp del] build_check_instrs.simps [simp del]

end
