(* ===== verification/ElfAarch64.thy ===== *)
theory ElfAarch64
  imports Aarch64 ElfFormat Buildability
begin

text \<open>
  The AArch64 ELF emitter, \<open>native/zerox-c/src/emit_elf_aarch64.c\<close>: functions that return a small literal become
  \<open>mov w0, #literal; ret\<close>, in an object with a symbol per exported function or in an executable whose entry
  calls \<open>main\<close> and exits with its result. An emitter takes the caller's output buffer and diagnostic and
  returns its verdict with both; \<open>None\<close> is the exit of the allocator, or the \<open>strcmp\<close> of a missing name.
\<close>

section \<open>Diagnostics and literals\<close>

definition a64_diag :: "string \<Rightarrow> int \<Rightarrow> int \<Rightarrow> string option \<Rightarrow> ZDiag option \<Rightarrow> ZDiag option" where
  "a64_diag message line column actual diag =
     map_option (\<lambda>d. d\<lparr>d_code := 4004, d_line := (if line > 0 then line else 1), d_column := (if column > 0 then column else 1),
       d_length := 1, d_message := snprintf 256 message, d_expected := ''direct AArch64 ELF object MVP subset'',
       d_actual := snprintf 128 (str_or actual ''unsupported construct''),
       d_help := snprintf 256 ''choose a supported direct target or restrict this program to exported no-parameter functions returning small integer literals''\<rparr>) diag"

text \<open>The literal, or \<open>None\<close> and the diagnostic.\<close>

definition a64_return_literal :: "IrFunction \<Rightarrow> ZDiag option \<Rightarrow> u32 option \<times> ZDiag option" where
  "a64_return_literal fn diag =
     (let fail = (\<lambda>m. (None, a64_diag m (f_line fn) (f_column fn) (f_name fn) diag))
      in if f_param_count fn \<noteq> 0 then fail ''direct AArch64 ELF object backend currently supports exported functions without parameters''
         else if \<not> build_aarch64_return_type_ok (f_return_type fn) then
           fail ''direct AArch64 ELF object backend currently supports primitive 32-bit-or-smaller integer returns''
         else if f_return_type fn = IR_TYPE_VOID then
           (if f_instrs fn = [] \<or> returns_nothing (f_instrs fn) then (Some 0, diag)
            else fail ''direct AArch64 ELF object backend currently supports only empty Void functions or small integer literal returns'')
         else (case returns_literal (f_instrs fn) of
             Some literal \<Rightarrow> (Some (of_nat literal), diag)
           | None \<Rightarrow> fail ''direct AArch64 ELF object backend currently requires a small integer literal return''))"

text \<open>The exported functions are asked for their names, which must be there.\<close>

fun a64_find_main_loop :: "(IrFunction \<times> nat) option \<Rightarrow> nat \<Rightarrow> IrFunction list \<Rightarrow> ZDiag option \<Rightarrow> (nat option \<times> ZDiag option) option" where
  "a64_find_main_loop found i [] diag =
     Some (case found of
       None \<Rightarrow> (None, a64_diag ''direct AArch64 ELF executable backend requires an exported main function'' 1 1 (Some ''missing main'') diag)
     | Some (fn, index) \<Rightarrow> (Some index, diag))"
| "a64_find_main_loop found i (fn # fns) diag =
     (if \<not> f_is_exported fn then a64_find_main_loop found (i + 1) fns diag
      else case f_name fn of None \<Rightarrow> None
      | Some name \<Rightarrow>
         if name \<noteq> ''main'' then a64_find_main_loop found (i + 1) fns diag
         else if found \<noteq> None then
           Some (None, a64_diag ''direct AArch64 ELF executable backend requires exactly one exported main function''
             (f_line fn) (f_column fn) (f_name fn) diag)
         else a64_find_main_loop (Some (fn, to_u32 i)) (i + 1) fns diag)"

definition a64_find_main :: "IrProgram \<Rightarrow> ZDiag option \<Rightarrow> (nat option \<times> ZDiag option) option" where
  "a64_find_main ir = a64_find_main_loop None 0 (ir_functions ir)"

definition a64_mir_diag :: "IrProgram \<Rightarrow> ZDiag option \<Rightarrow> ZDiag option" where
  "a64_mir_diag ir diag =
     (let d = ir_diag ir
      in map_option (\<lambda>e. z_diag_set_backend_blocker e (mir_blocker d))
           (a64_diag (if mir_message d \<noteq> [] then mir_message d else ''direct backend lowering failed'') (mir_line d) (mir_column d)
             (Some (mir_actual d)) diag))"

section \<open>Code\<close>

text \<open>
  The loop over the functions that both emitters have: the code of the exported ones, aligned to four bytes,
  with the offset and the size of each. \<open>Inl\<close> is the early return with the diagnostic.
\<close>

definition a64_emit_function :: "IrFunction \<Rightarrow> ZBuf \<Rightarrow> ZDiag option \<Rightarrow> (ZDiag option + ZBuf \<times> nat \<times> nat) option" where
  "a64_emit_function fn code diag =
     (case a64_return_literal fn diag of
        (None, diag) \<Rightarrow> Some (Inl diag)
      | (Some literal, diag) \<Rightarrow>
         do { code \<leftarrow> z_aarch64_pad_to code (z_aarch64_align (length (zdata code)) 4);
              let offset = length (zdata code);
              code \<leftarrow> z_aarch64_emit_literal_return code literal;
              Some (Inr (code, offset, length (zdata code) - offset)) })"

record a64_symbol =
  as_name :: nat
  as_offset :: nat
  as_size :: nat

definition no_symbol :: a64_symbol where
  "no_symbol = \<lparr>as_name = 0, as_offset = 0, as_size = 0\<rparr>"

fun a64_object_functions :: "IrFunction list \<Rightarrow> ZBuf \<Rightarrow> ZBuf \<Rightarrow> ZDiag option \<Rightarrow> (ZDiag option + ZBuf \<times> ZBuf \<times> a64_symbol list) option" where
  "a64_object_functions [] code strtab diag = Some (Inr (code, strtab, []))"
| "a64_object_functions (fn # fns) code strtab diag =
     (if \<not> f_is_exported fn then
        do { r \<leftarrow> a64_object_functions fns code strtab diag;
             Some (map_sum (\<lambda>d. d) (\<lambda>(code, strtab, syms). (code, strtab, no_symbol # syms)) r) }
      else
        do { r \<leftarrow> a64_emit_function fn code diag;
             (case r of Inl diag \<Rightarrow> Some (Inl diag)
              | Inr (code, offset, len) \<Rightarrow>
                 do { let name = to_u32 (length (zdata strtab));
                      strtab \<leftarrow> zbuf_append strtab (str_or (f_name fn) ''zerox_fn'');
                      strtab \<leftarrow> z_elf_append_u8 strtab 0;
                      r \<leftarrow> a64_object_functions fns code strtab diag;
                      Some (map_sum (\<lambda>d. d) (\<lambda>(code, strtab, syms). (code, strtab, \<lparr>as_name = name, as_offset = offset, as_size = len\<rparr> # syms)) r) }) })"

fun a64_append_symbols :: "ZBuf \<Rightarrow> (IrFunction \<times> a64_symbol) list \<Rightarrow> ZBuf option" where
  "a64_append_symbols symtab [] = Some symtab"
| "a64_append_symbols symtab ((fn, s) # rest) =
     do { symtab \<leftarrow> (if as_size s > 0 then
              z_elf_append_symbol symtab (of_nat (as_name s)) (if f_is_exported fn then 0x12 else 0x02) 1 (of_nat (as_offset s)) (of_nat (as_size s))
            else Some symtab);
          a64_append_symbols symtab rest }"

section \<open>The emitters\<close>

definition z_emit_elf_aarch64_object_from_ir ::
  "IrProgram option \<Rightarrow> ZBuf \<Rightarrow> ZDiag option \<Rightarrow> (bool \<times> ZBuf \<times> ZDiag option) option" where
  "z_emit_elf_aarch64_object_from_ir prog out diag =
     (case prog of
        None \<Rightarrow> Some (False, out, a64_diag ''direct AArch64 ELF object backend requires MIR'' 1 1 (Some ''missing MIR'') diag)
      | Some ir \<Rightarrow>
        if \<not> mir_valid (ir_diag ir) then Some (False, out, a64_mir_diag ir diag)
        else
          do { strtab \<leftarrow> z_elf_append_u8 zbuf_init 0;
               symtab \<leftarrow> z_elf_append_zeros zbuf_init 24;
               r \<leftarrow> a64_object_functions (ir_functions ir) zbuf_init strtab diag;
               (case r of Inl diag \<Rightarrow> Some (False, out, diag)
                | Inr (code, strtab, syms) \<Rightarrow>
                   if \<not> list_ex f_is_exported (ir_functions ir) then
                     Some (False, out, a64_diag ''direct AArch64 ELF object backend requires at least one exported function'' 1 1
                       (Some ''no exported function'') diag)
                   else
                     do { symtab \<leftarrow> a64_append_symbols symtab (zip (ir_functions ir) syms);
                          out \<leftarrow> z_elf_write_object64 (Some \<lparr>oi_machine = Z_ELF_MACHINE_AARCH64, oi_text = Some code, oi_text_align = 4,
                            oi_rodata = None, oi_rodata_align = 0, oi_rela_text = None, oi_symtab = Some symtab, oi_strtab = Some strtab,
                            oi_local_symbol_count = 1\<rparr>);
                          Some (True, out, diag) }) })"

fun a64_exe_functions :: "IrFunction list \<Rightarrow> ZBuf \<Rightarrow> ZDiag option \<Rightarrow> (ZDiag option + ZBuf \<times> nat list) option" where
  "a64_exe_functions [] code diag = Some (Inr (code, []))"
| "a64_exe_functions (fn # fns) code diag =
     (if \<not> f_is_exported fn then
        do { r \<leftarrow> a64_exe_functions fns code diag;
             Some (map_sum (\<lambda>d. d) (\<lambda>(code, offsets). (code, 0 # offsets)) r) }
      else
        do { r \<leftarrow> a64_emit_function fn code diag;
             (case r of Inl diag \<Rightarrow> Some (Inl diag)
              | Inr (code, offset, len) \<Rightarrow>
                 do { r \<leftarrow> a64_exe_functions fns code diag;
                      Some (map_sum (\<lambda>d. d) (\<lambda>(code, offsets). (code, offset # offsets)) r) }) })"

definition a64_exe_image :: "ZBuf \<Rightarrow> ZElfExecutableImage" where
  "a64_exe_image code = \<lparr>ei_machine = Z_ELF_MACHINE_AARCH64, ei_base_addr = 0x400000, ei_entry_addr = 0x400000 + (64 + 56),
     ei_text_offset = 64 + 56, ei_text = Some code, ei_rodata = None, ei_rodata_offset = 0, ei_segment_align = 0x1000\<rparr>"

definition z_emit_elf_aarch64_exe_from_ir ::
  "IrProgram option \<Rightarrow> ZBuf \<Rightarrow> ZDiag option \<Rightarrow> (bool \<times> ZBuf \<times> ZDiag option) option" where
  "z_emit_elf_aarch64_exe_from_ir prog out diag =
     (case prog of
        None \<Rightarrow> Some (False, out, a64_diag ''direct AArch64 ELF executable backend requires MIR'' 1 1 (Some ''missing MIR'') diag)
      | Some ir \<Rightarrow>
        if \<not> mir_valid (ir_diag ir) then Some (False, out, a64_mir_diag ir diag)
        else
          do { (main, diag) \<leftarrow> a64_find_main ir diag;
               (case main of None \<Rightarrow> Some (False, out, diag)
                | Some main_index \<Rightarrow>
                   do { (code, start_call_patch) \<leftarrow> z_aarch64_emit_bl_placeholder zbuf_init;
                        code \<leftarrow> z_aarch64_emit_movz_x code 8 93;
                        code \<leftarrow> z_aarch64_emit_svc code 0;
                        code \<leftarrow> z_aarch64_pad_to code (z_aarch64_align (length (zdata code)) 16);
                        r \<leftarrow> a64_exe_functions (ir_functions ir) code diag;
                        (case r of Inl diag \<Rightarrow> Some (False, out, diag)
                         | Inr (code, offsets) \<Rightarrow>
                            do { code \<leftarrow> z_aarch64_patch_branch26 code start_call_patch (offsets ! main_index);
                                 out \<leftarrow> z_elf_write_executable64 (a64_exe_image code);
                                 Some (True, out, diag) }) }) })"

end
