(* ===== verification/A64Machine.thy ===== *)
theory A64Machine
  imports A64Props ElfProps
begin

text \<open>
  A processor for the A64 instructions the literal-returning programs consist of, on the memory a loader
  makes of an ELF executable: moves, calls, returns and the \<open>exit\<close> system call of Linux.
\<close>

section \<open>Memory\<close>

text \<open>The bytes of the one loadable segment at their addresses.\<close>

definition elf_memory :: "u8 list \<Rightarrow> nat \<Rightarrow> u8 option" where
  "elf_memory bs addr =
     (let ph = unat (read64 bs 32); off = unat (read64 bs (ph + 8)); va = unat (read64 bs (ph + 16));
          mem = take (unat (read64 bs (ph + 32))) (drop off bs)
      in if va \<le> addr \<and> addr - va < length mem then Some (mem ! (addr - va)) else None)"

definition fetch :: "(nat \<Rightarrow> u8 option) \<Rightarrow> nat \<Rightarrow> u32 option" where
  "fetch mem addr =
     do { b0 \<leftarrow> mem addr; b1 \<leftarrow> mem (addr + 1); b2 \<leftarrow> mem (addr + 2); b3 \<leftarrow> mem (addr + 3);
          Some (read32 [b0, b1, b2, b3] 0) }"

lemma loaded_memory:
  assumes "elf_loaded bs addr xs" "i < length xs"
  shows "elf_memory bs (addr + i) = Some (xs ! i)"
proof -
  from assms(1) obtain va mem where m: "va = unat (read64 bs (unat (read64 bs 32) + 16))"
    "mem = take (unat (read64 bs (unat (read64 bs 32) + 32))) (drop (unat (read64 bs (unat (read64 bs 32) + 8))) bs)"
    "va \<le> addr" "placed mem (addr - va) xs"
    by (auto simp: elf_loaded_def Let_def)
  have "addr + i - va = addr - va + i" using m(3) by simp
  moreover have "addr - va + i < length mem" using m(4) assms(2) by (simp add: placed_def)
  moreover have "mem ! (addr - va + i) = xs ! i" by (rule placed_nth [OF m(4) assms(2)])
  ultimately show ?thesis using m(3) unfolding elf_memory_def Let_def m(1,2) [symmetric] by simp
qed

lemma loaded_word:
  assumes "elf_loaded bs addr xs" "off + 4 \<le> length xs"
  shows "fetch (elf_memory bs) (addr + off) = Some (read32 xs off)"
proof -
  have m: "elf_memory bs (addr + off + j) = Some (xs ! (off + j))" if "j < 4" for j
    using loaded_memory [OF assms(1), of "off + j"] assms(2) that by (simp add: add.assoc)
  show ?thesis using m [of 0] m [of 1] m [of 2] m [of 3] by (simp add: fetch_def read32_def)
qed

section \<open>Steps\<close>

text \<open>System call 93 ends the process with the status in register 0.\<close>

datatype (plugins only: size) a64_next = Next u64 "u32 \<Rightarrow> u64" | Exit u64 | Stuck

definition a64_exec :: "a64 \<Rightarrow> u64 \<Rightarrow> (u32 \<Rightarrow> u64) \<Rightarrow> a64_next" where
  "a64_exec i pc regs =
     (case i of
        BL imm \<Rightarrow> Next (word_of_int (branch_target 26 (unat pc) imm)) (regs(30 := pc + 4))
      | RET rn \<Rightarrow> Next (regs rn) regs
      | SVC n \<Rightarrow> if n = 0 \<and> regs 8 = 93 then Exit (regs 0) else Stuck
      | _ \<Rightarrow> (case mov_step i regs of None \<Rightarrow> Stuck | Some regs' \<Rightarrow> Next (pc + 4) regs'))"

definition a64_step :: "(nat \<Rightarrow> u8 option) \<Rightarrow> u64 \<Rightarrow> (u32 \<Rightarrow> u64) \<Rightarrow> a64_next" where
  "a64_step mem pc regs =
     (case fetch mem (unat pc) of None \<Rightarrow> Stuck
      | Some w \<Rightarrow> (case decode_a64 w of None \<Rightarrow> Stuck | Some i \<Rightarrow> a64_exec i pc regs))"

fun a64_run :: "nat \<Rightarrow> (nat \<Rightarrow> u8 option) \<Rightarrow> u64 \<Rightarrow> (u32 \<Rightarrow> u64) \<Rightarrow> a64_next" where
  "a64_run 0 mem pc regs = Next pc regs"
| "a64_run (Suc n) mem pc regs =
     (case a64_step mem pc regs of Next pc' regs' \<Rightarrow> a64_run n mem pc' regs' | r \<Rightarrow> r)"

lemma run_next: "a64_step mem pc regs = Next pc' regs' \<Longrightarrow> a64_run (Suc n) mem pc regs = a64_run n mem pc' regs'"
  by simp

lemma run_exit: "a64_step mem pc regs = Exit s \<Longrightarrow> a64_run (Suc n) mem pc regs = Exit s"
  by simp

end
