(* ===== verification/ElfAarch64Props.thy ===== *)
theory ElfAarch64Props
  imports ElfAarch64 A64Machine BuildLaws MirSample
begin

text \<open>
  What the AArch64 ELF emitter makes of the functions that return a literal: their code, where the loop over the
  functions puts it, and the main function it finds.
\<close>

section \<open>The code of a function\<close>

definition function_literal :: "IrFunction \<Rightarrow> nat" where
  "function_literal fn = (if f_return_type fn = IR_TYPE_VOID then 0 else the (returns_literal (f_instrs fn)))"

definition lit_code :: "nat \<Rightarrow> u8 list" where
  "lit_code lit = le32 (0x52800000 OR push_bit 5 (of_nat lit AND 0xffff) OR (0 AND 31)) @ le32 0xd65f03c0"

definition fn_code :: "IrFunction \<Rightarrow> u8 list" where
  "fn_code fn = (if f_is_exported fn then lit_code (function_literal fn) else [])"

definition literal_function :: "IrFunction \<Rightarrow> bool" where
  "literal_function fn \<longleftrightarrow> function_literal fn \<le> 65535
     \<and> (\<forall>diag. a64_return_literal fn diag = (Some (of_nat (function_literal fn)), diag))"

lemma shape_literal:
  assumes "passes (z_build_check_aarch64_literal_shape ctx fn)"
  shows "literal_function fn"
proof -
  have "returns_literal (f_instrs fn) = Some n \<Longrightarrow> n \<le> 65535" for n
    by (auto simp: returns_literal_def split: list.splits option.splits if_splits)
  with assms show ?thesis
    by (auto simp: z_build_check_aarch64_literal_shape_def ok_simps literal_function_def function_literal_def a64_return_literal_def Let_def
        split: if_splits)
qed

lemma length_lit_code [simp]: "length (lit_code lit) = 8"
  by (simp add: lit_code_def)

lemma length_fn_code: "length (fn_code fn) = (if f_is_exported fn then 8 else 0)"
  by (simp add: fn_code_def)

lemma emits_literal_return:
  assumes "lit \<le> 65535"
  shows "emits (\<lambda>b. z_aarch64_emit_literal_return b (of_nat lit)) (lit_code lit)"
proof -
  have "unat (of_nat lit :: u32) = lit" using assms by (simp add: unat_of_nat)
  then have n: "\<not> (of_nat lit :: u32) > 0xffff" using assms by (simp add: word_less_nat_alt)
  have w: "movz_w_words 0 (of_nat lit) = [0x52800000 OR push_bit 5 (of_nat lit AND 0xffff) OR (0 AND 31)]"
    unfolding movz_w_words_def if_not_P [OF n] ..
  have r: "emits (\<lambda>b. z_aarch64_emit_ret b) (le32 0xd65f03c0)"
    unfolding z_aarch64_emit_ret_def by (rule a64_append_u32)
  show ?thesis
    unfolding z_aarch64_emit_literal_return_def lit_code_def
    by (rule emits_bind [OF _ r]) (use emits_movz_w [of 0 "of_nat lit"] in \<open>simp only: w list.map concat.simps append_Nil2\<close>)
qed

lemma a64_pad: "emits_from n (\<lambda>b. z_aarch64_pad_to b off) (replicate (off - n) 0)"
proof -
  have e: "emits (fold_emit (\<lambda>b (_::nat). z_aarch64_append_u8 b 0) ks) (concat (map (\<lambda>_. [ucast (0::u32)]) ks))" for ks
    by (rule emits_fold) (rule a64_sink.put8_emits)
  have "concat (map (\<lambda>_. [ucast (0::u32)]) ks) = replicate (length ks) (0::u8)" for ks :: "nat list"
    by (induction ks) simp_all
  from e [of "[n..<off]", unfolded this length_upt]
  have "emits (fold_emit (\<lambda>b (_::nat). z_aarch64_append_u8 b 0) [n..<off]) (replicate (off - n) 0)" .
  then show ?thesis unfolding z_aarch64_pad_to_def
    by (rule emits_from_length [where f = "\<lambda>n. fold_emit (\<lambda>b (_::nat). z_aarch64_append_u8 b 0) [n..<off]", OF emits_from])
qed

lemma a64_align4: "4 dvd n \<Longrightarrow> z_aarch64_align n 4 = n"
  by (simp add: z_aarch64_align_def Let_def dvd_eq_mod_eq_0)

lemma emit_function:
  assumes "literal_function fn" "zbuf_ok code" "4 dvd length (zdata code)" "length (zdata code) + 8 < SIZE_MAX"
  obtains code' where "a64_emit_function fn code diag = Some (Inr (code', length (zdata code), 8))" "zbuf_ok code'"
    "zdata code' = zdata code @ lit_code (function_literal fn)"
proof -
  have l: "a64_return_literal fn diag = (Some (of_nat (function_literal fn)), diag)" "function_literal fn \<le> 65535"
    using assms(1) by (auto simp: literal_function_def)
  have "emits_from (length (zdata code)) (\<lambda>b. z_aarch64_pad_to b (length (zdata code))) []"
    using a64_pad [of "length (zdata code)" "length (zdata code)"] by simp
  from emits_from_room [OF this assms(2)]
  obtain c1 where c1: "z_aarch64_pad_to code (length (zdata code)) = Some c1" "zbuf_ok c1" "zdata c1 = zdata code" by auto
  have "length (zdata c1) + length (lit_code (function_literal fn)) < SIZE_MAX" using assms(4) c1 by simp
  from emits_room [OF emits_literal_return [OF l(2)] c1(2) this]
  obtain c2 where c2: "z_aarch64_emit_literal_return c1 (of_nat (function_literal fn)) = Some c2" "zbuf_ok c2"
    "zdata c2 = zdata c1 @ lit_code (function_literal fn)" by blast
  show ?thesis by (rule that [of c2]) (use l c1 c2 assms(3) in \<open>simp_all add: a64_emit_function_def a64_align4\<close>)
qed

section \<open>The loop over the functions\<close>

definition code_before :: "IrFunction list \<Rightarrow> nat \<Rightarrow> nat" where
  "code_before fns i = length (concat (map fn_code (take i fns)))"

lemma code_before_Suc: "code_before (fn # fns) (Suc i) = length (fn_code fn) + code_before fns i"
  by (simp add: code_before_def)

lemma code_before_bounds: "4 dvd code_before fns i" "code_before fns i \<le> 8 * length fns"
proof -
  have "4 dvd length (concat (map fn_code xs)) \<and> length (concat (map fn_code xs)) \<le> 8 * length xs" for xs
    by (induction xs) (auto simp: length_fn_code)
  from this [of "take i fns"] show "4 dvd code_before fns i" "code_before fns i \<le> 8 * length fns"
    unfolding code_before_def by (auto simp: min_def split: if_splits)
qed

lemma code_placed: "i < length fns \<Longrightarrow> placed (concat (map fn_code fns)) (code_before fns i) (fn_code (fns ! i))"
proof (induction fns arbitrary: i)
  case (Cons fn fns)
  show ?case
  proof (cases i)
    case 0
    then show ?thesis by (simp add: code_before_def placed_def)
  next
    case (Suc j)
    then have "placed (concat (map fn_code fns)) (code_before fns j) (fn_code (fns ! j))" using Cons by simp
    then show ?thesis unfolding Suc code_before_Suc by (auto simp: placed_def)
  qed
qed simp

lemma exe_functions:
  assumes "\<forall>fn\<in>set fns. f_is_exported fn \<longrightarrow> literal_function fn" "zbuf_ok code" "4 dvd length (zdata code)"
    "length (zdata code) + 8 * length fns < SIZE_MAX"
  shows "\<exists>code' offs. a64_exe_functions fns code diag = Some (Inr (code', offs)) \<and> zbuf_ok code'
    \<and> zdata code' = zdata code @ concat (map fn_code fns) \<and> length offs = length fns
    \<and> (\<forall>i<length fns. f_is_exported (fns ! i) \<longrightarrow> offs ! i = length (zdata code) + code_before fns i)"
  using assms
proof (induction fns arbitrary: code)
  case Nil
  then show ?case by simp
next
  case (Cons fn fns)
  show ?case
  proof (cases "f_is_exported fn")
    case False
    have l: "length (zdata code) + 8 * length fns < SIZE_MAX" using Cons(5) by simp
    obtain code' offs where r: "a64_exe_functions fns code diag = Some (Inr (code', offs))" "zbuf_ok code'"
      "zdata code' = zdata code @ concat (map fn_code fns)" "length offs = length fns"
      "\<forall>i<length fns. f_is_exported (fns ! i) \<longrightarrow> offs ! i = length (zdata code) + code_before fns i"
      using Cons(1) [OF _ Cons(3,4) l] Cons(2) by auto
    have "\<forall>i<length (fn # fns). f_is_exported ((fn # fns) ! i) \<longrightarrow> (0 # offs) ! i = length (zdata code) + code_before (fn # fns) i"
      using False r(5) by (auto simp: less_Suc_eq_0_disj code_before_Suc fn_code_def)
    moreover have "fn_code fn = []" using False by (simp add: fn_code_def)
    ultimately show ?thesis using r False by simp
  next
    case True
    have lit: "literal_function fn" and room: "length (zdata code) + 8 < SIZE_MAX" using Cons(2,5) True by auto
    from emit_function [OF lit Cons(3,4) room]
    obtain c1 where c1: "a64_emit_function fn code diag = Some (Inr (c1, length (zdata code), 8))" "zbuf_ok c1"
      "zdata c1 = zdata code @ lit_code (function_literal fn)" by metis
    have "4 dvd length (zdata c1)" "length (zdata c1) + 8 * length fns < SIZE_MAX" using c1 Cons(4,5) by auto
    from Cons(1) [OF _ c1(2) this] Cons(2)
    obtain code' offs where r: "a64_exe_functions fns c1 diag = Some (Inr (code', offs))" "zbuf_ok code'"
      "zdata code' = zdata c1 @ concat (map fn_code fns)" "length offs = length fns"
      "\<forall>i<length fns. f_is_exported (fns ! i) \<longrightarrow> offs ! i = length (zdata c1) + code_before fns i" by auto
    have "\<forall>i<length (fn # fns). f_is_exported ((fn # fns) ! i) \<longrightarrow>
        (length (zdata code) # offs) ! i = length (zdata code) + code_before (fn # fns) i"
      using True r(5) c1(3) by (auto simp: less_Suc_eq_0_disj code_before_Suc code_before_def length_fn_code)
    moreover have "fn_code fn = lit_code (function_literal fn)" using True by (simp add: fn_code_def)
    ultimately show ?thesis using r c1 True by simp
  qed
qed

section \<open>The main function\<close>

lemma find_main:
  assumes "build_find_main_loop ctx (map_option fst found) fns d = (Some m, d')"
    and "\<forall>fn\<in>set fns. f_is_exported fn \<longrightarrow> f_name fn \<noteq> None" "i + length fns < 4294967296"
  shows "\<exists>k. a64_find_main_loop found i fns diag = Some (Some k, diag) \<and> 
     ((\<exists>fn. found = Some (fn, k) \<and> m = fn) \<or> (found = None \<and> (\<exists>j<length fns. k = i + j \<and> fns ! j = m \<and> exported_main m)))"
  using assms
proof (induction fns arbitrary: found i)
  case Nil
  then show ?case by (cases found) auto
next
  case (Cons fn fns)
  note names = Cons(3)
  show ?case
  proof (cases "exported_main fn")
    case False
    have "a64_find_main_loop found i (fn # fns) diag = a64_find_main_loop found (i + 1) fns diag"
      using False names by (auto simp: exported_main_def)
    moreover have "build_find_main_loop ctx (map_option fst found) fns d = (Some m, d')"
      using Cons(2) False by simp
    note IH = Cons(1) [OF this, of "i + 1"]
    moreover have "\<forall>fn\<in>set fns. f_is_exported fn \<longrightarrow> f_name fn \<noteq> None" "i + 1 + length fns < 4294967296"
      using names Cons(4) by auto
    ultimately obtain k where "a64_find_main_loop found i (fn # fns) diag = Some (Some k, diag)"
      "(\<exists>fn. found = Some (fn, k) \<and> m = fn) \<or> (found = None \<and> (\<exists>j<length fns. k = i + 1 + j \<and> fns ! j = m \<and> exported_main m))"
      by auto
    then show ?thesis by (intro exI [of _ k]) (auto intro: exI [of _ "Suc _"])
  next
    case True
    have f: "found = None" using Cons(2) True by (cases found) auto
    have "a64_find_main_loop found i (fn # fns) diag = a64_find_main_loop (Some (fn, i)) (i + 1) fns diag"
      using True f Cons(4) by (auto simp: exported_main_def)
    moreover have "build_find_main_loop ctx (map_option fst (Some (fn, i))) fns d = (Some m, d')"
      using Cons(2) True f by simp
    note IH = Cons(1) [OF this, of "i + 1"]
    moreover have "\<forall>fn\<in>set fns. f_is_exported fn \<longrightarrow> f_name fn \<noteq> None" "i + 1 + length fns < 4294967296"
      using names Cons(4) by auto
    ultimately have "a64_find_main_loop found i (fn # fns) diag = Some (Some i, diag)" "m = fn" by auto
    with f True show ?thesis by auto
  qed
qed

end
