(* ===== verification/ElfAarch64Run.thy ===== *)
theory ElfAarch64Run
  imports ElfAarch64Props
begin

text \<open>
  From a program the buildability check accepts to the exit status of the process: the executable of the AArch64
  ELF emitter, loaded and run.
\<close>

section \<open>The entry\<close>

definition start_code :: "u8 list" where
  "start_code = le32 (0xd2800000 OR push_bit 5 (93 AND 0xffff) OR (8 AND 31)) @ le32 0xd4000001 @ [0, 0, 0, 0]"

lemma length_start_code [simp]: "length start_code = 12"
  by (simp add: start_code_def)

lemma entry_code:
  obtains code where "(do { (code, patch) \<leftarrow> z_aarch64_emit_bl_placeholder zbuf_init;
      code \<leftarrow> z_aarch64_emit_movz_x code 8 93; code \<leftarrow> z_aarch64_emit_svc code 0;
      code \<leftarrow> z_aarch64_pad_to code (z_aarch64_align (length (zdata code)) 16); Some (code, patch) }) = Some (code, 0)"
    "zbuf_ok code" "zdata code = le32 0x94000000 @ start_code"
proof -
  have e: "\<exists>b'. f b = Some b' \<and> zbuf_ok b' \<and> zdata b' = zdata b @ xs"
    if "emits f xs" "zbuf_ok b" "length (zdata b) + length xs < 100" for f xs b
  proof -
    have "length (zdata b) + length xs < SIZE_MAX" using that(3) by (simp add: SIZE_MAX_def)
    from emits_room [OF that(1,2) this] show ?thesis by blast
  qed
  obtain c1 where c1: "z_aarch64_append_u32 zbuf_init 0x94000000 = Some c1" "zbuf_ok c1" "zdata c1 = le32 0x94000000"
    using e [OF a64_append_u32 zbuf_ok_init, of "0x94000000"] by auto
  have w: "movz_x_words 8 93 = [0xd2800000 OR push_bit 5 (93 AND 0xffff) OR (8 AND 31)]"
    by (simp add: movz_x_words_def del: push_bit_and)
  have "length (zdata c1) + length (le32 (0xd2800000 OR push_bit 5 (93 AND 0xffff) OR (8 AND 31))) < 100" using c1(3) by simp
  from e [OF emits_movz_x [of 8 93, unfolded w list.map concat.simps append_Nil2] c1(2) this]
  obtain c2 where c2: "z_aarch64_emit_movz_x c1 8 93 = Some c2" "zbuf_ok c2"
    "zdata c2 = zdata c1 @ le32 (0xd2800000 OR push_bit 5 (93 AND 0xffff) OR (8 AND 31))" by blast
  have svc: "emits (\<lambda>b. z_aarch64_emit_svc b 0) (le32 0xd4000001)"
    unfolding z_aarch64_emit_svc_def using a64_append_u32 [of "0xd4000001"] by simp
  have "length (zdata c2) + length (le32 0xd4000001) < 100" using c1(3) c2(3) by simp
  from e [OF svc c2(2) this]
  obtain c3 where c3: "z_aarch64_emit_svc c2 0 = Some c3" "zbuf_ok c3" "zdata c3 = zdata c2 @ le32 0xd4000001" by blast
  have l: "length (zdata c3) = 12" using c1 c2 c3 by simp
  have al: "z_aarch64_align 12 16 = 16" by (simp add: z_aarch64_align_def Let_def)
  have rep: "replicate (16 - 12) (0::u8) = [0, 0, 0, 0]" by (simp add: numeral_eq_Suc)
  have "replicate (16 - 12) (0::u8) = [] \<or> 12 + length (replicate (16 - 12) (0::u8)) \<le> SIZE_MAX - 1" by (simp add: SIZE_MAX_def)
  from emits_from_room [OF a64_pad [of 12 16] c3(2) l this]
  obtain c4 where c4: "z_aarch64_pad_to c3 16 = Some c4" "zbuf_ok c4" "zdata c4 = zdata c3 @ [0, 0, 0, 0]"
    unfolding rep by blast
  show ?thesis
    by (rule that [OF _ c4(2)])
      (use c1 c2 c3 c4 l al in \<open>simp_all add: z_aarch64_emit_bl_placeholder_def Let_def start_code_def\<close>)
qed

text \<open>The finished code: the call at its start reaches \<open>target\<close>.\<close>

lemma patched_call:
  assumes code: "zdata code = le32 0x94000000 @ rest" and t: "4 dvd target" "target < 134217728"
  obtains code' imm where "z_aarch64_patch_branch26 code 0 target = Some code'" "length (zdata code') = length (zdata code)"
    "\<And>j. 4 \<le> j \<Longrightarrow> zdata code' ! j = zdata code ! j" "branch_target 26 0 imm = int target"
    "decode_a64 (read32 (zdata code') 0) = Some (BL imm)"
proof -
  have w: "word_at code 0 = Some 0x94000000"
    using code by (simp add: word_at_def)
  have d: "decode_a64 0x94000000 = Some (BL 0)" by (simp add: decode_simps)
  have m: "(int target - int 0) mod 4 = 0" using t(1) by presburger
  obtain code' w' imm where p: "patch_for (BL 0) code 0 target = Some code'" "word_at code' 0 = Some w'"
    "decode_a64 w' = Some (with_offset (BL 0) imm)" "branch_target (offset_bits (BL 0)) 0 imm = int target"
    "\<forall>j. j < 0 \<or> 0 + 4 \<le> j \<longrightarrow> zdata code' ! j = zdata code ! j"
    using patch_branch_lands [OF w d _ m] t(2) by auto
  have p1: "z_aarch64_patch_branch26 code 0 target = Some code'" using p(1) by (simp add: patch_for_def)
  then obtain v where "z_aarch64_patch_u32 code 0 v = Some code'"
    using w by (auto simp: z_aarch64_patch_branch26_def Let_def)
  then have "length (zdata code') = length (zdata code)" by (rule patch_u32_Some(2))
  then show ?thesis
    by (rule that [OF p1]) (use p in \<open>auto simp: word_at_def split: if_splits\<close>)
qed

section \<open>Running the executable\<close>

lemma mov_literal:
  assumes "lit \<le> 65535"
  shows "a64_exec (MOVZ False 0 (of_nat lit AND 0xffff) 0) pc regs = Next (pc + 4) (regs(0 := of_nat lit))"
proof -
  have "unat (of_nat lit :: u32) = lit" using assms by (simp add: unat_of_nat)
  then have n: "\<not> (of_nat lit :: u32) > 0xffff" using assms by (simp add: word_less_nat_alt)
  have "unat (ucast (of_nat lit :: u32) :: u64) = unat (of_nat lit :: u64)"
    using assms by (simp add: unsigned_ucast_eq unat_of_nat take_bit_nat_eq_self)
  then have u: "ucast (of_nat lit :: u32) = (of_nat lit :: u64)" by (rule word_unat_eq_iff [THEN iffD2])
  have "set_field 0 0 (of_nat lit AND 0xffff) = of_nat lit"
    using mov_w_value_eq [of "of_nat lit"] n u by (simp add: mov_w_value_def Let_def)
  then show ?thesis by (simp add: a64_exec_def)
qed

lemma step_at:
  assumes "elf_loaded bs (unat base) xs" "unat base + length xs < 18446744073709551616" "off + 4 \<le> length xs"
    and "decode_a64 (read32 xs off) = Some i"
  shows "a64_step (elf_memory bs) (base + of_nat off) regs = a64_exec i (base + of_nat off) regs"
proof -
  have "unat (base + of_nat off) = unat base + off"
    using assms(2,3) by (simp add: unat_word_ariths unat_of_nat)
  then show ?thesis using loaded_word [OF assms(1,3)] assms(4) by (simp add: a64_step_def)
qed

lemma accepted_literals:
  assumes "z_direct_buildability_check (Some ir) target emit_kind d = (True, d')"
    and "bc_backend (build_context target (emit_kind = Some ''exe'')) = Z_DIRECT_BACKEND_ELF_AARCH64"
  shows "mir_valid (ir_diag ir)" "\<forall>fn\<in>set (ir_functions ir). f_is_exported fn \<longrightarrow> literal_function fn"
    "list_ex f_is_exported (ir_functions ir)"
    "emit_kind = Some ''exe'' \<longrightarrow> passes (build_check_executable_shape (build_context target True) ir)"
proof -
  have p: "passes (z_direct_buildability_check (Some ir) target emit_kind)"
    using settled_fst [OF buildability_settled, of "Some ir" target emit_kind d] assms(1) by simp
  then show "mir_valid (ir_diag ir)" "list_ex f_is_exported (ir_functions ir)" by (auto simp: buildability_passes passes_program)
  show "\<forall>fn\<in>set (ir_functions ir). f_is_exported fn \<longrightarrow> literal_function fn"
    using p assms(2) shape_literal
    by (auto simp: buildability_passes passes_program passes_functions build_check_function_shape_def passes_if split: if_splits)
  show "emit_kind = Some ''exe'' \<longrightarrow> passes (build_check_executable_shape (build_context target True) ir)"
    using p by (auto simp: buildability_passes passes_program build_context_def Let_def)
qed

lemma lit_code_words:
  assumes "placed bs off (lit_code lit)" "lit \<le> 65535"
  shows "decode_a64 (read32 bs off) = Some (MOVZ False 0 (of_nat lit AND 0xffff) 0)"
    "decode_a64 (read32 bs (off + 4)) = Some (RET 30)"
proof -
  note p = placed_split [OF assms(1) [unfolded lit_code_def]]
  show "decode_a64 (read32 bs off) = Some (MOVZ False 0 (of_nat lit AND 0xffff) 0)"
    using placed_read32 [OF p(1)] decode_movs(1) [of "of_nat lit" 0] by simp
  have "read32 bs (off + 4) = 0xd65f03c0" using placed_read32 [OF p(2)] by simp
  then show "decode_a64 (read32 bs (off + 4)) = Some (RET 30)" by (simp add: decode_simps)
qed

lemma start_code_words:
  assumes "placed bs 4 start_code"
  shows "decode_a64 (read32 bs 4) = Some (MOVZ True 0 93 8)" "decode_a64 (read32 bs 8) = Some (SVC 0)"
proof -
  note p = placed_split [OF assms [unfolded start_code_def]]
  note q = placed_split [OF p(2)]
  show "decode_a64 (read32 bs 4) = Some (MOVZ True 0 93 8)"
    using placed_read32 [OF p(1)] decode_movs(3) [of 93 8] by simp
  have "read32 bs 8 = 0xd4000001" using placed_read32 [OF q(1)] by simp
  then show "decode_a64 (read32 bs 8) = Some (SVC 0)" by (simp add: decode_simps)
qed

text \<open>Five steps of any program with the call at its entry and the code of a literal function at its target.\<close>

lemma run_program:
  assumes ld: "elf_loaded bs (unat base) xs" "unat base + length xs < 9223372036854775808"
    and call: "decode_a64 (read32 xs 0) = Some (BL imm)" "branch_target 26 0 imm = int target"
    and st: "placed xs 4 start_code" and fn: "placed xs target (lit_code lit)" "lit \<le> 65535"
  shows "a64_run 5 (elf_memory bs) base regs = Exit (of_nat lit)"
proof -
  let ?mem = "elf_memory bs"
  have l: "16 \<le> length xs" "target + 8 \<le> length xs" using st fn(1) by (auto simp: placed_def)
  have b: "unat base + length xs < 18446744073709551616" using ld(2) by simp
  note step = step_at [OF ld(1) b]
  have pc: "word_of_int (branch_target 26 (unat base) imm) = base + of_nat target"
    using call(2) by (simp add: branch_target_def)
  let ?r1 = "regs(30 := base + 4)"
  have s1: "a64_step ?mem base regs = Next (base + of_nat target) ?r1"
    using step [of 0 "BL imm" regs] call(1) l by (simp add: a64_exec_def pc)
  have s2: "a64_step ?mem (base + of_nat target) ?r1 = Next (base + of_nat (target + 4)) (?r1(0 := of_nat lit))"
    using step [OF _ lit_code_words(1) [OF fn], of ?r1] l mov_literal [OF fn(2)] by simp
  have s3: "a64_step ?mem (base + of_nat (target + 4)) (?r1(0 := of_nat lit)) = Next (base + 4) (?r1(0 := of_nat lit))"
    using step [OF _ lit_code_words(2) [OF fn], of "?r1(0 := of_nat lit)"] l by (simp add: a64_exec_def)
  have m: "a64_exec (MOVZ True 0 93 8) pc r = Next (pc + 4) (r(8 := 93))" for pc r
    by (simp add: a64_exec_def set_field_def mask_eq_exp_minus_1)
  let ?r4 = "?r1(0 := of_nat lit, 8 := 93)"
  have s4: "a64_step ?mem (base + 4) (?r1(0 := of_nat lit)) = Next (base + 8) ?r4"
    using step [OF _ start_code_words(1) [OF st], of "?r1(0 := of_nat lit)"] l by (simp add: m)
  have s5: "a64_step ?mem (base + 8) ?r4 = Exit (of_nat lit)"
    using step [OF _ start_code_words(2) [OF st], of ?r4] l by (simp add: a64_exec_def)
  have "a64_run (Suc (Suc (Suc (Suc (Suc 0))))) ?mem base regs = Exit (of_nat lit)"
    unfolding run_next [OF s1] run_next [OF s2] run_next [OF s3] run_next [OF s4] by (rule run_exit [OF s5])
  then show ?thesis by (simp add: eval_nat_numeral)
qed

lemma placed_transfer:
  assumes "placed bs off xs" "length bs' = length bs" "\<And>j. n \<le> j \<Longrightarrow> bs' ! j = bs ! j" "n \<le> off"
  shows "placed bs' off xs"
proof -
  have "take (length xs) (drop off bs') = take (length xs) (drop off bs)"
    by (rule nth_equalityI) (use assms in \<open>auto simp: placed_def intro: placed_nth [OF assms(1)]\<close>)
  with assms show ?thesis by (simp add: placed_def)
qed

lemma main_code:
  assumes fns: "\<forall>fn\<in>set (ir_functions ir). f_is_exported fn \<longrightarrow> literal_function fn" "k < length (ir_functions ir)"
    "f_is_exported (ir_functions ir ! k)" "length (ir_functions ir) < 8388608"
    and code: "zbuf_ok code" "zdata code = le32 0x94000000 @ start_code"
  obtains code1 offs code2 imm where "a64_exe_functions (ir_functions ir) code diag = Some (Inr (code1, offs))"
    "z_aarch64_patch_branch26 code1 0 (offs ! k) = Some code2" "decode_a64 (read32 (zdata code2) 0) = Some (BL imm)"
    "branch_target 26 0 imm = int (offs ! k)" "placed (zdata code2) 4 start_code"
    "placed (zdata code2) (offs ! k) (lit_code (function_literal (ir_functions ir ! k)))" "length (zdata code2) < 134217728"
proof -
  let ?fns = "ir_functions ir"
  have "length (zdata code) + 8 * length ?fns < SIZE_MAX" "4 dvd length (zdata code)" using code fns(4) by (simp_all add: SIZE_MAX_def)
  from exe_functions [OF fns(1) code(1) this(2,1), of diag]
  obtain code1 offs where c1: "a64_exe_functions ?fns code diag = Some (Inr (code1, offs))"
    "zdata code1 = zdata code @ concat (map fn_code ?fns)" "\<forall>i<length ?fns. f_is_exported (?fns ! i) \<longrightarrow> offs ! i = 16 + code_before ?fns i"
    using code(2) by auto
  have off: "offs ! k = 16 + code_before ?fns k" using c1(3) fns(2,3) by blast
  have d: "4 dvd offs ! k" "offs ! k < 134217728"
    using off code_before_bounds [of ?fns k] fns(4) by auto
  have len: "length (concat (map fn_code ?fns)) \<le> 8 * length ?fns"
    using code_before_bounds(2) [of ?fns "length ?fns"] by (simp add: code_before_def)
  have z: "zdata code1 = le32 0x94000000 @ start_code @ concat (map fn_code ?fns)" using c1(2) code(2) by simp
  from patched_call [OF z d]
  obtain code2 imm where c2: "z_aarch64_patch_branch26 code1 0 (offs ! k) = Some code2" "length (zdata code2) = length (zdata code1)"
    "\<And>j. 4 \<le> j \<Longrightarrow> zdata code2 ! j = zdata code1 ! j" "branch_target 26 0 imm = int (offs ! k)"
    "decode_a64 (read32 (zdata code2) 0) = Some (BL imm)" by blast
  have s: "placed (zdata code1) 4 start_code" unfolding z by (rule placed_here) simp
  have "placed (concat (map fn_code ?fns)) (code_before ?fns k) (lit_code (function_literal (?fns ! k)))"
    using code_placed [OF fns(2)] fns(3) by (simp add: fn_code_def)
  then have "placed ((le32 0x94000000 @ start_code) @ concat (map fn_code ?fns)) (16 + code_before ?fns k) (lit_code (function_literal (?fns ! k)))"
    by (auto simp: placed_def)
  then have f: "placed (zdata code1) (offs ! k) (lit_code (function_literal (?fns ! k)))" by (simp add: z off)
  show ?thesis
    by (rule that [OF c1(1) c2(1,5,4) placed_transfer [OF s c2(2,3)] placed_transfer [OF f c2(2,3)]])
      (use off c2(2) z len fns(4) in auto)
qed

text \<open>
  C1. From the buildability check to the running process: for a program the check accepts for an executable of the
  AArch64 ELF back end (with named exported functions, fewer than \<open>2 ^ 23\<close> of them, the reach of a call), the
  emitter succeeds and leaves the diagnostic alone. The kernel loads the file it writes, and from the entry
  address in the header the processor needs five steps, whatever the registers hold, to end the process with
  the literal that \<open>main\<close> returns (0 for a \<open>Void\<close> function).
\<close>

theorem aarch64_executable_exits:
  assumes "z_direct_buildability_check (Some ir) target (Some ''exe'') d = (True, d')"
    and "z_direct_exe_backend target = Z_DIRECT_BACKEND_ELF_AARCH64"
    and "\<forall>fn\<in>set (ir_functions ir). f_is_exported fn \<longrightarrow> f_name fn \<noteq> None"
    and "length (ir_functions ir) < 8388608"
  shows "\<exists>main exe. main \<in> set (ir_functions ir) \<and> exported_main main
     \<and> z_emit_elf_aarch64_exe_from_ir (Some ir) out diag = Some (True, exe, diag)
     \<and> a64_run 5 (elf_memory (zdata exe)) (read64 (zdata exe) 24) regs = Exit (of_nat (function_literal main))"
proof -
  have b: "bc_backend (build_context target (Some ''exe'' = Some ''exe'')) = Z_DIRECT_BACKEND_ELF_AARCH64"
    using assms(2) by (simp add: build_context_def Let_def)
  note acc = accepted_literals [OF assms(1) b]
  have "passes (build_check_executable_shape (build_context target True) ir)" using acc(4) by simp
  then obtain m where m: "build_find_main_loop (build_context target True) None (ir_functions ir) None = (Some m, None)"
    using find_main_settled [of "build_context target True" None "ir_functions ir"] passesD [of _ None]
    by (fastforce simp: build_check_executable_shape_def build_find_main_def split: option.splits prod.splits)
  have m': "build_find_main_loop (build_context target True) (map_option fst (None :: (IrFunction \<times> nat) option)) (ir_functions ir) None = (Some m, None)"
    using m by simp
  obtain k where k: "a64_find_main ir diag = Some (Some k, diag)" "k < length (ir_functions ir)" "ir_functions ir ! k = m" "exported_main m"
    using find_main [OF m' assms(3), of 0 diag] assms(4) by (auto simp: a64_find_main_def)
  obtain code where code: "(do { (code, patch) \<leftarrow> z_aarch64_emit_bl_placeholder zbuf_init;
      code \<leftarrow> z_aarch64_emit_movz_x code 8 93; code \<leftarrow> z_aarch64_emit_svc code 0;
      code \<leftarrow> z_aarch64_pad_to code (z_aarch64_align (length (zdata code)) 16); Some (code, patch) }) = Some (code, 0)"
    "zbuf_ok code" "zdata code = le32 0x94000000 @ start_code"
    by (rule entry_code)
  have ex: "f_is_exported (ir_functions ir ! k)" using k by (simp add: exported_main_def)
  obtain code1 offs code2 imm where c: "a64_exe_functions (ir_functions ir) code diag = Some (Inr (code1, offs))"
    "z_aarch64_patch_branch26 code1 0 (offs ! k) = Some code2" "decode_a64 (read32 (zdata code2) 0) = Some (BL imm)"
    "branch_target 26 0 imm = int (offs ! k)" "placed (zdata code2) 4 start_code"
    "placed (zdata code2) (offs ! k) (lit_code (function_literal (ir_functions ir ! k)))" "length (zdata code2) < 134217728"
    by (rule main_code [OF acc(2) k(2) ex assms(4) code(2,3)])
  let ?img = "a64_exe_image code2"
  have img: "image_bytes (Some ?img) ei_text = zdata code2" "image_bytes (Some ?img) ei_rodata = []"
    by (simp_all add: a64_exe_image_def image_bytes_def)
  obtain exe where exe: "z_elf_write_executable64 ?img = Some exe" "elf_loaded (zdata exe) (unat (ei_base_addr ?img) + ei_text_offset ?img) (zdata code2)"
    "read64 (zdata exe) 24 = ei_entry_addr ?img"
    using executable_loads [of ?img] img c(7) by (auto simp: a64_exe_image_def)
  have ld: "elf_loaded (zdata exe) (unat (0x400078 :: u64)) (zdata code2)" "read64 (zdata exe) 24 = 0x400078"
    using exe(2,3) by (simp_all add: a64_exe_image_def)
  have lit: "function_literal m \<le> 65535"
    using acc(2) ex k(2,3) nth_mem [OF k(2)] by (auto simp: literal_function_def)
  have run: "a64_run 5 (elf_memory (zdata exe)) 0x400078 regs = Exit (of_nat (function_literal m))"
    by (rule run_program [OF ld(1) _ c(3,4,5) _ lit]) (use c(6,7) k(3) in simp_all)
  have "z_emit_elf_aarch64_exe_from_ir (Some ir) out diag = Some (True, exe, diag)"
    using acc(1) k(1) code(1) c(1,2) exe(1)
    by (auto simp: z_emit_elf_aarch64_exe_from_ir_def bind_eq_Some_conv split: prod.splits)
  then show ?thesis using run ld(2) k nth_mem [OF k(2)] by auto
qed

definition linux_arm :: ZTargetInfo where
  "linux_arm = \<lparr>t_name = Some ''aarch64-linux'', t_aliases = None, t_os = Some ''linux'', t_arch = Some ''aarch64'', t_abi = Some ''gnu'',
     t_libc = None, t_libc_mode = None, t_exe_suffix = None, t_zig_target = None, t_object_format = Some ''elf'', t_linker = None,
     t_capabilities = None\<rparr>"

definition arm_main :: IrFunction where
  "arm_main = (sample_function [mk_instr IR_INSTR_RETURN 0 (Some v_num) None [] []])\<lparr>f_name := Some ''main'', f_param_count := 0\<rparr>"

definition arm_program :: IrProgram where
  "arm_program = (sample_program [])\<lparr>ir_functions := [sample_function []\<lparr>f_is_exported := False\<rparr>, arm_main]\<rparr>"

lemma linux_arm_backend: "z_direct_exe_backend (Some linux_arm) = Z_DIRECT_BACKEND_ELF_AARCH64"
  "z_direct_object_backend (Some linux_arm) = Z_DIRECT_BACKEND_ELF_AARCH64"
  by (simp_all add: z_direct_exe_backend_def z_direct_object_backend_def direct_backend_for_target_def direct_backend_rules_def
      rule_matches_def mk_rule_def target_field_matches_def linux_arm_def)

lemma arm_main_literal: "function_literal arm_main = 1" "exported_main arm_main" "f_return_type arm_main = IR_TYPE_U32"
  "returns_literal (f_instrs arm_main) = Some 1" "f_param_count arm_main = 0"
  by (simp_all add: function_literal_def arm_main_def sample_function_def returns_literal_def mk_instr_def v_num_def v_leaf_def mk_fields_def
      exported_main_def)

lemma arm_program_accepted:
  "passes (z_direct_buildability_check (Some arm_program) (Some linux_arm) (Some ''exe''))"
proof -
  let ?ctx = "build_context (Some linux_arm) True"
  have b: "bc_backend ?ctx = Z_DIRECT_BACKEND_ELF_AARCH64" by (simp add: build_context_def Let_def linux_arm_backend)
  have e: "\<not> exported_main (sample_function []\<lparr>f_is_exported := False\<rparr>)" by (simp add: exported_main_def)
  have shape: "passes (build_check_function_shape ?ctx arm_main)"
    by (simp add: build_check_function_shape_def b z_build_check_aarch64_literal_shape_def arm_main_literal build_aarch64_return_type_ok_def
        passes_true)
  have body: "passes (build_check_instrs ?ctx arm_main (f_instrs arm_main))"
    by (simp add: passes_instrs arm_main_def sample_function_def mk_instr_def b passes_true d_and_true)
  have ex: "passes (build_check_executable_shape ?ctx arm_program)"
    by (simp add: passes_def build_check_executable_shape_def build_find_main_def arm_program_def e arm_main_literal build_check_main_def b
        d_true_def)
  have "f_is_exported arm_main" by (simp add: arm_main_def sample_function_def)
  with shape body ex show ?thesis
    by (simp add: buildability_passes passes_program passes_functions b arm_program_def sample_program_def)
qed

lemma aarch64_executable_exits_witness:
  "\<exists>exe. z_emit_elf_aarch64_exe_from_ir (Some arm_program) zbuf_init None = Some (True, exe, None)
     \<and> a64_run 5 (elf_memory (zdata exe)) (read64 (zdata exe) 24) (\<lambda>_. 0) = Exit 1"
proof -
  have m: "main = arm_main" if "main \<in> set (ir_functions arm_program)" "exported_main main" for main
    using that by (auto simp: arm_program_def exported_main_def)
  have n: "\<forall>fn\<in>set (ir_functions arm_program). f_is_exported fn \<longrightarrow> f_name fn \<noteq> None"
    by (auto simp: arm_program_def arm_main_def)
  have "length (ir_functions arm_program) < 8388608" by (simp add: arm_program_def)
  from aarch64_executable_exits [OF passesD [OF arm_program_accepted, of None] linux_arm_backend(1) n this, of zbuf_init None "\<lambda>_. 0"]
  show ?thesis using m arm_main_literal(1) by fastforce
qed

end
