(* ===== verification/Elf64Storage.thy ===== *)
theory Elf64Storage
  imports X64 MirTypes
begin

text \<open>
  How the ELF64 emitter \<open>native/zerox-c/src/emit_elf64.c\<close> reaches the storage of locals: the type
  classes, the displacements below \<open>rbp\<close>, and the instructions that load and store scalar locals, record
  fields and the 8-byte slots of views. \<open>local\<close> pointers that may be NULL are options.
\<close>

section \<open>Type classes\<close>

definition elf_type_is_float :: "IrTypeKind \<Rightarrow> bool" where
  "elf_type_is_float ty \<longleftrightarrow> ty = IR_TYPE_F32 \<or> ty = IR_TYPE_F64"

definition elf_type_is_f64 :: "IrTypeKind \<Rightarrow> bool" where
  "elf_type_is_f64 ty \<longleftrightarrow> ty = IR_TYPE_F64"

definition elf_type_is_scalar :: "IrTypeKind \<Rightarrow> bool" where
  "elf_type_is_scalar ty \<longleftrightarrow>
     ty = IR_TYPE_BOOL \<or> ty = IR_TYPE_U8 \<or> ty = IR_TYPE_U16 \<or> ty = IR_TYPE_USIZE \<or> ty = IR_TYPE_I32 \<or> ty = IR_TYPE_U32
     \<or> elf_type_is_float ty"

definition elf_type_is_i64 :: "IrTypeKind \<Rightarrow> bool" where
  "elf_type_is_i64 ty \<longleftrightarrow> ty = IR_TYPE_I64 \<or> ty = IR_TYPE_U64"

definition elf_type_is_supported_scalar :: "IrTypeKind \<Rightarrow> bool" where
  "elf_type_is_supported_scalar ty \<longleftrightarrow> elf_type_is_scalar ty \<or> elf_type_is_i64 ty"

section \<open>Locals\<close>

definition elf_local_offset :: "IrFunction \<Rightarrow> nat \<Rightarrow> nat" where
  "elf_local_offset fn local_index =
     (if local_index < length (f_locals fn) \<and> 0 < l_frame_offset (f_locals fn ! local_index)
      then l_frame_offset (f_locals fn ! local_index)
      else to_u32 ((local_index + 1) * 8))"

definition elf_local_is :: "(IrTypeKind \<Rightarrow> bool) \<Rightarrow> IrFunction \<Rightarrow> nat \<Rightarrow> bool" where
  "elf_local_is c fn local_index \<longleftrightarrow> local_index < length (f_locals fn) \<and> c (l_type (f_locals fn ! local_index))"

definition elf_emit_load_local_rax :: "ZBuf \<Rightarrow> IrFunction \<Rightarrow> nat \<Rightarrow> ZBuf option" where
  "elf_emit_load_local_rax code fn local_index =
     (let wide = elf_local_is elf_type_is_i64 fn local_index
      in z_x64_emit_rbp_disp_reg code 0x8b 0 (of_nat (elf_local_offset fn local_index)) wide)"

definition elf_emit_store_local_from_reg :: "ZBuf \<Rightarrow> IrFunction \<Rightarrow> nat \<Rightarrow> u32 \<Rightarrow> ZBuf option" where
  "elf_emit_store_local_from_reg code fn local_index reg =
     (let wide = elf_local_is elf_type_is_i64 fn local_index
      in z_x64_emit_rbp_disp_reg code 0x89 reg (of_nat (elf_local_offset fn local_index)) wide)"

definition elf_emit_load_local_xmm :: "ZBuf \<Rightarrow> IrFunction \<Rightarrow> nat \<Rightarrow> ZBuf option" where
  "elf_emit_load_local_xmm code fn local_index =
     (let is_f64 = elf_local_is elf_type_is_f64 fn local_index;
          disp = of_nat (elf_local_offset fn local_index)
      in if is_f64 then z_x64_emit_movsd_xmm_ptr_rbp_disp code 0 disp else z_x64_emit_movss_xmm_ptr_rbp_disp code 0 disp)"

definition elf_emit_store_local_from_xmm :: "ZBuf \<Rightarrow> IrFunction \<Rightarrow> nat \<Rightarrow> u32 \<Rightarrow> ZBuf option" where
  "elf_emit_store_local_from_xmm code fn local_index xmm_reg =
     (let is_f64 = elf_local_is elf_type_is_f64 fn local_index;
          disp = of_nat (elf_local_offset fn local_index)
      in if is_f64 then z_x64_emit_movsd_ptr_rbp_disp_xmm code xmm_reg disp else z_x64_emit_movss_ptr_rbp_disp_xmm code xmm_reg disp)"

text \<open>The load and the store of a scalar local, as \<open>IR_VALUE_LOCAL\<close> and \<open>elf_emit_local_set_instr\<close> choose them.\<close>

definition elf_emit_load_scalar_local :: "ZBuf \<Rightarrow> IrFunction \<Rightarrow> nat \<Rightarrow> ZBuf option" where
  "elf_emit_load_scalar_local code fn local_index =
     (if elf_local_is elf_type_is_float fn local_index then elf_emit_load_local_xmm code fn local_index
      else elf_emit_load_local_rax code fn local_index)"

definition elf_emit_store_scalar_local :: "ZBuf \<Rightarrow> IrFunction \<Rightarrow> nat \<Rightarrow> ZBuf option" where
  "elf_emit_store_scalar_local code fn local_index =
     (if elf_local_is elf_type_is_float fn local_index then elf_emit_store_local_from_xmm code fn local_index 0
      else elf_emit_store_local_from_reg code fn local_index 0)"

section \<open>Fields\<close>

definition elf_record_field_disp :: "IrLocal option \<Rightarrow> nat \<Rightarrow> nat" where
  "elf_record_field_disp l field_offset = (case l of None \<Rightarrow> 0
     | Some l \<Rightarrow> if l_frame_offset l < field_offset then l_frame_offset l else l_frame_offset l - field_offset)"

definition elf_emit_load_field_rax :: "ZBuf \<Rightarrow> IrLocal option \<Rightarrow> nat \<Rightarrow> IrTypeKind \<Rightarrow> ZBuf option" where
  "elf_emit_load_field_rax code l field_offset ty =
     (let disp = of_nat (elf_record_field_disp l field_offset)
      in if ty = IR_TYPE_U8 \<or> ty = IR_TYPE_BOOL then
           do { code \<leftarrow> z_x64_append_u8 code 0x0f; z_x64_emit_rbp_disp_reg code 0xb6 0 disp False }
         else if elf_type_is_i64 ty then z_x64_emit_rbp_disp_reg code 0x8b 0 disp True
         else z_x64_emit_rbp_disp_reg code 0x8b 0 disp False)"

definition elf_emit_store_field_from_rax :: "ZBuf \<Rightarrow> IrLocal option \<Rightarrow> nat \<Rightarrow> IrTypeKind \<Rightarrow> ZBuf option" where
  "elf_emit_store_field_from_rax code l field_offset ty =
     (let disp = of_nat (elf_record_field_disp l field_offset)
      in if ty = IR_TYPE_U8 \<or> ty = IR_TYPE_BOOL then z_x64_emit_rbp_disp_reg code 0x88 0 disp False
         else if elf_type_is_i64 ty then z_x64_emit_rbp_disp_reg code 0x89 0 disp True
         else z_x64_emit_rbp_disp_reg code 0x89 0 disp False)"

definition elf_emit_store_field_from_xmm :: "ZBuf \<Rightarrow> IrLocal option \<Rightarrow> nat \<Rightarrow> IrTypeKind \<Rightarrow> ZBuf option" where
  "elf_emit_store_field_from_xmm code l field_offset ty =
     (let disp = of_nat (elf_record_field_disp l field_offset)
      in if elf_type_is_f64 ty then z_x64_emit_movsd_ptr_rbp_disp_xmm code 0 disp
         else z_x64_emit_movss_ptr_rbp_disp_xmm code 0 disp)"

text \<open>
  The last step of \<open>IR_VALUE_FIELD_LOAD\<close> and of \<open>IR_INSTR_FIELD_STORE\<close>, once the value to store is in
  \<open>rax\<close> or \<open>xmm0\<close>.
\<close>

definition elf_emit_load_field :: "ZBuf \<Rightarrow> IrLocal \<Rightarrow> nat \<Rightarrow> IrTypeKind \<Rightarrow> ZBuf option" where
  "elf_emit_load_field code l field_offset ty =
     (if elf_type_is_float ty then
        (let disp = of_nat (elf_record_field_disp (Some l) field_offset)
         in if elf_type_is_f64 ty then z_x64_emit_movsd_xmm_ptr_rbp_disp code 0 disp
            else z_x64_emit_movss_xmm_ptr_rbp_disp code 0 disp)
      else elf_emit_load_field_rax code (Some l) field_offset ty)"

definition elf_emit_store_field :: "ZBuf \<Rightarrow> IrLocal \<Rightarrow> nat \<Rightarrow> IrTypeKind \<Rightarrow> ZBuf option" where
  "elf_emit_store_field code l field_offset ty =
     (if elf_type_is_float ty then elf_emit_store_field_from_xmm code (Some l) field_offset ty
      else elf_emit_store_field_from_rax code (Some l) field_offset ty)"

section \<open>Slots\<close>

definition elf_slot_disp :: "IrLocal option \<Rightarrow> nat \<Rightarrow> nat" where
  "elf_slot_disp l slot_offset = (case l of None \<Rightarrow> 0
     | Some l \<Rightarrow> if slot_offset \<le> l_frame_offset l then l_frame_offset l - slot_offset else 0)"

definition elf_emit_store_local_slot_rax :: "ZBuf \<Rightarrow> IrLocal option \<Rightarrow> nat \<Rightarrow> ZBuf option" where
  "elf_emit_store_local_slot_rax code l slot_offset = z_x64_emit_rbp_disp_reg code 0x89 0 (of_nat (elf_slot_disp l slot_offset)) True"

definition elf_emit_store_local_slot_reg :: "ZBuf \<Rightarrow> IrLocal option \<Rightarrow> nat \<Rightarrow> u32 \<Rightarrow> bool \<Rightarrow> ZBuf option" where
  "elf_emit_store_local_slot_reg code l slot_offset reg wide =
     z_x64_emit_rbp_disp_reg code 0x89 reg (of_nat (elf_slot_disp l slot_offset)) wide"

definition elf_emit_load_local_slot_rax :: "ZBuf \<Rightarrow> IrLocal option \<Rightarrow> nat \<Rightarrow> ZBuf option" where
  "elf_emit_load_local_slot_rax code l slot_offset = z_x64_emit_rbp_disp_reg code 0x8b 0 (of_nat (elf_slot_disp l slot_offset)) True"

definition elf_emit_load_local_slot_reg :: "ZBuf \<Rightarrow> IrLocal option \<Rightarrow> nat \<Rightarrow> u32 \<Rightarrow> bool \<Rightarrow> ZBuf option" where
  "elf_emit_load_local_slot_reg code l slot_offset reg wide =
     z_x64_emit_rbp_disp_reg code 0x8b reg (of_nat (elf_slot_disp l slot_offset)) wide"

end
