(* ===== verification/IrLayout.thy ===== *)
theory IrLayout
  imports MirVerify
begin

text \<open>
  The storage rules of the lowering in \<open>native/zerox-c/src/ir.c\<close>: the kind a source type lowers to,
  sizes and alignments, fixed array types, generic shapes and the layout of their fields. Types are
  still texts here, as in the code; the syntax tree keeps the fields these functions and the frame
  layout read. \<open>unsigned\<close> products are taken modulo \<open>2 ^ 32\<close>, as the code computes them; \<open>size_t\<close> sums are
  \<open>nat\<close>.
\<close>

section \<open>The syntax tree\<close>

record Param =
  p_name :: string
  p_type :: "string option"
  p_line :: int
  p_column :: int

datatype (plugins only: size) StmtKind =
    STMT_LET | STMT_ASSIGN | STMT_DEFER | STMT_CHECK | STMT_RETURN | STMT_EXPR | STMT_IF | STMT_WHILE
  | STMT_FOR | STMT_BREAK | STMT_CONTINUE | STMT_MATCH | STMT_RAISE

record stmt_fields =
  sf_kind :: StmtKind
  sf_name :: string
  sf_type :: "string option"
  sf_resolved_type :: "string option"
  sf_mutable_binding :: bool
  sf_line :: int
  sf_column :: int

datatype (plugins only: size) Stmt =
  Stmt (s_fields: stmt_fields) (s_then: "Stmt list") (s_else: "Stmt list")

record Function =
  fn_name :: string
  fn_return_type :: "string option"
  fn_type_params :: "Param list"
  fn_params :: "Param list"
  fn_is_public :: bool
  fn_raises :: bool
  fn_is_test :: bool
  fn_export_c :: bool
  fn_body :: "Stmt list"
  fn_line :: int
  fn_column :: int

record Shape =
  sh_name :: string
  sh_type_params :: "Param list"
  sh_fields :: "Param list"

record EnumDecl =
  en_name :: string
  en_type :: "string option"
  en_cases :: "Param list"

record Program =
  pg_shapes :: "Shape list"
  pg_enums :: "EnumDecl list"

section \<open>Kinds\<close>

definition ir_type_kind :: "string option \<Rightarrow> IrTypeKind" where
  "ir_type_kind ty = (case ty of None \<Rightarrow> IR_TYPE_UNSUPPORTED
     | Some t \<Rightarrow>
        (if t = ''Void'' then IR_TYPE_VOID
         else if t = ''Bool'' \<or> t = ''bool'' then IR_TYPE_BOOL
         else if t = ''u8'' then IR_TYPE_U8
         else if t = ''u16'' then IR_TYPE_U16
         else if t = ''usize'' then IR_TYPE_USIZE
         else if t = ''i32'' then IR_TYPE_I32
         else if t = ''u32'' then IR_TYPE_U32
         else if t = ''i64'' then IR_TYPE_I64
         else if t = ''u64'' then IR_TYPE_U64
         else if t = ''f32'' then IR_TYPE_F32
         else if t = ''f64'' then IR_TYPE_F64
         else if t = ''Duration'' then IR_TYPE_I64
         else if t = ''RandSource'' then IR_TYPE_U32
         else if t = ''ProcStatus'' then IR_TYPE_I32
         else if t = ''Net'' \<or> t = ''HttpClient'' then IR_TYPE_I32
         else if t = ''HttpResult'' then IR_TYPE_U64
         else if t = ''HttpError'' then IR_TYPE_U32
         else if t = ''HttpHeaderValue'' then IR_TYPE_U64
         else if t = ''Fs'' \<or> t = ''File'' \<or> t = ''owned<File>'' then IR_TYPE_I32
         else if t \<in> {''String'', ''Span<u8>'', ''Span<const u8>'', ''MutSpan<u8>'', ''ByteBuf'', ''owned<ByteBuf>''}
           then IR_TYPE_BYTE_VIEW
         else if t = ''FixedBufAlloc'' then IR_TYPE_ALLOC
         else if t = ''Vec'' then IR_TYPE_VEC
         else if t = ''BufferedReader'' \<or> t = ''BufferedWriter'' then IR_TYPE_BYTE_VIEW
         else if t \<in> {''Maybe<MutSpan<u8>>'', ''Maybe<String>'', ''Maybe<owned<ByteBuf>>''} then IR_TYPE_MAYBE_BYTE_VIEW
         else if t \<in> {''Maybe<JsonDoc>'', ''Maybe<u8>'', ''Maybe<u16>'', ''Maybe<usize>'', ''Maybe<i32>'', ''Maybe<u32>'',
                      ''Maybe<owned<File>>''} then IR_TYPE_MAYBE_SCALAR
         else IR_TYPE_UNSUPPORTED))"

definition ir_type_is_value :: "IrTypeKind \<Rightarrow> bool" where
  "ir_type_is_value ty \<longleftrightarrow>
     ty = IR_TYPE_U8 \<or> ty = IR_TYPE_U16 \<or> ty = IR_TYPE_USIZE \<or> ty = IR_TYPE_I32 \<or> ty = IR_TYPE_U32 \<or> ty = IR_TYPE_I64
     \<or> ty = IR_TYPE_U64 \<or> ty = IR_TYPE_F32 \<or> ty = IR_TYPE_F64"

definition ir_type_is_direct_local :: "IrTypeKind \<Rightarrow> bool" where
  "ir_type_is_direct_local ty \<longleftrightarrow>
     ty = IR_TYPE_BOOL \<or> ir_type_is_value ty \<or> ty = IR_TYPE_BYTE_VIEW \<or> ty = IR_TYPE_ALLOC \<or> ty = IR_TYPE_VEC
     \<or> ty = IR_TYPE_MAYBE_BYTE_VIEW \<or> ty = IR_TYPE_MAYBE_SCALAR"

definition ir_type_is_direct_abi :: "IrTypeKind \<Rightarrow> bool" where
  "ir_type_is_direct_abi ty \<longleftrightarrow> ty = IR_TYPE_BOOL \<or> ir_type_is_value ty"

definition ir_type_is_direct_fallible_value :: "IrTypeKind \<Rightarrow> bool" where
  "ir_type_is_direct_fallible_value ty \<longleftrightarrow>
     ty = IR_TYPE_VOID \<or> ty = IR_TYPE_BOOL \<or> ty = IR_TYPE_U8 \<or> ty = IR_TYPE_U16 \<or> ty = IR_TYPE_USIZE \<or> ty = IR_TYPE_I32
     \<or> ty = IR_TYPE_U32"

definition ir_type_byte_size :: "IrTypeKind \<Rightarrow> nat" where
  "ir_type_byte_size ty = (case ty of
       IR_TYPE_BOOL \<Rightarrow> 1 | IR_TYPE_U8 \<Rightarrow> 1 | IR_TYPE_U16 \<Rightarrow> 2
     | IR_TYPE_I32 \<Rightarrow> 4 | IR_TYPE_USIZE \<Rightarrow> 4 | IR_TYPE_U32 \<Rightarrow> 4 | IR_TYPE_F32 \<Rightarrow> 4
     | IR_TYPE_I64 \<Rightarrow> 8 | IR_TYPE_U64 \<Rightarrow> 8 | IR_TYPE_F64 \<Rightarrow> 8
     | _ \<Rightarrow> 0)"

definition ir_type_alignment :: "IrTypeKind \<Rightarrow> nat" where
  "ir_type_alignment ty = (let size = ir_type_byte_size ty in if 4 \<le> size then 4 else if size \<noteq> 0 then size else 1)"

definition ir_align_to :: "nat \<Rightarrow> nat \<Rightarrow> nat" where
  "ir_align_to value alignment =
     (let remainder = (if alignment \<noteq> 0 then value mod alignment else 0)
      in if remainder = 0 then value else value + (alignment - remainder))"

section \<open>Enums\<close>

definition ir_find_enum :: "Program option \<Rightarrow> string option \<Rightarrow> EnumDecl option" where
  "ir_find_enum program name = (case (program, name) of
       (Some p, Some n) \<Rightarrow> find (\<lambda>e. en_name e = n) (pg_enums p)
     | _ \<Rightarrow> None)"

definition ir_enum_backing_type :: "EnumDecl \<Rightarrow> IrTypeKind" where
  "ir_enum_backing_type e =
     (let backing = ir_type_kind (Some (str_or (en_type e) ''u8''))
      in if backing = IR_TYPE_U8 \<or> backing = IR_TYPE_U16 \<or> backing = IR_TYPE_U32 then backing
         else if backing = IR_TYPE_USIZE then IR_TYPE_U32
         else IR_TYPE_UNSUPPORTED)"

definition ir_type_kind_for_program :: "Program option \<Rightarrow> string option \<Rightarrow> IrTypeKind" where
  "ir_type_kind_for_program program ty =
     (let kind = ir_type_kind ty
      in if kind \<noteq> IR_TYPE_UNSUPPORTED then kind
         else (case ir_find_enum program ty of None \<Rightarrow> IR_TYPE_UNSUPPORTED
               | Some e \<Rightarrow>
                   (let backing = ir_type_kind (Some (str_or (en_type e) ''u8''))
                    in if backing = IR_TYPE_U8 \<or> backing = IR_TYPE_U16 \<or> backing = IR_TYPE_U32 then backing
                       else if backing = IR_TYPE_USIZE then IR_TYPE_U32
                       else IR_TYPE_UNSUPPORTED)))"

fun ir_enum_case_index :: "string \<Rightarrow> nat \<Rightarrow> Param list \<Rightarrow> nat option" where
  "ir_enum_case_index name i [] = None"
| "ir_enum_case_index name i (c # cs) = (if p_name c = name then Some i else ir_enum_case_index name (Suc i) cs)"

definition ir_enum_case_value :: "EnumDecl option \<Rightarrow> string option \<Rightarrow> nat option" where
  "ir_enum_case_value e case_name = (case (e, case_name) of
       (Some e, Some name) \<Rightarrow> ir_enum_case_index name 0 (en_cases e)
     | _ \<Rightarrow> None)"

section \<open>Fixed arrays\<close>

text \<open>The position of a character, as \<open>strchr\<close> and \<open>strrchr\<close> find it.\<close>

definition strchr :: "char \<Rightarrow> string \<Rightarrow> nat option" where
  "strchr c s = (if c \<in> set s then Some (length (takeWhile (\<lambda>x. x \<noteq> c) s)) else None)"

definition strrchr :: "char \<Rightarrow> string \<Rightarrow> nat option" where
  "strrchr c s = (if c \<in> set s then Some (length s - 1 - length (takeWhile (\<lambda>x. x \<noteq> c) (rev s))) else None)"

definition char_code :: "char \<Rightarrow> nat" where
  "char_code c = of_char c"

fun ir_array_len :: "nat \<Rightarrow> string \<Rightarrow> nat option" where
  "ir_array_len len [] = Some len"
| "ir_array_len len (ch # chs) =
     (if char_code ch < 48 \<or> 57 < char_code ch then None
      else (let len = len * 10 + (char_code ch - 48)
            in if UINT_MAX < len then None else ir_array_len len chs))"

text \<open>The length and element kind; \<open>None\<close> when the code returns false.\<close>

definition ir_parse_fixed_array_type_for_program :: "Program option \<Rightarrow> string option \<Rightarrow> (nat \<times> IrTypeKind) option" where
  "ir_parse_fixed_array_type_for_program program ty = (case ty of None \<Rightarrow> None
     | Some t \<Rightarrow>
        (if t = [] \<or> hd t \<noteq> CHR ''['' then None
         else (case strchr CHR '']'' t of None \<Rightarrow> None
          | Some close \<Rightarrow>
             (if close = 1 \<or> length t = Suc close then None
              else do {
                len \<leftarrow> ir_array_len 0 (drop 1 (take close t));
                (let element = ir_type_kind_for_program program (Some (drop (Suc close) t))
                 in if element \<noteq> IR_TYPE_I32 \<and> element \<noteq> IR_TYPE_U32 \<and> element \<noteq> IR_TYPE_U8 then None
                    else if 0 < len then Some (len, element) else None)
              }))))"

definition ir_parse_fixed_array_type :: "string option \<Rightarrow> (nat \<times> IrTypeKind) option" where
  "ir_parse_fixed_array_type ty = ir_parse_fixed_array_type_for_program None ty"

section \<open>Shapes\<close>

definition ir_find_shape :: "Program \<Rightarrow> string option \<Rightarrow> Shape option" where
  "ir_find_shape p name = (case name of None \<Rightarrow> None | Some n \<Rightarrow> find (\<lambda>sh. sh_name sh = n) (pg_shapes p))"

definition is_blank :: "char \<Rightarrow> bool" where
  "is_blank c \<longleftrightarrow> c = CHR '' '' \<or> char_code c = 9"

definition trim :: "string \<Rightarrow> string" where
  "trim s = rev (dropWhile is_blank (rev (dropWhile is_blank s)))"

text \<open>
  \<open>ir_split_generic_args\<close>: \<open>arg\<close> is the text from \<open>arg_start\<close> to the cursor. The end of the text counts as
  a comma.
\<close>

fun ir_split_generic_args :: "string \<Rightarrow> int \<Rightarrow> int \<Rightarrow> string \<Rightarrow> string list \<Rightarrow> string list option" where
  "ir_split_generic_args arg angle_depth array_depth [] args =
     (if angle_depth = 0 \<and> array_depth = 0 then (if trim arg = [] then None else Some (args @ [trim arg])) else None)"
| "ir_split_generic_args arg angle_depth array_depth (ch # rest) args =
     (let angle_depth' = (if ch = CHR ''<'' then angle_depth + 1 else if ch = CHR ''>'' then angle_depth - 1 else angle_depth);
          array_depth' = (if ch = CHR ''['' then array_depth + 1 else if ch = CHR '']'' then array_depth - 1 else array_depth)
      in if ch = CHR '','' \<and> angle_depth' = 0 \<and> array_depth' = 0 then
           (if trim arg = [] then None else ir_split_generic_args [] angle_depth' array_depth' rest (args @ [trim arg]))
         else ir_split_generic_args (arg @ [ch]) angle_depth' array_depth' rest args)"

text \<open>A generic instance \<open>Name<arg, ...>\<close>: its shape and its arguments.\<close>

definition ir_generic_instance :: "Program \<Rightarrow> string option \<Rightarrow> (Shape \<times> string list) option" where
  "ir_generic_instance p ty = do {
     t \<leftarrow> ty;
     open_at \<leftarrow> strchr CHR ''<'' t;
     close_at \<leftarrow> strrchr CHR ''>'' t;
     (if length t \<noteq> Suc close_at \<or> close_at < open_at then None
      else do {
        sh \<leftarrow> ir_find_shape p (Some (take open_at t));
        (if sh_type_params sh = [] then None
         else do {
           args \<leftarrow> ir_split_generic_args [] 0 0 (drop (Suc open_at) (take close_at t)) [];
           (if length args \<noteq> length (sh_type_params sh) then None else Some (sh, args))
         })
      })
   }"

definition ir_shape_instance :: "Program \<Rightarrow> string option \<Rightarrow> (Shape \<times> string list) option" where
  "ir_shape_instance p ty = (case ir_find_shape p ty of
       Some exact \<Rightarrow> if sh_type_params exact = [] then Some (exact, []) else ir_generic_instance p ty
     | None \<Rightarrow> ir_generic_instance p ty)"

definition ir_shape_arg_for_param :: "Shape \<Rightarrow> string list \<Rightarrow> string \<Rightarrow> string option" where
  "ir_shape_arg_for_param sh args name = map_of (zip (map p_name (sh_type_params sh)) args) name"

function ir_shape_substitute_type :: "Shape \<Rightarrow> string list \<Rightarrow> string \<Rightarrow> string" where
  "ir_shape_substitute_type sh args ty =
     (case ir_shape_arg_for_param sh args ty of
        Some direct \<Rightarrow> direct
      | None \<Rightarrow>
         (if ty = [] \<or> hd ty \<noteq> CHR ''['' then ty
          else (case strchr CHR '']'' ty of None \<Rightarrow> ty
            | Some close \<Rightarrow>
               (if length ty \<le> Suc close then ty
                else (let len_text = drop 1 (take close ty);
                          elem = ir_shape_substitute_type sh args (drop (Suc close) ty)
                      in [CHR ''[''] @ str_or (ir_shape_arg_for_param sh args len_text) len_text @ [CHR '']''] @ elem)))))"
  by pat_completeness auto
termination
  by (relation "measure (\<lambda>(sh, args, ty). length ty)") auto

declare ir_shape_substitute_type.simps [simp del]

definition ir_field_type_text :: "Shape \<Rightarrow> string list \<Rightarrow> Param \<Rightarrow> string" where
  "ir_field_type_text sh args field =
     (case p_type field of None \<Rightarrow> ''Unknown'' | Some ty \<Rightarrow> ir_shape_substitute_type sh args ty)"

text \<open>
  The body the three field loops share: the kind of a field, its array length and element kind, its
  alignment and its size, or \<open>None\<close> when the field has no direct storage.
\<close>

definition ir_field_storage :: "Program \<Rightarrow> Shape \<Rightarrow> string list \<Rightarrow> Param
    \<Rightarrow> (IrTypeKind \<times> (nat \<times> IrTypeKind) option \<times> nat \<times> nat) option" where
  "ir_field_storage p sh args field =
     (let text = ir_field_type_text sh args field;
          field_type = ir_type_kind_for_program (Some p) (Some text);
          array = ir_parse_fixed_array_type_for_program (Some p) (Some text)
      in if \<not> (field_type = IR_TYPE_BOOL \<or> ir_type_is_value field_type \<or> array \<noteq> None) then None
         else (case array of
             Some (array_len, element) \<Rightarrow>
               Some (field_type, array, ir_type_alignment element, to_u32 (ir_type_byte_size element * array_len))
           | None \<Rightarrow> Some (field_type, array, ir_type_alignment field_type, ir_type_byte_size field_type)))"

text \<open>The offset past the last field and the largest alignment.\<close>

fun ir_layout_fields :: "Program \<Rightarrow> Shape \<Rightarrow> string list \<Rightarrow> Param list \<Rightarrow> nat \<Rightarrow> nat \<Rightarrow> (nat \<times> nat) option" where
  "ir_layout_fields p sh args [] offset max_align = Some (offset, max_align)"
| "ir_layout_fields p sh args (field # fs) offset max_align =
     (case ir_field_storage p sh args field of None \<Rightarrow> None
      | Some (field_type, array, align, byte_size) \<Rightarrow>
          ir_layout_fields p sh args fs (ir_align_to offset align + byte_size) (if max_align < align then align else max_align))"

definition ir_shape_layout :: "Program \<Rightarrow> string option \<Rightarrow> (nat \<times> nat) option" where
  "ir_shape_layout p shape_name = do {
     (sh, args) \<leftarrow> ir_shape_instance p shape_name;
     (offset, max_align) \<leftarrow> ir_layout_fields p sh args (sh_fields sh) 0 1;
     (let offset = ir_align_to offset max_align
      in if offset \<le> UINT_MAX then Some (to_u32 offset, max_align) else None)
   }"

fun ir_find_scalar_field :: "Program \<Rightarrow> Shape \<Rightarrow> string list \<Rightarrow> string \<Rightarrow> Param list \<Rightarrow> nat \<Rightarrow> (nat \<times> IrTypeKind) option" where
  "ir_find_scalar_field p sh args field_name [] offset = None"
| "ir_find_scalar_field p sh args field_name (field # fs) offset =
     (case ir_field_storage p sh args field of None \<Rightarrow> None
      | Some (field_type, array, align, byte_size) \<Rightarrow>
          (let offset = ir_align_to offset align
           in if p_name field = field_name then (if array \<noteq> None then None else Some (to_u32 offset, field_type))
              else ir_find_scalar_field p sh args field_name fs (offset + byte_size)))"

definition ir_shape_field_info :: "Program \<Rightarrow> string option \<Rightarrow> string \<Rightarrow> (nat \<times> IrTypeKind) option" where
  "ir_shape_field_info p shape_name field_name = do {
     (sh, args) \<leftarrow> ir_shape_instance p shape_name;
     ir_find_scalar_field p sh args field_name (sh_fields sh) 0
   }"

text \<open>The offset, the kind, and the length and element kind of an array field.\<close>

fun ir_find_field :: "Program \<Rightarrow> Shape \<Rightarrow> string list \<Rightarrow> string \<Rightarrow> Param list \<Rightarrow> nat
    \<Rightarrow> (nat \<times> IrTypeKind \<times> (nat \<times> IrTypeKind) option) option" where
  "ir_find_field p sh args field_name [] offset = None"
| "ir_find_field p sh args field_name (field # fs) offset =
     (case ir_field_storage p sh args field of None \<Rightarrow> None
      | Some (field_type, array, align, byte_size) \<Rightarrow>
          (let offset = ir_align_to offset align
           in if p_name field = field_name then Some (to_u32 offset, field_type, array)
              else ir_find_field p sh args field_name fs (offset + byte_size)))"

definition ir_shape_field_storage_info :: "Program \<Rightarrow> string option \<Rightarrow> string
    \<Rightarrow> (nat \<times> IrTypeKind \<times> (nat \<times> IrTypeKind) option) option" where
  "ir_shape_field_storage_info p shape_name field_name = do {
     (sh, args) \<leftarrow> ir_shape_instance p shape_name;
     ir_find_field p sh args field_name (sh_fields sh) 0
   }"

end
