(* ===== verification/IrFrame.thy ===== *)
theory IrFrame
  imports IrLayout
begin

text \<open>
  The stack frames of \<open>ir.c\<close>: the function header (\<open>ir_program_push_function\<close>), the table of locals
  (\<open>ir_function_push_local\<close>, \<open>ir_collect_stmt_locals\<close>) and the frame layout
  (\<open>ir_collect_function_locals\<close>), with the checks \<open>ir_lower_function_body\<close> makes before it lowers a
  statement. Lowering the statements afterwards only fills \<open>instrs\<close>.
\<close>

record ir_lowering = IrProgram +
  ir_direct_stack_bytes :: nat
  ir_direct_max_frame_bytes :: nat

definition ir_mark_unsupported :: "ir_lowering \<Rightarrow> string \<Rightarrow> int \<Rightarrow> int \<Rightarrow> string option \<Rightarrow> ir_lowering" where
  "ir_mark_unsupported ir message line column actual =
     (if \<not> mir_valid (ir_diag ir) then ir
      else ir\<lparr>ir_diag :=
        \<lparr>mir_valid = False,
         mir_expected = snprintf 128 ''direct backend MVP subset'',
         mir_actual = snprintf 128 (str_or actual ''unsupported construct''),
         mir_message = snprintf 256 message,
         mir_help = snprintf 256 ''restrict this program to exported primitive arithmetic functions or choose another supported direct target'',
         mir_blocker = z_backend_blocker_set None None None (Some ''lower'') (Some (snprintf 128 (str_or actual ''unsupported construct''))),
         mir_line = if line > 0 then line else 1,
         mir_column = if column > 0 then column else 1\<rparr>\<rparr>)"

section \<open>The function header\<close>

definition ir_is_hosted_world_main :: "Function \<Rightarrow> bool" where
  "ir_is_hosted_world_main source \<longleftrightarrow>
     fn_is_public source \<and> fn_name source = ''main'' \<and> length (fn_params source) = 1
     \<and> p_type (hd (fn_params source)) = Some ''World'' \<and> fn_return_type source = Some ''Void''"

definition ir_function_header :: "Function \<Rightarrow> string option \<Rightarrow> IrFunction" where
  "ir_function_header source stable_id_text =
     \<lparr>f_name = Some (fn_name source),
      f_stable_id = (case stable_id_text of Some text \<Rightarrow> text | None \<Rightarrow> ''main.'' @ fn_name source),
      f_world_param_name = (if ir_is_hosted_world_main source then Some (p_name (hd (fn_params source))) else None),
      f_return_type = (if ir_is_hosted_world_main source then IR_TYPE_I32
                       else if fn_raises source then IR_TYPE_I64 else ir_type_kind (fn_return_type source)),
      f_value_return_type = ir_type_kind (fn_return_type source),
      f_locals = [], f_param_count = 0, f_instrs = [], f_frame_bytes = 0,
      f_is_exported = (fn_export_c source \<or> ir_is_hosted_world_main source),
      f_raises = (if ir_is_hosted_world_main source then False else fn_raises source),
      f_line = fn_line source, f_column = fn_column source\<rparr>"

definition ir_program_push_function :: "ir_lowering \<Rightarrow> Function \<Rightarrow> string option \<Rightarrow> ir_lowering" where
  "ir_program_push_function ir source stable_id_text =
     ir\<lparr>ir_functions := ir_functions ir @ [ir_function_header source stable_id_text]\<rparr>"

section \<open>Locals\<close>

definition ir_function_push_local :: "IrFunction \<Rightarrow> string \<Rightarrow> IrTypeKind \<Rightarrow> bool \<Rightarrow> bool \<Rightarrow> bool \<Rightarrow> string option \<Rightarrow> IrTypeKind
    \<Rightarrow> nat \<Rightarrow> nat \<Rightarrow> nat \<Rightarrow> bool \<Rightarrow> int \<Rightarrow> int \<Rightarrow> IrFunction" where
  "ir_function_push_local fn name ty is_param is_array is_record shape_name element_type array_len
       byte_size_override alignment_override is_mutable line column =
     (let byte_size = (if byte_size_override \<noteq> 0 then byte_size_override
            else if is_array then to_u32 (ir_type_byte_size element_type * array_len)
            else if ty = IR_TYPE_BYTE_VIEW \<or> ty = IR_TYPE_ALLOC \<or> ty = IR_TYPE_VEC then 16
            else if ty = IR_TYPE_MAYBE_BYTE_VIEW then 24
            else if ty = IR_TYPE_MAYBE_SCALAR then 16 else 8);
          alignment = (if alignment_override \<noteq> 0 then alignment_override
            else if is_array then ir_type_alignment element_type else 8);
          l = \<lparr>l_name = Some name, l_type = ty, l_element_type = element_type, l_index = length (f_locals fn),
               l_frame_offset = 0, l_array_len = array_len, l_byte_size = byte_size, l_alignment = alignment,
               l_is_param = is_param, l_is_array = is_array, l_is_record = is_record, l_is_mutable = is_mutable,
               l_shape_name = shape_name, l_line = line, l_column = column\<rparr>
      in fn\<lparr>f_locals := f_locals fn @ [l], f_param_count := f_param_count fn + (if is_param then 1 else 0)\<rparr>)"

definition ir_function_find_local :: "IrFunction \<Rightarrow> string \<Rightarrow> IrLocal option" where
  "ir_function_find_local fn name = find (\<lambda>l. l_name l = Some name) (rev (f_locals fn))"

text \<open>One \<open>let\<close> statement: the storage its type asks for, or the diagnostic.\<close>

definition ir_collect_let :: "Program \<Rightarrow> ir_lowering \<Rightarrow> IrFunction \<Rightarrow> stmt_fields \<Rightarrow> bool \<times> ir_lowering \<times> IrFunction" where
  "ir_collect_let p ir fn s =
     (let stmt_type = (if sf_resolved_type s \<noteq> None then sf_resolved_type s else sf_type s);
          ty = ir_type_kind stmt_type
      in case ir_parse_fixed_array_type stmt_type of
        Some (array_len, element_type) \<Rightarrow>
          (True, ir, ir_function_push_local fn (sf_name s) IR_TYPE_UNSUPPORTED False True False None element_type array_len 0 0
             (sf_mutable_binding s) (sf_line s) (sf_column s))
      | None \<Rightarrow>
       (case ir_shape_layout p stmt_type of
        Some (record_size, record_align) \<Rightarrow>
          (True, ir, ir_function_push_local fn (sf_name s) IR_TYPE_RECORD False False True stmt_type IR_TYPE_UNSUPPORTED 0
             record_size record_align (sf_mutable_binding s) (sf_line s) (sf_column s))
      | None \<Rightarrow>
       (case ir_find_enum (Some p) stmt_type of
        Some item_enum \<Rightarrow>
          (let backing = ir_enum_backing_type item_enum
           in if \<not> ir_type_is_value backing then
                (False, ir_mark_unsupported ir ''direct backend enum backing type is unsupported'' (sf_line s) (sf_column s)
                   (Some (str_or (en_type item_enum) ''u8'')), fn)
              else (True, ir, ir_function_push_local fn (sf_name s) backing False False False None IR_TYPE_UNSUPPORTED 0 0 0
                   (sf_mutable_binding s) (sf_line s) (sf_column s)))
      | None \<Rightarrow>
          (if \<not> ir_type_is_direct_local ty then
             (False, ir_mark_unsupported ir ''direct backend local type is unsupported'' (sf_line s) (sf_column s)
                (Some (str_or stmt_type ''inferred unknown'')), fn)
           else (True, ir, ir_function_push_local fn (sf_name s) ty False False False None IR_TYPE_UNSUPPORTED 0 0 0
                (sf_mutable_binding s \<or> stmt_type = Some ''MutSpan<u8>'') (sf_line s) (sf_column s))))))"

fun ir_collect_stmt_locals :: "Program \<Rightarrow> ir_lowering \<Rightarrow> IrFunction \<Rightarrow> Stmt list \<Rightarrow> bool \<times> ir_lowering \<times> IrFunction" where
  "ir_collect_stmt_locals p ir fn [] = (True, ir, fn)"
| "ir_collect_stmt_locals p ir fn (Stmt s then_body else_body # body) =
     (let (ok, ir, fn) =
        (case sf_kind s of
           STMT_LET \<Rightarrow> ir_collect_let p ir fn s
         | STMT_IF \<Rightarrow>
             (let (ok, ir, fn) = ir_collect_stmt_locals p ir fn then_body
              in if ok then ir_collect_stmt_locals p ir fn else_body else (False, ir, fn))
         | STMT_WHILE \<Rightarrow> ir_collect_stmt_locals p ir fn then_body
         | _ \<Rightarrow> (True, ir, fn))
      in if ok then ir_collect_stmt_locals p ir fn body else (False, ir, fn))"

fun ir_collect_param_locals :: "ir_lowering \<Rightarrow> IrFunction \<Rightarrow> bool \<Rightarrow> nat \<Rightarrow> Param list \<Rightarrow> bool \<times> ir_lowering \<times> IrFunction" where
  "ir_collect_param_locals ir fn hosted i [] = (True, ir, fn)"
| "ir_collect_param_locals ir fn hosted i (param # params) =
     (if hosted \<and> i = 0 \<and> str_or (p_type param) [] = ''World'' then ir_collect_param_locals ir fn hosted (Suc i) params
      else (let ty = ir_type_kind (p_type param)
        in if \<not> ir_type_is_direct_abi ty then
             (False, ir_mark_unsupported ir ''direct backend parameter type is unsupported'' (p_line param) (p_column param) (p_type param), fn)
           else ir_collect_param_locals ir
             (ir_function_push_local fn (p_name param) ty True False False None IR_TYPE_UNSUPPORTED 0 0 0 False (p_line param) (p_column param))
             hosted (Suc i) params))"

section \<open>The frame\<close>

text \<open>The layout loop: locals in order, each at the end of its aligned slot.\<close>

fun ir_layout_locals :: "nat \<Rightarrow> IrLocal list \<Rightarrow> IrLocal list \<times> nat" where
  "ir_layout_locals offset [] = ([], offset)"
| "ir_layout_locals offset (l # ls) =
     (let offset = ir_align_to offset (l_alignment l) + l_byte_size l;
          (ls', end_offset) = ir_layout_locals offset ls
      in (l\<lparr>l_frame_offset := to_u32 offset\<rparr> # ls', end_offset))"

definition ir_layout_frame :: "ir_lowering \<Rightarrow> IrFunction \<Rightarrow> ir_lowering \<times> IrFunction" where
  "ir_layout_frame ir fn =
     (let (ls, offset) = ir_layout_locals 0 (f_locals fn);
          frame_bytes = ir_align_to offset 16
      in (ir\<lparr>ir_direct_stack_bytes := ir_direct_stack_bytes ir + frame_bytes,
             ir_direct_max_frame_bytes :=
               (if ir_direct_max_frame_bytes ir < frame_bytes then frame_bytes else ir_direct_max_frame_bytes ir)\<rparr>,
          fn\<lparr>f_locals := ls, f_frame_bytes := frame_bytes\<rparr>))"

definition ir_collect_function_locals :: "Program \<Rightarrow> ir_lowering \<Rightarrow> IrFunction \<Rightarrow> Function \<Rightarrow> bool \<times> ir_lowering \<times> IrFunction" where
  "ir_collect_function_locals p ir fn source =
     (let (ok, ir, fn) = ir_collect_param_locals ir fn (ir_is_hosted_world_main source) 0 (fn_params source)
      in if \<not> ok then (False, ir, fn)
         else (let (ok, ir, fn) = ir_collect_stmt_locals p ir fn (fn_body source)
           in if \<not> ok then (False, ir, fn) else (True, ir_layout_frame ir fn)))"

text \<open>\<open>ir_lower_function_body\<close> up to the first statement.\<close>

definition ir_lower_function_entry :: "Program \<Rightarrow> ir_lowering \<Rightarrow> IrFunction \<Rightarrow> Function \<Rightarrow> bool \<times> ir_lowering \<times> IrFunction" where
  "ir_lower_function_entry p ir fn source =
     (if fn_type_params source \<noteq> [] \<or> fn_is_test source then
        (False, ir_mark_unsupported ir ''direct backend MVP does not support generics or tests'' (fn_line source) (fn_column source)
           (Some (fn_name source)), fn)
      else
       (let hosted = ir_is_hosted_world_main source;
            return_type = (if hosted then IR_TYPE_I32 else ir_type_kind (fn_return_type source))
        in if \<not> hosted \<and> fn_raises source \<and> \<not> ir_type_is_direct_fallible_value return_type then
             (False, ir_mark_unsupported ir ''direct backend fallible return type is unsupported'' (fn_line source) (fn_column source)
                (fn_return_type source), fn)
           else if \<not> hosted \<and> \<not> fn_raises source \<and> return_type \<noteq> IR_TYPE_VOID \<and> \<not> ir_type_is_direct_abi return_type then
             (False, ir_mark_unsupported ir ''direct backend return type is unsupported'' (fn_line source) (fn_column source)
                (fn_return_type source), fn)
           else ir_collect_function_locals p ir fn source))"

end
