(* ===== verification/IrProps.thy ===== *)
theory IrProps
  imports IrFrame MirProps
begin

text \<open>
  What the lowering's layout guarantees: the fields of a record lie apart inside it, and every function
  header it produces meets the verifier's function contract, so the two components agree on sizes,
  alignments and frames.
\<close>

section \<open>Alignment and kinds\<close>

lemma align_le: "v \<le> ir_align_to v a"
proof -
  have "v \<le> (if c then v else v + d)" for c d by simp
  then show ?thesis unfolding ir_align_to_def Let_def .
qed

lemma align_mod:
  assumes "0 < a"
  shows "ir_align_to v a mod a = 0"
proof (cases "v mod a = 0")
  case False
  have "v mod a < a" using assms by simp
  then have "v + (a - v mod a) = (v div a + 1) * a"
    using div_mult_mod_eq [of v a] unfolding distrib_right by linarith
  with False show ?thesis using assms by (simp add: ir_align_to_def Let_def del: add_diff_assoc2)
qed (use assms in \<open>simp add: ir_align_to_def\<close>)

lemma alignment_pos [simp]: "0 < ir_type_alignment ty"
  by (simp add: ir_type_alignment_def Let_def)

lemma sizes_agree: "mir_type_byte_size ty = ir_type_byte_size ty"
  by (cases ty) (simp_all add: mir_type_byte_size_def ir_type_byte_size_def)

lemma predicates_agree:
  "mir_type_is_direct_abi ty = ir_type_is_direct_abi ty"
  "mir_type_is_direct_fallible_value ty = ir_type_is_direct_fallible_value ty"
  by (simp_all add: mir_type_is_direct_abi_def mir_type_is_value_def ir_type_is_direct_abi_def ir_type_is_value_def
      mir_type_is_direct_fallible_value_def ir_type_is_direct_fallible_value_def)

lemma value_size_pos: "ty = IR_TYPE_BOOL \<or> ir_type_is_value ty \<Longrightarrow> 0 < ir_type_byte_size ty"
  by (auto simp: ir_type_is_value_def ir_type_byte_size_def)

lemma backing_value: "ir_enum_backing_type e \<in> {IR_TYPE_U8, IR_TYPE_U16, IR_TYPE_U32, IR_TYPE_UNSUPPORTED}"
  by (simp add: ir_enum_backing_type_def Let_def)

lemma parse_array:
  assumes "ir_parse_fixed_array_type_for_program p ty = Some (len, el)"
  shows "0 < len" and "el = IR_TYPE_I32 \<or> el = IR_TYPE_U32 \<or> el = IR_TYPE_U8"
  using assms
  by (auto simp: ir_parse_fixed_array_type_for_program_def Let_def bind_eq_Some_conv split: option.splits if_splits)

section \<open>Fields\<close>

definition field_bytes :: "IrTypeKind \<Rightarrow> (nat \<times> IrTypeKind) option \<Rightarrow> nat" where
  "field_bytes ty array = (case array of None \<Rightarrow> ir_type_byte_size ty | Some (len, el) \<Rightarrow> ir_type_byte_size el * len)"

definition field_align :: "IrTypeKind \<Rightarrow> (nat \<times> IrTypeKind) option \<Rightarrow> nat" where
  "field_align ty array = ir_type_alignment (case array of None \<Rightarrow> ty | Some (len, el) \<Rightarrow> el)"

lemma field_storage:
  assumes "ir_field_storage p sh args f = Some (ty, array, align, sz)"
  shows "align = field_align ty array \<and> 0 < align \<and> sz = to_u32 (field_bytes ty array)"
proof -
  have "to_u32 (ir_type_byte_size ty) = ir_type_byte_size ty" for ty
    by (cases ty) (simp_all add: ir_type_byte_size_def)
  then show ?thesis using assms
    by (auto simp: ir_field_storage_def Let_def field_align_def field_bytes_def split: if_splits option.splits)
qed

lemma layout_grows:
  assumes "ir_layout_fields p sh args fs off m = Some (e, al)"
  shows "off \<le> e"
  using assms
proof (induction fs arbitrary: off m)
  case (Cons f fs)
  then obtain ty array a sz where f: "ir_field_storage p sh args f = Some (ty, array, a, sz)"
    by (auto split: option.splits)
  show ?case
    using Cons(1) [of "ir_align_to off a + sz"] Cons(2) f align_le [of off a] field_storage [OF f]
    by fastforce
qed simp

text \<open>A field that is found lies, aligned, between the offset the search starts at and the end of the layout.\<close>

lemma found_field:
  assumes "ir_layout_fields p sh args fs off m = Some (e, al)"
    and "ir_find_field p sh args n fs off = Some (o1, ty, array)" and "e \<le> UINT_MAX" and "field_bytes ty array \<le> UINT_MAX"
  shows "off \<le> o1 \<and> o1 + field_bytes ty array \<le> e \<and> o1 mod field_align ty array = 0"
  using assms(1,2)
proof (induction fs arbitrary: off m)
  case (Cons f fs)
  then obtain t ar a sz where f: "ir_field_storage p sh args f = Some (t, ar, a, sz)"
    by (auto split: option.splits)
  have l: "ir_layout_fields p sh args fs (ir_align_to off a + sz) (if m < a then a else m) = Some (e, al)"
    using Cons(2) f by simp
  note s = field_storage [OF f] and g = layout_grows [OF l]
  have h: "off \<le> ir_align_to off a" and a: "ir_align_to off a mod a = 0"
    using s by (simp_all add: align_le align_mod)
  show ?case
  proof (cases "p_name f = n")
    case True
    have "to_u32 (ir_align_to off a) = ir_align_to off a" using g assms(3) by (simp add: UINT_MAX_def)
    with True Cons(3) f have "o1 = ir_align_to off a" "ty = t" "array = ar" by simp_all
    with s h a g assms(4) show ?thesis by (simp add: UINT_MAX_def)
  next
    case False
    then show ?thesis using Cons(1) [OF l] Cons(3) f h by simp
  qed
qed simp




definition param :: "string \<Rightarrow> string \<Rightarrow> Param" where
  "param n t = \<lparr>p_name = n, p_type = Some t, p_line = 1, p_column = 1\<rparr>"

definition sample_shapes :: Program where
  "sample_shapes = \<lparr>pg_shapes =
      [\<lparr>sh_name = ''Packet'', sh_type_params = [param ''T'' ''type'', param ''N'' ''usize''],
        sh_fields = [param ''tag'' ''u8'', param ''words'' ''[N]T'', param ''size'' ''u16'', param ''mode'' ''Mode'']\<rparr>],
     pg_enums = [\<lparr>en_name = ''Mode'', en_type = Some ''u32'', en_cases = [param ''a'' ''u8'']\<rparr>]\<rparr>"

lemmas layout_eval = ir_shape_layout_def ir_shape_field_storage_info_def ir_shape_instance_def ir_find_shape_def ir_generic_instance_def
  ir_field_storage_def ir_field_type_text_def ir_shape_arg_for_param_def ir_shape_substitute_type.simps strchr_def strrchr_def
  ir_parse_fixed_array_type_for_program_def ir_type_kind_for_program_def ir_find_enum_def ir_type_kind_def ir_type_is_value_def
  ir_type_byte_size_def ir_type_alignment_def ir_align_to_def char_code_def UINT_MAX_def trim_def is_blank_def to_u32_def

lemma packet:
  "ir_shape_layout sample_shapes (Some ''Packet<i32, 3>'') = Some (24, 4)"
  "ir_shape_field_storage_info sample_shapes (Some ''Packet<i32, 3>'') ''words'' = Some (4, IR_TYPE_UNSUPPORTED, Some (3, IR_TYPE_I32))"
  "ir_shape_field_storage_info sample_shapes (Some ''Packet<i32, 3>'') ''mode'' = Some (20, IR_TYPE_U32, None)"
  by (simp_all add: layout_eval sample_shapes_def param_def)


text \<open>
  Without that proviso the product wraps and two fields share bytes: \<open>a[1]\<close> is the word at offset 4, and so
  is \<open>b\<close>.
\<close>

lemma array_field_wraps:
  "\<exists>p t. ir_shape_layout p t = Some (8, 4)
     \<and> ir_shape_field_storage_info p t ''a'' = Some (0, IR_TYPE_UNSUPPORTED, Some (1073741825, IR_TYPE_I32))
     \<and> ir_shape_field_storage_info p t ''b'' = Some (4, IR_TYPE_I32, None)"
proof -
  let ?p = "\<lparr>pg_shapes = [\<lparr>sh_name = ''S'', sh_type_params = [],
     sh_fields = [param ''a'' ''[1073741825]i32'', param ''b'' ''i32'']\<rparr>], pg_enums = []\<rparr>"
  have "ir_shape_layout ?p (Some ''S'') = Some (8, 4)
     \<and> ir_shape_field_storage_info ?p (Some ''S'') ''a'' = Some (0, IR_TYPE_UNSUPPORTED, Some (1073741825, IR_TYPE_I32))
     \<and> ir_shape_field_storage_info ?p (Some ''S'') ''b'' = Some (4, IR_TYPE_I32, None)"
    by (simp add: layout_eval param_def)
  then show ?thesis by blast
qed

section \<open>Frames\<close>

definition array_fits :: "IrLocal \<Rightarrow> bool" where
  "array_fits l \<longleftrightarrow> (if l_is_array l then ir_type_byte_size (l_element_type l) * l_array_len l \<le> UINT_MAX else True)"

definition storable :: "IrLocal \<Rightarrow> bool" where
  "storable l \<longleftrightarrow> 0 < l_alignment l \<and>
     (if l_is_array l then 0 < l_array_len l \<and> 0 < ir_type_byte_size (l_element_type l)
        \<and> l_byte_size l = to_u32 (ir_type_byte_size (l_element_type l) * l_array_len l)
      else 0 < mir_type_storage_min_byte_size l \<and> mir_type_storage_min_byte_size l \<le> l_byte_size l)"

lemma storable_min:
  assumes "storable l"
  shows "0 < l_byte_size l \<and> 0 < mir_type_storage_min_byte_size l \<and> mir_type_storage_min_byte_size l \<le> l_byte_size l \<longleftrightarrow> array_fits l"
proof (cases "l_is_array l")
  case True
  let ?e = "ir_type_byte_size (l_element_type l)"
  have e: "0 < ?e" "0 < l_array_len l" "l_byte_size l = to_u32 (?e * l_array_len l)"
    using assms True by (simp_all add: storable_def)
  then have d: "UINT_MAX div ?e < l_array_len l \<longleftrightarrow> UINT_MAX < ?e * l_array_len l"
    by (simp add: div_less_iff_less_mult mult.commute)
  show ?thesis
    using True e d by (auto simp: array_fits_def mir_type_storage_min_byte_size_def sizes_agree Let_def UINT_MAX_def not_less)
next
  case False
  with assms show ?thesis by (auto simp: storable_def array_fits_def)
qed

text \<open>The locals collected so far for a function with header \<open>h\<close>.\<close>

definition collected :: "IrFunction \<Rightarrow> IrFunction \<Rightarrow> bool" where
  "collected h fn \<longleftrightarrow> (\<forall>i<length (f_locals fn). l_index (f_locals fn ! i) = i \<and> storable (f_locals fn ! i))
     \<and> f_param_count fn \<le> length (f_locals fn)
     \<and> (\<forall>i<f_param_count fn. l_is_param (f_locals fn ! i) \<and> ir_type_is_direct_abi (l_type (f_locals fn ! i)))
     \<and> f_raises fn = f_raises h \<and> f_return_type fn = f_return_type h \<and> f_value_return_type fn = f_value_return_type h"

definition pushed :: "IrFunction \<Rightarrow> IrLocal" where
  "pushed fn = last (f_locals fn)"

lemma push_eq:
  fixes fn n ty is_param is_array is_record sn el len sz al m i c
  defines "fn' \<equiv> ir_function_push_local fn n ty is_param is_array is_record sn el len sz al m i c"
  shows "fn' = fn\<lparr>f_locals := f_locals fn @ [pushed fn'], f_param_count := f_param_count fn + (if is_param then 1 else 0)\<rparr>"
    and "l_index (pushed fn') = length (f_locals fn)" "l_is_param (pushed fn') = is_param" "l_type (pushed fn') = ty"
  by (simp_all add: fn'_def pushed_def ir_function_push_local_def Let_def)

lemma push_storable:
  assumes "if is_array then \<not> is_record \<and> sz = 0 \<and> 0 < len \<and> 0 < ir_type_byte_size el
           else if is_record then True else sz = 0 \<and> ir_type_is_direct_local ty"
  shows "storable (pushed (ir_function_push_local fn n ty is_param is_array is_record sn el len sz al m i c))"
proof -
  have v: "ty = IR_TYPE_U8 \<or> ty = IR_TYPE_U16 \<or> ty = IR_TYPE_USIZE \<or> ty = IR_TYPE_I32 \<or> ty = IR_TYPE_U32 \<or> ty = IR_TYPE_I64
      \<or> ty = IR_TYPE_U64 \<or> ty = IR_TYPE_F32 \<or> ty = IR_TYPE_F64 \<or> ty = IR_TYPE_BOOL \<or> ty = IR_TYPE_BYTE_VIEW \<or> ty = IR_TYPE_ALLOC
      \<or> ty = IR_TYPE_VEC \<or> ty = IR_TYPE_MAYBE_BYTE_VIEW \<or> ty = IR_TYPE_MAYBE_SCALAR" if "ir_type_is_direct_local ty"
    using that by (auto simp: ir_type_is_direct_local_def ir_type_is_value_def)
  consider "is_array" | "\<not> is_array" "is_record" | "\<not> is_array" "\<not> is_record" by blast
  then show ?thesis
  proof cases
    case 1
    with assms show ?thesis by (simp add: pushed_def ir_function_push_local_def Let_def storable_def)
  next
    case 2
    then show ?thesis by (simp add: pushed_def ir_function_push_local_def Let_def storable_def mir_type_storage_min_byte_size_def)
  next
    case 3
    with assms v show ?thesis
      by (auto simp: pushed_def ir_function_push_local_def Let_def storable_def mir_type_storage_min_byte_size_def
          mir_type_local_slot_min_byte_size_def mir_type_byte_size_def)
  qed
qed

lemma collected_push:
  assumes "collected h fn"
    and "if is_array then \<not> is_record \<and> sz = 0 \<and> 0 < len \<and> 0 < ir_type_byte_size el
           else if is_record then True else sz = 0 \<and> ir_type_is_direct_local ty"
    and "is_param \<Longrightarrow> f_param_count fn = length (f_locals fn) \<and> ir_type_is_direct_abi ty"
  shows "collected h (ir_function_push_local fn n ty is_param is_array is_record sn el len sz al m i c)"
proof -
  note e = push_eq [of fn n ty is_param is_array is_record sn el len sz al m i c]
  show ?thesis
    using assms(1,3) e(2-4) push_storable [OF assms(2), of fn n is_param sn al m i c]
    by (subst e(1)) (cases is_param, auto simp: collected_def nth_append less_Suc_eq)
qed

lemma collected_let:
  assumes "collected h fn" "ir_collect_let p ir fn s = (True, ir', fn')"
  shows "collected h fn'"
proof -
  let ?t = "if sf_resolved_type s \<noteq> None then sf_resolved_type s else sf_type s"
  have val: "ir_type_is_value b \<Longrightarrow> ir_type_is_direct_local b" for b by (simp add: ir_type_is_direct_local_def)
  show ?thesis
  proof (cases "ir_parse_fixed_array_type ?t")
    case (Some a)
    have "0 < fst a \<and> 0 < ir_type_byte_size (snd a)"
      using parse_array [of None ?t "fst a" "snd a"] Some
      by (auto simp: ir_parse_fixed_array_type_def ir_type_byte_size_def)
    with Some assms show ?thesis
      by (auto simp: ir_collect_let_def Let_def split: prod.splits intro!: collected_push)
  next
    case None
    with assms val show ?thesis
      by (auto simp: ir_collect_let_def Let_def split: prod.splits option.splits if_splits intro!: collected_push)
  qed
qed

lemma collected_stmts:
  "ir_collect_stmt_locals p ir fn body = (True, ir', fn') \<Longrightarrow> collected h fn \<Longrightarrow> collected h fn'"
proof (induction p ir fn body arbitrary: ir' fn' rule: ir_collect_stmt_locals.induct)
  case (2 p ir fn s th el body)
  obtain ok1 ir1 fn1 where x: "(case sf_kind s of STMT_LET \<Rightarrow> ir_collect_let p ir fn s
       | STMT_IF \<Rightarrow> let (ok, ir, fn) = ir_collect_stmt_locals p ir fn th
                    in if ok then ir_collect_stmt_locals p ir fn el else (False, ir, fn)
       | STMT_WHILE \<Rightarrow> ir_collect_stmt_locals p ir fn th
       | _ \<Rightarrow> (True, ir, fn)) = (ok1, ir1, fn1)"
    by (rule prod_cases3)
  with 2(5) have t: "ok1" "ir_collect_stmt_locals p ir1 fn1 body = (True, ir', fn')"
    by (cases ok1; simp)+
  have "collected h fn1"
  proof (cases "sf_kind s")
    case STMT_LET
    with x t(1) 2(6) show ?thesis by (auto intro: collected_let)
  next
    case STMT_IF
    obtain ok2 ir2 fn2 where y: "ir_collect_stmt_locals p ir fn th = (ok2, ir2, fn2)" by (rule prod_cases3)
    with x t(1) STMT_IF have e: "ok2" "ir_collect_stmt_locals p ir2 fn2 el = (True, ir1, fn1)"
      by (cases ok2; simp)+
    then show ?thesis using 2(1) [OF STMT_IF _ 2(6)] 2(2) [OF STMT_IF refl _ refl] y by simp
  next
    case STMT_WHILE
    with x t(1) show ?thesis using 2(3) [OF STMT_WHILE _ 2(6)] by simp
  qed (use x 2(6) in simp_all)
  then show ?case using 2(4) [OF x [symmetric] refl refl t(1) t(2)] by simp
qed simp

lemma collected_params:
  "ir_collect_param_locals ir fn hosted i ps = (True, ir', fn') \<Longrightarrow> collected h fn \<Longrightarrow> f_param_count fn = length (f_locals fn)
     \<Longrightarrow> collected h fn' \<and> f_param_count fn' = length (f_locals fn')"
proof (induction ir fn hosted i ps rule: ir_collect_param_locals.induct)
  case (2 ir fn hosted i q ps)
  show ?case
  proof (cases "hosted \<and> i = 0 \<and> str_or (p_type q) [] = ''World''")
    case False
    let ?ty = "ir_type_kind (p_type q)"
    let ?fn = "ir_function_push_local fn (p_name q) ?ty True False False None IR_TYPE_UNSUPPORTED 0 0 0 False (p_line q) (p_column q)"
    have a: "ir_type_is_direct_abi ?ty" and n: "ir_collect_param_locals ir ?fn hosted (Suc i) ps = (True, ir', fn')"
      using 2(3) False by (auto simp: Let_def split: if_splits)
    have d: "ir_type_is_direct_local ?ty" using a by (auto simp: ir_type_is_direct_abi_def ir_type_is_direct_local_def)
    have c: "collected h ?fn" by (rule collected_push) (use 2(4,5) a d in auto)
    have "f_param_count ?fn = length (f_locals ?fn)" using 2(5) by (simp add: ir_function_push_local_def Let_def)
    with 2(2) [OF False] a n c show ?thesis by simp
  qed (use 2 in simp)
qed simp

lemma layout_locals:
  assumes "ir_layout_locals off ls = (ls', e)" "\<forall>l\<in>set ls. 0 < l_alignment l" "e \<le> UINT_MAX"
  shows "off \<le> e \<and> list_all2 (\<lambda>l l'. l' = l\<lparr>l_frame_offset := l_frame_offset l'\<rparr> \<and> l_byte_size l \<le> l_frame_offset l'
      \<and> l_frame_offset l' \<le> e \<and> slot_start l' mod l_alignment l = 0) ls ls' \<and> chain_from off ls'"
  using assms(1,2)
proof (induction ls arbitrary: off ls')
  case (Cons l ls)
  let ?s = "ir_align_to off (l_alignment l)"
  obtain ls2 where r: "ir_layout_locals (?s + l_byte_size l) ls = (ls2, e)"
    and l': "ls' = l\<lparr>l_frame_offset := to_u32 (?s + l_byte_size l)\<rparr> # ls2"
    using Cons(2) by (auto simp: Let_def split: prod.splits)
  note ih = Cons(1) [OF r]
  have a: "0 < l_alignment l" using Cons(3) by simp
  have i: "to_u32 (?s + l_byte_size l) = ?s + l_byte_size l" using ih Cons(3) assms(3) by (simp add: UINT_MAX_def)
  show ?case using ih Cons(3) l' i align_le [of off "l_alignment l"] align_mod [OF a, of off]
    by (simp add: slot_start_def)
qed simp

lemma storable_offset [simp]:
  "storable (l\<lparr>l_frame_offset := x\<rparr>) = storable l" "array_fits (l\<lparr>l_frame_offset := x\<rparr>) = array_fits l"
  by (simp_all add: storable_def array_fits_def mir_type_storage_min_byte_size_def cong del: IrTypeKind.case_cong_weak)

lemma header_collected: "collected (ir_function_header source sid) (ir_function_header source sid)"
  by (simp add: collected_def ir_function_header_def)

lemma entry_frame:
  assumes "ir_lower_function_entry p ir h source = (True, ir', fn)" "collected h h" "f_locals h = []" "f_param_count h = 0"
    "f_frame_bytes fn \<le> UINT_MAX"
  shows "collected h fn \<and> chain_from 0 (f_locals fn)
    \<and> (\<forall>l\<in>set (f_locals fn). l_byte_size l \<le> l_frame_offset l \<and> l_frame_offset l \<le> f_frame_bytes fn \<and> slot_start l mod l_alignment l = 0)"
proof -
  have e: "ir_collect_function_locals p ir h source = (True, ir', fn)"
    using assms(1) by (auto simp: ir_lower_function_entry_def Let_def split: if_splits)
  obtain ir1 fn1 ir2 fn2 where a: "ir_collect_param_locals ir h (ir_is_hosted_world_main source) 0 (fn_params source) = (True, ir1, fn1)"
    and b: "ir_collect_stmt_locals p ir1 fn1 (fn_body source) = (True, ir2, fn2)" and c: "ir_layout_frame ir2 fn2 = (ir', fn)"
    using e by (auto simp: ir_collect_function_locals_def split: prod.splits if_splits)
  have c2: "collected h fn2"
    using collected_stmts [OF b] collected_params [OF a assms(2)] assms(3,4) by simp
  obtain ls e where l: "ir_layout_locals 0 (f_locals fn2) = (ls, e)" by (cases "ir_layout_locals 0 (f_locals fn2)")
  have fn: "fn = fn2\<lparr>f_locals := ls, f_frame_bytes := ir_align_to e 16\<rparr>"
    using c l by (auto simp: ir_layout_frame_def Let_def)
  have u: "e \<le> UINT_MAX" "e \<le> ir_align_to e 16" using assms(5) align_le [of e 16] fn by simp_all
  have "\<forall>l\<in>set (f_locals fn2). 0 < l_alignment l"
    using c2 by (auto simp: collected_def storable_def in_set_conv_nth)
  note k = layout_locals [OF l this u(1)]
  have len: "length ls = length (f_locals fn2)" using k by (auto dest: list_all2_lengthD)
  have eq: "\<exists>x. ls ! i = (f_locals fn2 ! i)\<lparr>l_frame_offset := x\<rparr>" if "i < length ls" for i
    using k that by (auto simp: list_all2_conv_all_nth)
  have "collected h fn"
    unfolding collected_def
  proof (intro conjI allI impI)
    fix i assume "i < length (f_locals fn)"
    with eq [of i] c2 len fn show "l_index (f_locals fn ! i) = i" "storable (f_locals fn ! i)"
      by (auto simp: collected_def)
  next
    fix i assume "i < f_param_count fn"
    with eq [of i] c2 len fn show "l_is_param (f_locals fn ! i)" "ir_type_is_direct_abi (l_type (f_locals fn ! i))"
      by (auto simp: collected_def)
  qed (use c2 fn len in \<open>simp_all add: collected_def\<close>)
  moreover have "l_byte_size l \<le> l_frame_offset l \<and> l_frame_offset l \<le> f_frame_bytes fn \<and> slot_start l mod l_alignment l = 0"
    if "l \<in> set (f_locals fn)" for l
  proof -
    have "l \<in> set ls" using that fn by simp
    then obtain i where i: "i < length ls" "l = ls ! i" by (auto simp: in_set_conv_nth)
    with k eq [of i] u(2) fn show ?thesis by (fastforce simp: list_all2_conv_all_nth)
  qed
  ultimately show ?thesis using k fn by simp
qed

text \<open>
  C6. Every function whose header and locals the lowering produces meets the verifier's function
  contract, whatever statements it then receives, exactly when each of its arrays has a byte count
  that fits \<open>unsigned\<close>: slots are aligned, large enough, in order and inside the frame, parameters
  come first with types the calling convention passes, and the return types are representable. The
  frame itself is below 4 GiB.
\<close>

theorem lowered_function_contract:
  assumes "ir_lower_function_entry p ir (ir_function_header source sid) source = (True, ir', fn)"
    and "f_frame_bytes fn \<le> UINT_MAX" and "mir_valid (st_diag s)"
  shows "mir_verify_direct_function_contract (fn\<lparr>f_instrs := body\<rparr>) s = Some (True, s)
    \<longleftrightarrow> (\<forall>l\<in>set (f_locals fn). array_fits l)"
proof -
  let ?h = "ir_function_header source sid" and ?g = "fn\<lparr>f_instrs := body\<rparr>"
  have f: "collected ?h fn" "chain_from 0 (f_locals fn)"
    and l: "\<forall>l\<in>set (f_locals fn). l_byte_size l \<le> l_frame_offset l \<and> l_frame_offset l \<le> f_frame_bytes fn
      \<and> slot_start l mod l_alignment l = 0"
    using entry_frame [OF assms(1) header_collected _ _ assms(2)] by (simp_all add: ir_function_header_def)
  have ok: "local_ok ?g k (f_locals fn ! k) \<longleftrightarrow> array_fits (f_locals fn ! k)" if "k < length (f_locals fn)" for k
  proof -
    have c: "storable (f_locals fn ! k)" "l_index (f_locals fn ! k) = k" using f(1) that by (simp_all add: collected_def)
    have "0 < l_alignment (f_locals fn ! k)" using c(1) by (simp add: storable_def)
    with c(2) bspec [OF l nth_mem [OF that]] storable_min [OF c(1)] show ?thesis by (auto simp: local_ok_def)
  qed
  have r: "accepts (mir_verify_returns ?g) s s"
    using assms(1) f(1) by (auto simp: mir_verify_returns_def collected_def ir_function_header_def ir_lower_function_entry_def
        Let_def predicates_agree accept_simps ir_type_is_direct_abi_def ir_type_is_value_def split: if_splits)
  have "accepts (mir_verify_direct_function_contract ?g) s s \<longleftrightarrow> (\<forall>k<length (f_locals fn). local_ok ?g k (f_locals fn ! k))"
    using f r assms(3)
    by (auto simp: mir_verify_direct_function_contract_def accept_simps accepts_locals accepts_params collected_def predicates_agree)
  also have "\<dots> \<longleftrightarrow> (\<forall>l\<in>set (f_locals fn). array_fits l)"
    using ok by (simp add: all_set_conv_all_nth)
  finally show ?thesis by (simp add: accepts_def)
qed

definition let_stmt :: "string \<Rightarrow> string \<Rightarrow> Stmt" where
  "let_stmt n t = Stmt \<lparr>sf_kind = STMT_LET, sf_name = n, sf_type = Some t, sf_resolved_type = None, sf_mutable_binding = True,
     sf_line = 1, sf_column = 1\<rparr> [] []"

definition if_stmt :: "Stmt list \<Rightarrow> Stmt list \<Rightarrow> Stmt" where
  "if_stmt th el = Stmt \<lparr>sf_kind = STMT_IF, sf_name = [], sf_type = None, sf_resolved_type = None, sf_mutable_binding = False,
     sf_line = 1, sf_column = 1\<rparr> th el"

text \<open>\<open>fn f(n: u32) -> u8\<close> with an array, a record, an enum and a view among its locals.\<close>

definition sample_source :: Function where
  "sample_source = \<lparr>fn_name = ''f'', fn_return_type = Some ''u8'', fn_type_params = [], fn_params = [param ''n'' ''u32''],
     fn_is_public = True, fn_raises = False, fn_is_test = False, fn_export_c = True,
     fn_body = [let_stmt ''b'' ''[5]u8'', if_stmt [let_stmt ''p'' ''Packet<i32, 3>''] [let_stmt ''m'' ''Mode''], let_stmt ''s'' ''String''],
     fn_line = 1, fn_column = 1\<rparr>"

definition sample_lowering :: ir_lowering where
  "sample_lowering = \<lparr>ir_functions = [], ir_diag = ir_diag (sample_program []), ir_allocator_helper_count = 0, ir_buffer_helper_count = 0,
     ir_runtime_helper_count = 0, ir_host_runtime_import_count = 0, ir_http_runtime_import_count = 0, ir_direct_stack_bytes = 0,
     ir_direct_max_frame_bytes = 0\<rparr>"

lemmas entry_eval = ir_lower_function_entry_def ir_collect_function_locals_def ir_layout_frame_def ir_collect_let_def
  ir_function_push_local_def ir_is_hosted_world_main_def ir_function_header_def ir_type_is_direct_abi_def ir_type_is_direct_local_def
  ir_type_is_direct_fallible_value_def

lemma sample_types:
  "ir_parse_fixed_array_type (Some ''[5]u8'') = Some (5, IR_TYPE_U8)"
  "ir_parse_fixed_array_type (Some ''Packet<i32, 3>'') = None"
  "ir_parse_fixed_array_type (Some ''Mode'') = None"
  "ir_parse_fixed_array_type (Some ''String'') = None"
  "ir_shape_layout sample_shapes (Some ''Mode'') = None"
  "ir_shape_layout sample_shapes (Some ''String'') = None"
  "map_option ir_enum_backing_type (ir_find_enum (Some sample_shapes) (Some ''Mode'')) = Some IR_TYPE_U32"
  "ir_find_enum (Some sample_shapes) (Some ''String'') = None"
  "ir_type_kind (Some ''String'') = IR_TYPE_BYTE_VIEW" "ir_type_kind (Some ''u32'') = IR_TYPE_U32" "ir_type_kind (Some ''u8'') = IR_TYPE_U8"
  by (simp_all add: layout_eval sample_shapes_def param_def ir_parse_fixed_array_type_def ir_enum_backing_type_def)

lemma sample_entry:
  "\<exists>ir' fn. ir_lower_function_entry sample_shapes sample_lowering (ir_function_header sample_source None) sample_source = (True, ir', fn)
     \<and> f_frame_bytes fn = 64 \<and> map l_frame_offset (f_locals fn) = [8, 13, 40, 48, 64] \<and> (\<forall>l\<in>set (f_locals fn). array_fits l)"
proof -
  obtain e where e: "ir_find_enum (Some sample_shapes) (Some ''Mode'') = Some e" "ir_enum_backing_type e = IR_TYPE_U32"
    using sample_types(7) by auto
  show ?thesis
    by (simp add: sample_source_def let_stmt_def if_stmt_def param_def entry_eval sample_types packet(1) e ir_type_is_value_def
        ir_type_byte_size_def ir_type_alignment_def ir_align_to_def to_u32_def array_fits_def UINT_MAX_def)
qed

lemma lowered_function_contract_witness:
  "\<exists>fn s. f_frame_bytes fn = 64 \<and> map l_frame_offset (f_locals fn) = [8, 13, 40, 48, 64]
     \<and> mir_verify_direct_function_contract (fn\<lparr>f_instrs := sample_body\<rparr>) s = Some (True, s)"
proof -
  obtain ir' fn where e: "ir_lower_function_entry sample_shapes sample_lowering (ir_function_header sample_source None) sample_source = (True, ir', fn)"
    and f: "f_frame_bytes fn = 64" "map l_frame_offset (f_locals fn) = [8, 13, 40, 48, 64]" "\<forall>l\<in>set (f_locals fn). array_fits l"
    using sample_entry by (elim exE conjE) (rule that)
  let ?s = "\<lparr>st_diag = ir_diag (sample_program []), st_req = zero_requirements, st_flow = []\<rparr>"
  have "f_frame_bytes fn \<le> UINT_MAX" "mir_valid (st_diag ?s)" by (simp_all add: f(1) UINT_MAX_def sample_program_def)
  from lowered_function_contract [OF e this, of sample_body] f(3)
  have "mir_verify_direct_function_contract (fn\<lparr>f_instrs := sample_body\<rparr>) ?s = Some (True, ?s)" by (rule iffD2)
  with f(1,2) show ?thesis by (intro exI conjI)
qed

section \<open>Field accesses\<close>

lemma scalar_field:
  "ir_find_scalar_field p sh args n fs off = Some (o1, ty) \<longleftrightarrow> ir_find_field p sh args n fs off = Some (o1, ty, None)"
proof (induction fs arbitrary: off)
  case (Cons f fs)
  show ?case
  proof (cases "ir_field_storage p sh args f")
    case (Some r)
    obtain t ar a sz where "r = (t, ar, a, sz)" by (rule prod_cases4)
    with Some Cons show ?thesis by (cases ar) (auto simp: Let_def)
  qed simp
qed simp

lemma storage_of_field:
  "ir_find_field p sh args n fs off = Some (o1, ty, array) \<Longrightarrow> 0 < field_bytes ty array \<and> field_bytes ty None \<le> UINT_MAX"
proof (induction fs arbitrary: off)
  case (Cons f fs)
  have s: "ir_type_byte_size ty \<le> UINT_MAX" for ty by (cases ty) (simp_all add: ir_type_byte_size_def UINT_MAX_def)
  obtain t ar a sz where f: "ir_field_storage p sh args f = Some (t, ar, a, sz)"
    using Cons(2) by (auto split: option.splits)
  have e: "el = IR_TYPE_I32 \<or> el = IR_TYPE_U32 \<or> el = IR_TYPE_U8 \<Longrightarrow> 0 < ir_type_byte_size el" for el
    by (auto simp: ir_type_byte_size_def)
  have "0 < field_bytes t ar"
    using f e parse_array value_size_pos by (auto simp: ir_field_storage_def Let_def field_bytes_def split: if_splits option.splits)
  with Cons f s show ?case by (auto simp: Let_def field_bytes_def split: if_splits)
qed simp

text \<open>
  C25. The offsets the lowering computes pass the verifier's field check on a local of the size it gave
  the record: a scalar field at its own offset, and every element of an array field at the element's
  offset, provided the array's byte count fits \<open>unsigned\<close>.
\<close>

theorem field_accesses_accepted:
  assumes "ir_shape_layout p t = Some (sz, al)" and "l_byte_size l = sz" and "mir_valid (st_diag s)"
  shows "(\<forall>n o1 ty. ir_shape_field_info p t n = Some (o1, ty)
        \<longrightarrow> mir_verify_record_field_span l o1 ty line column message s = Some (True, s))
    \<and> (\<forall>n o1 ty len el k. ir_shape_field_storage_info p t n = Some (o1, ty, Some (len, el))
        \<and> ir_type_byte_size el * len \<le> UINT_MAX \<and> k < len
        \<longrightarrow> mir_verify_record_field_span l (to_u32 (o1 + k * ir_type_byte_size el)) el line column message s = Some (True, s))"
proof -
  obtain sh args e where i: "ir_shape_instance p t = Some (sh, args)"
    and l: "ir_layout_fields p sh args (sh_fields sh) 0 1 = Some (e, al)" "sz = ir_align_to e al" "sz \<le> UINT_MAX"
    using assms(1) by (auto simp: ir_shape_layout_def bind_eq_Some_conv Let_def UINT_MAX_def split: if_splits)
  have e: "e \<le> sz" using l(2) by (simp add: align_le)
  then have u: "e \<le> UINT_MAX" using l(3) by simp
  have inside: "o1 + field_bytes ty array \<le> sz"
    if "ir_find_field p sh args n (sh_fields sh) 0 = Some (o1, ty, array)" "field_bytes ty array \<le> UINT_MAX" for n o1 ty array
    using found_field [OF l(1) that(1) u that(2)] e by simp
  have span: "mir_verify_record_field_span l off ty line column message s = Some (True, s)"
    if "0 < ir_type_byte_size ty" "off + ir_type_byte_size ty \<le> sz" for off ty
    using that assms(2,3) le_diff_conv2 [of off sz "ir_type_byte_size ty"]
    by (simp add: mir_verify_record_field_span_def m_valid_def m_require_def m_true_def sizes_agree Let_def)
  show ?thesis
  proof (intro conjI allI impI)
    fix n o1 ty assume "ir_shape_field_info p t n = Some (o1, ty)"
    then have f: "ir_find_field p sh args n (sh_fields sh) 0 = Some (o1, ty, None)"
      using i by (simp add: ir_shape_field_info_def scalar_field)
    with storage_of_field [OF f] inside [OF f] show "mir_verify_record_field_span l o1 ty line column message s = Some (True, s)"
      by (intro span) (simp_all add: field_bytes_def)
  next
    fix n o1 ty len el k
    assume a: "ir_shape_field_storage_info p t n = Some (o1, ty, Some (len, el)) \<and> ir_type_byte_size el * len \<le> UINT_MAX \<and> k < len"
    then have f: "ir_find_field p sh args n (sh_fields sh) 0 = Some (o1, ty, Some (len, el))"
      using i by (simp add: ir_shape_field_storage_info_def)
    have b: "o1 + ir_type_byte_size el * len \<le> sz" "0 < ir_type_byte_size el"
      using inside [OF f] storage_of_field [OF f] a by (auto simp: field_bytes_def)
    have "Suc k * ir_type_byte_size el \<le> len * ir_type_byte_size el" using a by (intro mult_le_mono1) simp
    then have c: "o1 + k * ir_type_byte_size el + ir_type_byte_size el \<le> sz" using b(1) by (simp add: mult.commute)
    then have "to_u32 (o1 + k * ir_type_byte_size el) = o1 + k * ir_type_byte_size el" using l(3) b(2) by (simp add: UINT_MAX_def)
    with b(2) c show "mir_verify_record_field_span l (to_u32 (o1 + k * ir_type_byte_size el)) el line column message s = Some (True, s)"
      by (intro span) simp_all
  qed
qed

lemma field_accesses_accepted_witness:
  "\<exists>s. mir_verify_record_field_span (mk_local 2 IR_TYPE_RECORD 40 24 4) 20 IR_TYPE_U32 1 1 [] s = Some (True, s)
     \<and> mir_verify_record_field_span (mk_local 2 IR_TYPE_RECORD 40 24 4) (to_u32 (4 + 2 * 4)) IR_TYPE_I32 1 1 [] s = Some (True, s)"
proof -
  let ?s = "\<lparr>st_diag = ir_diag (sample_program []), st_req = zero_requirements, st_flow = []\<rparr>"
  let ?l = "mk_local 2 IR_TYPE_RECORD 40 24 4"
  have h: "l_byte_size ?l = 24" "mir_valid (st_diag ?s)" by (simp_all add: mk_local_def sample_program_def)
  have m: "ir_shape_field_info sample_shapes (Some ''Packet<i32, 3>'') ''mode'' = Some (20, IR_TYPE_U32)"
    using packet(3) by (auto simp: ir_shape_field_info_def ir_shape_field_storage_info_def scalar_field bind_eq_Some_conv)
  have w: "ir_type_byte_size IR_TYPE_I32 = 4" "ir_type_byte_size IR_TYPE_I32 * 3 \<le> UINT_MAX"
    by (simp_all add: ir_type_byte_size_def UINT_MAX_def)
  note acc = field_accesses_accepted [OF packet(1) h, of 1 1 "[]"]
  show ?thesis
  proof (intro exI [of _ ?s] conjI)
    show "mir_verify_record_field_span ?l 20 IR_TYPE_U32 1 1 [] ?s = Some (True, ?s)" using acc m by blast
    have "(2 :: nat) < 3" by simp
    with acc packet(2) w show "mir_verify_record_field_span ?l (to_u32 (4 + 2 * 4)) IR_TYPE_I32 1 1 [] ?s = Some (True, ?s)"
      by metis
  qed
qed

end
