(* ===== verification/Elf64Props.thy ===== *)
theory Elf64Props
  imports Elf64Storage X64Mem X64Sse IrProps
begin

text \<open>
  Which bytes of the frame the ELF64 emitter's loads and stores touch, read off the decoded
  instruction, against the storage the verifier granted.
\<close>

section \<open>The bytes an instruction reaches below rbp\<close>

text \<open>The first byte relative to \<open>rbp\<close> and the number of bytes, for the moves the emitter uses.\<close>

definition move_width :: "x64_insn \<Rightarrow> nat option" where
  "move_width i = (case i of X64 pfx has_rex w op args imm \<Rightarrow>
     (if op = [0x88] \<or> op = [0x0f, 0xb6] then Some 1
      else if op = [0x89] \<or> op = [0x8b] then Some (if w then 8 else 4)
      else if op = [0x0f, 0x10] \<or> op = [0x0f, 0x11] then
        (if pfx = Some 0xf3 then Some 4 else if pfx = Some 0xf2 then Some 8 else None)
      else None))"

definition rbp_access :: "x64_insn \<Rightarrow> (int \<times> nat) option" where
  "rbp_access i = (case i of X64 pfx has_rex w op args imm \<Rightarrow>
     (case args of RegRm reg (Mem base None disp) \<Rightarrow>
        (if base = 5 then map_option (\<lambda>n. (sint disp, n)) (move_width i) else None)
      | _ \<Rightarrow> None))"

lemma sint_neg_disp:
  assumes "n < 2147483648"
  shows "sint (- (of_nat n :: u32)) = - int n"
proof -
  have "sint (word_of_int (- int n) :: u32) = signed_take_bit 31 (- int n)"
    by (subst signed_of_int) simp
  then have "sint (- (of_nat n :: u32)) = signed_take_bit 31 (- int n)" by simp
  also have "\<dots> = - int n" using assms by (intro signed_take_bit_int_eq_self) simp_all
  finally show ?thesis .
qed

lemma x64_movzx_rbp_disp:
  "emits_x64 (\<lambda>b. do { b \<leftarrow> z_x64_append_u8 b 0x0f; z_x64_emit_rbp_disp_reg b 0xb6 0 offset False })
     (X64 None False False [0x0f, 0xb6] (RegRm 0 (Mem 5 None (- offset))) [])"
  by (cases "offset \<le> 127")
    (rule emits_x64I, simp add: z_x64_emit_rbp_disp_reg_def Let_def del: push_bit_and, (rule emits_intros)+,
     simp add: x64_decode_simps shape1_def shape2_def modrm_ops_def del: push_bit_and)+

text \<open>An emitter whose one instruction moves \<open>w\<close> bytes at displacement \<open>- n\<close>.\<close>

definition moves_at :: "(ZBuf \<Rightarrow> ZBuf option) \<Rightarrow> nat \<Rightarrow> nat \<Rightarrow> bool" where
  "moves_at f n w \<longleftrightarrow> (\<exists>i. emits_x64 f i \<and> rbp_access i = Some (- int n, w))"

lemma moves_rbp:
  assumes "n < 2147483648"
  shows "moves_at (\<lambda>b. z_x64_emit_rbp_disp_reg b 0x88 0 (of_nat n) False) n 1"
    and "moves_at (\<lambda>b. z_x64_emit_rbp_disp_reg b 0x89 0 (of_nat n) wide) n (if wide then 8 else 4)"
    and "moves_at (\<lambda>b. z_x64_emit_rbp_disp_reg b 0x8b 0 (of_nat n) wide) n (if wide then 8 else 4)"
    and "moves_at (\<lambda>b. do { b \<leftarrow> z_x64_append_u8 b 0x0f; z_x64_emit_rbp_disp_reg b 0xb6 0 (of_nat n) False }) n 1"
  using x64_rbp_disp_reg [of 0 "0x88" "of_nat n" False] x64_rbp_disp_reg [of 0 "0x89" "of_nat n" wide]
    x64_rbp_disp_reg [of 0 "0x8b" "of_nat n" wide] x64_movzx_rbp_disp [of "of_nat n"] sint_neg_disp [OF assms]
  unfolding moves_at_def
  by (fastforce simp: modrm_ops_def rbp_access_def move_width_def)+

lemma moves_xmm:
  assumes "n < 2147483648"
  shows "moves_at (\<lambda>b. z_x64_emit_movss_xmm_ptr_rbp_disp b 0 (of_nat n)) n 4"
    and "moves_at (\<lambda>b. z_x64_emit_movsd_xmm_ptr_rbp_disp b 0 (of_nat n)) n 8"
    and "moves_at (\<lambda>b. z_x64_emit_movss_ptr_rbp_disp_xmm b 0 (of_nat n)) n 4"
    and "moves_at (\<lambda>b. z_x64_emit_movsd_ptr_rbp_disp_xmm b 0 (of_nat n)) n 8"
  using x64_movss_xmm_ptr_rbp_disp [of 0 "of_nat n"] x64_movsd_xmm_ptr_rbp_disp [of 0 "of_nat n"]
    x64_movss_ptr_rbp_disp_xmm [of 0 "of_nat n"] x64_movsd_ptr_rbp_disp_xmm [of 0 "of_nat n"] sint_neg_disp [OF assms]
  unfolding moves_at_def
  by (fastforce simp: rbp_access_def move_width_def)+

section \<open>Fields\<close>

definition field_access_width :: "IrTypeKind \<Rightarrow> nat" where
  "field_access_width ty = (if ty = IR_TYPE_U16 then 4 else mir_type_byte_size ty)"

lemma field_moves:
  assumes "off \<le> l_frame_offset l" "l_frame_offset l < 2147483648" "elf_type_is_supported_scalar ty"
  shows "moves_at (\<lambda>b. elf_emit_load_field b l off ty) (l_frame_offset l - off) (field_access_width ty)"
    and "moves_at (\<lambda>b. elf_emit_store_field b l off ty) (l_frame_offset l - off) (field_access_width ty)"
proof -
  have n: "l_frame_offset l - off < 2147483648" using assms(2) by simp
  have d: "elf_record_field_disp (Some l) off = l_frame_offset l - off" using assms(1) by (simp add: elf_record_field_disp_def)
  note defs = elf_emit_load_field_def elf_emit_store_field_def elf_emit_load_field_rax_def elf_emit_store_field_from_rax_def
    elf_emit_store_field_from_xmm_def elf_type_is_float_def elf_type_is_f64_def elf_type_is_i64_def field_access_width_def
    mir_type_byte_size_def d
  note moves = moves_rbp [OF n] moves_rbp(2,3) [OF n, of True, simplified] moves_rbp(2,3) [OF n, of False, simplified] moves_xmm [OF n]
  have ty: "ty \<in> {IR_TYPE_BOOL, IR_TYPE_U8, IR_TYPE_U16, IR_TYPE_USIZE, IR_TYPE_I32, IR_TYPE_U32, IR_TYPE_F32, IR_TYPE_F64, IR_TYPE_I64, IR_TYPE_U64}"
    using assms(3) by (auto simp: elf_type_is_supported_scalar_def elf_type_is_scalar_def elf_type_is_float_def elf_type_is_i64_def)
  show "moves_at (\<lambda>b. elf_emit_load_field b l off ty) (l_frame_offset l - off) (field_access_width ty)"
    using ty moves by (auto simp: defs)
  show "moves_at (\<lambda>b. elf_emit_store_field b l off ty) (l_frame_offset l - off) (field_access_width ty)"
    using ty moves by (auto simp: defs)
qed

lemma local_moves:
  assumes "k < length (f_locals f)" "0 < l_frame_offset (f_locals f ! k)" "l_frame_offset (f_locals f ! k) < 2147483648"
  defines "w \<equiv> if l_type (f_locals f ! k) \<in> {IR_TYPE_I64, IR_TYPE_U64, IR_TYPE_F64} then 8 else 4 :: nat"
  shows "moves_at (\<lambda>b. elf_emit_load_scalar_local b f k) (l_frame_offset (f_locals f ! k)) w"
    and "moves_at (\<lambda>b. elf_emit_store_scalar_local b f k) (l_frame_offset (f_locals f ! k)) w"
proof -
  note moves = moves_rbp(2,3) [OF assms(3), of True, simplified] moves_rbp(2,3) [OF assms(3), of False, simplified] moves_xmm [OF assms(3)]
  have d: "elf_local_offset f k = l_frame_offset (f_locals f ! k)" using assms(1,2) by (simp add: elf_local_offset_def)
  note defs = elf_emit_store_scalar_local_def elf_emit_store_local_from_xmm_def elf_emit_store_local_from_reg_def
    elf_emit_load_scalar_local_def elf_emit_load_local_xmm_def elf_emit_load_local_rax_def elf_local_is_def d
    elf_type_is_float_def elf_type_is_f64_def elf_type_is_i64_def w_def
  show "moves_at (\<lambda>b. elf_emit_load_scalar_local b f k) (l_frame_offset (f_locals f ! k)) w"
    using moves assms(1) by (cases "l_type (f_locals f ! k) = IR_TYPE_F32") (simp_all add: defs)
  show "moves_at (\<lambda>b. elf_emit_store_scalar_local b f k) (l_frame_offset (f_locals f ! k)) w"
    using moves assms(1) by (cases "l_type (f_locals f ! k) = IR_TYPE_F32") (simp_all add: defs)
qed

text \<open>
  C4. The ELF64 emitter keeps the storage contract of the verifier: in an accepted program the load of a
  scalar local and the store to it stay inside that local's storage, and the load and the store of a field the verifier
  let pass touch exactly the field's bytes, which lie inside the record's storage, for every scalar
  kind but \<open>u16\<close>. A \<open>u16\<close> field is read and written with four bytes, two more than the field has.
\<close>

theorem elf64_storage_accesses:
  assumes "z_mir_verify_direct_contracts ir = Some (True, ir')" and "f \<in> set (ir_functions ir)" and "k < length (f_locals f)"
    and "f_frame_bytes f < 2147483648"
  shows "(elf_type_is_supported_scalar (l_type (f_locals f ! k)) \<and> \<not> l_is_array (f_locals f ! k) \<and> \<not> l_is_record (f_locals f ! k)
      \<longrightarrow> (\<exists>n w. moves_at (\<lambda>b. elf_emit_load_scalar_local b f k) n w \<and> moves_at (\<lambda>b. elf_emit_store_scalar_local b f k) n w
          \<and> {- int n ..< - int n + int w} \<subseteq> region (f_locals f ! k)))
    \<and> (elf_type_is_supported_scalar ty
        \<and> mir_verify_record_field_span (f_locals f ! k) off ty line column message s = Some (True, s')
      \<longrightarrow> (\<exists>n w. moves_at (\<lambda>b. elf_emit_load_field b (f_locals f ! k) off ty) n w
          \<and> moves_at (\<lambda>b. elf_emit_store_field b (f_locals f ! k) off ty) n w
          \<and> - int n = - int (l_frame_offset (f_locals f ! k)) + int off
          \<and> (if ty = IR_TYPE_U16 then w = 4
             else w = mir_type_byte_size ty \<and> {- int n ..< - int n + int w} \<subseteq> region (f_locals f ! k))))"
proof -
  let ?l = "f_locals f ! k"
  have fr: "frame_ok f" using accepts_program(1) [OF assms(1,2)] accepts_function by blast
  then have l: "local_ok f k ?l" using assms(3) by (simp add: frame_ok_def)
  then have o: "0 < l_frame_offset ?l" "l_frame_offset ?l < 2147483648" "l_byte_size ?l \<le> l_frame_offset ?l"
    "mir_type_storage_min_byte_size ?l \<le> l_byte_size ?l"
    using assms(4) by (auto simp: local_ok_def)
  show ?thesis
  proof (intro conjI impI)
    assume a: "elf_type_is_supported_scalar (l_type ?l) \<and> \<not> l_is_array ?l \<and> \<not> l_is_record ?l"
    let ?w = "if l_type ?l \<in> {IR_TYPE_I64, IR_TYPE_U64, IR_TYPE_F64} then 8 else 4 :: nat"
    have "?w \<le> mir_type_storage_min_byte_size ?l"
      using a by (auto simp: elf_type_is_supported_scalar_def elf_type_is_scalar_def elf_type_is_float_def elf_type_is_i64_def
          mir_type_storage_min_byte_size_def mir_type_local_slot_min_byte_size_def mir_type_byte_size_def)
    then have "{- int (l_frame_offset ?l) ..< - int (l_frame_offset ?l) + int ?w} \<subseteq> region ?l"
      using o(4) unfolding region_def by (intro ivl_subset [THEN iffD2]) simp
    with local_moves [OF assms(3) o(1,2)]
    show "\<exists>n w. moves_at (\<lambda>b. elf_emit_load_scalar_local b f k) n w \<and> moves_at (\<lambda>b. elf_emit_store_scalar_local b f k) n w
          \<and> {- int n ..< - int n + int w} \<subseteq> region ?l"
      by blast
  next
    assume a: "elf_type_is_supported_scalar ty \<and> mir_verify_record_field_span ?l off ty line column message s = Some (True, s')"
    have sp: "off + mir_type_byte_size ty \<le> l_byte_size ?l"
      using a by (auto simp: mir_verify_record_field_span_def m_valid_def m_require_def m_true_def m_fail_def Let_def split: if_splits)
    have off: "off \<le> l_frame_offset ?l" using sp o(3) by simp
    let ?n = "l_frame_offset ?l - off"
    have n: "- int ?n = - int (l_frame_offset ?l) + int off" using off by (simp add: of_nat_diff)
    have "{- int ?n ..< - int ?n + int (mir_type_byte_size ty)} \<subseteq> region ?l" unfolding n region_def using sp by auto
    then have "if ty = IR_TYPE_U16 then field_access_width ty = 4
        else field_access_width ty = mir_type_byte_size ty \<and> {- int ?n ..< - int ?n + int (field_access_width ty)} \<subseteq> region ?l"
      by (simp add: field_access_width_def)
    with field_moves [OF off o(2)] a n
    show "\<exists>n w. moves_at (\<lambda>b. elf_emit_load_field b ?l off ty) n w \<and> moves_at (\<lambda>b. elf_emit_store_field b ?l off ty) n w
          \<and> - int n = - int (l_frame_offset ?l) + int off
          \<and> (if ty = IR_TYPE_U16 then w = 4 else w = mir_type_byte_size ty \<and> {- int n ..< - int n + int w} \<subseteq> region ?l)"
      by blast
  qed
qed

lemma elf64_storage_accesses_witness:
  "\<exists>w. moves_at (\<lambda>b. elf_emit_store_field b (sample_locals ! 2) 4 IR_TYPE_U32) 20 w
     \<and> w = mir_type_byte_size IR_TYPE_U32 \<and> {- 20 ..< - 20 + int w} \<subseteq> region (sample_locals ! 2)"
proof -
  obtain ir' where a: "z_mir_verify_direct_contracts (sample_program sample_body) = Some (True, ir')"
    using sample_accepted by blast
  have f: "sfun \<in> set (ir_functions (sample_program sample_body))" by (simp add: sample_parts)
  have k: "2 < length (f_locals sfun)" "f_frame_bytes sfun < 2147483648"
    by (simp_all add: sfun_locals sample_locals_def) (simp add: sfun_def sample_function_def)
  let ?s = "\<lparr>st_diag = ir_diag (sample_program []), st_req = zero_requirements, st_flow = []\<rparr>"
  have l: "f_locals sfun ! 2 = mk_local 2 IR_TYPE_RECORD 24 8 4" "sample_locals ! 2 = mk_local 2 IR_TYPE_RECORD 24 8 4"
    by (simp_all add: sfun_locals sample_locals_def)
  have v: "mir_verify_record_field_span (f_locals sfun ! 2) 4 IR_TYPE_U32 1 1 [] ?s = Some (True, ?s)"
    unfolding l by (simp add: mk_local_def mir_verify_record_field_span_def m_valid_def m_require_def m_true_def Let_def
        mir_type_byte_size_def sample_program_def)
  have t: "elf_type_is_supported_scalar IR_TYPE_U32" by (simp add: elf_type_is_supported_scalar_def elf_type_is_scalar_def)
  note e = conjunct2 [OF elf64_storage_accesses [OF a f k], rule_format, OF conjI [OF t v]]
  obtain n w where m: "moves_at (\<lambda>b. elf_emit_store_field b (f_locals sfun ! 2) 4 IR_TYPE_U32) n w"
    and n: "- int n = - int (l_frame_offset (f_locals sfun ! 2)) + int 4"
    and w: "if IR_TYPE_U32 = IR_TYPE_U16 then w = 4
      else w = mir_type_byte_size IR_TYPE_U32 \<and> {- int n ..< - int n + int w} \<subseteq> region (f_locals sfun ! 2)"
    using e by (elim exE conjE) (rule that)
  have "n = 20" using n unfolding l by (simp add: mk_local_def)
  with m w show ?thesis unfolding l by (intro exI [of _ w]) auto
qed

text \<open>The two bytes beyond a \<open>u16\<close> field are its neighbour's: storing \<open>a\<close> overwrites \<open>b\<close>.\<close>

lemma u16_store_overwrites_neighbour:
  "\<exists>p t. ir_shape_field_info p t ''a'' = Some (0, IR_TYPE_U16) \<and> ir_shape_field_info p t ''b'' = Some (2, IR_TYPE_U16)
     \<and> (\<forall>l. l_frame_offset l < 2147483648 \<longrightarrow> moves_at (\<lambda>b. elf_emit_store_field b l 0 IR_TYPE_U16) (l_frame_offset l) 4)"
proof -
  let ?p = "\<lparr>pg_shapes = [\<lparr>sh_name = ''S'', sh_type_params = [], sh_fields = [param ''a'' ''u16'', param ''b'' ''u16'']\<rparr>], pg_enums = []\<rparr>"
  have "ir_shape_field_info ?p (Some ''S'') ''a'' = Some (0, IR_TYPE_U16)" "ir_shape_field_info ?p (Some ''S'') ''b'' = Some (2, IR_TYPE_U16)"
    by (simp_all add: layout_eval ir_shape_field_info_def param_def)
  moreover have "moves_at (\<lambda>b. elf_emit_store_field b l 0 IR_TYPE_U16) (l_frame_offset l) 4" if "l_frame_offset l < 2147483648" for l
    using field_moves(2) [of 0 l IR_TYPE_U16] that
    by (simp add: field_access_width_def elf_type_is_supported_scalar_def elf_type_is_scalar_def)
  ultimately show ?thesis by blast
qed

end
