(* ===== verification/Specialize.thy ===== *)
theory Specialize
  imports IrLayout
begin

text \<open>
  The plan of generic instances, \<open>native/zerox-c/src/specialize.c\<close>: lowering adds every call of a
  generic function to it and lowers one function per entry, under a mangled name. A source function
  is a pointer in the code, and pointers are what the plan compares: here an address with the function it
  points to. The properties show that the plan never confuses two instances.
\<close>

section \<open>The plan\<close>

record TypeArg =
  ta_type :: "string option"
  ta_line :: int
  ta_column :: int

datatype (plugins only: size) ZSpecializationAddResult =
    Z_SPECIALIZATION_ADD_ADDED | Z_SPECIALIZATION_ADD_PRESENT | Z_SPECIALIZATION_ADD_NAME_COLLISION | Z_SPECIALIZATION_ADD_LIMIT

record ZSpecializationEntry =
  se_source :: "nat option"
  se_type_args :: "TypeArg list"
  se_name :: string

record ZSpecializationPlan =
  sp_items :: "ZSpecializationEntry list"
  sp_limit :: nat
  sp_hit_limit :: bool

definition arg_items :: "TypeArg list option \<Rightarrow> TypeArg list" where
  "arg_items args = (case args of None \<Rightarrow> [] | Some items \<Rightarrow> items)"

definition z_specialization_type_args_push_clone :: "TypeArg list \<Rightarrow> TypeArg option \<Rightarrow> TypeArg list" where
  "z_specialization_type_args_push_clone vec arg = vec @
     [case arg of None \<Rightarrow> \<lparr>ta_type = None, ta_line = 0, ta_column = 0\<rparr>
      | Some a \<Rightarrow> \<lparr>ta_type = ta_type a, ta_line = ta_line a, ta_column = ta_column a\<rparr>]"

definition z_specialization_type_args_clone :: "TypeArg list option \<Rightarrow> TypeArg list" where
  "z_specialization_type_args_clone source =
     foldl (\<lambda>copy arg. z_specialization_type_args_push_clone copy (Some arg)) [] (arg_items source)"

definition z_specialization_type_args_equal :: "TypeArg list option \<Rightarrow> TypeArg list option \<Rightarrow> bool" where
  "z_specialization_type_args_equal left right \<longleftrightarrow>
     length (arg_items left) = length (arg_items right)
     \<and> list_all2 (\<lambda>l r. str_or (ta_type l) [] = str_or (ta_type r) []) (arg_items left) (arg_items right)"

definition z_specialization_plan_init :: "nat \<Rightarrow> ZSpecializationPlan" where
  "z_specialization_plan_init limit = \<lparr>sp_items = [], sp_limit = limit, sp_hit_limit = False\<rparr>"

definition mangle_char :: "char \<Rightarrow> char" where
  "mangle_char c =
     (let n = char_code c
      in if (65 \<le> n \<and> n \<le> 90) \<or> (97 \<le> n \<and> n \<le> 122) \<or> (48 \<le> n \<and> n \<le> 57) \<or> c = CHR ''_'' then c else CHR ''_'')"

definition z_specialized_function_name :: "(nat \<times> Function) option \<Rightarrow> TypeArg list option \<Rightarrow> string" where
  "z_specialized_function_name fn type_args =
     (case fn of None \<Rightarrow> [] | Some (address, f) \<Rightarrow> fn_name f)
     @ concat (map (\<lambda>a. ''__'' @ map mangle_char (str_or (ta_type a) ''Unknown'')) (arg_items type_args))"

text \<open>The loop over the entries: \<open>None\<close> when it runs to the end.\<close>

fun plan_scan :: "nat option \<Rightarrow> TypeArg list option \<Rightarrow> string \<Rightarrow> ZSpecializationEntry list \<Rightarrow> ZSpecializationAddResult option" where
  "plan_scan source type_args name [] = None"
| "plan_scan source type_args name (e # es) =
     (if se_source e = source \<and> z_specialization_type_args_equal (Some (se_type_args e)) type_args then Some Z_SPECIALIZATION_ADD_PRESENT
      else if se_name e = name then Some Z_SPECIALIZATION_ADD_NAME_COLLISION
      else plan_scan source type_args name es)"

text \<open>The result, the plan, and the name written to \<open>out_name\<close>.\<close>

definition z_specialization_plan_add :: "ZSpecializationPlan option \<Rightarrow> (nat \<times> Function) option \<Rightarrow> TypeArg list option
    \<Rightarrow> ZSpecializationAddResult \<times> ZSpecializationPlan option \<times> string" where
  "z_specialization_plan_add plan source type_args =
     (let name = z_specialized_function_name source type_args
      in case plan of None \<Rightarrow> (Z_SPECIALIZATION_ADD_LIMIT, None, name)
         | Some p \<Rightarrow>
             (case plan_scan (map_option fst source) type_args name (sp_items p) of
                Some result \<Rightarrow> (result, Some p, name)
              | None \<Rightarrow>
                  (if 0 < sp_limit p \<and> sp_limit p \<le> length (sp_items p) then
                     (Z_SPECIALIZATION_ADD_LIMIT, Some (p\<lparr>sp_hit_limit := True\<rparr>), name)
                   else
                     (Z_SPECIALIZATION_ADD_ADDED,
                      Some (p\<lparr>sp_items := sp_items p @ [\<lparr>se_source = map_option fst source,
                         se_type_args = z_specialization_type_args_clone type_args, se_name = name\<rparr>]\<rparr>), name))))"

section \<open>Reachable plans\<close>

text \<open>
  The plans a lowering run can reach: additions of functions from the program's memory \<open>mem\<close>, with type
  arguments that are texts, as the checker leaves them.
\<close>

definition typed_args :: "TypeArg list \<Rightarrow> bool" where
  "typed_args args \<longleftrightarrow> list_all (\<lambda>a. ta_type a \<noteq> None) args"

inductive plan_reachable :: "(nat \<Rightarrow> Function) \<Rightarrow> nat \<Rightarrow> ZSpecializationPlan \<Rightarrow> bool" for mem limit where
  plan_init: "plan_reachable mem limit (z_specialization_plan_init limit)"
| plan_add: "plan_reachable mem limit p \<Longrightarrow> typed_args args
    \<Longrightarrow> z_specialization_plan_add (Some p) (Some (a, mem a)) (Some args) = (r, Some p', name) \<Longrightarrow> plan_reachable mem limit p'"

inductive_cases plan_reachableE: "plan_reachable mem limit p"

lemma clone_id: "z_specialization_type_args_clone (Some args) = args"
proof -
  have "foldl (\<lambda>copy arg. z_specialization_type_args_push_clone copy (Some arg)) acc args = acc @ args" for acc
    by (induction args arbitrary: acc) (simp_all add: z_specialization_type_args_push_clone_def)
  then show ?thesis by (simp add: z_specialization_type_args_clone_def arg_items_def)
qed

lemma equal_args: 
  "z_specialization_type_args_equal (Some l) (Some r) \<longleftrightarrow> map (\<lambda>a. str_or (ta_type a) []) l = map (\<lambda>a. str_or (ta_type a) []) r"
  by (auto simp: z_specialization_type_args_equal_def arg_items_def list_all2_conv_all_nth list_eq_iff_nth_eq)

lemma equal_args_name:
  assumes "z_specialization_type_args_equal (Some l) (Some r)" "typed_args l" "typed_args r"
  shows "z_specialized_function_name f (Some l) = z_specialized_function_name f (Some r)"
proof -
  have t: "map (\<lambda>a. str_or (ta_type a) ''Unknown'') xs = map (\<lambda>a. str_or (ta_type a) []) xs" if "typed_args xs" for xs
    using that by (auto simp: typed_args_def list_all_iff)
  have "map (\<lambda>a. str_or (ta_type a) ''Unknown'') l = map (\<lambda>a. str_or (ta_type a) ''Unknown'') r"
    using assms by (simp add: equal_args t)
  then have "map (\<lambda>t. ''__'' @ map mangle_char t) (map (\<lambda>a. str_or (ta_type a) ''Unknown'') l)
      = map (\<lambda>t. ''__'' @ map mangle_char t) (map (\<lambda>a. str_or (ta_type a) ''Unknown'') r)" by (rule arg_cong)
  then show ?thesis by (simp add: z_specialized_function_name_def arg_items_def comp_def)
qed

definition entry_ok :: "(nat \<Rightarrow> Function) \<Rightarrow> ZSpecializationEntry \<Rightarrow> bool" where
  "entry_ok mem e \<longleftrightarrow> typed_args (se_type_args e)
     \<and> (\<exists>a. se_source e = Some a \<and> se_name e = z_specialized_function_name (Some (a, mem a)) (Some (se_type_args e)))"

definition plan_ok :: "(nat \<Rightarrow> Function) \<Rightarrow> nat \<Rightarrow> ZSpecializationPlan \<Rightarrow> bool" where
  "plan_ok mem limit p \<longleftrightarrow> list_all (entry_ok mem) (sp_items p) \<and> distinct (map se_name (sp_items p)) \<and> sp_limit p = limit
     \<and> (0 < limit \<longrightarrow> length (sp_items p) \<le> limit) \<and> (sp_hit_limit p \<longrightarrow> 0 < limit \<and> length (sp_items p) = limit)"

lemma scan_None: "plan_scan s args name es = None \<Longrightarrow> name \<notin> se_name ` set es"
  by (induction es) (auto split: if_splits)

lemma scan_Present:
  "plan_scan s args name es = Some Z_SPECIALIZATION_ADD_PRESENT
    \<Longrightarrow> \<exists>e\<in>set es. se_source e = s \<and> z_specialization_type_args_equal (Some (se_type_args e)) args"
  by (induction es) (auto split: if_splits)

lemma scan_Collision:
  "plan_scan s args name es = Some Z_SPECIALIZATION_ADD_NAME_COLLISION
    \<Longrightarrow> \<exists>e\<in>set es. se_name e = name \<and> \<not> (se_source e = s \<and> z_specialization_type_args_equal (Some (se_type_args e)) args)"
  by (induction es) (auto split: if_splits)

lemma scan_results: "plan_scan s args name es \<in> {None, Some Z_SPECIALIZATION_ADD_PRESENT, Some Z_SPECIALIZATION_ADD_NAME_COLLISION}"
  by (induction es) auto

lemma add_cases:
  assumes "z_specialization_plan_add (Some p) (Some (a, f)) (Some args) = (r, Some p', name)"
  obtains (scan) "plan_scan (Some a) (Some args) name (sp_items p) = Some r" "p' = p"
  | (limit) "plan_scan (Some a) (Some args) name (sp_items p) = None" "0 < sp_limit p" "sp_limit p \<le> length (sp_items p)"
      "r = Z_SPECIALIZATION_ADD_LIMIT" "p' = p\<lparr>sp_hit_limit := True\<rparr>"
  | (new) "plan_scan (Some a) (Some args) name (sp_items p) = None" "0 < sp_limit p \<longrightarrow> length (sp_items p) < sp_limit p"
      "r = Z_SPECIALIZATION_ADD_ADDED" "p' = p\<lparr>sp_items := sp_items p @ [\<lparr>se_source = Some a, se_type_args = args, se_name = name\<rparr>]\<rparr>"
proof -
  let ?n = "z_specialized_function_name (Some (a, f)) (Some args)"
  have n: "name = ?n" using assms by (simp add: z_specialization_plan_add_def Let_def split: option.splits if_splits)
  show ?thesis
  proof (cases "plan_scan (Some a) (Some args) ?n (sp_items p)")
    case (Some x)
    with assms n have "plan_scan (Some a) (Some args) name (sp_items p) = Some r" "p' = p"
      by (simp_all add: z_specialization_plan_add_def)
    then show ?thesis by (rule scan)
  next
    case None
    then have s: "plan_scan (Some a) (Some args) name (sp_items p) = None" using n by simp
    show ?thesis
    proof (cases "0 < sp_limit p \<and> sp_limit p \<le> length (sp_items p)")
      case True
      with assms None show ?thesis using s by (intro limit) (simp_all add: z_specialization_plan_add_def)
    next
      case False
      with assms None n have "r = Z_SPECIALIZATION_ADD_ADDED"
        "p' = p\<lparr>sp_items := sp_items p @ [\<lparr>se_source = Some a, se_type_args = args, se_name = name\<rparr>]\<rparr>"
        by (simp_all add: z_specialization_plan_add_def clone_id Let_def)
      with False s show ?thesis by (intro new) auto
    qed
  qed
qed

lemma add_name:
  "z_specialization_plan_add (Some p) (Some (a, f)) (Some args) = (r, Some p', name)
    \<Longrightarrow> name = z_specialized_function_name (Some (a, f)) (Some args)"
  by (auto simp: z_specialization_plan_add_def Let_def split: option.splits if_splits)

lemma add_keeps_ok:
  assumes "plan_ok mem limit p" "typed_args args" "z_specialization_plan_add (Some p) (Some (a, mem a)) (Some args) = (r, Some p', name)"
  shows "plan_ok mem limit p'"
  using assms(3)
proof (cases rule: add_cases)
  case new
  have "\<not> sp_hit_limit p" using assms(1) new(2) by (auto simp: plan_ok_def)
  with assms(1,2) new scan_None [OF new(1)] add_name [OF assms(3)] show ?thesis
    by (auto simp: plan_ok_def entry_ok_def Suc_le_eq)
next
  case limit
  with assms(1) show ?thesis by (auto simp: plan_ok_def)
qed (use assms(1) in simp)

lemma reachable_ok: "plan_reachable mem limit p \<Longrightarrow> plan_ok mem limit p"
proof (induction rule: plan_reachable.induct)
  case plan_init
  then show ?case by (simp add: plan_ok_def z_specialization_plan_init_def)
next
  case (plan_add p args a r p' name)
  then show ?case by (blast intro: add_keeps_ok)
qed

text \<open>
  C7. The specialization plan never confuses two instances: whatever was added before, the names in it are
  pairwise different and it stays within its limit; a request that is added or already present finds
  exactly one entry under the name it is given, and that entry is for the same function and the same type
  arguments; a request that collides or exceeds the limit leaves the entries as they are, and is refused
  only because another instance has that name or the plan is full.
\<close>

theorem specialization_plan_sound:
  assumes "plan_reachable mem limit p" and "typed_args args"
    and "z_specialization_plan_add (Some p) (Some (a, mem a)) (Some args) = (r, Some p', name)"
  shows "name = z_specialized_function_name (Some (a, mem a)) (Some args)
    \<and> distinct (map se_name (sp_items p')) \<and> (0 < limit \<longrightarrow> length (sp_items p') \<le> limit)
    \<and> (r \<in> {Z_SPECIALIZATION_ADD_ADDED, Z_SPECIALIZATION_ADD_PRESENT} \<longrightarrow>
        (\<exists>!e. e \<in> set (sp_items p') \<and> se_name e = name)
        \<and> (\<exists>e\<in>set (sp_items p'). se_name e = name \<and> se_source e = Some a
             \<and> z_specialization_type_args_equal (Some (se_type_args e)) (Some args)))
    \<and> (r = Z_SPECIALIZATION_ADD_NAME_COLLISION \<longrightarrow> sp_items p' = sp_items p
        \<and> (\<exists>e\<in>set (sp_items p). se_name e = name
             \<and> \<not> (se_source e = Some a \<and> z_specialization_type_args_equal (Some (se_type_args e)) (Some args))))
    \<and> (r = Z_SPECIALIZATION_ADD_LIMIT \<longrightarrow> sp_items p' = sp_items p \<and> 0 < limit \<and> length (sp_items p) = limit \<and> sp_hit_limit p')"
proof -
  have p: "plan_ok mem limit p" by (rule reachable_ok [OF assms(1)])
  have p': "plan_ok mem limit p'" by (rule add_keeps_ok [OF p assms(2,3)])
  note n = add_name [OF assms(3)]
  have unique: "\<exists>!e. e \<in> set (sp_items p') \<and> se_name e = name" if "e \<in> set (sp_items p')" "se_name e = name" for e
    using that p' by (auto simp: plan_ok_def distinct_map inj_on_def)
  have d: "distinct (map se_name (sp_items p'))" "0 < limit \<longrightarrow> length (sp_items p') \<le> limit"
    using p' by (simp_all add: plan_ok_def)
  from assms(3) show ?thesis
  proof (cases rule: add_cases)
    case scan
    then consider "r = Z_SPECIALIZATION_ADD_PRESENT" | "r = Z_SPECIALIZATION_ADD_NAME_COLLISION"
      using scan_results [of "Some a" "Some args" name "sp_items p"] by auto
    then show ?thesis
    proof cases
      case 1
      then obtain e where e: "e \<in> set (sp_items p)" "se_source e = Some a"
        "z_specialization_type_args_equal (Some (se_type_args e)) (Some args)"
        using scan_Present scan(1) by blast
      have "entry_ok mem e" using p e(1) by (auto simp: plan_ok_def list_all_iff)
      then have "se_name e = name" using equal_args_name [OF e(3) _ assms(2)] e(2) n by (auto simp: entry_ok_def)
      with unique [of e] e scan(2) d n 1 show ?thesis by auto
    next
      case 2
      with scan_Collision scan d n show ?thesis by auto
    qed
  next
    case limit
    with p d n show ?thesis by (auto simp: plan_ok_def)
  next
    case new
    let ?e = "\<lparr>se_source = Some a, se_type_args = args, se_name = name\<rparr>"
    have m: "?e \<in> set (sp_items p')" "se_name ?e = name" and eq: "z_specialization_type_args_equal (Some args) (Some args)"
      using new(4) by (simp_all add: equal_args)
    have "\<exists>e\<in>set (sp_items p'). se_name e = name \<and> se_source e = Some a
        \<and> z_specialization_type_args_equal (Some (se_type_args e)) (Some args)"
      by (rule bexI [OF _ m(1)]) (simp add: eq)
    with unique [OF m] d n new(3) show ?thesis by simp
  qed
qed

definition targ :: "string \<Rightarrow> TypeArg" where
  "targ t = \<lparr>ta_type = Some t, ta_line = 1, ta_column = 1\<rparr>"

definition generic_function :: "string \<Rightarrow> Function" where
  "generic_function n = \<lparr>fn_name = n, fn_return_type = Some ''Void'', fn_type_params = [\<lparr>p_name = ''T'', p_type = None, p_line = 1, p_column = 1\<rparr>], fn_params = [], fn_is_public = False,
     fn_raises = False, fn_is_test = False, fn_export_c = False, fn_body = [], fn_line = 1, fn_column = 1\<rparr>"

text \<open>\<open>f<A<u8>>\<close> and \<open>f<A_u8_>\<close> are mangled to the same name: the second is refused.\<close>

lemma specialization_plan_sound_witness:
  "\<exists>p p'. plan_reachable (\<lambda>_. generic_function ''f'') 4 p
     \<and> z_specialization_plan_add (Some p) (Some (7, generic_function ''f'')) (Some [targ ''A_u8_''])
         = (Z_SPECIALIZATION_ADD_NAME_COLLISION, Some p', ''f__A_u8_'')
     \<and> (\<exists>e\<in>set (sp_items p). se_name e = ''f__A_u8_''
          \<and> \<not> z_specialization_type_args_equal (Some (se_type_args e)) (Some [targ ''A_u8_'']))"
proof -
  let ?mem = "\<lambda>_ :: nat. generic_function ''f''"
  let ?e = "\<lparr>se_source = Some 7, se_type_args = [targ ''A<u8>''], se_name = ''f__A_u8_''\<rparr>"
  let ?p = "\<lparr>sp_items = [?e], sp_limit = 4, sp_hit_limit = False\<rparr>"
  note eval = z_specialization_plan_add_def z_specialization_plan_init_def z_specialized_function_name_def mangle_char_def arg_items_def
    generic_function_def targ_def char_code_def Let_def
  have a: "z_specialization_plan_add (Some (z_specialization_plan_init 4)) (Some (7, ?mem 7)) (Some [targ ''A<u8>''])
      = (Z_SPECIALIZATION_ADD_ADDED, Some ?p, ''f__A_u8_'')"
    by (simp add: eval clone_id)
  have t: "typed_args [targ s]" for s by (simp add: typed_args_def targ_def)
  have r: "plan_reachable ?mem 4 ?p" by (rule plan_add [OF plan_init t a])
  have b: "z_specialization_plan_add (Some ?p) (Some (7, ?mem 7)) (Some [targ ''A_u8_''])
      = (Z_SPECIALIZATION_ADD_NAME_COLLISION, Some ?p, ''f__A_u8_'')"
    by (simp add: eval equal_args)
  from specialization_plan_sound [OF r t b] r b show ?thesis by auto
qed

end
