(* ===== verification/ElfEmitState.thy ===== *)
theory ElfEmitState
  imports X64 ElfFormat BuildContext
begin

text \<open>
  The emit state of the ELF64 emitter, \<open>native/zerox-c/src/elf_emit_state.c\<close>: what code under construction
  still has to learn (calls of functions not placed yet, addresses of read-only data, runtime helpers),
  recorded while it is emitted and patched or turned into relocations at the end. Runtime helpers are the
  values of the C enum. A NULL context is \<open>None\<close>; an index past a table, which the code does not test
  for, is the result \<open>None\<close>.
\<close>

section \<open>Runtime helpers\<close>

definition runtime_helper_symbols :: "string list" where
  "runtime_helper_symbols =
     [''zerox_json_parse_bytes'', ''zerox_http_fetch_result'', ''zerox_http_result_ok'',
      ''zerox_http_result_status'', ''zerox_http_result_body_len'', ''zerox_http_result_error'',
      ''zerox_http_response_len'', ''zerox_http_response_headers_len'', ''zerox_http_response_body_offset'',
      ''zerox_http_header_value'', ''zerox_http_header_found'', ''zerox_http_header_offset'',
      ''zerox_http_header_len'', ''zerox_crypto_sha256'', ''zerox_crypto_hmac_sha256'',
      ''zerox_crypto_aes_encrypt'', ''zerox_crypto_aes_decrypt'', ''zerox_crypto_chacha20'',
      ''zerox_crypto_pbkdf2'', ''zerox_crypto_random_bytes'', ''zerox_crypto_sha512'',
      ''zerox_crypto_salsa20'', ''zerox_crypto_chacha20_poly1305_encrypt'', ''zerox_crypto_chacha20_poly1305_decrypt'',
      ''zerox_crypto_des_encrypt'', ''zerox_crypto_des_decrypt'', ''zerox_crypto_tdes_encrypt'',
      ''zerox_crypto_tdes_decrypt'', ''zerox_crypto_blowfish_encrypt'', ''zerox_crypto_blowfish_decrypt'',
      ''zerox_crypto_twofish_encrypt'', ''zerox_crypto_twofish_decrypt'', ''zerox_crypto_serpent_encrypt'',
      ''zerox_crypto_serpent_decrypt'', ''zerox_crypto_camellia_encrypt'', ''zerox_crypto_camellia_decrypt'',
      ''zerox_crypto_rsa_generate_keypair'', ''zerox_crypto_rsa_encrypt'', ''zerox_crypto_rsa_decrypt'',
      ''zerox_crypto_rsa_sign'', ''zerox_crypto_rsa_verify'', ''zerox_crypto_ecc_generate_keypair'',
      ''zerox_crypto_ecc_sign'', ''zerox_crypto_ecc_verify'', ''zerox_crypto_ecc_ecdh'',
      ''zerox_crypto_ecc_ed25519_sign'', ''zerox_crypto_ecc_ed25519_verify'', ''zerox_crypto_sha384'',
      ''zerox_crypto_sha3_256'', ''zerox_crypto_sha3_512'', ''zerox_crypto_blake2b'',
      ''zerox_crypto_blake2s'', ''zerox_crypto_hmac_sha384'', ''zerox_crypto_sha3_384'',
      ''zerox_crypto_shake128'', ''zerox_crypto_shake256'', ''zerox_crypto_hmac_sha512'',
      ''zerox_crypto_ecc_ed25519_generate_keypair'', ''zerox_crypto_ecc_x25519_ecdh'', ''zerox_crypto_aes_gcm_encrypt'',
      ''zerox_crypto_aes_gcm_decrypt'', ''zerox_crypto_ecc_x25519_generate_keypair'']"

definition ELF_RUNTIME_HELPER_COUNT :: int where
  "ELF_RUNTIME_HELPER_COUNT = 62"

definition elf_runtime_helper_valid :: "int \<Rightarrow> bool" where
  "elf_runtime_helper_valid helper \<longleftrightarrow> 0 \<le> helper \<and> helper < ELF_RUNTIME_HELPER_COUNT"

definition z_elf_runtime_helper_symbol :: "int \<Rightarrow> string" where
  "z_elf_runtime_helper_symbol helper =
     (if \<not> elf_runtime_helper_valid helper then [] else runtime_helper_symbols ! nat helper)"

section \<open>The context\<close>

record ElfCallPatch =
  cp_patch_offset :: nat
  cp_callee_index :: nat

record ElfRodataPatch =
  rp_patch_offset :: nat
  rp_data_offset :: u32

record ElfEmitContext =
  ec_function_offsets :: "nat list"
  ec_function_count :: nat
  ec_call_patches :: "ElfCallPatch list"
  ec_rodata_patches :: "ElfRodataPatch list"
  ec_runtime_patches :: "nat list list"
  ec_emit_rodata_relocations :: bool
  ec_seed_main_process_args :: bool
  ec_rodata_base_offset :: u32
  ec_rodata_addr :: u64

definition elf_emit_state_diag :: "ZDiag option \<Rightarrow> string \<Rightarrow> int \<Rightarrow> int \<Rightarrow> string option \<Rightarrow> ZDiag option" where
  "elf_emit_state_diag diag message line column actual =
     map_option (\<lambda>d. d\<lparr>d_code := 4004, d_line := (if line > 0 then line else 1), d_column := (if column > 0 then column else 1),
       d_length := 1, d_message := snprintf 256 message, d_expected := snprintf 128 ''direct ELF64 object MVP subset'',
       d_actual := snprintf 128 (str_or actual ''unsupported construct''),
       d_help := snprintf 256 ''choose a supported direct target or restrict this program to exported primitive integer arithmetic functions''\<rparr>) diag"

definition value_line :: "IrValue option \<Rightarrow> int" where
  "value_line value = (case value of None \<Rightarrow> 1 | Some v \<Rightarrow> v_line v)"

definition value_column :: "IrValue option \<Rightarrow> int" where
  "value_column value = (case value of None \<Rightarrow> 1 | Some v \<Rightarrow> v_column v)"

section \<open>Recording\<close>

definition z_elf_record_call_patch :: "ElfEmitContext option \<Rightarrow> nat \<Rightarrow> nat \<Rightarrow> ZDiag option \<Rightarrow> IrValue option
    \<Rightarrow> bool \<times> ElfEmitContext option \<times> ZDiag option" where
  "z_elf_record_call_patch ctx patch_offset callee_index diag value =
     (case ctx of
        Some c \<Rightarrow> if ec_function_count c \<le> callee_index then
                    (False, ctx, elf_emit_state_diag diag ''direct ELF64 call target index is out of range'' (value_line value) (value_column value) (Some ''invalid callee''))
                  else (True, Some (c\<lparr>ec_call_patches := ec_call_patches c @ [\<lparr>cp_patch_offset = patch_offset, cp_callee_index = callee_index\<rparr>]\<rparr>), diag)
      | None \<Rightarrow> (False, ctx, elf_emit_state_diag diag ''direct ELF64 call target index is out of range'' (value_line value) (value_column value) (Some ''invalid callee'')))"

definition z_elf_record_rodata_patch :: "ElfEmitContext option \<Rightarrow> nat \<Rightarrow> u32 \<Rightarrow> ZDiag option \<Rightarrow> IrValue option
    \<Rightarrow> bool \<times> ElfEmitContext option \<times> ZDiag option" where
  "z_elf_record_rodata_patch ctx patch_offset data_offset diag value =
     (case ctx of
        None \<Rightarrow> (False, ctx, elf_emit_state_diag diag ''direct ELF64 readonly data patch requires an emit context'' (value_line value) (value_column value) (Some ''missing context''))
      | Some c \<Rightarrow> (True, Some (c\<lparr>ec_rodata_patches := ec_rodata_patches c @ [\<lparr>rp_patch_offset = patch_offset, rp_data_offset = data_offset\<rparr>]\<rparr>), diag))"

definition z_elf_record_value_runtime_patch :: "ElfEmitContext option \<Rightarrow> int \<Rightarrow> nat \<Rightarrow> ZDiag option \<Rightarrow> IrValue option
    \<Rightarrow> bool \<times> ElfEmitContext option \<times> ZDiag option" where
  "z_elf_record_value_runtime_patch ctx helper patch_offset diag value =
     (if ctx = None \<or> \<not> elf_runtime_helper_valid helper then
        (False, ctx, elf_emit_state_diag diag ''direct ELF64 runtime patch requires an emit context'' (value_line value) (value_column value) (Some ''missing context''))
      else (True, map_option (\<lambda>c. c\<lparr>ec_runtime_patches := (ec_runtime_patches c)[nat helper := ec_runtime_patches c ! nat helper @ [patch_offset]]\<rparr>) ctx, diag))"

definition z_elf_runtime_patch_count :: "ElfEmitContext option \<Rightarrow> int \<Rightarrow> nat" where
  "z_elf_runtime_patch_count ctx helper = (case ctx of None \<Rightarrow> 0
     | Some c \<Rightarrow> if \<not> elf_runtime_helper_valid helper then 0 else length (ec_runtime_patches c ! nat helper))"

definition z_elf_has_runtime_patches :: "ElfEmitContext option \<Rightarrow> bool" where
  "z_elf_has_runtime_patches ctx = (case ctx of None \<Rightarrow> False
     | Some c \<Rightarrow> list_ex (\<lambda>i. 0 < length (ec_runtime_patches c ! i)) [0..<nat ELF_RUNTIME_HELPER_COUNT])"

section \<open>Patching\<close>

fun elf_patch_calls :: "nat list \<Rightarrow> ElfCallPatch list \<Rightarrow> ZBuf \<Rightarrow> ZBuf option" where
  "elf_patch_calls offsets [] code = Some code"
| "elf_patch_calls offsets (p # ps) code =
     (if length offsets \<le> cp_callee_index p then None
      else do { code \<leftarrow> z_x64_patch_rel32 code (cp_patch_offset p) (offsets ! cp_callee_index p); elf_patch_calls offsets ps code })"

definition z_elf_patch_call_patches :: "ZBuf \<Rightarrow> ElfEmitContext option \<Rightarrow> ZBuf option" where
  "z_elf_patch_call_patches code ctx = (case ctx of None \<Rightarrow> Some code
     | Some c \<Rightarrow> elf_patch_calls (ec_function_offsets c) (ec_call_patches c) code)"

text \<open>The inner loop stores the eight bytes of the address.\<close>

definition elf_patch_u64 :: "ZBuf \<Rightarrow> nat \<Rightarrow> u64 \<Rightarrow> ZBuf option" where
  "elf_patch_u64 code offset addr =
     (if length (zdata code) < offset + 8 then None
      else Some (code\<lparr>zdata := foldl (\<lambda>bytes b. bytes[offset + b := ucast (drop_bit (8 * b) addr AND 0xff)]) (zdata code) [0..<8]\<rparr>))"

fun elf_patch_rodata :: "u64 \<Rightarrow> u32 \<Rightarrow> ElfRodataPatch list \<Rightarrow> ZBuf \<Rightarrow> ZBuf option" where
  "elf_patch_rodata rodata_addr base [] code = Some code"
| "elf_patch_rodata rodata_addr base (p # ps) code =
     do { code \<leftarrow> elf_patch_u64 code (rp_patch_offset p) (rodata_addr + ucast (rp_data_offset p - base));
          elf_patch_rodata rodata_addr base ps code }"

definition z_elf_patch_rodata_patches :: "ZBuf \<Rightarrow> ElfEmitContext option \<Rightarrow> ZBuf option" where
  "z_elf_patch_rodata_patches code ctx = (case ctx of None \<Rightarrow> Some code
     | Some c \<Rightarrow> elf_patch_rodata (ec_rodata_addr c) (ec_rodata_base_offset c) (ec_rodata_patches c) code)"

section \<open>Relocations\<close>

definition z_elf_append_rodata_relocations :: "ZBuf \<Rightarrow> ElfEmitContext option \<Rightarrow> u32 \<Rightarrow> ZBuf option" where
  "z_elf_append_rodata_relocations rela_text ctx rodata_symbol = (case ctx of None \<Rightarrow> Some rela_text
     | Some c \<Rightarrow> fold_emit (\<lambda>rela p. z_elf_append_rela rela (of_nat (rp_patch_offset p)) rodata_symbol 1
                   (ucast (rp_data_offset p - ec_rodata_base_offset c))) (ec_rodata_patches c) rela_text)"

definition z_elf_append_runtime_relocations :: "ZBuf \<Rightarrow> ElfEmitContext option \<Rightarrow> int \<Rightarrow> u32 \<Rightarrow> ZBuf option" where
  "z_elf_append_runtime_relocations rela_text ctx helper runtime_symbol =
     (case ctx of None \<Rightarrow> Some rela_text
      | Some c \<Rightarrow> if \<not> elf_runtime_helper_valid helper then Some rela_text
                  else fold_emit (\<lambda>rela p. z_elf_append_rela rela (of_nat p) runtime_symbol 4 (- 4)) (ec_runtime_patches c ! nat helper) rela_text)"

end
