(* ===== verification/ElfEmitProps.thy ===== *)
theory ElfEmitProps
  imports ElfEmitState X64Props
begin

text \<open>
  What the emit state guarantees about the finished code: every call that was recorded reaches the
  function it names, and nothing but the displacements of the calls changes.
\<close>

text \<open>Recording a series of calls, each accepted.\<close>

fun record_calls :: "ElfEmitContext \<Rightarrow> (nat \<times> nat) list \<Rightarrow> ElfEmitContext option" where
  "record_calls ctx [] = Some ctx"
| "record_calls ctx ((p, k) # calls) =
     (case z_elf_record_call_patch (Some ctx) p k None None of
        (ok, ctx', diag) \<Rightarrow> if ok then Option.bind ctx' (\<lambda>c. record_calls c calls) else None)"

definition call_patch :: "nat \<times> nat \<Rightarrow> ElfCallPatch" where
  "call_patch c = \<lparr>cp_patch_offset = fst c, cp_callee_index = snd c\<rparr>"

lemma call_patch_sel [simp]: "cp_patch_offset (call_patch c) = fst c" "cp_callee_index (call_patch c) = snd c"
  by (simp_all add: call_patch_def)

lemma record_calls_Some:
  "record_calls ctx calls = Some ctx' \<Longrightarrow> ec_call_patches ctx' = ec_call_patches ctx @ map call_patch calls
     \<and> (\<forall>c\<in>set calls. snd c < ec_function_count ctx)"
proof (induction ctx calls rule: record_calls.induct)
  case (2 ctx p k calls)
  let ?c = "ctx\<lparr>ec_call_patches := ec_call_patches ctx @ [\<lparr>cp_patch_offset = p, cp_callee_index = k\<rparr>]\<rparr>"
  have k: "k < ec_function_count ctx" and r: "record_calls ?c calls = Some ctx'"
    using 2(2) by (auto simp: z_elf_record_call_patch_def not_le split: if_splits)
  have "z_elf_record_call_patch (Some ctx) p k None None = (True, Some ?c, None)"
    using k by (simp add: z_elf_record_call_patch_def)
  from 2(1) [OF this [symmetric] refl _ refl r] k show ?case by (simp add: call_patch_def)
qed simp

lemma patch_rel32:
  assumes "p + 4 \<le> length (zdata code)" "length (zdata code) < 2147483648" "t \<le> length (zdata code)"
  obtains code' where "z_x64_patch_rel32 code p t = Some code'" "length (zdata code') = length (zdata code)"
    "int (p + 4) + sint (read32 (zdata code') p) = int t"
    "\<And>i. i < p \<or> p + 4 \<le> i \<Longrightarrow> zdata code' ! i = zdata code ! i"
proof -
  let ?rel = "word_of_int (int t - int (p + 4)) :: u32"
  obtain code' where c: "z_x64_patch_u32 code p ?rel = Some code'"
    using assms(1) by (simp add: z_x64_patch_u32_def zbuf_patch4_def)
  note b = zbuf_patch4_Some [OF c [unfolded z_x64_patch_u32_def ucast_low_byte]]
  have "sint ?rel = int t - int (p + 4)" by (rule sint_of_int) (use assms in simp_all)
  with b c show ?thesis by (intro that [of code']) (simp_all add: z_x64_patch_rel32_def Let_def)
qed

lemma read32_cong: "(\<And>i. p \<le> i \<Longrightarrow> i < p + 4 \<Longrightarrow> xs ! i = ys ! i) \<Longrightarrow> read32 xs p = read32 ys p"
  by (simp add: read32_def)

lemma patched_calls:
  assumes "length (zdata code) < 2147483648" "\<forall>t\<in>set offsets. t \<le> length (zdata code)"
    and "\<forall>c\<in>set calls. snd c < length offsets \<and> fst c + 4 \<le> length (zdata code)"
    and "sorted_wrt (\<lambda>c d. fst c + 4 \<le> fst d) calls"
  shows "\<exists>code'. elf_patch_calls offsets (map call_patch calls) code = Some code' \<and> length (zdata code') = length (zdata code)
    \<and> (\<forall>c\<in>set calls. int (fst c + 4) + sint (read32 (zdata code') (fst c)) = int (offsets ! snd c))
    \<and> (\<forall>i. (\<forall>c\<in>set calls. i < fst c \<or> fst c + 4 \<le> i) \<longrightarrow> zdata code' ! i = zdata code ! i)"
  using assms
proof (induction calls arbitrary: code)
  case (Cons c calls)
  have k: "snd c < length offsets" "fst c + 4 \<le> length (zdata code)" using Cons(4) by simp_all
  then have "offsets ! snd c \<le> length (zdata code)" using Cons(3) by simp
  then obtain code1 where p: "z_x64_patch_rel32 code (fst c) (offsets ! snd c) = Some code1"
    and l: "length (zdata code1) = length (zdata code)"
    and r: "int (fst c + 4) + sint (read32 (zdata code1) (fst c)) = int (offsets ! snd c)"
    and o: "\<And>i. i < fst c \<or> fst c + 4 \<le> i \<Longrightarrow> zdata code1 ! i = zdata code ! i"
    using patch_rel32 [OF k(2) Cons(2)] by metis
  obtain code' where q: "elf_patch_calls offsets (map call_patch calls) code1 = Some code'" "length (zdata code') = length (zdata code1)"
    "\<forall>d\<in>set calls. int (fst d + 4) + sint (read32 (zdata code') (fst d)) = int (offsets ! snd d)"
    "\<forall>i. (\<forall>d\<in>set calls. i < fst d \<or> fst d + 4 \<le> i) \<longrightarrow> zdata code' ! i = zdata code1 ! i"
    using Cons(1) [of code1] Cons(2-5) l by auto
  have "read32 (zdata code') (fst c) = read32 (zdata code1) (fst c)"
  proof (rule read32_cong)
    fix i assume "fst c \<le> i" "i < fst c + 4"
    moreover have "\<forall>d\<in>set calls. fst c + 4 \<le> fst d" using Cons(5) by simp
    ultimately have "\<forall>d\<in>set calls. i < fst d \<or> fst d + 4 \<le> i" by auto
    with q(4) show "zdata code' ! i = zdata code1 ! i" by blast
  qed
  with r have "int (fst c + 4) + sint (read32 (zdata code') (fst c)) = int (offsets ! snd c)" by simp
  with p q l o k(1) show ?case by (intro exI [of _ code']) simp
qed simp

text \<open>
  C9. Every call recorded while the code is emitted lands: recording rejects a callee outside the
  function table, and once the functions are placed, patching succeeds, the displacement of each recorded call
  leads from the end of the call to the start of the function it names, and no other byte of the code
  changes. The code is below 2 GiB, and the calls were recorded in the order they were emitted.
\<close>

theorem recorded_calls_land:
  assumes "ec_call_patches ctx = []" and "record_calls ctx calls = Some ctx'"
    and "length offsets = ec_function_count ctx" and "\<forall>t\<in>set offsets. t \<le> length (zdata code)"
    and "length (zdata code) < 2147483648"
    and "\<forall>c\<in>set calls. fst c + 4 \<le> length (zdata code)" and "sorted_wrt (\<lambda>c d. fst c + 4 \<le> fst d) calls"
  shows "\<exists>code'. z_elf_patch_call_patches code (Some (ctx'\<lparr>ec_function_offsets := offsets\<rparr>)) = Some code'
    \<and> length (zdata code') = length (zdata code)
    \<and> (\<forall>(p, k)\<in>set calls. k < length offsets \<and> int (p + 4) + sint (read32 (zdata code') p) = int (offsets ! k))
    \<and> (\<forall>i. (\<forall>(p, k)\<in>set calls. i < p \<or> p + 4 \<le> i) \<longrightarrow> zdata code' ! i = zdata code ! i)"
proof -
  have r: "ec_call_patches ctx' = map call_patch calls" "\<forall>c\<in>set calls. snd c < length offsets"
    using record_calls_Some [OF assms(2)] assms(1,3) by simp_all
  have c: "\<forall>c\<in>set calls. snd c < length offsets \<and> fst c + 4 \<le> length (zdata code)" using r(2) assms(6) by blast
  show ?thesis
    using patched_calls [OF assms(5,4) c assms(7)] r
    by (fastforce simp: z_elf_patch_call_patches_def split_beta)
qed

definition empty_context :: "nat \<Rightarrow> ElfEmitContext" where
  "empty_context n = \<lparr>ec_function_offsets = replicate n 0, ec_function_count = n, ec_call_patches = [], ec_rodata_patches = [],
     ec_runtime_patches = replicate 62 [], ec_emit_rodata_relocations = False, ec_seed_main_process_args = False,
     ec_rodata_base_offset = 0, ec_rodata_addr = 0\<rparr>"

text \<open>Two functions of five bytes that call each other.\<close>

lemma recorded_calls_land_witness:
  "\<exists>ctx' code'. record_calls (empty_context 2) [(1, 1), (6, 0)] = Some ctx'
     \<and> z_elf_patch_call_patches \<lparr>zdata = [0xe8, 0, 0, 0, 0, 0xe8, 0, 0, 0, 0], zcap = 64\<rparr> (Some (ctx'\<lparr>ec_function_offsets := [0, 5]\<rparr>)) = Some code'
     \<and> 5 + sint (read32 (zdata code') 1) = 5 \<and> 10 + sint (read32 (zdata code') 6) = 0"
proof -
  let ?code = "\<lparr>zdata = [0xe8, 0, 0, 0, 0, 0xe8, 0, 0, 0, 0], zcap = 64\<rparr>"
  obtain ctx' where r: "record_calls (empty_context 2) [(1, 1), (6, 0)] = Some ctx'"
    by (simp add: z_elf_record_call_patch_def empty_context_def)
  have h: "ec_call_patches (empty_context 2) = []" "length [0, 5 :: nat] = ec_function_count (empty_context 2)"
    "\<forall>t\<in>set [0, 5]. t \<le> length (zdata ?code)" "length (zdata ?code) < 2147483648"
    "\<forall>c\<in>set [(1 :: nat, 1 :: nat), (6, 0)]. fst c + 4 \<le> length (zdata ?code)"
    "sorted_wrt (\<lambda>c d. fst c + 4 \<le> fst d) [(1 :: nat, 1 :: nat), (6, 0)]"
    by (simp_all add: empty_context_def)
  from recorded_calls_land [OF h(1) r h(2-6)] r show ?thesis by auto
qed

end
