(* ===== verification/Spec2Isabelle.thy ===== *)
theory Spec2Isabelle
  imports TypeProps TypeParseProps NumberSyntax UnifySound A64Props X64Props ElfProps CoffProps MirPayload BuildProps ElfAarch64Run Elf64Props Specialize ElfEmitProps
begin

text \<open>
  Verification of the zerox compiler, \<open>native/zerox-c\<close>.

  The program. The driver (\<open>main.c\<close>) reads a package (\<open>fs.c\<close>), parses it (\<open>row_syntax.c\<close>, \<open>ast.c\<close>) and
  checks it (\<open>checker.c\<close>) over types kept in an arena (\<open>type_core.c\<close>) and related by unification
  (\<open>unify.c\<close>). \<open>ir.c\<close> lowers the checked tree to a mid-level representation (the MIR of \<open>zerox.h\<close>), in which
  every function has a table of locals laid out in a stack frame. \<open>mir_verify.c\<close> rejects MIR that breaks
  the contracts the back ends rely on; \<open>target_backend.c\<close> selects the back end of a target, and
  \<open>buildability*.c\<close> rejects what that back end cannot express. An emitter (\<open>emit_*.c\<close>) then writes machine
  code through an instruction encoder (\<open>x64_emit.c\<close>, \<open>aarch64_emit.c\<close>) into a byte buffer (\<open>ZBuf\<close>) and
  hands it to a file format (\<open>elf_format.c\<close>, \<open>coff_format.c\<close>, \<open>macho_format.c\<close>, \<open>Void_format.c\<close>).

  How the code is modelled. A C function is a function of its arguments and of the state it changes,
  which it returns; a pointer that may be NULL is an option; where the code can exit or abort the
  result is an option and None is that exit. \<open>uint32_t\<close> and \<open>uint64_t\<close> are words. \<open>size_t\<close> and \<open>unsigned\<close>
  are \<open>nat\<close>, with the reduction written out (\<open>to_u32\<close>, \<open>size_add\<close>) where the code may wrap. Memory
  allocation is assumed to succeed: the code exits otherwise. Strings are character lists without NUL.

  The theories.

    \<^item> Prelude, ZBuf: integer widths, little-endian bytes, \<open>snprintf\<close>; the growing buffer of \<open>fs.c\<close>. The
      locale \<open>byte_sink\<close> is the interface between a writer and the buffer (what an appended byte leaves
      of it); the four writers interpret it on their own append functions.
    \<^item> TypeCore, TypeTree, TypeStore, TypeParse (\<open>type_core.c\<close>): the arena, equality, hash, printer and
      recursive-descent parser of types. The locale \<open>type_store\<close> is the arena's interface to the
      parser. TypeProps, TypeParseProps and NumberSyntax show that equality decides equality of the
      trees the ids stand for, that hash and printer are functions of that tree, that the parser
      returns, leaves a well-formed arena and restores it on failure, and that number syntax is read
      exactly.
    \<^item> Unify, UnifySound (\<open>unify.c\<close>): traces, occurs check, binding and unification with rollback; the
      result is a most general unifier, and a failure leaves the trace as it was.
    \<^item> BitFields, Aarch64, A64Decode, A64Props (\<open>aarch64_emit.c\<close>) and X64, X64Decode, X64Regs, X64Mem,
      X64Sse, X64Props (\<open>x64_emit.c\<close>): every emitter, against decoders written from the architecture
      manuals: an emitter writes exactly the instruction it is named after, for all operands, and
      a patched branch lands on its target.
    \<^item> ImageLayout, ElfFormat, ElfProps (\<open>elf_format.c\<close>), CoffFormat, CoffProps (\<open>coff_format.c\<close>): the
      objects and executables, against readers written from the file formats.
    \<^item> MirTypes, MirVerify, MirValue, MirFlow, MirProgram (\<open>zerox.h\<close>, \<open>mir_verify.c\<close>): the MIR and every check
      of the verifier. MirChecks states the laws all checks obey (the locales \<open>check_law\<close> and
      \<open>check_flow_law\<close>, interpreted on the relations used: honest reports, growing requirements,
      unchanged dataflow). MirWalk, MirProps and MirPayload say what acceptance means: disjoint
      frames, accesses inside locals, typed calls, sufficient helper counts, and, against an inductive
      execution relation, writes only to writable payloads.
    \<^item> IrLayout, IrFrame, IrProps (\<open>ir.c\<close>): type kinds, generic shapes, field layout, locals and
      frames. Fields are disjoint, and what the lowering lays out satisfies the verifier's function and
      field contracts, so that the two components agree.
    \<^item> Targets (\<open>target_backend.c\<close>); BuildContext, BuildViews, Buildability, BuildLaws, BuildProps
      (\<open>buildability*.c\<close>): back end selection and the buildability check, its verdicts, its reports and
      the bounds it guarantees the emitters.
    \<^item> Elf64Storage, Elf64Props (\<open>emit_elf64.c\<close>): the loads and stores of locals, fields and slots, and
      which bytes of the frame they reach, read off the decoded instruction.
    \<^item> ElfEmitState, ElfEmitProps (\<open>elf_emit_state.c\<close>): the patches recorded while code is emitted; every
      recorded call lands on its callee. Specialize (\<open>specialize.c\<close>): the plan of generic instances as a
      reachable-state invariant; it never confuses two instances.
    \<^item> ElfAarch64, ElfAarch64Props, A64Machine, ElfAarch64Run (\<open>emit_elf_aarch64.c\<close>): the whole emitter,
      and a machine that loads and runs the executable: what the buildability check accepts exits with
      the literal \<open>main\<close> returns. This is the end-to-end theorem, through six components.

  Bounds and fuel. The recursive readers of \<open>type_core.c\<close> and \<open>unify.c\<close> take fuel for the C stack; an id
  is larger than those of its children, so a depth beyond the arena's length is enough, and for the
  parser one frame per remaining character is (\<open>z_type_parse_returns\<close>). The padding loops of the formats
  take the distance to the boundary. The end-to-end theorem is for fewer than \<open>2 ^ 23\<close> functions, the
  reach of a branch.

  Not proved, because it does not hold: a \<open>WHILE\<close> condition is verified with the state before the loop
  only (\<open>mir_while_condition_unchecked\<close>); a constant slice past the end of a literal passes the COFF
  view check (\<open>coff_slice_past_end_accepted\<close>); the ELF64 emitter moves four bytes for a \<open>u16\<close> field
  (\<open>elf64_storage_accesses\<close>, \<open>u16_store_overwrites_neighbour\<close>); the byte size of an array field wraps
  (\<open>array_field_wraps\<close>).

  Not modelled. The checker, the row parser and the lowering of expressions and statements: each is a
  large dispatch over the surface language and the names of the standard library, with no
  self-contained contract short of the language's semantics, which the repository does not state; what
  their results must satisfy is what the verifier and the buildability check test. Instruction
  selection in the ELF64, COFF, Mach-O and Void emitters with their patch tables: long case analyses
  over the modelled encoders. The Mach-O and Void formats, the tables of targets and of standard library
  signatures. The driver, file and network I/O, the runtime, generated sources, the older copy
  \<open>native/zero-c\<close>, the vendored Botan library, scripts, editor extensions and documentation.
\<close>

end
